(* ===== verification/Prelude.thy ===== *)
theory Prelude
  imports Main "HOL-Library.State_Monad"
begin

text \<open>
  What every component of the development shares: the hint collections, the result
  type of a Go call, and the small calculus by which the effects of a stateful
  function are composed.

  A Go function that returns \<open>(x, error)\<close> is modelled by a value of type
  \<open>'a res\<close>: \<open>Ok x\<close> for \<open>(x, nil)\<close>, \<open>Err e\<close> for a non-nil error, and \<open>Panic\<close> for
  a run-time panic (a nil dereference or an index out of range), which unwinds the
  Go stack and therefore skips the error handling of the callers. A function that
  touches the cluster or mutates an object through a pointer is a computation of
  the state monad of \<^theory_text>\<open>HOL-Library.State_Monad\<close>.
\<close>

named_theorems go_consts "the string and interval constants of the program"
named_theorems emits_rules "how a computation extends the log of cluster calls"

section \<open>Results\<close>

datatype ('e, 'a) res = Ok 'a | Err 'e | Panic

fun map_err :: "('e \<Rightarrow> 'e) \<Rightarrow> ('e, 'a) res \<Rightarrow> ('e, 'a) res" where
  "map_err f (Ok x) = Ok x"
| "map_err f (Err e) = Err (f e)"
| "map_err f Panic = Panic"

fun is_ok :: "('e, 'a) res \<Rightarrow> bool" where
  "is_ok (Ok x) \<longleftrightarrow> True"
| "is_ok (Err e) \<longleftrightarrow> False"
| "is_ok Panic \<longleftrightarrow> False"

lemma map_err_eq_Ok [simp]: "map_err f r = Ok x \<longleftrightarrow> r = Ok x"
  by (cases r) auto

lemma map_err_eq_Panic [simp]: "map_err f r = Panic \<longleftrightarrow> r = Panic"
  by (cases r) auto

lemma is_ok_iff: "is_ok r \<longleftrightarrow> (\<exists>x. r = Ok x)"
  by (cases r) auto

section \<open>Lists and options\<close>

lemma dropWhile_idem [simp]: "dropWhile P (dropWhile P xs) = dropWhile P xs"
  by (induction xs) auto

lemma hd_dropWhile_not: "dropWhile P xs = y # ys \<Longrightarrow> \<not> P y"
  by (metis dropWhile_eq_Cons_conv)

lemma append_same_length_eq:
  "length us = length vs \<Longrightarrow> xs @ us = ys @ vs \<longleftrightarrow> xs = ys \<and> us = vs"
  by simp

text \<open>Splitting a word at its last separator: what follows it holds none.\<close>

lemma split_at_last_sep:
  assumes "xs @ c # us = ys @ c # vs" and "c \<notin> set us" and "c \<notin> set vs"
  shows "xs = ys \<and> us = vs"
  using assms
proof (induction xs arbitrary: ys)
  case Nil
  then show ?case by (cases ys) auto
next
  case (Cons x xs)
  then show ?case
    by (cases ys) (auto simp: append_eq_Cons_conv)
qed

section \<open>Logs\<close>

text \<open>
  Many properties of the operator are about the requests it sends, in order, whatever
  the cluster answers. They are stated over a state with a log, and proved from one
  fact per function: the log only grows, and what is appended stands in a given
  relation to the value returned.
\<close>

definition emits :: "('s \<Rightarrow> 'l list) \<Rightarrow> ('s, 'a) state \<Rightarrow> ('a \<Rightarrow> 'l list \<Rightarrow> bool) \<Rightarrow> bool" where
  "emits lg m Q \<longleftrightarrow>
     (\<forall>s. \<exists>l. lg (snd (run_state m s)) = lg s @ l \<and> Q (fst (run_state m s)) l)"

lemma emitsI:
  "(\<And>s a s'. run_state m s = (a, s') \<Longrightarrow> \<exists>l. lg s' = lg s @ l \<and> Q a l) \<Longrightarrow> emits lg m Q"
  by (auto simp: emits_def)

lemma emitsD:
  "emits lg m Q \<Longrightarrow> run_state m s = (a, s') \<Longrightarrow> \<exists>l. lg s' = lg s @ l \<and> Q a l"
  by (auto simp: emits_def dest!: spec [of _ s])

lemma emits_weaken: "emits lg m Q \<Longrightarrow> (\<And>a l. Q a l \<Longrightarrow> R a l) \<Longrightarrow> emits lg m R"
  unfolding emits_def by blast

lemma emits_return: "Q a [] \<Longrightarrow> emits lg (State_Monad.return a) Q"
  by (simp add: emits_def)

lemma emits_bind:
  assumes m: "emits lg m Q" and f: "\<And>a l. Q a l \<Longrightarrow> emits lg (f a) (\<lambda>b l'. R b (l @ l'))"
  shows "emits lg (State_Monad.bind m f) R"
proof (rule emitsI)
  fix s b s''
  assume "run_state (State_Monad.bind m f) s = (b, s'')"
  then obtain a s' where run: "run_state m s = (a, s')" "run_state (f a) s' = (b, s'')"
    by (auto split: prod.splits)
  from emitsD [OF m run(1)] obtain l where l: "lg s' = lg s @ l" "Q a l" by blast
  from emitsD [OF f [OF l(2)] run(2)] obtain l' where "lg s'' = lg s' @ l'" "R b (l @ l')"
    by blast
  with l show "\<exists>l. lg s'' = lg s @ l \<and> R b l" by auto
qed

section \<open>Early return on an error\<close>

text \<open>\<open>if err != nil { return ..., err }\<close> after a call.\<close>

definition bind_res :: "('s, ('e, 'a) res) state \<Rightarrow> ('a \<Rightarrow> ('s, ('e, 'b) res) state) \<Rightarrow>
    ('s, ('e, 'b) res) state" where
  "bind_res m f = do {
     r \<leftarrow> m;
     case r of
       Ok x \<Rightarrow> f x
     | Err e \<Rightarrow> State_Monad.return (Err e)
     | Panic \<Rightarrow> State_Monad.return Panic
   }"

fun map_res :: "('a \<Rightarrow> 'b) \<Rightarrow> ('e, 'a) res \<Rightarrow> ('e, 'b) res" where
  "map_res f (Ok x) = Ok (f x)"
| "map_res f (Err e) = Err e"
| "map_res f Panic = Panic"

lemma map_res_eq [simp]:
  "map_res f r = Panic \<longleftrightarrow> r = Panic"
  "map_res f r = Err e \<longleftrightarrow> r = Err e"
  "map_res f r = Ok y \<longleftrightarrow> (\<exists>x. r = Ok x \<and> f x = y)"
  by (cases r; auto)+

lemma is_ok_map_res [simp]: "is_ok (map_res f r) = is_ok r"
  by (cases r) auto

lemma run_bind_res [simp]:
  "run_state (bind_res m f) s =
     (case run_state m s of
        (Ok x, s') \<Rightarrow> run_state (f x) s'
      | (Err e, s') \<Rightarrow> (Err e, s')
      | (Panic, s') \<Rightarrow> (Panic, s'))"
  by (auto simp: bind_res_def split: prod.splits res.splits)

lemma emits_bind_res:
  assumes m: "emits lg m Q"
    and f: "\<And>x l. Q (Ok x) l \<Longrightarrow> emits lg (f x) (\<lambda>b l'. R b (l @ l'))"
    and e: "\<And>e l. Q (Err e) l \<Longrightarrow> R (Err e) l"
    and p: "\<And>l. Q Panic l \<Longrightarrow> R Panic l"
  shows "emits lg (bind_res m f) R"
  unfolding bind_res_def
  by (rule emits_bind [OF m]) (auto split: res.splits intro!: emits_return f e p)

end
