(* ===== verification/Go_Std.thy ===== *)
theory Go_Std
  imports Prelude "HOL-Library.Word"
begin

text \<open>
  The parts of Go's standard library the operator uses: strings (\<open>strings\<close>,
  \<open>fmt\<close>), errors (\<open>errors\<close>, \<open>fmt.Errorf\<close>) and times (\<open>time\<close>). A Go string is
  a list of bytes. The functions on strings that Go defines by Unicode code points
  (\<open>TrimSpace\<close>, \<open>ToLower\<close>, \<open>EqualFold\<close>, \<open>%q\<close>) are modelled on ASCII, the
  alphabet of URLs, header values and Kubernetes names; bytes from 128 on are
  treated as ordinary characters that are neither space nor upper case.
\<close>

section \<open>Strings\<close>

definition is_space :: "char \<Rightarrow> bool" where
  "is_space c \<longleftrightarrow> of_char c \<in> {9, 10, 11, 12, 13, 32 :: nat}"

definition TrimSpace :: "string \<Rightarrow> string" where
  "TrimSpace s = rev (dropWhile is_space (rev (dropWhile is_space s)))"

definition TrimRight :: "string \<Rightarrow> char \<Rightarrow> string" where
  "TrimRight s c = rev (dropWhile (\<lambda>x. x = c) (rev s))"

definition HasSuffix :: "string \<Rightarrow> string \<Rightarrow> bool" where
  "HasSuffix s t \<longleftrightarrow> length t \<le> length s \<and> drop (length s - length t) s = t"

definition TrimSuffix :: "string \<Rightarrow> string \<Rightarrow> string" where
  "TrimSuffix s t = (if HasSuffix s t then take (length s - length t) s else s)"

definition lower_char :: "char \<Rightarrow> char" where
  "lower_char c =
     (let n = of_char c :: nat in if 65 \<le> n \<and> n \<le> 90 then char_of (n + 32) else c)"

definition ToLower :: "string \<Rightarrow> string" where
  "ToLower s = map lower_char s"

definition EqualFold :: "string \<Rightarrow> string \<Rightarrow> bool" where
  "EqualFold s t \<longleftrightarrow> ToLower s = ToLower t"

lemma TrimSpace_Nil [simp]: "TrimSpace [] = []"
  by (simp add: TrimSpace_def)

lemma TrimRight_Nil [simp]: "TrimRight [] c = []"
  by (simp add: TrimRight_def)

lemma dropWhile_rev_dropWhile:
  "dropWhile P (rev (dropWhile P (rev (dropWhile P xs)))) = rev (dropWhile P (rev (dropWhile P xs)))"
proof (cases "dropWhile P xs")
  case (Cons y ys)
  then have "\<not> P y" by (rule hd_dropWhile_not)
  then have "dropWhile P (rev ys @ [y]) = dropWhile P (rev ys) @ [y]"
    by (simp add: dropWhile_append3)
  with Cons \<open>\<not> P y\<close> show ?thesis by simp
next
  case Nil
  then show ?thesis by (metis dropWhile.simps(1) rev.simps(1))
qed

lemma TrimSpace_idem [simp]: "TrimSpace (TrimSpace s) = TrimSpace s"
  by (simp add: TrimSpace_def dropWhile_rev_dropWhile)

lemma lower_char_idem [simp]: "lower_char (lower_char c) = lower_char c"
  by (simp add: lower_char_def Let_def)

lemma ToLower_idem [simp]: "ToLower (ToLower s) = ToLower s"
  by (simp add: ToLower_def)

lemma ToLower_append [simp]: "ToLower (s @ t) = ToLower s @ ToLower t"
  by (simp add: ToLower_def)

lemma length_ToLower [simp]: "length (ToLower s) = length s"
  by (simp add: ToLower_def)

lemma EqualFold_refl [simp]: "EqualFold s s"
  by (simp add: EqualFold_def)

lemma TrimRight_append_same [simp]: "TrimRight (s @ [c]) c = TrimRight s c"
  by (simp add: TrimRight_def)

lemma TrimSuffix_append [simp]: "TrimSuffix (s @ t) t = s"
  by (simp add: TrimSuffix_def HasSuffix_def)

subsection \<open>Decimal numerals: the verb d of fmt\<close>

fun show_nat :: "nat \<Rightarrow> string" where
  "show_nat n = (if n < 10 then [char_of (48 + n)] else show_nat (n div 10) @ [char_of (48 + n mod 10)])"

declare show_nat.simps [simp del]

definition show_int :: "int \<Rightarrow> string" where
  "show_int i = (if i < 0 then CHR ''-'' # show_nat (nat (- i)) else show_nat (nat i))"

definition is_digit :: "char \<Rightarrow> bool" where
  "is_digit c \<longleftrightarrow> 48 \<le> (of_char c :: nat) \<and> (of_char c :: nat) \<le> 57"

lemma of_char_digit: "n < 10 \<Longrightarrow> of_char (char_of (48 + n) :: char) = (48 + n :: nat)"
  by (simp add: of_char_of)

lemma show_nat_digits: "c \<in> set (show_nat n) \<Longrightarrow> is_digit c"
proof (induction n rule: show_nat.induct)
  case (1 n)
  have d: "is_digit (char_of (48 + k))" if "k < 10" for k :: nat
    using that by (simp add: is_digit_def of_char_digit)
  show ?case
    using 1 d [of n] d [of "n mod 10"]
    by (cases "n < 10") (auto simp: show_nat.simps [of n])
qed

lemma show_nat_no_dash [simp]: "CHR ''-'' \<notin> set (show_nat n)"
  using show_nat_digits [of "CHR ''-''" n] by (auto simp: is_digit_def)

lemma show_nat_ne [simp]: "show_nat n \<noteq> []"
  by (subst show_nat.simps) simp

fun dec_value :: "string \<Rightarrow> nat" where
  "dec_value ds = foldl (\<lambda>a c. 10 * a + (of_char c - 48)) 0 ds"

lemma dec_value_show_nat [simp]: "dec_value (show_nat n) = n"
proof (induction n rule: show_nat.induct)
  case (1 n)
  then show ?case
    by (cases "n < 10") (simp_all add: show_nat.simps [of n] of_char_digit)
qed

lemma show_nat_inject [simp]: "show_nat m = show_nat n \<longleftrightarrow> m = n"
  by (metis dec_value_show_nat)

lemma show_nat_head: "show_nat n \<noteq> CHR ''-'' # t"
  by (metis list.set_intros(1) show_nat_no_dash)

lemma show_int_inject [simp]: "show_int i = show_int j \<longleftrightarrow> i = j"
  by (auto simp: show_int_def show_nat_head show_nat_head [symmetric] split: if_splits)

lemma show_int_no_dash: "0 \<le> i \<Longrightarrow> CHR ''-'' \<notin> set (show_int i)"
  by (simp add: show_int_def)

subsection \<open>Quoted strings: the verb q of fmt\<close>

definition hex_digit :: "nat \<Rightarrow> char" where
  "hex_digit n = (if n < 10 then char_of (48 + n) else char_of (87 + n))"

definition quote_char :: "char \<Rightarrow> string" where
  "quote_char c =
     (let n = of_char c :: nat; esc = (\<lambda>d. [CHR 0x5C, d]) in
      if n = 34 \<or> n = 92 then esc c
      else if n = 7 then esc (CHR ''a'') else if n = 8 then esc (CHR ''b'')
      else if n = 12 then esc (CHR ''f'') else if n = 10 then esc (CHR ''n'')
      else if n = 13 then esc (CHR ''r'') else if n = 9 then esc (CHR ''t'')
      else if n = 11 then esc (CHR ''v'')
      else if n < 32 \<or> n = 127
        then esc (CHR ''x'') @ [hex_digit (n div 16), hex_digit (n mod 16)]
      else [c])"

definition quote :: "string \<Rightarrow> string" where
  "quote s = CHR 0x22 # concat (map quote_char s) @ [CHR 0x22]"

section \<open>Errors\<close>

text \<open>
  The sentinel errors are the package-level variables of the operator. An error that
  comes from a library carries the class by which the code (or \<open>RetryOnConflict\<close>)
  recognises it; \<open>fmt.Errorf\<close> builds a node with the text it formats and the
  errors it wraps with the verb w.
\<close>

datatype sentinel =
    errWebhookSecretMissing
  | errWebhookSecretInvalidKey
  | errBuildRunFailed
  | errMethodNotAllowed
  | errUnsupportedWebhook
  | errMissingOnCommit
  | errMissingWebhookSecretKey
  | errMissingPushEventFields
  | errUnexpectedGitHubEvent

fun sentinel_text :: "sentinel \<Rightarrow> string" where
  "sentinel_text errWebhookSecretMissing = ''webhook secret not found''"
| "sentinel_text errWebhookSecretInvalidKey = ''webhook secret key not found''"
| "sentinel_text errBuildRunFailed = ''buildrun reconciliation failed''"
| "sentinel_text errMethodNotAllowed = ''method not allowed''"
| "sentinel_text errUnsupportedWebhook =
     ''unsupported webhook event: only GitHub and GitLab push events are supported''"
| "sentinel_text errMissingOnCommit = ''missing spec.onCommit''"
| "sentinel_text errMissingWebhookSecretKey = ''missing key in webhook secret''"
| "sentinel_text errMissingPushEventFields =
     ''missing required fields: ref or non-empty clone URLs''"
| "sentinel_text errUnexpectedGitHubEvent = ''unexpected GitHub event type''"

datatype err_class = NotFound | Conflict | AlreadyOwned | OtherError

datatype go_error =
    Sentinel sentinel
  | LibError err_class string
  | Errorf string "go_error list"

fun error_text :: "go_error \<Rightarrow> string" where
  "error_text (Sentinel s) = sentinel_text s"
| "error_text (LibError c msg) = msg"
| "error_text (Errorf msg es) = msg"

text \<open>\<open>errors.Is\<close> against a sentinel, and \<open>errors.As\<close> against a library class.\<close>

fun errors_Is :: "go_error \<Rightarrow> sentinel \<Rightarrow> bool" where
  "errors_Is (Sentinel s) t \<longleftrightarrow> s = t"
| "errors_Is (LibError c msg) t \<longleftrightarrow> False"
| "errors_Is (Errorf msg es) t \<longleftrightarrow> list_ex (\<lambda>e. errors_Is e t) es"

fun errors_As :: "go_error \<Rightarrow> err_class \<Rightarrow> bool" where
  "errors_As (Sentinel s) c \<longleftrightarrow> False"
| "errors_As (LibError d msg) c \<longleftrightarrow> d = c"
| "errors_As (Errorf msg es) c \<longleftrightarrow> list_ex (\<lambda>e. errors_As e c) es"

definition IsNotFound :: "go_error \<Rightarrow> bool" where
  "IsNotFound e \<longleftrightarrow> errors_As e NotFound"

text \<open>\<open>fmt.Errorf("prefix: %w", err)\<close> and \<open>fmt.Errorf("%w: %w", e1, e2)\<close>.\<close>

definition wrap :: "string \<Rightarrow> go_error \<Rightarrow> go_error" where
  "wrap prefix e = Errorf (prefix @ '': '' @ error_text e) [e]"

definition wrap2 :: "go_error \<Rightarrow> go_error \<Rightarrow> go_error" where
  "wrap2 e1 e2 = Errorf (error_text e1 @ '': '' @ error_text e2) [e1, e2]"

definition wrap_text :: "go_error \<Rightarrow> string \<Rightarrow> go_error" where
  "wrap_text e suffix = Errorf (error_text e @ suffix) [e]"

lemma errors_Is_wrap [simp]: "errors_Is (wrap p e) s = errors_Is e s"
  by (simp add: wrap_def)

lemma errors_As_wrap [simp]: "errors_As (wrap p e) c = errors_As e c"
  by (simp add: wrap_def)

lemma errors_Is_wrap2 [simp]: "errors_Is (wrap2 a b) s \<longleftrightarrow> errors_Is a s \<or> errors_Is b s"
  by (simp add: wrap2_def)

lemma errors_As_wrap2 [simp]: "errors_As (wrap2 a b) c \<longleftrightarrow> errors_As a c \<or> errors_As b c"
  by (simp add: wrap2_def)

lemma errors_Is_wrap_text [simp]: "errors_Is (wrap_text e t) s = errors_Is e s"
  by (simp add: wrap_text_def)

lemma errors_As_wrap_text [simp]: "errors_As (wrap_text e t) c = errors_As e c"
  by (simp add: wrap_text_def)

lemma IsNotFound_wrap [simp]: "IsNotFound (wrap p e) = IsNotFound e"
  by (simp add: IsNotFound_def)

section \<open>Times and durations\<close>

text \<open>
  A \<open>time.Time\<close> is a number of nanoseconds since the zero time (year 1), which is
  what \<open>IsZero\<close> recognises. A \<open>time.Duration\<close> is a 64-bit count of nanoseconds;
  \<open>Sub\<close> saturates at its two ends.
\<close>

type_synonym time = int
type_synonym duration = int

definition second :: duration where
  "second = 1000000000"

definition IsZero :: "time \<Rightarrow> bool" where
  "IsZero t \<longleftrightarrow> t = 0"

definition minDuration :: duration where
  "minDuration = - (2 ^ 63)"

definition maxDuration :: duration where
  "maxDuration = 2 ^ 63 - 1"

definition time_Add :: "time \<Rightarrow> duration \<Rightarrow> time" where
  "time_Add t d = t + d"

definition time_Sub :: "time \<Rightarrow> time \<Rightarrow> duration" where
  "time_Sub t u = max minDuration (min maxDuration (t - u))"

lemma time_Sub_pos_iff: "0 < time_Sub t u \<longleftrightarrow> u < t"
  by (auto simp: time_Sub_def minDuration_def maxDuration_def)

lemma time_Sub_le: "u \<le> t \<Longrightarrow> time_Sub t u \<le> t - u"
  by (auto simp: time_Sub_def minDuration_def maxDuration_def)

end
