(* ===== verification/API_Types.thy ===== *)
theory API_Types
  imports Go_Std
begin

text \<open>
  The API group \<open>build.dana.io/v1alpha1\<close> (\<open>api/v1alpha1\<close>) and the fields of the
  Kubernetes and Shipwright objects the operator reads or writes. A Go struct is a
  record, a pointer is an option (\<open>None\<close> is nil), a map from strings is a HOL map
  (a nil map and an empty map answer every lookup alike, and the operator makes the
  map before each write). String-typed enumerations stay strings, as in Go.
\<close>

section \<open>Object metadata\<close>

record NamespacedName =
  nn_Namespace :: string
  nn_Name :: string

record OwnerReference =
  or_UID :: string
  or_Controller :: bool

record ObjectMeta =
  om_Name :: string
  om_Namespace :: string
  om_UID :: string
  om_ResourceVersion :: string
  om_Generation :: "64 word"
  om_Labels :: "string \<rightharpoonup> string"
  om_Annotations :: "string \<rightharpoonup> string"
  om_OwnerReferences :: "OwnerReference list"

definition new_meta :: "string \<Rightarrow> string \<Rightarrow> (string \<rightharpoonup> string) \<Rightarrow> ObjectMeta" where
  \<comment> \<open>a composite literal that sets name, namespace and labels only\<close>
  "new_meta ns n ls =
     \<lparr>om_Name = n, om_Namespace = ns, om_UID = '''', om_ResourceVersion = '''', om_Generation = 0,
      om_Labels = ls, om_Annotations = Map.empty, om_OwnerReferences = []\<rparr>"

definition ObjectKeyOf :: "ObjectMeta \<Rightarrow> NamespacedName" where
  "ObjectKeyOf m = \<lparr>nn_Namespace = om_Namespace m, nn_Name = om_Name m\<rparr>"

section \<open>Constants: consts.go, groupversion\_info.go\<close>

definition GroupVersion_Group :: string where
  "GroupVersion_Group = ''build.dana.io''"

definition LabelKeyParentImageBuild :: string where
  "LabelKeyParentImageBuild = GroupVersion_Group @ ''/parent-imagebuild''"

definition LabelKeyOnCommitEnabled :: string where
  "LabelKeyOnCommitEnabled = GroupVersion_Group @ ''/oncommit-enabled''"

definition LabelKeyRebuildMode :: string where
  "LabelKeyRebuildMode = GroupVersion_Group @ ''/rebuild-mode''"

definition AnnotationKeyLastBuildSpec :: string where
  "AnnotationKeyLastBuildSpec = GroupVersion_Group @ ''/last-build-spec''"

lemmas label_keys [go_consts] =
  GroupVersion_Group_def LabelKeyParentImageBuild_def LabelKeyOnCommitEnabled_def
  LabelKeyRebuildMode_def AnnotationKeyLastBuildSpec_def

lemma label_keys_distinct [simp]:
  "LabelKeyRebuildMode \<noteq> LabelKeyParentImageBuild"
  "LabelKeyParentImageBuild \<noteq> LabelKeyRebuildMode"
  by (simp_all add: go_consts)

section \<open>ImageBuild: imagebuild\_types.go, retention.go\<close>

record Retention =
  FailedLimit :: "32 word option"
  SucceededLimit :: "32 word option"
  TTLAfterFailed :: "duration option"
  TTLAfterSucceeded :: "duration option"

definition ImageBuildSourceTypeGit :: string where
  "ImageBuildSourceTypeGit = ''Git''"

definition ImageBuildRebuildModeOnCommit :: string where
  "ImageBuildRebuildModeOnCommit = ''OnCommit''"

definition ImageBuildFileModePresent :: string where
  "ImageBuildFileModePresent = ''Present''"

definition ImageBuildFileModeAbsent :: string where
  "ImageBuildFileModeAbsent = ''Absent''"

lemmas mode_consts [go_consts] =
  ImageBuildSourceTypeGit_def ImageBuildRebuildModeOnCommit_def
  ImageBuildFileModePresent_def ImageBuildFileModeAbsent_def

record LocalObjectReference =
  lor_Name :: string

record SecretKeySelector =
  sel_Name :: string
  sel_Key :: string
  sel_Optional :: "bool option"

record ImageBuildFile =
  bf_Mode :: string

record ImageBuildGitSource =
  git_URL :: string
  git_Revision :: string
  git_CloneSecret :: "LocalObjectReference option"

record ImageBuildSource =
  src_Type :: string
  src_Git :: ImageBuildGitSource
  src_ContextDir :: string

record ImageBuildRebuild =
  rb_Mode :: string

record ImageBuildOutput =
  out_Image :: string
  out_PushSecret :: "LocalObjectReference option"

record ImageBuildOnCommit =
  oc_WebhookSecretRef :: SecretKeySelector

record ImageBuildSpec =
  spec_Source :: ImageBuildSource
  spec_BuildFile :: ImageBuildFile
  spec_Rebuild :: "ImageBuildRebuild option"
  spec_Output :: ImageBuildOutput
  spec_OnCommit :: "ImageBuildOnCommit option"
  spec_Retention :: "Retention option"

record Condition =
  cond_Type :: string
  cond_Status :: string
  cond_ObservedGeneration :: "64 word"
  cond_LastTransitionTime :: time
  cond_Reason :: string
  cond_Message :: string

record ImageBuildOnCommitEvent =
  ev_Ref :: string
  ev_CommitSHA :: string
  ev_ReceivedAt :: time

record ImageBuildOnCommitLastTriggered =
  lt_Name :: string
  lt_CommitSHA :: string
  lt_TriggeredAt :: time

record ImageBuildOnCommitStatus =
  ocs_LastReceived :: "ImageBuildOnCommitEvent option"
  ocs_Pending :: "ImageBuildOnCommitEvent option"
  ocs_LastTriggeredBuildRun :: "ImageBuildOnCommitLastTriggered option"
  ocs_TriggerCounter :: "64 word"

record ImageBuildStatus =
  st_ObservedGeneration :: "64 word"
  st_BuildRef :: string
  st_Conditions :: "Condition list"
  st_LatestImage :: string
  st_LastBuildRunRef :: string
  st_BuildRunCounter :: "64 word"
  st_OnCommit :: "ImageBuildOnCommitStatus option"

record ImageBuild =
  ib_Meta :: ObjectMeta
  ib_Spec :: ImageBuildSpec
  ib_Status :: ImageBuildStatus

abbreviation ib_Name :: "ImageBuild \<Rightarrow> string" where
  "ib_Name ib \<equiv> om_Name (ib_Meta ib)"

abbreviation ib_Namespace :: "ImageBuild \<Rightarrow> string" where
  "ib_Namespace ib \<equiv> om_Namespace (ib_Meta ib)"

abbreviation ib_Generation :: "ImageBuild \<Rightarrow> 64 word" where
  "ib_Generation ib \<equiv> om_Generation (ib_Meta ib)"

definition empty_OnCommitStatus :: ImageBuildOnCommitStatus where
  "empty_OnCommitStatus =
     \<lparr>ocs_LastReceived = None, ocs_Pending = None, ocs_LastTriggeredBuildRun = None,
      ocs_TriggerCounter = 0\<rparr>"

section \<open>ImageBuildPolicy: imagebuildpolicy\_types.go\<close>

record ImageBuildFileStrategy =
  bfs_Present :: string
  bfs_Absent :: string

record ImageBuildClusterStrategy =
  cs_BuildFile :: ImageBuildFileStrategy

record ImageBuildPolicySpec =
  ps_ClusterBuildStrategy :: ImageBuildClusterStrategy
  ps_Retention :: "Retention option"

record ImageBuildPolicy =
  pol_Meta :: ObjectMeta
  pol_Spec :: ImageBuildPolicySpec

section \<open>The Shipwright and Kubernetes objects, as far as the operator uses them\<close>

text \<open>The constants of the Shipwright and Kubernetes packages become constructors.\<close>

datatype BuildStrategyKind = ClusterBuildStrategyKind | NamespacedBuildStrategyKind

datatype SourceType = GitType | OtherSourceType

record Strategy =
  strat_Name :: string
  strat_Kind :: "BuildStrategyKind option"

record Git =
  sgit_URL :: string
  sgit_Revision :: "string option"
  sgit_CloneSecret :: "string option"

record Source =
  ssrc_Type :: SourceType
  ssrc_Git :: "Git option"
  ssrc_ContextDir :: "string option"

record Image =
  img_Image :: string
  img_PushSecret :: "string option"

record BuildRetention =
  br_FailedLimit :: "64 word option"
  br_SucceededLimit :: "64 word option"
  br_TTLAfterFailed :: "duration option"
  br_TTLAfterSucceeded :: "duration option"

record BuildSpec =
  bs_Strategy :: Strategy
  bs_Source :: "Source option"
  bs_Output :: Image
  bs_Retention :: "BuildRetention option"

record Build =
  build_Meta :: ObjectMeta
  build_Spec :: BuildSpec

record BRCondition =
  brc_Type :: string
  brc_Status :: string
  brc_Message :: string

record BROutput =
  bro_Digest :: string

record BuildRunStatus =
  brs_Conditions :: "BRCondition list"
  brs_Output :: "BROutput option"

record BuildRun =
  br_Meta :: ObjectMeta
  br_BuildName :: "string option"
  br_Status :: BuildRunStatus

abbreviation br_Name :: "BuildRun \<Rightarrow> string" where
  "br_Name br \<equiv> om_Name (br_Meta br)"

text \<open>\<open>metav1.ConditionStatus\<close> and \<open>corev1.ConditionStatus\<close>, both strings.\<close>

definition ConditionTrue :: string where
  "ConditionTrue = ''True''"

definition ConditionFalse :: string where
  "ConditionFalse = ''False''"

definition ConditionUnknown :: string where
  "ConditionUnknown = ''Unknown''"

lemmas condition_status_consts [go_consts] =
  ConditionTrue_def ConditionFalse_def ConditionUnknown_def

lemma condition_status_distinct [simp]:
  "ConditionTrue \<noteq> ConditionFalse" "ConditionFalse \<noteq> ConditionTrue"
  "ConditionTrue \<noteq> ConditionUnknown" "ConditionUnknown \<noteq> ConditionTrue"
  "ConditionFalse \<noteq> ConditionUnknown" "ConditionUnknown \<noteq> ConditionFalse"
  by (simp_all add: go_consts)

end
