(* ===== verification/Json.thy ===== *)
theory Json
  imports API_Types
begin

text \<open>
  Go's \<open>encoding/json\<close> as far as the last-build-spec annotation needs it: the printer
  \<open>json.Marshal\<close> uses (compact, HTML-escaped), a parser of the JSON grammar, and the
  coding of \<open>buildInputs\<close> (\<open>internal/controller/imagebuild/buildrun.go\<close>) by the tags of
  its structs. Strings are taken to be valid UTF-8, and a JSON number keeps its text.
  The main fact is the round trip \<open>Unmarshal (Marshal x) = Some x\<close>.
\<close>

datatype json =
    JNull
  | JBool bool
  | JNum string
  | JStr string
  | JArr "json list"
  | JObj "(string \<times> json) list"

section \<open>Printing\<close>

abbreviation dq :: char where "dq \<equiv> CHR 0x22"
abbreviation bsl :: char where "bsl \<equiv> CHR 0x5C"

definition esc_char :: "char \<Rightarrow> string" where
  "esc_char c =
     (let n = of_char c :: nat in
      if n = 34 \<or> n = 92 then [bsl, c]
      else if n = 8 then [bsl, CHR ''b''] else if n = 12 then [bsl, CHR ''f'']
      else if n = 10 then [bsl, CHR ''n''] else if n = 13 then [bsl, CHR ''r'']
      else if n = 9 then [bsl, CHR ''t'']
      else if n < 32 \<or> n = 38 \<or> n = 60 \<or> n = 62
        then [bsl, CHR ''u'', CHR ''0'', CHR ''0'', hex_digit (n div 16), hex_digit (n mod 16)]
      else [c])"

definition print_str :: "string \<Rightarrow> string" where
  "print_str s = dq # concat (map esc_char s) @ [dq]"

fun print_json :: "json \<Rightarrow> string"
  and print_elems :: "json list \<Rightarrow> string"
  and print_members :: "(string \<times> json) list \<Rightarrow> string" where
  "print_json JNull = ''null''"
| "print_json (JBool b) = (if b then ''true'' else ''false'')"
| "print_json (JNum t) = t"
| "print_json (JStr s) = print_str s"
| "print_json (JArr js) = ''['' @ print_elems js @ '']''"
| "print_json (JObj ms) = CHR 0x7B # print_members ms @ [CHR 0x7D]"
| "print_elems [] = []"
| "print_elems [j] = print_json j"
| "print_elems (j # js) = print_json j @ '','' @ print_elems js"
| "print_members [] = []"
| "print_members [(k, v)] = print_str k @ '':'' @ print_json v"
| "print_members ((k, v) # ms) = print_str k @ '':'' @ print_json v @ '','' @ print_members ms"

section \<open>Parsing\<close>

definition is_ws :: "char \<Rightarrow> bool" where
  "is_ws c \<longleftrightarrow> of_char c \<in> {9, 10, 13, 32 :: nat}"

definition skip_ws :: "string \<Rightarrow> string" where
  "skip_ws = dropWhile is_ws"

definition unhex :: "char \<Rightarrow> nat option" where
  "unhex c =
     (let n = of_char c :: nat in
      if 48 \<le> n \<and> n \<le> 57 then Some (n - 48)
      else if 97 \<le> n \<and> n \<le> 102 then Some (n - 87)
      else if 65 \<le> n \<and> n \<le> 70 then Some (n - 55)
      else None)"

fun getu4 :: "string \<Rightarrow> (nat \<times> string) option" where
  "getu4 (a # b # c # d # r) =
     (case (unhex a, unhex b, unhex c, unhex d) of
        (Some w, Some x, Some y, Some z) \<Rightarrow> Some (((w * 16 + x) * 16 + y) * 16 + z, r)
      | _ \<Rightarrow> None)"
| "getu4 s = None"

definition utf8 :: "nat \<Rightarrow> string" where
  "utf8 n =
     (if n < 128 then [char_of n]
      else if n < 2048 then [char_of (192 + n div 64), char_of (128 + n mod 64)]
      else if n < 65536
        then [char_of (224 + n div 4096), char_of (128 + n div 64 mod 64), char_of (128 + n mod 64)]
      else [char_of (240 + n div 262144), char_of (128 + n div 4096 mod 64),
            char_of (128 + n div 64 mod 64), char_of (128 + n mod 64)])"

text \<open>A surrogate escape is joined with a following low half, else it reads as U+FFFD.\<close>

definition read_rune :: "nat \<Rightarrow> string \<Rightarrow> string \<times> string" where
  "read_rune u r =
     (if 55296 \<le> u \<and> u < 57344 then
        (case r of
           b # c # r' \<Rightarrow>
             (case (if b = bsl \<and> c = CHR ''u'' then getu4 r' else None) of
                Some (v, r'') \<Rightarrow>
                  (if u < 56320 \<and> 56320 \<le> v \<and> v < 57344
                   then (utf8 (65536 + (u - 55296) * 1024 + (v - 56320)), r'')
                   else (utf8 65533, r))
              | None \<Rightarrow> (utf8 65533, r))
         | _ \<Rightarrow> (utf8 65533, r))
      else (utf8 u, r))"

definition unesc :: "char \<Rightarrow> char option" where
  "unesc c =
     (if c = dq \<or> c = bsl \<or> c = CHR ''/'' then Some c
      else if c = CHR ''b'' then Some (CHR 0x08) else if c = CHR ''f'' then Some (CHR 0x0C)
      else if c = CHR ''n'' then Some (CHR 0x0A) else if c = CHR ''r'' then Some (CHR 0x0D)
      else if c = CHR ''t'' then Some (CHR 0x09) else None)"

lemma getu4_length: "getu4 s = Some (u, r) \<Longrightarrow> length r < length s"
  by (induction s rule: getu4.induct) (auto split: option.splits prod.splits)

lemma read_rune_length: "read_rune u r = (t, r') \<Longrightarrow> length r' \<le> length r"
  by (auto simp: read_rune_def split: if_splits list.splits option.splits dest!: getu4_length)

text \<open>The rest of a string literal, after its opening quote.\<close>

function parse_str :: "string \<Rightarrow> (string \<times> string) option" where
  "parse_str [] = None"
| "parse_str (c # s) =
     (if c = dq then Some ([], s)
      else if c = bsl then
        (case s of
           [] \<Rightarrow> None
         | e # r \<Rightarrow>
             if e = CHR ''u'' then
               (case getu4 r of
                  None \<Rightarrow> None
                | Some (u, r1) \<Rightarrow>
                    (case read_rune u r1 of
                       (t, r2) \<Rightarrow> map_option (\<lambda>(a, b). (t @ a, b)) (parse_str r2)))
             else
               (case unesc e of
                  None \<Rightarrow> None
                | Some d \<Rightarrow> map_option (\<lambda>(a, b). (d # a, b)) (parse_str r)))
      else if of_char c < (32 :: nat) then None
      else map_option (\<lambda>(a, b). (c # a, b)) (parse_str s))"
  by pat_completeness auto
termination
  by (relation "measure length") (auto dest!: getu4_length read_rune_length [OF sym])

declare parse_str.simps(2) [simp del]

fun expect :: "char \<Rightarrow> string \<Rightarrow> string option" where
  "expect c s = (case skip_ws s of d # r \<Rightarrow> if d = c then Some r else None | [] \<Rightarrow> None)"

definition strip_prefix :: "string \<Rightarrow> string \<Rightarrow> string option" where
  "strip_prefix p s = (if take (length p) s = p then Some (drop (length p) s) else None)"

definition digits1 :: "string \<Rightarrow> (string \<times> string) option" where
  "digits1 s = (case takeWhile is_digit s of [] \<Rightarrow> None | ds \<Rightarrow> Some (ds, dropWhile is_digit s))"

definition parse_number :: "string \<Rightarrow> (json \<times> string) option" where
  "parse_number s = do {
     let (sg, s1) = (case s of c # r \<Rightarrow> if c = CHR ''-'' then (''-'', r) else ([], s) | [] \<Rightarrow> ([], s));
     (i, s2) \<leftarrow> (case s1 of c # r \<Rightarrow> if c = CHR ''0'' then Some (''0'', r) else digits1 s1
                 | [] \<Rightarrow> None);
     (f, s3) \<leftarrow> (case s2 of c # r \<Rightarrow> if c = CHR ''.'' then map_option (apfst ((#) c)) (digits1 r)
                                  else Some ([], s2)
                 | [] \<Rightarrow> Some ([], s2));
     (e, s4) \<leftarrow> (case s3 of
                   c # r \<Rightarrow>
                     if c = CHR ''e'' \<or> c = CHR ''E'' then
                       (case r of
                          d # r' \<Rightarrow> if d = CHR ''+'' \<or> d = CHR ''-''
                                    then map_option (apfst (\<lambda>ds. c # d # ds)) (digits1 r')
                                    else map_option (apfst ((#) c)) (digits1 r)
                        | [] \<Rightarrow> None)
                     else Some ([], s3)
                 | [] \<Rightarrow> Some ([], s3));
     Some (JNum (sg @ i @ f @ e), s4)
   }"

definition parse_literal :: "string \<Rightarrow> (json \<times> string) option" where
  "parse_literal s =
     (case strip_prefix ''null'' s of Some r \<Rightarrow> Some (JNull, r)
      | None \<Rightarrow> (case strip_prefix ''true'' s of Some r \<Rightarrow> Some (JBool True, r)
      | None \<Rightarrow> (case strip_prefix ''false'' s of Some r \<Rightarrow> Some (JBool False, r)
      | None \<Rightarrow> parse_number s)))"

fun parse_value :: "nat \<Rightarrow> string \<Rightarrow> (json \<times> string) option"
  and parse_elems :: "nat \<Rightarrow> string \<Rightarrow> (json list \<times> string) option"
  and parse_members :: "nat \<Rightarrow> string \<Rightarrow> ((string \<times> json) list \<times> string) option" where
  "parse_value 0 s = None"
| "parse_value (Suc n) s =
     (case skip_ws s of
        [] \<Rightarrow> None
      | c # r \<Rightarrow>
          if c = dq then map_option (apfst JStr) (parse_str r)
          else if c = CHR 0x7B then
            (case expect (CHR 0x7D) r of
               Some r' \<Rightarrow> Some (JObj [], r')
             | None \<Rightarrow> map_option (apfst JObj) (parse_members n r))
          else if c = CHR ''['' then
            (case expect (CHR '']'') r of
               Some r' \<Rightarrow> Some (JArr [], r')
             | None \<Rightarrow> map_option (apfst JArr) (parse_elems n r))
          else parse_literal (c # r))"
| "parse_elems 0 s = None"
| "parse_elems (Suc n) s =
     do { (v, r) \<leftarrow> parse_value n s;
          case expect (CHR '','') r of
            Some r' \<Rightarrow> map_option (apfst ((#) v)) (parse_elems n r')
          | None \<Rightarrow> map_option (\<lambda>r'. ([v], r')) (expect (CHR '']'') r) }"
| "parse_members 0 s = None"
| "parse_members (Suc n) s =
     do { r0 \<leftarrow> expect dq s;
          (k, r1) \<leftarrow> parse_str r0;
          r2 \<leftarrow> expect (CHR '':'') r1;
          (v, r3) \<leftarrow> parse_value n r2;
          case expect (CHR '','') r3 of
            Some r4 \<Rightarrow> map_option (apfst ((#) (k, v))) (parse_members n r4)
          | None \<Rightarrow> map_option (\<lambda>r4. ([(k, v)], r4)) (expect (CHR 0x7D) r3) }"

text \<open>
  Every unit of fuel spent reads at least one character, so the length of the text
  plus one is enough.
\<close>

definition parse_json :: "string \<Rightarrow> json option" where
  "parse_json s =
     do { (j, r) \<leftarrow> parse_value (Suc (length s)) s; if skip_ws r = [] then Some j else None }"

section \<open>The coding of buildInputs\<close>

record buildInputs =
  bi_Source :: ImageBuildSource
  bi_BuildFile :: ImageBuildFile
  bi_Output :: ImageBuildOutput

definition omitempty :: "string \<Rightarrow> string \<Rightarrow> (string \<times> json) list" where
  "omitempty k s = (if s = [] then [] else [(k, JStr s)])"

definition enc_ref :: "string \<Rightarrow> LocalObjectReference option \<Rightarrow> (string \<times> json) list" where
  "enc_ref k r =
     (case r of None \<Rightarrow> [] | Some r \<Rightarrow> [(k, JObj (omitempty ''name'' (lor_Name r)))])"

definition enc_source :: "ImageBuildSource \<Rightarrow> json" where
  "enc_source s =
     JObj ([(''type'', JStr (src_Type s)),
            (''git'', JObj ([(''url'', JStr (git_URL (src_Git s)))] @
                            omitempty ''revision'' (git_Revision (src_Git s)) @
                            enc_ref ''cloneSecret'' (git_CloneSecret (src_Git s))))] @
           omitempty ''contextDir'' (src_ContextDir s))"

definition enc_inputs :: "buildInputs \<Rightarrow> json" where
  "enc_inputs x =
     JObj [(''source'', enc_source (bi_Source x)),
           (''buildFile'', JObj [(''mode'', JStr (bf_Mode (bi_BuildFile x)))]),
           (''output'', JObj ([(''image'', JStr (out_Image (bi_Output x)))] @
                              enc_ref ''pushSecret'' (out_PushSecret (bi_Output x))))]"

definition json_Marshal :: "buildInputs \<Rightarrow> string" where
  "json_Marshal x = print_json (enc_inputs x)"

text \<open>
  Decoding: a member is matched to a field by name, without regard to case; an unknown
  member is ignored; a null leaves a value as it is and clears a pointer; any other
  mismatch is an error.
\<close>

fun dec_members :: "(string \<Rightarrow> json \<Rightarrow> 'r \<Rightarrow> 'r option) \<Rightarrow> (string \<times> json) list \<Rightarrow> 'r \<Rightarrow> 'r option" where
  "dec_members f [] x = Some x"
| "dec_members f ((k, v) # ms) x = do { y \<leftarrow> f k v x; dec_members f ms y }"

fun dec_struct :: "(string \<Rightarrow> json \<Rightarrow> 'r \<Rightarrow> 'r option) \<Rightarrow> json \<Rightarrow> 'r \<Rightarrow> 'r option" where
  "dec_struct f (JObj ms) x = dec_members f ms x"
| "dec_struct f JNull x = Some x"
| "dec_struct f _ x = None"

fun dec_str :: "json \<Rightarrow> string \<Rightarrow> string option" where
  "dec_str (JStr s) old = Some s"
| "dec_str JNull old = Some old"
| "dec_str _ old = None"

definition dec_ref_field :: "string \<Rightarrow> json \<Rightarrow> LocalObjectReference \<Rightarrow> LocalObjectReference option" where
  "dec_ref_field k v r =
     (if EqualFold k ''name'' then map_option (\<lambda>s. r\<lparr>lor_Name := s\<rparr>) (dec_str v (lor_Name r))
      else Some r)"

fun dec_ref :: "json \<Rightarrow> LocalObjectReference option \<Rightarrow> LocalObjectReference option option" where
  "dec_ref JNull old = Some None"
| "dec_ref v old =
     map_option Some (dec_struct dec_ref_field v
       (case old of None \<Rightarrow> \<lparr>lor_Name = ''''\<rparr> | Some r \<Rightarrow> r))"

definition dec_git_field :: "string \<Rightarrow> json \<Rightarrow> ImageBuildGitSource \<Rightarrow> ImageBuildGitSource option" where
  "dec_git_field k v g =
     (if EqualFold k ''url'' then map_option (\<lambda>s. g\<lparr>git_URL := s\<rparr>) (dec_str v (git_URL g))
      else if EqualFold k ''revision''
        then map_option (\<lambda>s. g\<lparr>git_Revision := s\<rparr>) (dec_str v (git_Revision g))
      else if EqualFold k ''cloneSecret''
        then map_option (\<lambda>r. g\<lparr>git_CloneSecret := r\<rparr>) (dec_ref v (git_CloneSecret g))
      else Some g)"

definition dec_source_field :: "string \<Rightarrow> json \<Rightarrow> ImageBuildSource \<Rightarrow> ImageBuildSource option" where
  "dec_source_field k v s =
     (if EqualFold k ''type'' then map_option (\<lambda>t. s\<lparr>src_Type := t\<rparr>) (dec_str v (src_Type s))
      else if EqualFold k ''git''
        then map_option (\<lambda>g. s\<lparr>src_Git := g\<rparr>) (dec_struct dec_git_field v (src_Git s))
      else if EqualFold k ''contextDir''
        then map_option (\<lambda>t. s\<lparr>src_ContextDir := t\<rparr>) (dec_str v (src_ContextDir s))
      else Some s)"

definition dec_file_field :: "string \<Rightarrow> json \<Rightarrow> ImageBuildFile \<Rightarrow> ImageBuildFile option" where
  "dec_file_field k v b =
     (if EqualFold k ''mode'' then map_option (\<lambda>t. b\<lparr>bf_Mode := t\<rparr>) (dec_str v (bf_Mode b))
      else Some b)"

definition dec_output_field :: "string \<Rightarrow> json \<Rightarrow> ImageBuildOutput \<Rightarrow> ImageBuildOutput option" where
  "dec_output_field k v u =
     (if EqualFold k ''image'' then map_option (\<lambda>t. u\<lparr>out_Image := t\<rparr>) (dec_str v (out_Image u))
      else if EqualFold k ''pushSecret''
        then map_option (\<lambda>r. u\<lparr>out_PushSecret := r\<rparr>) (dec_ref v (out_PushSecret u))
      else Some u)"

definition dec_inputs_field :: "string \<Rightarrow> json \<Rightarrow> buildInputs \<Rightarrow> buildInputs option" where
  "dec_inputs_field k v x =
     (if EqualFold k ''source''
        then map_option (\<lambda>s. x\<lparr>bi_Source := s\<rparr>) (dec_struct dec_source_field v (bi_Source x))
      else if EqualFold k ''buildFile''
        then map_option (\<lambda>b. x\<lparr>bi_BuildFile := b\<rparr>) (dec_struct dec_file_field v (bi_BuildFile x))
      else if EqualFold k ''output''
        then map_option (\<lambda>u. x\<lparr>bi_Output := u\<rparr>) (dec_struct dec_output_field v (bi_Output x))
      else Some x)"

definition zero_inputs :: buildInputs where
  "zero_inputs =
     \<lparr>bi_Source = \<lparr>src_Type = '''',
                   src_Git = \<lparr>git_URL = '''', git_Revision = '''', git_CloneSecret = None\<rparr>,
                   src_ContextDir = ''''\<rparr>,
      bi_BuildFile = \<lparr>bf_Mode = ''''\<rparr>,
      bi_Output = \<lparr>out_Image = '''', out_PushSecret = None\<rparr>\<rparr>"

definition json_Unmarshal :: "string \<Rightarrow> buildInputs option" where
  "json_Unmarshal s =
     do { j \<leftarrow> parse_json s; dec_struct dec_inputs_field j zero_inputs }"

section \<open>The round trip\<close>

lemma of_char_less: "of_char c < (256 :: nat)"
  by simp

lemma unhex_hex_digit [simp]: "n < 16 \<Longrightarrow> unhex (hex_digit n) = Some n"
  by (auto simp: unhex_def hex_digit_def of_char_of)

lemma parse_str_end [simp]: "parse_str (dq # r) = Some ([], r)"
  by (simp add: parse_str.simps(2))

lemma char_of_codes:
  "char_of (8 :: nat) = CHR 0x08" "char_of (9 :: nat) = CHR 0x09" "char_of (10 :: nat) = CHR 0x0A"
  "char_of (12 :: nat) = CHR 0x0C" "char_of (13 :: nat) = CHR 0x0D"
  "char_of (34 :: nat) = dq" "char_of (92 :: nat) = bsl"
  by (simp_all add: char_of_def bit_0)

lemma getu4_byte:
  "n < 256 \<Longrightarrow> getu4 (CHR ''0'' # CHR ''0'' # hex_digit (n div 16) # hex_digit (n mod 16) # s) = Some (n, s)"
  by (simp add: less_mult_imp_div_less) (simp add: unhex_def)

lemma parse_str_esc_char:
  "parse_str (esc_char c @ s) = map_option (\<lambda>(a, b). (c # a, b)) (parse_str s)"
proof -
  define n where "n = (of_char c :: nat)"
  then have c: "c = char_of n" and n: "n < 256" by simp_all
  consider (quoted) "n = 34 \<or> n = 92" | (short) "n = 8 \<or> n = 9 \<or> n = 10 \<or> n = 12 \<or> n = 13"
    | (unicode) "n \<notin> {8, 9, 10, 12, 13, 34, 92}" "n < 32 \<or> n = 38 \<or> n = 60 \<or> n = 62"
    | (plain) "32 \<le> n" "n \<notin> {34, 38, 60, 62, 92}"
    by force
  then show ?thesis
  proof cases
    case quoted
    then show ?thesis by (auto simp: c esc_char_def parse_str.simps(2) unesc_def char_of_codes)
  next
    case short
    then show ?thesis by (auto simp: c esc_char_def parse_str.simps(2) unesc_def char_of_codes)
  next
    case unicode
    then have "esc_char c =
        [bsl, CHR ''u'', CHR ''0'', CHR ''0'', hex_digit (n div 16), hex_digit (n mod 16)]"
      by (auto simp: c esc_char_def)
    moreover have "read_rune n s = ([c], s)"
      using unicode by (auto simp: read_rune_def utf8_def c)
    ultimately show ?thesis
      using getu4_byte [OF n, of s] by (simp add: parse_str.simps(2))
  next
    case plain
    then have "c \<noteq> dq" "c \<noteq> bsl" by (auto simp: n_def)
    with plain show ?thesis by (simp add: esc_char_def parse_str.simps(2) flip: n_def)
  qed
qed

lemma parse_str_print:
  "parse_str (concat (map esc_char s) @ dq # r) = Some (s, r)"
  by (induction s) (simp_all add: parse_str_esc_char)

text \<open>The trees the encoder builds hold strings and objects only.\<close>

fun textual :: "json \<Rightarrow> bool" and textual_ms :: "(string \<times> json) list \<Rightarrow> bool" where
  "textual (JStr s) \<longleftrightarrow> True"
| "textual (JObj ms) \<longleftrightarrow> textual_ms ms"
| "textual _ \<longleftrightarrow> False"
| "textual_ms [] \<longleftrightarrow> True"
| "textual_ms ((k, v) # ms) \<longleftrightarrow> textual v \<and> textual_ms ms"

fun depth :: "json \<Rightarrow> nat" and depth_ms :: "(string \<times> json) list \<Rightarrow> nat" where
  "depth (JObj ms) = Suc (depth_ms ms)"
| "depth _ = 1"
| "depth_ms [] = 0"
| "depth_ms ((k, v) # ms) = Suc (max (depth v) (depth_ms ms))"

lemma textual_ms_append [simp]: "textual_ms (ms @ ns) \<longleftrightarrow> textual_ms ms \<and> textual_ms ns"
  by (induction ms) auto

lemma print_members_Cons:
  "print_members ((k, v) # ms) =
     print_str k @ '':'' @ print_json v @ (if ms = [] then [] else '','' @ print_members ms)"
  by (cases ms) auto

lemma expect_hit [simp]: "\<not> is_ws c \<Longrightarrow> expect c (c # s) = Some s"
  by (simp add: skip_ws_def)

lemma expect_miss [simp]: "\<not> is_ws d \<Longrightarrow> d \<noteq> c \<Longrightarrow> expect c (d # s) = None"
  by (simp add: skip_ws_def)

declare expect.simps [simp del]

lemma not_ws [simp]:
  "\<not> is_ws dq" "\<not> is_ws (CHR 0x7B)" "\<not> is_ws (CHR 0x7D)" "\<not> is_ws (CHR '','')" "\<not> is_ws (CHR '':'')"
  by (simp_all add: is_ws_def)

lemma skip_ws_Cons [simp]: "\<not> is_ws c \<Longrightarrow> skip_ws (c # s) = c # s"
  by (simp add: skip_ws_def)

lemma print_members_head: "ms \<noteq> [] \<Longrightarrow> \<exists>t. print_members ms = dq # t"
  by (cases ms) (auto simp: print_members_Cons print_str_def)

lemma parse_print:
  "textual j \<Longrightarrow> depth j \<le> n \<Longrightarrow> parse_value n (print_json j @ r) = Some (j, r)"
  "textual_ms ms \<Longrightarrow> ms \<noteq> [] \<Longrightarrow> depth_ms ms \<le> n \<Longrightarrow>
     parse_members n (print_members ms @ CHR 0x7D # r) = Some (ms, r)"
proof (induction j and ms arbitrary: n r and n r rule: textual_textual_ms.induct)
  case (1 s)
  then show ?case by (cases n) (simp_all add: print_str_def parse_str_print)
next
  case (2 ms)
  then obtain m where n: "n = Suc m" and m: "depth_ms ms \<le> m" by (cases n) auto
  show ?case
  proof (cases "ms = []")
    case True
    then show ?thesis by (simp add: n)
  next
    case False
    from print_members_head [OF this] obtain t where "print_members ms = dq # t" by blast
    with "2.IH" [of m r] "2.prems" False m show ?thesis by (simp add: n)
  qed
next
  case (5 k v ms)
  then obtain m where n: "n = Suc m" and m: "depth v \<le> m" "depth_ms ms \<le> m" by (cases n) auto
  show ?case
    using "5.IH" "5.prems" m
    by (simp add: n print_members_Cons print_str_def parse_str_print del: print_members.simps)
qed auto

lemma depth_print:
  "textual j \<Longrightarrow> depth j \<le> length (print_json j)"
  "textual_ms ms \<Longrightarrow> depth_ms ms \<le> length (print_members ms)"
  by (induction j and ms rule: textual_textual_ms.induct)
    (auto simp: print_members_Cons print_str_def simp del: print_members.simps)

lemma parse_json_print: "textual j \<Longrightarrow> parse_json (print_json j) = Some j"
  using parse_print(1) [of j "Suc (length (print_json j))" "[]"] depth_print(1) [of j]
  by (simp add: parse_json_def skip_ws_def)

lemma textual_enc_inputs: "textual (enc_inputs x)"
  by (auto simp: enc_inputs_def enc_source_def enc_ref_def omitempty_def split: option.splits)

lemma dec_members_append:
  "dec_members f (ms @ ns) x = Option.bind (dec_members f ms x) (dec_members f ns)"
  by (induction ms arbitrary: x) (auto split: Option.bind_splits)

lemmas fold_simps = EqualFold_def ToLower_def lower_char_def

lemma dec_enc_ref:
  "dec_members dec_ref_field (omitempty ''name'' n) \<lparr>lor_Name = ''''\<rparr> = Some \<lparr>lor_Name = n\<rparr>"
  by (simp add: omitempty_def dec_ref_field_def)

lemma dec_ref_enc [simp]:
  "dec_ref (JObj (omitempty ''name'' (lor_Name r))) None = Some (Some r)"
  by (simp add: dec_enc_ref)

lemma dec_source_enc [simp]:
  "dec_struct dec_source_field (enc_source s) (bi_Source zero_inputs) = Some s"
  by (cases s; cases "src_Git s")
    (auto simp: enc_source_def zero_inputs_def omitempty_def enc_ref_def dec_source_field_def
      dec_git_field_def dec_ref_field_def fold_simps split: option.splits)

lemma inputs_update:
  "z\<lparr>bi_Source := bi_Source x, bi_BuildFile := bi_BuildFile x, bi_Output := bi_Output x\<rparr> = (x :: buildInputs)"
  by (cases z; cases x) simp

lemma json_Unmarshal_Marshal: "json_Unmarshal (json_Marshal x) = Some x"
proof -
  have out: "dec_struct dec_output_field
       (JObj ((''image'', JStr (out_Image u)) # enc_ref ''pushSecret'' (out_PushSecret u)))
       (bi_Output zero_inputs) = Some u" for u
    by (cases u) (auto simp: zero_inputs_def omitempty_def enc_ref_def dec_output_field_def
      dec_ref_field_def fold_simps split: option.splits)
  have mode: "dec_struct dec_file_field (JObj [(''mode'', JStr (bf_Mode b))])
       (bi_BuildFile zero_inputs) = Some b" for b
    by (cases b) (simp add: dec_file_field_def zero_inputs_def)
  have "dec_struct dec_inputs_field (enc_inputs x) zero_inputs = Some x"
    using out [of "bi_Output x"] mode [of "bi_BuildFile x"]
    by (simp add: enc_inputs_def dec_inputs_field_def fold_simps inputs_update)
  then show ?thesis
    by (simp add: json_Unmarshal_def json_Marshal_def parse_json_print textual_enc_inputs)
qed

end
