(* ===== verification/Retention.thy ===== *)
theory Retention
  imports API_Types
begin

text \<open>
  \<open>internal/controller/imagebuild/retention.go\<close>: which retention applies to the
  Build of an ImageBuild (its own, or the policy's), and its translation into
  Shipwright's. Limits are 32-bit signed in the API and unsigned 64-bit in
  Shipwright.
\<close>

section \<open>Operations\<close>

definition hasRetentionParams :: "Retention option \<Rightarrow> bool" where
  "hasRetentionParams r =
     (case r of
        None \<Rightarrow> False
      | Some r \<Rightarrow> FailedLimit r \<noteq> None \<or> SucceededLimit r \<noteq> None \<or>
                  TTLAfterFailed r \<noteq> None \<or> TTLAfterSucceeded r \<noteq> None)"

definition resolveRetention :: "ImageBuild \<Rightarrow> ImageBuildPolicy option \<Rightarrow> Retention option" where
  "resolveRetention ib policy =
     (if spec_Retention (ib_Spec ib) \<noteq> None then
        (if \<not> hasRetentionParams (spec_Retention (ib_Spec ib)) then None
         else spec_Retention (ib_Spec ib))
      else
        (case policy of
           None \<Rightarrow> None
         | Some p \<Rightarrow> if hasRetentionParams (ps_Retention (pol_Spec p)) then ps_Retention (pol_Spec p)
                     else None))"

definition uintFromNonNegativeInt32 :: "32 word \<Rightarrow> 64 word" where
  "uintFromNonNegativeInt32 v = (if v <s 0 then 0 else ucast v)"

definition newBuildRetention :: "Retention option \<Rightarrow> BuildRetention option" where
  "newBuildRetention r =
     (case r of
        None \<Rightarrow> None
      | Some r \<Rightarrow> Some
          \<lparr>br_FailedLimit = map_option uintFromNonNegativeInt32 (FailedLimit r),
           br_SucceededLimit = map_option uintFromNonNegativeInt32 (SucceededLimit r),
           br_TTLAfterFailed = TTLAfterFailed r,
           br_TTLAfterSucceeded = TTLAfterSucceeded r\<rparr>)"

section \<open>Lemmas\<close>

lemma hasRetentionParams_None [simp]: "\<not> hasRetentionParams None"
  by (simp add: hasRetentionParams_def)

lemma newBuildRetention_None_iff [simp]: "newBuildRetention r = None \<longleftrightarrow> r = None"
  by (auto simp: newBuildRetention_def split: option.splits)

lemma resolveRetention_params: "resolveRetention ib policy = Some r \<Longrightarrow> hasRetentionParams (Some r)"
  by (auto simp: resolveRetention_def split: if_splits option.splits)

lemma uint_uintFromNonNegativeInt32: "uint (uintFromNonNegativeInt32 v) = max 0 (sint v)"
proof (cases "v <s 0")
  case True
  then show ?thesis by (simp add: uintFromNonNegativeInt32_def word_sless_alt)
next
  case False
  then have nonneg: "0 \<le> sint v" by (simp add: word_sless_alt)
  have eq: "uint v = sint v"
    using nonneg sint_lt [of v] by (simp add: uint_sint take_bit_int_eq_self)
  have "uint (ucast v :: 64 word) = uint v"
    using uint_bounded [of v] by (simp add: unsigned_ucast_eq take_bit_int_eq_self)
  with False nonneg eq show ?thesis by (simp add: uintFromNonNegativeInt32_def)
qed

section \<open>What the Build gets\<close>

lemma uintFromNonNegativeInt32_eq: "uintFromNonNegativeInt32 v = word_of_int (max 0 (sint v))"
  by (metis uint_uintFromNonNegativeInt32 word_of_int_uint)

lemma resolveRetention_eq:
  "resolveRetention ib policy =
     (let chosen = (case spec_Retention (ib_Spec ib) of
                      Some r \<Rightarrow> Some r
                    | None \<Rightarrow> Option.bind policy (\<lambda>p. ps_Retention (pol_Spec p))) in
      if hasRetentionParams chosen then chosen else None)"
  by (auto simp: resolveRetention_def Let_def split: option.splits)

lemma newBuildRetention_Some:
  "newBuildRetention (Some r) = Some
     \<lparr>br_FailedLimit = map_option (\<lambda>v. word_of_int (max 0 (sint v))) (FailedLimit r),
      br_SucceededLimit = map_option (\<lambda>v. word_of_int (max 0 (sint v))) (SucceededLimit r),
      br_TTLAfterFailed = TTLAfterFailed r, br_TTLAfterSucceeded = TTLAfterSucceeded r\<rparr>"
  unfolding newBuildRetention_def option.case
  by (simp only: uintFromNonNegativeInt32_eq [abs_def])

text \<open>
  C35. The retention of the Build is the ImageBuild's own whenever it has one, and the
  policy's only otherwise; one without any parameter counts as none, so that an empty
  retention of the ImageBuild switches the policy's off. Limits are converted without
  wrap-around: a negative 32-bit limit becomes zero, any other keeps its value.
\<close>

theorem build_retention_resolution:
  "newBuildRetention (resolveRetention ib policy) =
     (let chosen = (case spec_Retention (ib_Spec ib) of
                      Some r \<Rightarrow> Some r
                    | None \<Rightarrow> Option.bind policy (\<lambda>p. ps_Retention (pol_Spec p)));
          limit = map_option (\<lambda>v :: 32 word. word_of_int (max 0 (sint v)) :: 64 word) in
      case chosen of
        None \<Rightarrow> None
      | Some r \<Rightarrow>
          if FailedLimit r = None \<and> SucceededLimit r = None \<and>
             TTLAfterFailed r = None \<and> TTLAfterSucceeded r = None
          then None
          else Some \<lparr>br_FailedLimit = limit (FailedLimit r),
                     br_SucceededLimit = limit (SucceededLimit r),
                     br_TTLAfterFailed = TTLAfterFailed r,
                     br_TTLAfterSucceeded = TTLAfterSucceeded r\<rparr>)"
  unfolding resolveRetention_eq Let_def
  by (cases "spec_Retention (ib_Spec ib)";
      cases "Option.bind policy (\<lambda>p. ps_Retention (pol_Spec p))")
    (auto simp: newBuildRetention_Some hasRetentionParams_def)

end
