(* ===== verification/Kube_Client.thy ===== *)
theory Kube_Client
  imports API_Types
begin

text \<open>
  What the operator calls but does not contain: the Kubernetes API through
  controller-runtime's \<open>client.Client\<close>, the helpers of apimachinery, controller-runtime,
  Shipwright and distribution/reference, and the clock. All of it is one record of
  functions, an argument of every definition that uses it; the cluster is a value of
  an arbitrary type \<open>'w\<close> that only those functions touch. Nothing is assumed of them
  unless a lemma says so: a call may fail, may answer differently each time, and
  may see the writes of other actors.

  The section on logging wraps such a client into one that records the requests it
  is sent, with their success, so that what the operator asks of the cluster can be
  stated for every cluster.
\<close>

section \<open>Library helpers without effects\<close>

text \<open>
  \<open>ParseNormalizedNamed\<close> answers with the two observations the code makes on a parsed
  image reference: whether it is \<open>Digested\<close> and whether \<open>IsNameOnly\<close> holds.
\<close>

record Named =
  nm_Digested :: bool
  nm_IsNameOnly :: bool

record lib =
  FindStatusCondition :: "Condition list \<Rightarrow> string \<Rightarrow> Condition option"
  IsControlledBy :: "ObjectMeta \<Rightarrow> ObjectMeta \<Rightarrow> bool"
  SetControllerReference :: "ObjectMeta \<Rightarrow> ObjectMeta \<Rightarrow> go_error + ObjectMeta"
  AlreadyOwnedError_Error :: "ObjectMeta \<Rightarrow> string"
  GetCondition_Succeeded :: "BuildRunStatus \<Rightarrow> BRCondition option"
  IsSuccessful :: "BuildRunStatus \<Rightarrow> bool"
  ParseNormalizedNamed :: "string \<Rightarrow> go_error + Named"

section \<open>The client and the clock\<close>

record 'w client = lib +
  cl_GetImageBuild :: "NamespacedName \<Rightarrow> 'w \<Rightarrow> (go_error + ImageBuild) \<times> 'w"
  cl_GetImageBuildPolicy :: "string \<Rightarrow> 'w \<Rightarrow> (go_error + ImageBuildPolicy) \<times> 'w"
  cl_GetClusterBuildStrategy :: "string \<Rightarrow> 'w \<Rightarrow> (go_error + unit) \<times> 'w"
  cl_GetBuildRun :: "NamespacedName \<Rightarrow> 'w \<Rightarrow> (go_error + BuildRun) \<times> 'w"
  cl_GetSecret :: "NamespacedName \<Rightarrow> 'w \<Rightarrow> (go_error + (string \<rightharpoonup> string)) \<times> 'w"
  cl_ListImageBuilds :: "string \<times> string \<Rightarrow> 'w \<Rightarrow> (go_error + ImageBuild list) \<times> 'w"
  cl_PatchImageBuild :: "ImageBuild \<Rightarrow> ImageBuild \<Rightarrow> 'w \<Rightarrow> (go_error + ImageBuild) \<times> 'w"
  cl_PatchImageBuildStatus :: "ImageBuild \<Rightarrow> ImageBuild \<Rightarrow> 'w \<Rightarrow> (go_error + ImageBuild) \<times> 'w"
  cl_UpdateImageBuild :: "ImageBuild \<Rightarrow> 'w \<Rightarrow> (go_error + ImageBuild) \<times> 'w"
  cl_CreateBuildRun :: "BuildRun \<Rightarrow> 'w \<Rightarrow> (go_error + BuildRun) \<times> 'w"
  cl_CreateOrPatchBuild :: "Build \<Rightarrow> (Build \<Rightarrow> go_error + Build) \<Rightarrow> 'w \<Rightarrow> (go_error + Build) \<times> 'w"
  cl_SetStatusCondition :: "Condition list \<Rightarrow> Condition \<Rightarrow> 'w \<Rightarrow> Condition list \<times> 'w"
  cl_Now :: "'w \<Rightarrow> time \<times> 'w"

text \<open>
  The two arguments of the patch functions are the object \<open>MergeFrom\<close> was given and the
  object as modified in memory; the answer of a successful write is the object the
  server returns, which controller-runtime stores back into the caller's object.
\<close>

section \<open>The reconciler's state\<close>

text \<open>
  A reconcile works on one ImageBuild through a pointer (\<open>rs_ib\<close>) and on the cluster.
\<close>

record 'w rstate =
  rs_ib :: ImageBuild
  rs_world :: 'w

definition call :: "('w \<Rightarrow> 'a \<times> 'w) \<Rightarrow> ('w rstate, 'a) state" where
  "call f = State (\<lambda>s. case f (rs_world s) of (r, w) \<Rightarrow> (r, s\<lparr>rs_world := w\<rparr>))"

definition get_ib :: "('w rstate, ImageBuild) state" where
  "get_ib = State (\<lambda>s. (rs_ib s, s))"

definition put_ib :: "ImageBuild \<Rightarrow> ('w rstate, unit) state" where
  "put_ib ib = State (\<lambda>s. ((), s\<lparr>rs_ib := ib\<rparr>))"

lemma run_call [simp]:
  "run_state (call f) s = (case f (rs_world s) of (r, w) \<Rightarrow> (r, s\<lparr>rs_world := w\<rparr>))"
  by (simp add: call_def)

lemma run_get_ib [simp]: "run_state get_ib s = (rs_ib s, s)"
  by (simp add: get_ib_def)

lemma run_put_ib [simp]: "run_state (put_ib ib) s = ((), s\<lparr>rs_ib := ib\<rparr>)"
  by (simp add: put_ib_def)

text \<open>
  The writes of an ImageBuild: \<open>orig\<close> is the deep copy taken before the modification, the
  object in memory is what is sent, and it is overwritten by the answer.
\<close>

definition patch_status :: "('w, 'z) client_scheme \<Rightarrow> string \<Rightarrow> ImageBuild \<Rightarrow>
    ('w rstate, (go_error, unit) res) state" where
  "patch_status C msg orig = do {
     ib \<leftarrow> get_ib;
     r \<leftarrow> call (cl_PatchImageBuildStatus C orig ib);
     case r of
       Inl e \<Rightarrow> State_Monad.return (Err (wrap msg e))
     | Inr ib' \<Rightarrow> do { _ \<leftarrow> put_ib ib'; State_Monad.return (Ok ()) }
   }"

definition patch_object :: "('w, 'z) client_scheme \<Rightarrow> string \<Rightarrow> ImageBuild \<Rightarrow>
    ('w rstate, (go_error, unit) res) state" where
  "patch_object C msg orig = do {
     ib \<leftarrow> get_ib;
     r \<leftarrow> call (cl_PatchImageBuild C orig ib);
     case r of
       Inl e \<Rightarrow> State_Monad.return (Err (wrap msg e))
     | Inr ib' \<Rightarrow> do { _ \<leftarrow> put_ib ib'; State_Monad.return (Ok ()) }
   }"

definition update_object :: "('w, 'z) client_scheme \<Rightarrow> string \<Rightarrow>
    ('w rstate, (go_error, unit) res) state" where
  "update_object C msg = do {
     ib \<leftarrow> get_ib;
     r \<leftarrow> call (cl_UpdateImageBuild C ib);
     case r of
       Inl e \<Rightarrow> State_Monad.return (Err (wrap msg e))
     | Inr ib' \<Rightarrow> do { _ \<leftarrow> put_ib ib'; State_Monad.return (Ok ()) }
   }"

section \<open>Logging\<close>

datatype api_call =
    GetImageBuild NamespacedName
  | GetImageBuildPolicy string
  | GetClusterBuildStrategy string
  | GetBuildRun NamespacedName "BuildRun option"
  | GetSecret NamespacedName "(string \<rightharpoonup> string) option"
  | ListImageBuilds "string \<times> string"
  | PatchImageBuild ImageBuild ImageBuild
  | PatchImageBuildStatus ImageBuild ImageBuild
  | UpdateImageBuild ImageBuild
  | CreateBuildRun BuildRun
  | CreateOrPatchBuild Build
  | Now time

text \<open>
  An entry of the log is a request with its success. The entry of a Secret also holds
  the data answered, the one of a BuildRun the object, the one of the clock the time read.
\<close>

type_synonym entry = "api_call \<times> bool"
type_synonym 'w logging = "'w \<times> entry list"

definition log_call :: "api_call \<Rightarrow> ('w \<Rightarrow> (go_error + 'a) \<times> 'w) \<Rightarrow>
    'w logging \<Rightarrow> (go_error + 'a) \<times> 'w logging" where
  "log_call c f = (\<lambda>(w, l). case f w of (r, w') \<Rightarrow> (r, w', l @ [(c, \<not> isl r)]))"

definition logged :: "'w client \<Rightarrow> 'w logging client" where
  "logged C =
     \<lparr>FindStatusCondition = FindStatusCondition C,
      IsControlledBy = IsControlledBy C,
      SetControllerReference = SetControllerReference C,
      AlreadyOwnedError_Error = AlreadyOwnedError_Error C,
      GetCondition_Succeeded = GetCondition_Succeeded C,
      IsSuccessful = IsSuccessful C,
      ParseNormalizedNamed = ParseNormalizedNamed C,
      cl_GetImageBuild = (\<lambda>k. log_call (GetImageBuild k) (cl_GetImageBuild C k)),
      cl_GetImageBuildPolicy = (\<lambda>k. log_call (GetImageBuildPolicy k) (cl_GetImageBuildPolicy C k)),
      cl_GetClusterBuildStrategy =
        (\<lambda>k. log_call (GetClusterBuildStrategy k) (cl_GetClusterBuildStrategy C k)),
      cl_GetBuildRun = (\<lambda>k (w, l).
        case cl_GetBuildRun C k w of
          (Inl e, w') \<Rightarrow> (Inl e, w', l @ [(GetBuildRun k None, False)])
        | (Inr br, w') \<Rightarrow> (Inr br, w', l @ [(GetBuildRun k (Some br), True)])),
      cl_GetSecret = (\<lambda>k (w, l).
        case cl_GetSecret C k w of
          (Inl e, w') \<Rightarrow> (Inl e, w', l @ [(GetSecret k None, False)])
        | (Inr d, w') \<Rightarrow> (Inr d, w', l @ [(GetSecret k (Some d), True)])),
      cl_ListImageBuilds = (\<lambda>k. log_call (ListImageBuilds k) (cl_ListImageBuilds C k)),
      cl_PatchImageBuild = (\<lambda>a b. log_call (PatchImageBuild a b) (cl_PatchImageBuild C a b)),
      cl_PatchImageBuildStatus =
        (\<lambda>a b. log_call (PatchImageBuildStatus a b) (cl_PatchImageBuildStatus C a b)),
      cl_UpdateImageBuild = (\<lambda>a. log_call (UpdateImageBuild a) (cl_UpdateImageBuild C a)),
      cl_CreateBuildRun = (\<lambda>b. log_call (CreateBuildRun b) (cl_CreateBuildRun C b)),
      cl_CreateOrPatchBuild =
        (\<lambda>b f. log_call (CreateOrPatchBuild b) (cl_CreateOrPatchBuild C b f)),
      cl_SetStatusCondition =
        (\<lambda>cs c (w, l). case cl_SetStatusCondition C cs c w of (cs', w') \<Rightarrow> (cs', w', l)),
      cl_Now = (\<lambda>(w, l). case cl_Now C w of (t, w') \<Rightarrow> (t, w', l @ [(Now t, True)]))\<rparr>"

lemma logged_lib [simp]:
  "FindStatusCondition (logged C) = FindStatusCondition C"
  "IsControlledBy (logged C) = IsControlledBy C"
  "SetControllerReference (logged C) = SetControllerReference C"
  "AlreadyOwnedError_Error (logged C) = AlreadyOwnedError_Error C"
  "GetCondition_Succeeded (logged C) = GetCondition_Succeeded C"
  "IsSuccessful (logged C) = IsSuccessful C"
  "ParseNormalizedNamed (logged C) = ParseNormalizedNamed C"
  by (simp_all add: logged_def)

abbreviation lg :: "'w logging rstate \<Rightarrow> entry list" where
  "lg s \<equiv> snd (rs_world s)"

subsection \<open>What each primitive logs\<close>

lemma emits_log_call:
  "emits lg (call (log_call c f)) (\<lambda>r l. l = [(c, \<not> isl r)])"
  by (rule emitsI) (auto simp: log_call_def split: prod.splits)

lemma emits_get_ib [emits_rules]: "emits lg get_ib (\<lambda>r l. l = [])"
  by (rule emitsI) auto

lemma emits_put_ib [emits_rules]: "emits lg (put_ib ib) (\<lambda>r l. l = [])"
  by (rule emitsI) auto

lemma emits_calls [emits_rules]:
  "emits lg (call (cl_GetImageBuild (logged C) k)) (\<lambda>r l. l = [(GetImageBuild k, \<not> isl r)])"
  "emits lg (call (cl_GetImageBuildPolicy (logged C) n))
     (\<lambda>r l. l = [(GetImageBuildPolicy n, \<not> isl r)])"
  "emits lg (call (cl_GetClusterBuildStrategy (logged C) n))
     (\<lambda>r l. l = [(GetClusterBuildStrategy n, \<not> isl r)])"
  "emits lg (call (cl_CreateBuildRun (logged C) b)) (\<lambda>r l. l = [(CreateBuildRun b, \<not> isl r)])"
  "emits lg (call (cl_CreateOrPatchBuild (logged C) d f))
     (\<lambda>r l. l = [(CreateOrPatchBuild d, \<not> isl r)])"
  by (simp_all add: logged_def emits_log_call)

lemma emits_SetStatusCondition [emits_rules]:
  "emits lg (call (cl_SetStatusCondition (logged C) cs c)) (\<lambda>r l. l = [])"
  by (rule emitsI) (auto simp: logged_def split: prod.splits)

lemma emits_Now [emits_rules]:
  "emits lg (call (cl_Now (logged C))) (\<lambda>r l. l = [(Now r, True)])"
  by (rule emitsI) (auto simp: logged_def split: prod.splits)

lemma emits_GetBuildRun [emits_rules]:
  "emits lg (call (cl_GetBuildRun (logged C) k))
     (\<lambda>r l. l = [(GetBuildRun k (case r of Inl e \<Rightarrow> None | Inr br \<Rightarrow> Some br), \<not> isl r)])"
  by (rule emitsI) (auto simp: logged_def split: prod.splits sum.splits)

lemma emits_GetSecret [emits_rules]:
  "emits lg (call (cl_GetSecret (logged C) k))
     (\<lambda>r l. l = [(GetSecret k (case r of Inl e \<Rightarrow> None | Inr d \<Rightarrow> Some d), \<not> isl r)])"
  by (rule emitsI) (auto simp: logged_def split: prod.splits sum.splits)

text \<open>A status write appends one entry, whose success is the result's.\<close>

lemma emits_patch_status [emits_rules]:
  "emits lg (patch_status (logged C) msg orig)
     (\<lambda>r l. \<exists>ib. l = [(PatchImageBuildStatus orig ib, is_ok r)] \<and> r \<noteq> Panic)"
  by (rule emitsI)
    (auto simp: patch_status_def logged_def log_call_def split: prod.splits sum.splits)

lemma emits_patch_object [emits_rules]:
  "emits lg (patch_object (logged C) msg orig)
     (\<lambda>r l. \<exists>ib. l = [(PatchImageBuild orig ib, is_ok r)] \<and> r \<noteq> Panic)"
  by (rule emitsI)
    (auto simp: patch_object_def logged_def log_call_def split: prod.splits sum.splits)

lemma emits_update_object [emits_rules]:
  "emits lg (update_object (logged C) msg)
     (\<lambda>r l. \<exists>ib. l = [(UpdateImageBuild ib, is_ok r)] \<and> r \<noteq> Panic)"
  by (rule emitsI)
    (auto simp: update_object_def logged_def log_call_def split: prod.splits sum.splits)

end
