(* ===== verification/Build.thy ===== *)
theory Build
  imports Retention Kube_Client
begin

text \<open>
  \<open>internal/controller/imagebuild/build.go\<close>: the Shipwright Build of an ImageBuild, and
  the operation that brings the one in the cluster to it.
\<close>

section \<open>Operations\<close>

definition buildNameFor :: "ImageBuild \<Rightarrow> string" where
  "buildNameFor ib = ib_Name ib @ ''-build''"

definition newBuild :: "ImageBuild \<Rightarrow> ImageBuildPolicy \<Rightarrow> string \<Rightarrow> Build" where
  "newBuild ib policy strategyName =
     (let src = spec_Source (ib_Spec ib); git = src_Git src; out = spec_Output (ib_Spec ib) in
      \<lparr>build_Meta = new_meta (ib_Namespace ib) (buildNameFor ib)
         [LabelKeyParentImageBuild \<mapsto> ib_Name ib],
       build_Spec =
         \<lparr>bs_Strategy =
            \<lparr>strat_Name = strategyName, strat_Kind = Some ClusterBuildStrategyKind\<rparr>,
          bs_Source = Some
            \<lparr>ssrc_Type = GitType,
             ssrc_Git = Some
               \<lparr>sgit_URL = git_URL git,
                sgit_Revision = (if git_Revision git \<noteq> '''' then Some (git_Revision git) else None),
                sgit_CloneSecret =
                  (case git_CloneSecret git of
                     Some r \<Rightarrow> if lor_Name r \<noteq> '''' then Some (lor_Name r) else None
                   | None \<Rightarrow> None)\<rparr>,
             ssrc_ContextDir = (if src_ContextDir src \<noteq> '''' then Some (src_ContextDir src) else None)\<rparr>,
          bs_Output =
            \<lparr>img_Image = out_Image out,
             img_PushSecret =
               (case out_PushSecret out of
                  Some r \<Rightarrow> if lor_Name r \<noteq> '''' then Some (lor_Name r) else None
                | None \<Rightarrow> None)\<rparr>,
          bs_Retention = newBuildRetention (resolveRetention ib (Some policy))\<rparr>\<rparr>)"

text \<open>The callback given to \<open>CreateOrPatch\<close>.\<close>

definition mutateBuild :: "'z lib_scheme \<Rightarrow> ImageBuild \<Rightarrow> Build \<Rightarrow> Build \<Rightarrow> go_error + Build" where
  "mutateBuild L ib desired actual =
     (case SetControllerReference L (ib_Meta ib) (build_Meta actual) of
        Inl e \<Rightarrow> Inl (wrap (''failed to set controller reference on Build '' @
                          quote (om_Name (build_Meta actual))) e)
      | Inr m \<Rightarrow> Inr (actual
          \<lparr>build_Meta := m\<lparr>om_Labels := om_Labels m ++ om_Labels (build_Meta desired)\<rparr>,
           build_Spec := build_Spec desired\<rparr>))"

text \<open>The Build value the code starts from: a name and a namespace, otherwise zero.\<close>

definition blankBuild :: "Build \<Rightarrow> Build" where
  "blankBuild desired =
     \<lparr>build_Meta = new_meta (om_Namespace (build_Meta desired)) (om_Name (build_Meta desired)) Map.empty,
      build_Spec =
        \<lparr>bs_Strategy = \<lparr>strat_Name = '''', strat_Kind = None\<rparr>, bs_Source = None,
         bs_Output = \<lparr>img_Image = '''', img_PushSecret = None\<rparr>, bs_Retention = None\<rparr>\<rparr>"

definition ensureBuild :: "('w, 'z) client_scheme \<Rightarrow> ImageBuildPolicy \<Rightarrow> string \<Rightarrow>
    ('w rstate, (go_error, unit) res) state" where
  "ensureBuild C policy strategyName = do {
     ib \<leftarrow> get_ib;
     r \<leftarrow> call (cl_GetClusterBuildStrategy C strategyName);
     case r of
       Inl e \<Rightarrow> State_Monad.return
         (Err (wrap (''failed to get ClusterBuildStrategy '' @ quote strategyName) e))
     | Inr _ \<Rightarrow> do {
         let desired = newBuild ib policy strategyName;
         r \<leftarrow> call (cl_CreateOrPatchBuild C (blankBuild desired) (mutateBuild C ib desired));
         case r of
           Inl e \<Rightarrow> State_Monad.return
             (Err (wrap (''failed to create or patch Build '' @
                quote (om_Name (build_Meta desired))) e))
         | Inr _ \<Rightarrow> State_Monad.return (Ok ())
       }
   }"

section \<open>Lemmas\<close>

lemma newBuild_meta [simp]:
  "build_Meta (newBuild ib policy s) =
     new_meta (ib_Namespace ib) (buildNameFor ib) [LabelKeyParentImageBuild \<mapsto> ib_Name ib]"
  by (simp add: newBuild_def Let_def)

lemma buildNameFor_inject: "buildNameFor a = buildNameFor b \<longleftrightarrow> ib_Name a = ib_Name b"
  by (simp add: buildNameFor_def)

lemma emits_ensureBuild [emits_rules]:
  "emits lg (ensureBuild (logged C) policy s)
     (\<lambda>r l. r \<noteq> Panic \<and>
        (\<exists>ib. l = [(GetClusterBuildStrategy s, False)] \<and> \<not> is_ok r \<or>
              l = [(GetClusterBuildStrategy s, True),
                   (CreateOrPatchBuild (blankBuild (newBuild ib policy s)), is_ok r)]))"
  by (rule emitsI)
    (auto simp: ensureBuild_def logged_def log_call_def Let_def split: prod.splits sum.splits)

section \<open>Bringing a Build up to date\<close>

text \<open>
  What the mutation relies on: setting the controller reference succeeds on an object
  the owner controls already and leaves it as it is, whatever its labels; it changes
  owner references only.
\<close>

locale controller_reference =
  fixes L :: "'z lib_scheme"
  assumes keeps: "SetControllerReference L owner m = Inr m' \<Longrightarrow>
      m' = m\<lparr>om_OwnerReferences := om_OwnerReferences m'\<rparr>"
    and again: "SetControllerReference L owner m = Inr m' \<Longrightarrow>
      SetControllerReference L owner (m'\<lparr>om_Labels := ls\<rparr>) = Inr (m'\<lparr>om_Labels := ls\<rparr>)"
begin

lemma mutateBuild_Inr:
  assumes "mutateBuild L ib desired actual = Inr b"
  shows "build_Spec b = build_Spec desired"
    and "om_Labels (build_Meta b) = om_Labels (build_Meta actual) ++ om_Labels (build_Meta desired)"
proof -
  from assms obtain m where m: "SetControllerReference L (ib_Meta ib) (build_Meta actual) = Inr m"
    and b: "b = actual\<lparr>build_Meta := m\<lparr>om_Labels := om_Labels m ++ om_Labels (build_Meta desired)\<rparr>,
      build_Spec := build_Spec desired\<rparr>"
    by (auto simp: mutateBuild_def split: sum.splits)
  from arg_cong [OF keeps [OF m], of om_Labels] have "om_Labels m = om_Labels (build_Meta actual)"
    by simp
  with b show "build_Spec b = build_Spec desired"
    and "om_Labels (build_Meta b) = om_Labels (build_Meta actual) ++ om_Labels (build_Meta desired)"
    by simp_all
qed

lemma mutateBuild_idem:
  assumes "mutateBuild L ib desired actual = Inr b"
  shows "mutateBuild L ib desired b = Inr b"
proof -
  from assms obtain m where m: "SetControllerReference L (ib_Meta ib) (build_Meta actual) = Inr m"
    and b: "b = actual\<lparr>build_Meta := m\<lparr>om_Labels := om_Labels m ++ om_Labels (build_Meta desired)\<rparr>,
      build_Spec := build_Spec desired\<rparr>"
    by (auto simp: mutateBuild_def split: sum.splits)
  have twice: "(x ++ y) ++ y = x ++ y" for x y :: "string \<rightharpoonup> string"
    by (rule ext) (simp add: map_add_def split: option.split)
  from again [OF m, of "om_Labels m ++ om_Labels (build_Meta desired)"] show ?thesis
    by (simp add: mutateBuild_def b twice)
qed

end

text \<open>
  C34. The callback that brings a Build up to date either fails, leaving nothing changed,
  or yields a Build with exactly the wanted spec, with the label that names its ImageBuild,
  and with every label of others kept; and applied to its own result it changes nothing,
  so a reconcile of an unchanged ImageBuild leaves its Build as it is.
\<close>

theorem build_mutation_converges:
  assumes "controller_reference L"
    and "mutateBuild L ib (newBuild ib policy strategy) actual = Inr b"
  shows "build_Spec b = build_Spec (newBuild ib policy strategy) \<and>
     om_Labels (build_Meta b) LabelKeyParentImageBuild = Some (ib_Name ib) \<and>
     (\<forall>k. k \<noteq> LabelKeyParentImageBuild \<longrightarrow>
        om_Labels (build_Meta b) k = om_Labels (build_Meta actual) k) \<and>
     mutateBuild L ib (newBuild ib policy strategy) b = Inr b"
  using controller_reference.mutateBuild_Inr(1,2) [OF assms]
    controller_reference.mutateBuild_idem [OF assms]
  by (simp add: new_meta_def map_add_def)

end
