(* ===== verification/Status.thy ===== *)
theory Status
  imports Build
begin

text \<open>
  \<open>internal/controller/imagebuild/status.go\<close> and \<open>conditions.go\<close>: the writes of an
  ImageBuild's status. Each takes a deep copy of the object, modifies it in memory,
  and sends the difference; on success the object in memory is the server's answer.
\<close>

section \<open>Constants: conditions.go\<close>

definition TypeReady :: string where "TypeReady = ''Ready''"
definition TypeBuildSucceeded :: string where "TypeBuildSucceeded = ''BuildSucceeded''"
definition ReasonBuildReconcileFailed :: string where
  "ReasonBuildReconcileFailed = ''BuildReconcileFailed''"
definition ReasonBuildConflict :: string where "ReasonBuildConflict = ''BuildConflict''"
definition ReasonBuildStrategyNotFound :: string where
  "ReasonBuildStrategyNotFound = ''BuildStrategyNotFound''"
definition ReasonMissingPolicy :: string where "ReasonMissingPolicy = ''MissingPolicy''"
definition ReasonReconciled :: string where "ReasonReconciled = ''Reconciled''"
definition ReasonBuildRunReconcileFailed :: string where
  "ReasonBuildRunReconcileFailed = ''BuildRunReconcileFailed''"
definition ReasonBuildRunConflict :: string where "ReasonBuildRunConflict = ''BuildRunConflict''"
definition ReasonBuildRunPending :: string where "ReasonBuildRunPending = ''BuildRunPending''"
definition ReasonBuildRunRunning :: string where "ReasonBuildRunRunning = ''BuildRunRunning''"
definition ReasonBuildRunSucceeded :: string where
  "ReasonBuildRunSucceeded = ''BuildRunSucceeded''"
definition ReasonBuildRunFailed :: string where "ReasonBuildRunFailed = ''BuildRunFailed''"
definition ReasonOnCommitDisabled :: string where "ReasonOnCommitDisabled = ''OnCommitDisabled''"
definition ReasonWebhookSecretMissing :: string where
  "ReasonWebhookSecretMissing = ''WebhookSecretMissing''"
definition ReasonWebhookSecretInvalidKey :: string where
  "ReasonWebhookSecretInvalidKey = ''WebhookSecretInvalidKey''"
definition ReasonOnCommitBuildTriggered :: string where
  "ReasonOnCommitBuildTriggered = ''OnCommitBuildTriggered''"

lemmas reason_consts [go_consts] =
  TypeReady_def TypeBuildSucceeded_def ReasonBuildReconcileFailed_def ReasonBuildConflict_def
  ReasonBuildStrategyNotFound_def ReasonMissingPolicy_def ReasonReconciled_def
  ReasonBuildRunReconcileFailed_def ReasonBuildRunConflict_def ReasonBuildRunPending_def
  ReasonBuildRunRunning_def ReasonBuildRunSucceeded_def ReasonBuildRunFailed_def
  ReasonOnCommitDisabled_def ReasonWebhookSecretMissing_def ReasonWebhookSecretInvalidKey_def
  ReasonOnCommitBuildTriggered_def

lemma condition_types_distinct [simp]:
  "TypeReady \<noteq> TypeBuildSucceeded" "TypeBuildSucceeded \<noteq> TypeReady"
  by (simp_all add: go_consts)

section \<open>What a BuildRun reports\<close>

definition deriveConditionMessage :: "string \<Rightarrow> BRCondition \<Rightarrow> string" where
  "deriveConditionMessage prefix cond =
     (let msg = TrimSpace (brc_Message cond) in
      if msg \<noteq> '''' then prefix @ '': '' @ msg else prefix)"

definition deriveBuildSucceededStatus :: "'z lib_scheme \<Rightarrow> BuildRun \<Rightarrow> string \<times> string \<times> string" where
  "deriveBuildSucceededStatus L br =
     (case GetCondition_Succeeded L (br_Status br) of
        None \<Rightarrow> (ConditionUnknown, ReasonBuildRunPending, ''BuildRun has not reported status yet'')
      | Some c \<Rightarrow>
          if brc_Status c = ConditionTrue
            then (ConditionTrue, ReasonBuildRunSucceeded, ''BuildRun succeeded'')
          else if brc_Status c = ConditionFalse
            then (ConditionFalse, ReasonBuildRunFailed, deriveConditionMessage ''BuildRun failed'' c)
          else (ConditionUnknown, ReasonBuildRunRunning,
                deriveConditionMessage ''BuildRun is running'' c))"

section \<open>Status writes\<close>

definition set_ObservedGeneration :: "ImageBuild \<Rightarrow> ImageBuild" where
  "set_ObservedGeneration ib =
     ib\<lparr>ib_Status := (ib_Status ib)\<lparr>st_ObservedGeneration := ib_Generation ib\<rparr>\<rparr>"

definition new_condition :: "string \<Rightarrow> string \<Rightarrow> string \<Rightarrow> string \<Rightarrow> 64 word \<Rightarrow> Condition" where
  "new_condition t st reason message gen =
     \<lparr>cond_Type = t, cond_Status = st, cond_ObservedGeneration = gen,
      cond_LastTransitionTime = 0, cond_Reason = reason, cond_Message = message\<rparr>"

text \<open>\<open>meta.SetStatusCondition(&ib.Status.Conditions, cond)\<close>\<close>

definition set_status_condition :: "('w, 'z) client_scheme \<Rightarrow> Condition \<Rightarrow> ('w rstate, unit) state" where
  "set_status_condition C cond = do {
     ib \<leftarrow> get_ib;
     conds \<leftarrow> call (cl_SetStatusCondition C (st_Conditions (ib_Status ib)) cond);
     put_ib (ib\<lparr>ib_Status := (ib_Status ib)\<lparr>st_Conditions := conds\<rparr>\<rparr>)
   }"

definition patchReadyCondition :: "('w, 'z) client_scheme \<Rightarrow> string \<Rightarrow> string \<Rightarrow> string \<Rightarrow>
    ('w rstate, (go_error, unit) res) state" where
  "patchReadyCondition C status reason message = do {
     orig \<leftarrow> get_ib;
     _ \<leftarrow> put_ib (set_ObservedGeneration orig);
     _ \<leftarrow> set_status_condition C
            (new_condition TypeReady status reason message (ib_Generation orig));
     patch_status C ''failed to patch Ready condition status'' orig
   }"

definition setNotReady :: "('w, 'z) client_scheme \<Rightarrow> string \<Rightarrow> string \<Rightarrow> ('w rstate, unit) state" where
  "setNotReady C reason message = do {
     _ \<leftarrow> patchReadyCondition C ConditionFalse reason message;
     State_Monad.return ()
   }"

definition patchBuildRef :: "('w, 'z) client_scheme \<Rightarrow> ('w rstate, (go_error, unit) res) state" where
  "patchBuildRef C = do {
     ib \<leftarrow> get_ib;
     let buildRef = buildNameFor ib;
     if st_BuildRef (ib_Status ib) = buildRef \<and>
        st_ObservedGeneration (ib_Status ib) = ib_Generation ib
     then State_Monad.return (Ok ())
     else do {
       _ \<leftarrow> put_ib (ib\<lparr>ib_Status := (ib_Status ib)
              \<lparr>st_ObservedGeneration := ib_Generation ib, st_BuildRef := buildRef\<rparr>\<rparr>);
       patch_status C ''failed to patch ImageBuild status'' ib
     }
   }"

definition patchBuildSucceededCondition :: "('w, 'z) client_scheme \<Rightarrow> BuildRun \<Rightarrow>
    ('w rstate, (go_error, unit) res) state" where
  "patchBuildSucceededCondition C br = do {
     orig \<leftarrow> get_ib;
     _ \<leftarrow> put_ib (orig\<lparr>ib_Status := (ib_Status orig)
            \<lparr>st_ObservedGeneration := ib_Generation orig, st_LastBuildRunRef := br_Name br\<rparr>\<rparr>);
     let (status, reason, message) = deriveBuildSucceededStatus C br;
     _ \<leftarrow> set_status_condition C
            (new_condition TypeBuildSucceeded status reason message (ib_Generation orig));
     patch_status C ''failed to patch BuildSucceeded condition status'' orig
   }"

definition patchLatestImage :: "('w, 'z) client_scheme \<Rightarrow> string \<Rightarrow>
    ('w rstate, (go_error, unit) res) state" where
  "patchLatestImage C latestImage =
     (if latestImage = '''' then State_Monad.return (Ok ())
      else do {
        orig \<leftarrow> get_ib;
        _ \<leftarrow> put_ib (orig\<lparr>ib_Status := (ib_Status orig)
               \<lparr>st_ObservedGeneration := ib_Generation orig, st_LatestImage := latestImage\<rparr>\<rparr>);
        patch_status C ''failed to patch latest image status'' orig
      })"

end
