(* ===== verification/Build_Run.thy ===== *)
theory Build_Run
  imports Json Status
begin

text \<open>
  \<open>internal/controller/imagebuild/buildrun.go\<close>: the BuildRuns of an ImageBuild, their
  names, the detection of a changed spec, and the image a run produced.
\<close>

section \<open>Names and counters\<close>

definition nextCounter :: "64 word \<Rightarrow> 64 word" where
  "nextCounter current = (if current <s 0 then 1 else current + 1)"

definition buildRunNameFor :: "ImageBuild \<Rightarrow> 64 word \<Rightarrow> string" where
  "buildRunNameFor ib counter = ib_Name ib @ ''-buildrun-'' @ show_int (sint counter)"

definition newBuildRun :: "ImageBuild \<Rightarrow> 64 word \<Rightarrow> BuildRun" where
  "newBuildRun ib counter =
     \<lparr>br_Meta = new_meta (ib_Namespace ib) (buildRunNameFor ib counter)
        [LabelKeyParentImageBuild \<mapsto> ib_Name ib],
      br_BuildName = Some (buildNameFor ib),
      br_Status = \<lparr>brs_Conditions = [], brs_Output = None\<rparr>\<rparr>"

section \<open>The image of a run\<close>

definition isTagOrDigestPresent :: "'z lib_scheme \<Rightarrow> string \<Rightarrow> bool" where
  "isTagOrDigestPresent L img =
     (case ParseNormalizedNamed L img of
        Inl e \<Rightarrow> False
      | Inr parsed \<Rightarrow> if nm_Digested parsed then True else \<not> nm_IsNameOnly parsed)"

definition computeLatestImage :: "'z lib_scheme \<Rightarrow> ImageBuild \<Rightarrow> BuildRun \<Rightarrow> string" where
  "computeLatestImage L ib br =
     (let img = out_Image (spec_Output (ib_Spec ib));
          digest = (case brs_Output (br_Status br) of None \<Rightarrow> '''' | Some u \<Rightarrow> bro_Digest u) in
      if digest \<noteq> '''' then img @ ''@'' @ digest
      else if isTagOrDigestPresent L img then img
      else '''')"

section \<open>The recorded spec\<close>

definition inputs_of :: "ImageBuild \<Rightarrow> buildInputs" where
  "inputs_of ib =
     \<lparr>bi_Source = spec_Source (ib_Spec ib), bi_BuildFile = spec_BuildFile (ib_Spec ib),
      bi_Output = spec_Output (ib_Spec ib)\<rparr>"

definition isSpecDrifted :: "ImageBuild \<Rightarrow> bool" where
  "isSpecDrifted ib =
     (if st_LastBuildRunRef (ib_Status ib) = '''' then True
      else
        (case om_Annotations (ib_Meta ib) AnnotationKeyLastBuildSpec of
           None \<Rightarrow> True
         | Some lastSpecJSON \<Rightarrow>
             (case json_Unmarshal lastSpecJSON of
                None \<Rightarrow> True
              | Some lastInputs \<Rightarrow>
                  spec_Source (ib_Spec ib) \<noteq> bi_Source lastInputs \<or>
                  spec_BuildFile (ib_Spec ib) \<noteq> bi_BuildFile lastInputs \<or>
                  spec_Output (ib_Spec ib) \<noteq> bi_Output lastInputs)))"

text \<open>Marshalling a struct of strings does not fail, so neither does this function.\<close>

definition recordBuildSpec :: "ImageBuild \<Rightarrow> (go_error, ImageBuild) res" where
  "recordBuildSpec ib =
     Ok (ib\<lparr>ib_Meta := (ib_Meta ib)
       \<lparr>om_Annotations :=
          (om_Annotations (ib_Meta ib))(AnnotationKeyLastBuildSpec \<mapsto> json_Marshal (inputs_of ib))\<rparr>\<rparr>)"

section \<open>Lookups and creation\<close>

definition getLastBuildRun :: "('w, 'z) client_scheme \<Rightarrow>
    ('w rstate, (go_error, BuildRun option) res) state" where
  "getLastBuildRun C = do {
     ib \<leftarrow> get_ib;
     let ref = st_LastBuildRunRef (ib_Status ib);
     if ref = '''' then State_Monad.return (Ok None)
     else do {
       r \<leftarrow> call (cl_GetBuildRun C \<lparr>nn_Namespace = ib_Namespace ib, nn_Name = ref\<rparr>);
       case r of
         Inl e \<Rightarrow> State_Monad.return
           (if IsNotFound e then Ok None else Err (wrap (''failed to get BuildRun '' @ quote ref) e))
       | Inr br \<Rightarrow> State_Monad.return (Ok (Some br))
     }
   }"

definition getOrCreateBuildRun :: "('w, 'z) client_scheme \<Rightarrow> BuildRun \<Rightarrow>
    ('w rstate, (go_error, BuildRun \<times> bool) res) state" where
  "getOrCreateBuildRun C desired = do {
     ib \<leftarrow> get_ib;
     let name = br_Name desired;
     r \<leftarrow> call (cl_GetBuildRun C (ObjectKeyOf (br_Meta desired)));
     case r of
       Inr existing \<Rightarrow> State_Monad.return
         (if \<not> IsControlledBy C (br_Meta existing) (ib_Meta ib)
          then Err (LibError AlreadyOwned (AlreadyOwnedError_Error C (br_Meta existing)))
          else Ok (existing, False))
     | Inl e \<Rightarrow>
         if \<not> IsNotFound e
         then State_Monad.return (Err (wrap (''failed to get BuildRun '' @ quote name) e))
         else
           (case SetControllerReference C (ib_Meta ib) (br_Meta desired) of
              Inl e \<Rightarrow> State_Monad.return
                (Err (wrap (''failed to set controller reference on BuildRun '' @ quote name) e))
            | Inr m \<Rightarrow> do {
                r \<leftarrow> call (cl_CreateBuildRun C (desired\<lparr>br_Meta := m\<rparr>));
                case r of
                  Inl e \<Rightarrow> State_Monad.return
                    (Err (wrap (''failed to create BuildRun '' @ quote name) e))
                | Inr br \<Rightarrow> State_Monad.return (Ok (br, True))
              })
   }"

definition ensureBuildRun :: "('w, 'z) client_scheme \<Rightarrow>
    ('w rstate, (go_error, BuildRun) res) state" where
  "ensureBuildRun C = do {
     ib \<leftarrow> get_ib;
     let counter = nextCounter (st_BuildRunCounter (ib_Status ib));
     bind_res (getOrCreateBuildRun C (newBuildRun ib counter)) (\<lambda>(br, created).
       if \<not> created then State_Monad.return (Ok br)
       else do {
         orig \<leftarrow> get_ib;
         _ \<leftarrow> put_ib (orig\<lparr>ib_Status := (ib_Status orig)\<lparr>st_BuildRunCounter := counter\<rparr>\<rparr>);
         r \<leftarrow> patch_status C ''failed to patch BuildRunCounter status'' orig;
         State_Monad.return (map_res (\<lambda>_. br) r)
       })
   }"

section \<open>Drift\<close>

lemma inputs_of_eq_iff:
  "inputs_of a = inputs_of b \<longleftrightarrow>
     spec_Source (ib_Spec a) = spec_Source (ib_Spec b) \<and>
     spec_BuildFile (ib_Spec a) = spec_BuildFile (ib_Spec b) \<and>
     spec_Output (ib_Spec a) = spec_Output (ib_Spec b)"
  by (simp add: inputs_of_def)

lemma isSpecDrifted_recorded:
  "om_Annotations (ib_Meta ib) AnnotationKeyLastBuildSpec = Some (json_Marshal x) \<Longrightarrow>
     isSpecDrifted ib \<longleftrightarrow> st_LastBuildRunRef (ib_Status ib) = '''' \<or> inputs_of ib \<noteq> x"
  by (cases x) (auto simp: isSpecDrifted_def json_Unmarshal_Marshal inputs_of_def)

text \<open>
  C18. Recording the build spec never fails, and from then on an ImageBuild counts as
  drifted exactly when it refers to no run or one of the three recorded parts of its
  spec (source, build file, output) has changed: the JSON text in the annotation loses
  nothing of them, and no other part of the object matters.
\<close>

theorem drift_detection_exact:
  "\<exists>ib'. recordBuildSpec ib = Ok ib' \<and>
     (\<forall>sp st. \<not> isSpecDrifted (ib'\<lparr>ib_Spec := sp, ib_Status := st\<rparr>) \<longleftrightarrow>
        st_LastBuildRunRef st \<noteq> '''' \<and>
        spec_Source sp = spec_Source (ib_Spec ib) \<and>
        spec_BuildFile sp = spec_BuildFile (ib_Spec ib) \<and>
        spec_Output sp = spec_Output (ib_Spec ib))"
  by (auto simp: recordBuildSpec_def isSpecDrifted_recorded inputs_of_def)

section \<open>The counter and the names\<close>

lemma sint_Suc_word:
  fixes c :: "64 word"
  assumes "sint c < 2 ^ 63 - 1"
  shows "sint (c + 1) = sint c + 1"
  using assms sint_ge [of c] by (simp add: sint_word_ariths(1) signed_take_bit_int_eq_self_iff
      signed_take_bit_int_eq_self)

text \<open>
  C40. The successor of a counter is positive, with one exception: at the largest 64-bit
  value the addition wraps to the smallest one, from which the next call starts over
  at 1. A negative counter also restarts at 1.
\<close>

theorem nextCounter_value:
  "sint (nextCounter c) =
     (if sint c < 0 then 1 else if sint c = 2 ^ 63 - 1 then - (2 ^ 63) else sint c + 1)"
proof (cases "sint c = 2 ^ 63 - 1")
  case True
  then have c: "c = 0x7FFFFFFFFFFFFFFF" by (intro signed_word_eqI) simp
  show ?thesis unfolding nextCounter_def by (simp add: c word_sless_alt)
next
  case False
  then have "sint c < 2 ^ 63 - 1" using sint_lt [of c] by simp
  with False sint_Suc_word [of c] show ?thesis
    by (simp add: nextCounter_def word_sless_alt)
qed

lemma nextCounter_neq: "nextCounter c \<noteq> c"
  by (auto simp: nextCounter_def word_sless_alt)

text \<open>
  What the two flows that create runs share: a run wanted for a counter is named after
  the ImageBuild, a mark of the flow, and the counter; it refers to the ImageBuild's
  Build and carries its name as a label.
\<close>

locale run_flow =
  fixes desired :: "ImageBuild \<Rightarrow> 64 word \<Rightarrow> BuildRun"
    and mark :: string
  assumes name: "br_Name (desired ib c) = ib_Name ib @ mark @ ''-'' @ show_int (sint c)"
    and namespace: "om_Namespace (br_Meta (desired ib c)) = ib_Namespace ib"
    and parent: "om_Labels (br_Meta (desired ib c)) LabelKeyParentImageBuild = Some (ib_Name ib)"
    and build: "br_BuildName (desired ib c) = Some (buildNameFor ib)"
begin

lemma name_inject:
  assumes "0 \<le> sint c" and "0 \<le> sint d"
  shows "br_Name (desired a c) = br_Name (desired b d) \<longleftrightarrow> ib_Name a = ib_Name b \<and> c = d"
  using split_at_last_sep [of "ib_Name a @ mark" "CHR ''-''" "show_int (sint c)"
      "ib_Name b @ mark" "show_int (sint d)"] assms
  by (auto simp: name show_int_no_dash intro: signed_word_eqI)

lemma key_inject:
  "0 \<le> sint c \<Longrightarrow> 0 \<le> sint d \<Longrightarrow>
     ObjectKeyOf (br_Meta (desired a c)) = ObjectKeyOf (br_Meta (desired b d)) \<longleftrightarrow>
     ObjectKeyOf (ib_Meta a) = ObjectKeyOf (ib_Meta b) \<and> c = d"
  by (auto simp: ObjectKeyOf_def namespace name_inject)

lemma next_key_fresh:
  "ObjectKeyOf (br_Meta (desired ib (nextCounter c))) \<noteq> ObjectKeyOf (br_Meta (desired ib c))"
  using nextCounter_neq [of c] by (auto simp: ObjectKeyOf_def name dest: signed_word_eqI)

end

interpretation spec_flow: run_flow newBuildRun "''-buildrun''"
  by unfold_locales (simp_all add: newBuildRun_def buildRunNameFor_def new_meta_def)

end
