(* ===== verification/On_Commit.thy ===== *)
theory On_Commit
  imports Build_Run
begin

text \<open>
  \<open>internal/controller/imagebuild/oncommit.go\<close>: rebuilds triggered by a commit. The
  webhook leaves a pending commit in the status; a reconcile waits for the debounce
  and the minimal interval, drops a commit already built, waits for an active run,
  and else creates the run and marks the commit as triggered.
\<close>

definition onCommitDebounce :: duration where
  "onCommitDebounce = 10 * second"

definition onCommitMinInterval :: duration where
  "onCommitMinInterval = 30 * second"

section \<open>The label that lets the webhook find an ImageBuild\<close>

definition onCommitLabelValue :: "ImageBuild \<Rightarrow> string" where
  \<comment> \<open>the local variable \<open>desired\<close> of \<open>ensureOnCommitLabel\<close>\<close>
  "onCommitLabelValue ib =
     (case spec_Rebuild (ib_Spec ib) of
        None \<Rightarrow> ''false''
      | Some rb \<Rightarrow> if rb_Mode rb = ImageBuildRebuildModeOnCommit then ''true'' else ''false'')"

definition ensureOnCommitLabel :: "('w, 'z) client_scheme \<Rightarrow>
    ('w rstate, (go_error, unit) res) state" where
  "ensureOnCommitLabel C = do {
     ib \<leftarrow> get_ib;
     let desired = onCommitLabelValue ib;
     if (case om_Labels (ib_Meta ib) LabelKeyOnCommitEnabled of None \<Rightarrow> '''' | Some v \<Rightarrow> v) = desired
     then State_Monad.return (Ok ())
     else do {
       _ \<leftarrow> put_ib (ib\<lparr>ib_Meta := (ib_Meta ib)
              \<lparr>om_Labels := (om_Labels (ib_Meta ib))(LabelKeyOnCommitEnabled \<mapsto> desired)\<rparr>\<rparr>);
       patch_object C ''failed to patch oncommit label'' ib
     }
   }"

section \<open>Whether to trigger\<close>

definition isRebuildEnabled :: "ImageBuild \<Rightarrow> bool" where
  "isRebuildEnabled ib \<longleftrightarrow>
     (case spec_Rebuild (ib_Spec ib) of
        None \<Rightarrow> False
      | Some rb \<Rightarrow> rb_Mode rb = ImageBuildRebuildModeOnCommit) \<and>
     (case st_OnCommit (ib_Status ib) of None \<Rightarrow> False | Some oc \<Rightarrow> ocs_Pending oc \<noteq> None)"

text \<open>\<open>time.Until(t)\<close>, kept when positive.\<close>

definition positiveUntil :: "('w, 'z) client_scheme \<Rightarrow> time \<Rightarrow> ('w rstate, duration option) state" where
  "positiveUntil C t = do {
     now \<leftarrow> call (cl_Now C);
     let remaining = time_Sub t now;
     State_Monad.return (if remaining > 0 then Some remaining else None)
   }"

text \<open>The dereferences of \<open>ib.Status.OnCommit.Pending\<close> are the two panics.\<close>

definition remainingWait :: "('w, 'z) client_scheme \<Rightarrow>
    ('w rstate, (go_error, duration option) res) state" where
  "remainingWait C = do {
     ib \<leftarrow> get_ib;
     case st_OnCommit (ib_Status ib) of
       None \<Rightarrow> State_Monad.return Panic
     | Some oc \<Rightarrow>
         (case ocs_Pending oc of
            None \<Rightarrow> State_Monad.return Panic
          | Some p \<Rightarrow> do {
              let receivedAt = ev_ReceivedAt p;
              w \<leftarrow> (if \<not> IsZero receivedAt
                    then positiveUntil C (time_Add receivedAt onCommitDebounce)
                    else State_Monad.return None);
              case w of
                Some remaining \<Rightarrow> State_Monad.return (Ok (Some remaining))
              | None \<Rightarrow>
                  (case ocs_LastTriggeredBuildRun oc of
                     None \<Rightarrow> State_Monad.return (Ok None)
                   | Some lt \<Rightarrow>
                       if \<not> IsZero (lt_TriggeredAt lt)
                       then do {
                         w \<leftarrow> positiveUntil C (time_Add (lt_TriggeredAt lt) onCommitMinInterval);
                         State_Monad.return (Ok w)
                       }
                       else State_Monad.return (Ok None))
            })
   }"

definition isDuplicateCommit :: "ImageBuild \<Rightarrow> string \<Rightarrow> (go_error, bool) res" where
  "isDuplicateCommit ib commitSHA =
     (case st_OnCommit (ib_Status ib) of
        None \<Rightarrow> Panic
      | Some oc \<Rightarrow>
          (case ocs_LastTriggeredBuildRun oc of
             None \<Rightarrow> Ok False
           | Some lt \<Rightarrow> Ok (lt_CommitSHA lt = commitSHA)))"

definition isActiveBuildRun :: "'z lib_scheme \<Rightarrow> BuildRun \<Rightarrow> bool" where
  "isActiveBuildRun L br =
     (case GetCondition_Succeeded L (br_Status br) of
        None \<Rightarrow> True
      | Some c \<Rightarrow> brc_Status c \<noteq> ConditionTrue \<and> brc_Status c \<noteq> ConditionFalse)"

definition getActiveBuildRun :: "('w, 'z) client_scheme \<Rightarrow>
    ('w rstate, (go_error, BuildRun option) res) state" where
  "getActiveBuildRun C =
     bind_res (getLastBuildRun C) (\<lambda>last. do {
       ib \<leftarrow> get_ib;
       State_Monad.return
         (case last of
            None \<Rightarrow> Ok None
          | Some active \<Rightarrow>
              if IsControlledBy C (br_Meta active) (ib_Meta ib) \<and> isActiveBuildRun C active
              then Ok (Some active) else Ok None)
     })"

section \<open>Triggering\<close>

definition onCommitBuildRun :: "ImageBuild \<Rightarrow> 64 word \<Rightarrow> BuildRun" where
  \<comment> \<open>the variable \<open>desired\<close> of \<open>ensureOnCommitBuildRun\<close>\<close>
  "onCommitBuildRun ib counter =
     (let br = newBuildRun ib counter; m = br_Meta br in
      br\<lparr>br_Meta := m
        \<lparr>om_Name := ib_Name ib @ ''-buildrun-oncommit-'' @ show_int (sint counter),
         om_Labels := (om_Labels m)(LabelKeyRebuildMode \<mapsto> ImageBuildRebuildModeOnCommit)\<rparr>\<rparr>)"

definition upd_OnCommit :: "(ImageBuildOnCommitStatus \<Rightarrow> ImageBuildOnCommitStatus) \<Rightarrow>
    ImageBuild \<Rightarrow> ImageBuild" where
  "upd_OnCommit f ib =
     ib\<lparr>ib_Status := (ib_Status ib)\<lparr>st_OnCommit := map_option f (st_OnCommit (ib_Status ib))\<rparr>\<rparr>"

definition patchOnCommitTriggered :: "('w, 'z) client_scheme \<Rightarrow> BuildRun \<Rightarrow> 64 word \<Rightarrow> string \<Rightarrow>
    ('w rstate, (go_error, unit) res) state" where
  "patchOnCommitTriggered C br triggerCounter commitSHA = do {
     orig \<leftarrow> get_ib;
     if st_OnCommit (ib_Status orig) = None then State_Monad.return Panic
     else do {
       now \<leftarrow> call (cl_Now C);
       _ \<leftarrow> put_ib (upd_OnCommit (\<lambda>oc. oc
              \<lparr>ocs_TriggerCounter := triggerCounter,
               ocs_LastTriggeredBuildRun := Some
                 \<lparr>lt_Name = br_Name br, lt_CommitSHA = commitSHA, lt_TriggeredAt = now\<rparr>,
               ocs_Pending := None\<rparr>) orig);
       patch_status C ''failed to patch on-commit triggered status'' orig
     }
   }"

definition ensureOnCommitBuildRun :: "('w, 'z) client_scheme \<Rightarrow> string \<Rightarrow>
    ('w rstate, (go_error, BuildRun option \<times> duration option) res) state" where
  "ensureOnCommitBuildRun C commitSHA = do {
     ib \<leftarrow> get_ib;
     case st_OnCommit (ib_Status ib) of
       None \<Rightarrow> State_Monad.return Panic
     | Some oc \<Rightarrow> do {
         let counter = nextCounter (ocs_TriggerCounter oc);
         bind_res (getOrCreateBuildRun C (onCommitBuildRun ib counter)) (\<lambda>(br, created).
           if \<not> created then State_Monad.return (Ok (Some br, None))
           else do {
             r \<leftarrow> patchOnCommitTriggered C br counter commitSHA;
             State_Monad.return
               (map_err (wrap (''failed to mark triggered for BuildRun '' @ quote (br_Name br)))
                 (map_res (\<lambda>_. (Some br, None)) r))
           })
       }
   }"

definition reconcileOnCommitBuildRun :: "('w, 'z) client_scheme \<Rightarrow>
    ('w rstate, (go_error, BuildRun option \<times> duration option) res) state" where
  "reconcileOnCommitBuildRun C = do {
     ib \<leftarrow> get_ib;
     if \<not> isRebuildEnabled ib then State_Monad.return (Ok (None, None))
     else bind_res (remainingWait C) (\<lambda>remaining.
       case remaining of
         Some d \<Rightarrow> State_Monad.return (Ok (None, Some d))
       | None \<Rightarrow>
           (case Option.bind (st_OnCommit (ib_Status ib)) ocs_Pending of
              None \<Rightarrow> State_Monad.return Panic
            | Some p \<Rightarrow>
                let pendingCommit = ev_CommitSHA p in
                bind_res (State_Monad.return (isDuplicateCommit ib pendingCommit)) (\<lambda>dup.
                  if dup then do {
                    _ \<leftarrow> put_ib (upd_OnCommit (\<lambda>oc. oc\<lparr>ocs_Pending := None\<rparr>) ib);
                    r \<leftarrow> patch_status C ''failed to clear pending commit status'' ib;
                    State_Monad.return (map_res (\<lambda>_. (None, None)) r)
                  }
                  else bind_res (getActiveBuildRun C) (\<lambda>active.
                    case active of
                      Some br \<Rightarrow> State_Monad.return (Ok (Some br, None))
                    | None \<Rightarrow> ensureOnCommitBuildRun C pendingCommit))))
   }"

section \<open>The two flows\<close>

interpretation commit_flow: run_flow onCommitBuildRun "''-buildrun-oncommit''"
  by unfold_locales
    (simp_all add: onCommitBuildRun_def newBuildRun_def new_meta_def go_consts)

lemma flows_apart:
  assumes "0 \<le> sint c" and "0 \<le> sint d"
  shows "br_Name (newBuildRun a c) \<noteq> br_Name (onCommitBuildRun b d)"
proof
  assume "br_Name (newBuildRun a c) = br_Name (onCommitBuildRun b d)"
  then have "ib_Name a @ ''-buildrun'' = ib_Name b @ ''-buildrun-oncommit''"
    using split_at_last_sep [of "ib_Name a @ ''-buildrun''" "CHR ''-''" "show_int (sint c)"
        "ib_Name b @ ''-buildrun-oncommit''" "show_int (sint d)"] assms
    by (simp add: spec_flow.name commit_flow.name show_int_no_dash)
  then have "rev (ib_Name a @ ''-buildrun'') = rev (ib_Name b @ ''-buildrun-oncommit'')"
    by (rule arg_cong)
  then show False by simp
qed

text \<open>
  C23. The names of runs do not collide, as long as the counters are not negative: two
  runs of one flow have the same key only for the same ImageBuild and the same counter,
  and a run of the spec flow never has the key of a run of the on-commit flow, whatever
  the names of the ImageBuilds are. So a run found under a wanted name is not one
  that another ImageBuild of the operator has created.
\<close>

theorem run_names_unique:
  assumes "0 \<le> sint c" and "0 \<le> sint d"
  shows "(ObjectKeyOf (br_Meta (newBuildRun a c)) = ObjectKeyOf (br_Meta (newBuildRun b d)) \<longleftrightarrow>
            ObjectKeyOf (ib_Meta a) = ObjectKeyOf (ib_Meta b) \<and> c = d) \<and>
         (ObjectKeyOf (br_Meta (onCommitBuildRun a c)) = ObjectKeyOf (br_Meta (onCommitBuildRun b d)) \<longleftrightarrow>
            ObjectKeyOf (ib_Meta a) = ObjectKeyOf (ib_Meta b) \<and> c = d) \<and>
         ObjectKeyOf (br_Meta (newBuildRun a c)) \<noteq> ObjectKeyOf (br_Meta (onCommitBuildRun b d))"
  using spec_flow.key_inject [OF assms] commit_flow.key_inject [OF assms] flows_apart [OF assms]
  by (auto simp: ObjectKeyOf_def)

text \<open>
  C39. A run counts as active, so that no on-commit run is started beside it, exactly
  when the BuildSucceeded condition derived from it is Unknown, on which the reconcile
  polls: the two readings of a run's status agree.
\<close>

theorem active_iff_unknown:
  "isActiveBuildRun L br \<longleftrightarrow> fst (deriveBuildSucceededStatus L br) = ConditionUnknown"
  by (auto simp: isActiveBuildRun_def deriveBuildSucceededStatus_def split: option.splits)

end
