(* ===== verification/Controller.thy ===== *)
theory Controller
  imports On_Commit
begin

text \<open>
  \<open>internal/controller/imagebuild/controller.go\<close>: one reconcile of an ImageBuild, from
  the label and the webhook secret over the Build and the BuildRun to the status.
\<close>

definition policyName :: string where
  "policyName = ''image-build-policy''"

definition buildRunPollInterval :: duration where
  "buildRunPollInterval = 10 * second"

definition errorRequeueInterval :: duration where
  "errorRequeueInterval = 30 * second"

section \<open>The steps\<close>

definition validateWebhookSecret :: "('w, 'z) client_scheme \<Rightarrow>
    ('w rstate, (go_error, unit) res) state" where
  "validateWebhookSecret C = do {
     ib \<leftarrow> get_ib;
     case spec_OnCommit (ib_Spec ib) of
       None \<Rightarrow> State_Monad.return (Ok ())
     | Some oc \<Rightarrow> do {
         let secretName = sel_Name (oc_WebhookSecretRef oc);
         let secretKey = sel_Key (oc_WebhookSecretRef oc);
         r \<leftarrow> call (cl_GetSecret C \<lparr>nn_Namespace = ib_Namespace ib, nn_Name = secretName\<rparr>);
         case r of
           Inl e \<Rightarrow>
             if IsNotFound e then do {
               _ \<leftarrow> setNotReady C ReasonWebhookSecretMissing
                      (''WebhookSecret '' @ quote secretName @ '' not found'');
               State_Monad.return
                 (Err (wrap_text (Sentinel errWebhookSecretMissing) ('': '' @ quote secretName)))
             }
             else State_Monad.return
               (Err (wrap (''failed to get webhook secret '' @ quote secretName) e))
         | Inr secretData \<Rightarrow>
             if secretData secretKey = None then do {
               _ \<leftarrow> setNotReady C ReasonWebhookSecretInvalidKey
                      (''WebhookSecret '' @ quote secretName @ '' missing key '' @ quote secretKey);
               State_Monad.return
                 (Err (wrap_text (Sentinel errWebhookSecretInvalidKey)
                    ('': key '' @ quote secretKey @ '' in secret '' @ quote secretName)))
             }
             else State_Monad.return (Ok ())
       }
   }"

definition selectedStrategyName :: "ImageBuild \<Rightarrow> ImageBuildPolicy \<Rightarrow> string" where
  "selectedStrategyName ib policy =
     (let bf = cs_BuildFile (ps_ClusterBuildStrategy (pol_Spec policy)) in
      if bf_Mode (spec_BuildFile (ib_Spec ib)) = ImageBuildFileModePresent
      then bfs_Present bf else bfs_Absent bf)"

definition buildFailureReason :: "go_error \<Rightarrow> string" where
  "buildFailureReason e =
     (if IsNotFound e then ReasonBuildStrategyNotFound
      else if errors_As e AlreadyOwned then ReasonBuildConflict
      else ReasonBuildReconcileFailed)"

definition reconcileBuild :: "('w, 'z) client_scheme \<Rightarrow>
    ('w rstate, (go_error, unit) res) state" where
  "reconcileBuild C = do {
     r \<leftarrow> call (cl_GetImageBuildPolicy C policyName);
     case r of
       Inl e \<Rightarrow> do {
         _ \<leftarrow> (if IsNotFound e
               then setNotReady C ReasonMissingPolicy ''ImageBuildPolicy is missing''
               else State_Monad.return ());
         State_Monad.return (Err (wrap ''failed to get ImageBuildPolicy'' e))
       }
     | Inr policy \<Rightarrow> do {
         ib \<leftarrow> get_ib;
         r \<leftarrow> ensureBuild C policy (selectedStrategyName ib policy);
         case r of
           Err e \<Rightarrow> do {
             _ \<leftarrow> setNotReady C (buildFailureReason e) (error_text e);
             State_Monad.return (Err e)
           }
         | Panic \<Rightarrow> State_Monad.return Panic
         | Ok _ \<Rightarrow> patchBuildRef C
       }
   }"

definition reconcileDefaultBuildRun :: "('w, 'z) client_scheme \<Rightarrow>
    ('w rstate, (go_error, BuildRun option) res) state" where
  "reconcileDefaultBuildRun C = do {
     ib \<leftarrow> get_ib;
     if isSpecDrifted ib then do {
       r \<leftarrow> ensureBuildRun C;
       bind_res (State_Monad.return (map_err (wrap2 (Sentinel errBuildRunFailed)) r)) (\<lambda>br. do {
         ib \<leftarrow> get_ib;
         bind_res (State_Monad.return
             (map_err (wrap ''failed to record build spec'') (recordBuildSpec ib))) (\<lambda>ib'. do {
           _ \<leftarrow> put_ib ib';
           r \<leftarrow> update_object C ''failed to update ImageBuild'';
           State_Monad.return (map_res (\<lambda>_. Some br) r)
         })
       })
     }
     else getLastBuildRun C
   }"

definition reconcileBuildRun :: "('w, 'z) client_scheme \<Rightarrow>
    ('w rstate, (go_error, BuildRun option \<times> duration option) res) state" where
  "reconcileBuildRun C = do {
     r \<leftarrow> reconcileOnCommitBuildRun C;
     case r of
       Panic \<Rightarrow> State_Monad.return Panic
     | Err e \<Rightarrow> do {
         _ \<leftarrow> setNotReady C ReasonBuildRunReconcileFailed (error_text e);
         State_Monad.return (Err (wrap2 (Sentinel errBuildRunFailed) e))
       }
     | Ok (buildRun, requeueAfter) \<Rightarrow>
         if requeueAfter \<noteq> None \<or> buildRun \<noteq> None
         then State_Monad.return (Ok (buildRun, requeueAfter))
         else do {
           r \<leftarrow> reconcileDefaultBuildRun C;
           case r of
             Panic \<Rightarrow> State_Monad.return Panic
           | Err e \<Rightarrow>
               if \<not> errors_Is e errBuildRunFailed then State_Monad.return (Err e)
               else do {
                 _ \<leftarrow> setNotReady C
                        (if errors_As e AlreadyOwned then ReasonBuildRunConflict
                         else ReasonBuildRunReconcileFailed) (error_text e);
                 State_Monad.return (Err e)
               }
           | Ok buildRun \<Rightarrow> State_Monad.return (Ok (buildRun, None))
         }
   }"

text \<open>The test of \<open>reconcileStatus\<close> that guards the write of the Ready condition.\<close>

definition readyIsCurrent :: "'z lib_scheme \<Rightarrow> ImageBuild \<Rightarrow> bool" where
  "readyIsCurrent L ib =
     (case FindStatusCondition L (st_Conditions (ib_Status ib)) TypeReady of
        None \<Rightarrow> False
      | Some ready \<Rightarrow> \<not> (cond_Status ready \<noteq> ConditionTrue \<or>
          cond_ObservedGeneration ready \<noteq> ib_Generation ib \<or>
          cond_Reason ready \<noteq> ReasonReconciled))"

definition buildIsUnknown :: "'z lib_scheme \<Rightarrow> ImageBuild \<Rightarrow> bool" where
  "buildIsUnknown L ib =
     (case FindStatusCondition L (st_Conditions (ib_Status ib)) TypeBuildSucceeded of
        None \<Rightarrow> False
      | Some c \<Rightarrow> cond_Status c = ConditionUnknown)"

definition reconcileStatus :: "('w, 'z) client_scheme \<Rightarrow> BuildRun option \<Rightarrow>
    ('w rstate, (go_error, bool) res) state" where
  "reconcileStatus C buildRun =
     bind_res (case buildRun of
                 Some br \<Rightarrow> patchBuildSucceededCondition C br
               | None \<Rightarrow> State_Monad.return (Ok ())) (\<lambda>_. do {
       ib \<leftarrow> get_ib;
       bind_res (if \<not> readyIsCurrent C ib
                 then patchReadyCondition C ConditionTrue ReasonReconciled ''ImageBuild is reconciled''
                 else State_Monad.return (Ok ())) (\<lambda>_. do {
         ib \<leftarrow> get_ib;
         bind_res (case buildRun of
                     Some br \<Rightarrow> if IsSuccessful C (br_Status br)
                                then patchLatestImage C (computeLatestImage C ib br)
                                else State_Monad.return (Ok ())
                   | None \<Rightarrow> State_Monad.return (Ok ())) (\<lambda>_. do {
           ib \<leftarrow> get_ib;
           State_Monad.return (Ok (buildIsUnknown C ib))
         })
       })
     })"

section \<open>Reconcile\<close>

record Result =
  RequeueAfter :: duration

text \<open>
  \<open>(ctrl.Result, error)\<close>: a requeue and an error are independent values; \<open>None\<close> is a
  panic.
\<close>

type_synonym outcome = "(Result \<times> go_error option) option"

definition requeue :: "duration \<Rightarrow> outcome" where
  "requeue d = Some (\<lparr>RequeueAfter = d\<rparr>, None)"

definition reconcileFetched :: "('w, 'z) client_scheme \<Rightarrow> ('w rstate, outcome) state" where
  \<comment> \<open>\<open>Reconcile\<close> after the ImageBuild has been read\<close>
  "reconcileFetched C = do {
     r \<leftarrow> ensureOnCommitLabel C;
     case r of
       Panic \<Rightarrow> State_Monad.return None
     | Err e \<Rightarrow> State_Monad.return (Some (\<lparr>RequeueAfter = errorRequeueInterval\<rparr>, Some e))
     | Ok _ \<Rightarrow> do {
     r \<leftarrow> validateWebhookSecret C;
     case r of
       Panic \<Rightarrow> State_Monad.return None
     | Err e \<Rightarrow>
         if errors_Is e errWebhookSecretMissing \<or> errors_Is e errWebhookSecretInvalidKey
         then State_Monad.return (requeue errorRequeueInterval)
         else State_Monad.return (Some (\<lparr>RequeueAfter = errorRequeueInterval\<rparr>, Some e))
     | Ok _ \<Rightarrow> do {
     r \<leftarrow> reconcileBuild C;
     case r of
       Panic \<Rightarrow> State_Monad.return None
     | Err e \<Rightarrow>
         if errors_As e AlreadyOwned then State_Monad.return (requeue 0)
         else State_Monad.return (requeue errorRequeueInterval)
     | Ok _ \<Rightarrow> do {
     r \<leftarrow> reconcileBuildRun C;
     case r of
       Panic \<Rightarrow> State_Monad.return None
     | Err e \<Rightarrow>
         if \<not> errors_Is e errBuildRunFailed
         then State_Monad.return (Some (\<lparr>RequeueAfter = 0\<rparr>, Some e))
         else State_Monad.return
           (requeue (if errors_As e AlreadyOwned then 0 else errorRequeueInterval))
     | Ok (buildRun, requeueAfter) \<Rightarrow>
         (case requeueAfter of
            Some d \<Rightarrow> State_Monad.return (requeue d)
          | None \<Rightarrow> do {
              r \<leftarrow> reconcileStatus C buildRun;
              State_Monad.return
                (case r of
                   Panic \<Rightarrow> None
                 | Err e \<Rightarrow> Some (\<lparr>RequeueAfter = 0\<rparr>, Some e)
                 | Ok poll \<Rightarrow> if poll then requeue buildRunPollInterval else requeue 0)
            })
     }}}
   }"

definition Reconcile :: "('w, 'z) client_scheme \<Rightarrow> NamespacedName \<Rightarrow> ('w, outcome) state" where
  "Reconcile C req = State (\<lambda>w.
     (case cl_GetImageBuild C req w of
        (Inl e, w') \<Rightarrow>
          (if IsNotFound e then requeue 0
           else Some (\<lparr>RequeueAfter = 0\<rparr>, Some (wrap ''failed to get ImageBuild'' e)), w')
      | (Inr ib, w') \<Rightarrow>
          (case run_state (reconcileFetched C) \<lparr>rs_ib = ib, rs_world = w'\<rparr> of
             (out, s) \<Rightarrow> (out, rs_world s))))"

end
