(* ===== verification/Outcome.thy ===== *)
theory Outcome
  imports Controller
begin

text \<open>
  What a reconcile returns, for every cluster: no step dereferences a nil pointer, and
  the result is a requeue within bounds or an error.
\<close>

section \<open>Computations that do not panic\<close>

definition no_panic :: "('s, ('e, 'a) res) state \<Rightarrow> bool" where
  "no_panic m \<longleftrightarrow> (\<forall>s. fst (run_state m s) \<noteq> Panic)"

named_theorems no_panic_intros

lemma no_panicD: "no_panic m \<Longrightarrow> run_state m s = (r, s') \<Longrightarrow> r \<noteq> Panic"
  by (metis fst_conv no_panic_def)

lemma no_panic_return [no_panic_intros]: "r \<noteq> Panic \<Longrightarrow> no_panic (State_Monad.return r)"
  by (simp add: no_panic_def)

lemma no_panic_bind [no_panic_intros]:
  "(\<And>a. no_panic (f a)) \<Longrightarrow> no_panic (State_Monad.bind m f)"
  by (auto simp: no_panic_def split: prod.splits)

lemma no_panic_bind_res [no_panic_intros]:
  "no_panic m \<Longrightarrow> (\<And>a. no_panic (f a)) \<Longrightarrow> no_panic (bind_res m f)"
  by (auto simp: no_panic_def split: prod.splits res.splits) (metis fst_conv)

text \<open>A result passed on: only a panic of the callee would be one of the caller.\<close>

lemma no_panic_bind_case:
  "no_panic m \<Longrightarrow> (\<And>r. r \<noteq> Panic \<Longrightarrow> no_panic (f r)) \<Longrightarrow> no_panic (State_Monad.bind m f)"
  by (auto simp: no_panic_def split: prod.splits) (metis fst_conv)

lemmas result_splits = sum.splits option.splits res.splits prod.splits

lemma no_panic_writes [no_panic_intros]:
  "no_panic (patch_status C msg orig)"
  "no_panic (patch_object C msg orig)"
  "no_panic (update_object C msg)"
  by (auto simp: no_panic_def patch_status_def patch_object_def update_object_def
      split: result_splits)

lemma no_panic_status [no_panic_intros]:
  "no_panic (patchReadyCondition C st reason msg)"
  "no_panic (patchBuildRef C)"
  "no_panic (patchBuildSucceededCondition C br)"
  "no_panic (patchLatestImage C img)"
  by (auto simp: patchReadyCondition_def patchBuildRef_def patchBuildSucceededCondition_def
      patchLatestImage_def Let_def intro!: no_panic_intros split: prod.splits)

lemma no_panic_steps [no_panic_intros]:
  "no_panic (ensureOnCommitLabel C)"
  "no_panic (validateWebhookSecret C)"
  "no_panic (ensureBuild C policy s)"
  "no_panic (getLastBuildRun C)"
  "no_panic (getActiveBuildRun C)"
  "no_panic (getOrCreateBuildRun C desired)"
  by (auto simp: ensureOnCommitLabel_def validateWebhookSecret_def ensureBuild_def
      getLastBuildRun_def getActiveBuildRun_def getOrCreateBuildRun_def Let_def
      intro!: no_panic_intros split: result_splits if_splits)

lemma no_panic_ensureBuildRun [no_panic_intros]: "no_panic (ensureBuildRun C)"
  unfolding ensureBuildRun_def Let_def
  by (auto intro!: no_panic_intros no_panic_bind_case [OF no_panic_writes(1)])

lemma no_panic_reconcileBuild [no_panic_intros]: "no_panic (reconcileBuild C)"
  unfolding reconcileBuild_def
  by (auto intro!: no_panic_intros no_panic_bind_case [OF no_panic_steps(3)] split: result_splits)

lemma no_panic_reconcileDefaultBuildRun [no_panic_intros]: "no_panic (reconcileDefaultBuildRun C)"
  unfolding reconcileDefaultBuildRun_def recordBuildSpec_def
  by (auto intro!: no_panic_intros no_panic_bind_case [OF no_panic_ensureBuildRun]
      no_panic_bind_case [OF no_panic_writes(3)])

section \<open>The on-commit flow\<close>

text \<open>
  The nil dereferences the code could make are excluded by the guard
  \<open>isRebuildEnabled\<close>, because no call in between changes the object in memory.
\<close>

lemma isRebuildEnabledE:
  assumes "isRebuildEnabled ib"
  obtains oc p rb where "st_OnCommit (ib_Status ib) = Some oc" "ocs_Pending oc = Some p"
    "spec_Rebuild (ib_Spec ib) = Some rb" "rb_Mode rb = ImageBuildRebuildModeOnCommit"
  using assms by (auto simp: isRebuildEnabled_def split: option.splits)

lemma run_positiveUntil_ib [simp]:
  "rs_ib (snd (run_state (positiveUntil C t) s)) = rs_ib s"
  by (simp add: positiveUntil_def Let_def split: prod.splits)

lemma run_remainingWait:
  assumes "st_OnCommit (ib_Status (rs_ib s)) = Some oc" and "ocs_Pending oc = Some p"
    and "run_state (remainingWait C) s = (r, s')"
  shows "rs_ib s' = rs_ib s \<and> (\<exists>w. r = Ok w)"
  using assms
  by (auto simp: remainingWait_def positiveUntil_def Let_def split: prod.splits if_splits option.splits)

lemma run_getLastBuildRun_ib:
  "run_state (getLastBuildRun C) s = (r, s') \<Longrightarrow> rs_ib s' = rs_ib s"
  by (auto simp: getLastBuildRun_def Let_def split: prod.splits if_splits sum.splits)

lemma run_getActiveBuildRun_ib:
  "run_state (getActiveBuildRun C) s = (r, s') \<Longrightarrow> rs_ib s' = rs_ib s"
  by (auto simp: getActiveBuildRun_def split: prod.splits res.splits dest: run_getLastBuildRun_ib)

lemma run_getOrCreateBuildRun_ib:
  "run_state (getOrCreateBuildRun C desired) s = (r, s') \<Longrightarrow> rs_ib s' = rs_ib s"
  by (auto simp: getOrCreateBuildRun_def Let_def split: prod.splits if_splits sum.splits)

lemma ensureOnCommitBuildRun_not_panic:
  assumes "st_OnCommit (ib_Status (rs_ib s)) = Some oc"
  shows "fst (run_state (ensureOnCommitBuildRun C sha) s) \<noteq> Panic"
  using assms
  by (auto simp: ensureOnCommitBuildRun_def patchOnCommitTriggered_def Let_def
      dest: no_panicD [OF no_panic_steps(6)] no_panicD [OF no_panic_writes(1)]
        run_getOrCreateBuildRun_ib split: prod.splits res.splits)

lemma no_panic_reconcileOnCommitBuildRun [no_panic_intros]: "no_panic (reconcileOnCommitBuildRun C)"
  unfolding no_panic_def
proof
  fix s
  show "fst (run_state (reconcileOnCommitBuildRun C) s) \<noteq> Panic"
  proof (cases "isRebuildEnabled (rs_ib s)")
    case False
    then show ?thesis by (simp add: reconcileOnCommitBuildRun_def)
  next
    case True
    then obtain oc p where oc: "st_OnCommit (ib_Status (rs_ib s)) = Some oc" "ocs_Pending oc = Some p"
      by (rule isRebuildEnabledE)
    obtain r s1 where wait: "run_state (remainingWait C) s = (r, s1)" by fastforce
    from run_remainingWait [OF oc wait] obtain w where r: "r = Ok w" and ib: "rs_ib s1 = rs_ib s"
      by blast
    obtain r2 s2 where act: "run_state (getActiveBuildRun C) s1 = (r2, s2)" by fastforce
    from run_getActiveBuildRun_ib [OF act] ib oc have
      "fst (run_state (ensureOnCommitBuildRun C (ev_CommitSHA p)) s2) \<noteq> Panic"
      by (intro ensureOnCommitBuildRun_not_panic) simp
    with True oc wait r act no_panicD [OF no_panic_steps(5) act] show ?thesis
      by (auto simp: reconcileOnCommitBuildRun_def Let_def isDuplicateCommit_def
          dest: no_panicD [OF no_panic_writes(1)] split: option.splits prod.splits res.splits)
  qed
qed

lemma no_panic_reconcileBuildRun [no_panic_intros]: "no_panic (reconcileBuildRun C)"
  unfolding reconcileBuildRun_def
  by (auto intro!: no_panic_intros no_panic_bind_case [OF no_panic_reconcileOnCommitBuildRun]
      no_panic_bind_case [OF no_panic_reconcileDefaultBuildRun] split: result_splits)

lemma no_panic_reconcileStatus [no_panic_intros]: "no_panic (reconcileStatus C b)"
  unfolding reconcileStatus_def
  by (auto intro!: no_panic_intros split: option.splits)

section \<open>The value returned\<close>

definition returns :: "('s, 'a) state \<Rightarrow> ('a \<Rightarrow> bool) \<Rightarrow> bool" where
  "returns m P \<longleftrightarrow> (\<forall>s. P (fst (run_state m s)))"

lemma returns_return: "P a \<Longrightarrow> returns (State_Monad.return a) P"
  by (simp add: returns_def)

lemma returns_bind: "returns m Q \<Longrightarrow> (\<And>a. Q a \<Longrightarrow> returns (f a) P) \<Longrightarrow>
    returns (State_Monad.bind m f) P"
  by (auto simp: returns_def split: prod.splits) (metis fst_conv)

lemma returns_last: "(\<And>a. returns (f a) P) \<Longrightarrow> returns (State_Monad.bind m f) P"
  by (auto simp: returns_def split: prod.splits)

lemma returns_last_res:
  "(\<And>a. returns (f a) P) \<Longrightarrow> (\<And>e. P (Err e)) \<Longrightarrow> P Panic \<Longrightarrow> returns (bind_res m f) P"
  unfolding bind_res_def by (auto intro!: returns_last returns_return split: res.splits)

lemma no_panic_returns: "no_panic m \<Longrightarrow> returns m (\<lambda>r. r \<noteq> Panic)"
  by (simp add: no_panic_def returns_def)

lemma returns_conj: "returns m P \<Longrightarrow> returns m Q \<Longrightarrow> returns m (\<lambda>a. P a \<and> Q a)"
  by (simp add: returns_def)

lemma returnsD: "returns m P \<Longrightarrow> run_state m s = (a, s') \<Longrightarrow> P a"
  by (metis fst_conv returns_def)

definition wait_ok :: "duration option \<Rightarrow> bool" where
  "wait_ok w \<longleftrightarrow> (case w of None \<Rightarrow> True | Some d \<Rightarrow> 0 < d \<and> d \<le> maxDuration)"

lemma wait_ok_simps [simp]: "wait_ok None" "wait_ok (Some d) \<longleftrightarrow> 0 < d \<and> d \<le> maxDuration"
  by (simp_all add: wait_ok_def)

fun waits :: "('b \<Rightarrow> duration option) \<Rightarrow> ('e, 'b) res \<Rightarrow> bool" where
  "waits f (Ok x) \<longleftrightarrow> wait_ok (f x)"
| "waits f (Err e) \<longleftrightarrow> True"
| "waits f Panic \<longleftrightarrow> True"

lemma time_Sub_max: "time_Sub t u \<le> maxDuration"
  by (simp add: time_Sub_def minDuration_def maxDuration_def)

lemma returns_bind_res:
  "returns m (waits g) \<Longrightarrow> (\<And>x. wait_ok (g x) \<Longrightarrow> returns (f x) P) \<Longrightarrow> (\<And>e. P (Err e)) \<Longrightarrow> P Panic \<Longrightarrow>
     returns (bind_res m f) P"
  unfolding bind_res_def
  by (erule returns_bind, rename_tac r, case_tac r) (auto intro: returns_return)

lemma waits_remainingWait: "returns (remainingWait C) (waits id)"
  by (auto simp: remainingWait_def positiveUntil_def Let_def time_Sub_max
      intro!: returns_return returns_last split: option.splits)

lemma waits_reconcileOnCommitBuildRun: "returns (reconcileOnCommitBuildRun C) (waits snd)"
proof -
  have ensure: "returns (ensureOnCommitBuildRun C sha) (waits snd)" for sha
    unfolding ensureOnCommitBuildRun_def Let_def
    apply (rule returns_last)
    apply (auto intro!: returns_last_res returns_last returns_return
        simp: patchOnCommitTriggered_def split: option.splits prod.splits)
    apply (rename_tac r, case_tac r; simp)
    done
  have clear: "returns (put_ib x \<bind> (\<lambda>_. patch_status C msg ib \<bind>
      (\<lambda>r. State_Monad.return (map_res (\<lambda>_. (None, None)) r)))) (waits snd)" for x msg ib
    by (intro returns_last returns_return) (rename_tac r, case_tac r; simp)
  have go: "returns (case remaining of
         Some d \<Rightarrow> State_Monad.return (Ok (None, Some d))
       | None \<Rightarrow>
           (case q of
              None \<Rightarrow> State_Monad.return Panic
            | Some p \<Rightarrow>
                bind_res (State_Monad.return (dup p)) (\<lambda>dup.
                  if dup then put_ib (x p) \<bind> (\<lambda>_. patch_status C msg ib \<bind>
                    (\<lambda>r. State_Monad.return (map_res (\<lambda>_. (None, None)) r)))
                  else bind_res (getActiveBuildRun C) (\<lambda>active.
                    case active of
                      Some br \<Rightarrow> State_Monad.return (Ok (Some br, None))
                    | None \<Rightarrow> ensureOnCommitBuildRun C (ev_CommitSHA p))))) (waits snd)"
    if "wait_ok remaining" for remaining q dup x msg ib
    using that
    by (auto intro!: returns_return clear ensure returns_last_res split: option.splits)
  show ?thesis
    unfolding reconcileOnCommitBuildRun_def Let_def
    apply (rule returns_last, rename_tac ib, case_tac "\<not> isRebuildEnabled ib")
     apply (simp add: returns_return)
    apply (simp only: if_False)
    apply (rule returns_bind_res [OF waits_remainingWait])
      apply (rule go)
      apply simp_all
    done
qed

lemma waits_reconcileBuildRun: "returns (reconcileBuildRun C) (waits snd)"
  unfolding reconcileBuildRun_def
  by (rule returns_bind [OF waits_reconcileOnCommitBuildRun], rename_tac r, case_tac r)
    (auto intro!: returns_last returns_return split: res.splits)

section \<open>The outcome of a reconcile\<close>

definition outcome_ok :: "outcome \<Rightarrow> bool" where
  "outcome_ok out \<longleftrightarrow>
     (\<exists>d. out = requeue d \<and> 0 \<le> d \<and> d \<le> maxDuration) \<or>
     (\<exists>d e. out = Some (\<lparr>RequeueAfter = d\<rparr>, Some e) \<and> d \<in> {0, errorRequeueInterval})"

lemma outcome_okI [simp]:
  "0 \<le> d \<Longrightarrow> d \<le> maxDuration \<Longrightarrow> outcome_ok (requeue d)"
  "outcome_ok (Some (\<lparr>RequeueAfter = 0\<rparr>, Some e))"
  "outcome_ok (Some (\<lparr>RequeueAfter = errorRequeueInterval\<rparr>, Some e))"
  by (auto simp: outcome_ok_def)

lemma intervals_ok [simp]:
  "0 \<le> errorRequeueInterval" "errorRequeueInterval \<le> maxDuration"
  "0 \<le> buildRunPollInterval" "buildRunPollInterval \<le> maxDuration" "(0 :: int) \<le> maxDuration"
  by (simp_all add: errorRequeueInterval_def buildRunPollInterval_def second_def maxDuration_def)

lemma outcome_reconcileFetched: "returns (reconcileFetched C) outcome_ok"
proof -
  note steps = no_panic_returns [OF no_panic_steps(1)] no_panic_returns [OF no_panic_steps(2)]
    no_panic_returns [OF no_panic_reconcileBuild]
    returns_conj [OF no_panic_returns [OF no_panic_reconcileBuildRun] waits_reconcileBuildRun]
    no_panic_returns [OF no_panic_reconcileStatus]
  show ?thesis
    unfolding reconcileFetched_def
    apply (rule returns_bind [OF steps(1)], rename_tac r, case_tac r)
      apply (simp_all add: returns_return)
    apply (rule returns_bind [OF steps(2)], rename_tac r, case_tac r)
      apply (simp_all add: returns_return)
    apply (rule returns_bind [OF steps(3)], rename_tac r, case_tac r)
      apply (simp_all add: returns_return)
    apply (rule returns_bind [OF steps(4)], rename_tac r, case_tac r)
      apply (simp_all add: returns_return split: prod.split option.split)
    apply (intro allI impI conjI)
     apply (rule returns_bind [OF steps(5)], rename_tac r, case_tac r)
       apply (auto intro!: returns_return)
    done
qed

text \<open>
  C10. A reconcile always comes back with a result, whatever the cluster answers and
  whatever is in the object it reads: it never dereferences a nil pointer. Without an
  error it asks for a requeue after a delay that is not negative and fits a Go
  duration; with an error the delay is zero or the error interval.
\<close>

theorem reconcile_total:
  "(\<exists>d. fst (run_state (Reconcile C req) w) = requeue d \<and> 0 \<le> d \<and> d \<le> maxDuration) \<or>
   (\<exists>d e. fst (run_state (Reconcile C req) w) = Some (\<lparr>RequeueAfter = d\<rparr>, Some e) \<and>
      d \<in> {0, errorRequeueInterval})"
proof -
  have "outcome_ok (fst (run_state (Reconcile C req) w))"
    by (auto simp: Reconcile_def split: prod.splits sum.splits
        dest: returnsD [OF outcome_reconcileFetched])
  then show ?thesis by (simp add: outcome_ok_def)
qed

end
