(* ===== verification/Api_Server.thy ===== *)
theory Api_Server
  imports Outcome
begin

text \<open>
  The contract of a well-behaved API server, as a locale: while it is healthy it accepts
  the writes of the operator, and while nobody else writes, a write has the documented
  effect. Under this contract the status operations refine operations on an abstract view
  of the ImageBuild, in which the conditions are a map from their type, and resource
  version and transition times do not appear.
\<close>

section \<open>What the server stores\<close>

text \<open>
  Times are serialised with a precision of a second: an object that has been stored has
  its times truncated.
\<close>

definition map_event :: "(time \<Rightarrow> time) \<Rightarrow> ImageBuildOnCommitEvent \<Rightarrow> ImageBuildOnCommitEvent" where
  "map_event f e = e\<lparr>ev_ReceivedAt := f (ev_ReceivedAt e)\<rparr>"

definition map_OnCommit :: "(time \<Rightarrow> time) \<Rightarrow> ImageBuildOnCommitStatus \<Rightarrow> ImageBuildOnCommitStatus" where
  "map_OnCommit f oc = oc
     \<lparr>ocs_LastReceived := map_option (map_event f) (ocs_LastReceived oc),
      ocs_Pending := map_option (map_event f) (ocs_Pending oc),
      ocs_LastTriggeredBuildRun :=
        map_option (\<lambda>lt. lt\<lparr>lt_TriggeredAt := f (lt_TriggeredAt lt)\<rparr>) (ocs_LastTriggeredBuildRun oc)\<rparr>"

definition map_times :: "(time \<Rightarrow> time) \<Rightarrow> ImageBuildStatus \<Rightarrow> ImageBuildStatus" where
  "map_times f st = st
     \<lparr>st_Conditions :=
        List.map (\<lambda>c. c\<lparr>cond_LastTransitionTime := f (cond_LastTransitionTime c)\<rparr>) (st_Conditions st),
      st_OnCommit := map_option (map_OnCommit f) (st_OnCommit st)\<rparr>"

abbreviation with_rv :: "ImageBuild \<Rightarrow> string \<Rightarrow> ImageBuild" where
  "with_rv ib rv \<equiv> ib\<lparr>ib_Meta := (ib_Meta ib)\<lparr>om_ResourceVersion := rv\<rparr>\<rparr>"

abbreviation ib_key :: "ImageBuild \<Rightarrow> NamespacedName" where
  "ib_key ib \<equiv> ObjectKeyOf (ib_Meta ib)"

lemma ib_key_with_rv [simp]: "ib_key (with_rv ib rv) = ib_key ib"
  by (simp add: ObjectKeyOf_def)

text \<open>The object in memory is the one on a healthy server.\<close>

definition in_sync :: "('w \<Rightarrow> NamespacedName \<Rightarrow> ImageBuild option) \<Rightarrow> ('w \<Rightarrow> bool) \<Rightarrow> (time \<Rightarrow> time) \<Rightarrow>
    'w rstate \<Rightarrow> bool" where
  "in_sync stored healthy trunc s \<longleftrightarrow>
     healthy (rs_world s) \<and> stored (rs_world s) (ib_key (rs_ib s)) = Some (rs_ib s) \<and>
     map_times trunc (ib_Status (rs_ib s)) = ib_Status (rs_ib s)"

section \<open>The abstract view\<close>

type_synonym cond_value = "string \<times> string \<times> string \<times> 64 word"

record view =
  v_Meta :: ObjectMeta
  v_Spec :: ImageBuildSpec
  v_ObservedGeneration :: "64 word"
  v_BuildRef :: string
  v_LatestImage :: string
  v_LastBuildRunRef :: string
  v_BuildRunCounter :: "64 word"
  v_OnCommit :: "ImageBuildOnCommitStatus option"
  v_Condition :: "string \<Rightarrow> cond_value option"

definition cond_value :: "Condition \<Rightarrow> cond_value" where
  "cond_value c = (cond_Status c, cond_Reason c, cond_Message c, cond_ObservedGeneration c)"

definition cond_map :: "Condition list \<Rightarrow> string \<Rightarrow> cond_value option" where
  "cond_map cs t = map_option cond_value (List.find (\<lambda>c. cond_Type c = t) cs)"

definition view_of :: "ImageBuild \<Rightarrow> view" where
  "view_of ib =
     \<lparr>v_Meta = (ib_Meta ib)\<lparr>om_ResourceVersion := ''''\<rparr>, v_Spec = ib_Spec ib,
      v_ObservedGeneration = st_ObservedGeneration (ib_Status ib),
      v_BuildRef = st_BuildRef (ib_Status ib), v_LatestImage = st_LatestImage (ib_Status ib),
      v_LastBuildRunRef = st_LastBuildRunRef (ib_Status ib),
      v_BuildRunCounter = st_BuildRunCounter (ib_Status ib),
      v_OnCommit = st_OnCommit (ib_Status ib), v_Condition = cond_map (st_Conditions (ib_Status ib))\<rparr>"

lemma of_view:
  assumes "view_of a = v"
  shows "ib_Spec a = v_Spec v" "ib_Name a = om_Name (v_Meta v)" "ib_Namespace a = om_Namespace (v_Meta v)"
    "om_UID (ib_Meta a) = om_UID (v_Meta v)" "om_Generation (ib_Meta a) = om_Generation (v_Meta v)"
    "om_Labels (ib_Meta a) = om_Labels (v_Meta v)" "om_Annotations (ib_Meta a) = om_Annotations (v_Meta v)"
    "st_BuildRef (ib_Status a) = v_BuildRef v" "st_LatestImage (ib_Status a) = v_LatestImage v"
    "st_LastBuildRunRef (ib_Status a) = v_LastBuildRunRef v"
    "st_BuildRunCounter (ib_Status a) = v_BuildRunCounter v" "st_OnCommit (ib_Status a) = v_OnCommit v"
  unfolding assms [symmetric] by (simp_all add: view_of_def)

definition a_observe :: "view \<Rightarrow> view" where
  "a_observe v = v\<lparr>v_ObservedGeneration := om_Generation (v_Meta v)\<rparr>"

definition a_condition :: "string \<Rightarrow> string \<Rightarrow> string \<Rightarrow> string \<Rightarrow> view \<Rightarrow> view" where
  "a_condition t st reason msg v = (a_observe v)
     \<lparr>v_Condition := (v_Condition v)(t \<mapsto> (st, reason, msg, om_Generation (v_Meta v)))\<rparr>"

definition a_BuildRef :: "view \<Rightarrow> view" where
  "a_BuildRef v = (a_observe v)\<lparr>v_BuildRef := om_Name (v_Meta v) @ ''-build''\<rparr>"

definition a_BuildSucceeded :: "'z lib_scheme \<Rightarrow> BuildRun \<Rightarrow> view \<Rightarrow> view" where
  "a_BuildSucceeded L br v =
     (let (st, reason, msg) = deriveBuildSucceededStatus L br in
      a_condition TypeBuildSucceeded st reason msg (v\<lparr>v_LastBuildRunRef := br_Name br\<rparr>))"

definition a_LatestImage :: "string \<Rightarrow> view \<Rightarrow> view" where
  "a_LatestImage img v = (if img = '''' then v else (a_observe v)\<lparr>v_LatestImage := img\<rparr>)"

section \<open>The contract\<close>

locale api_server =
  fixes C :: "'w client"
    and stored :: "'w \<Rightarrow> NamespacedName \<Rightarrow> ImageBuild option"
    and healthy :: "'w \<Rightarrow> bool"
    and trunc :: "time \<Rightarrow> time"
  assumes patch_status_law:
    "healthy w \<Longrightarrow> stored w (ib_key orig) = Some orig \<Longrightarrow>
       ib_Meta new = ib_Meta orig \<Longrightarrow> ib_Spec new = ib_Spec orig \<Longrightarrow>
       \<exists>rv w'. let r = with_rv (orig\<lparr>ib_Status := map_times trunc (ib_Status new)\<rparr>) rv in
         cl_PatchImageBuildStatus C orig new w = (Inr r, w') \<and>
         healthy w' \<and> stored w' = (stored w)(ib_key orig \<mapsto> r)"
    and patch_object_law:
    "healthy w \<Longrightarrow> stored w (ib_key orig) = Some orig \<Longrightarrow>
       ib_key new = ib_key orig \<Longrightarrow> ib_Spec new = ib_Spec orig \<Longrightarrow> ib_Status new = ib_Status orig \<Longrightarrow>
       \<exists>rv w'. cl_PatchImageBuild C orig new w = (Inr (with_rv new rv), w') \<and>
         healthy w' \<and> stored w' = (stored w)(ib_key orig \<mapsto> with_rv new rv)"
    and update_law:
    "healthy w \<Longrightarrow> stored w (ib_key new) = Some old \<Longrightarrow>
       om_ResourceVersion (ib_Meta new) = om_ResourceVersion (ib_Meta old) \<Longrightarrow>
       ib_Spec new = ib_Spec old \<Longrightarrow> ib_Status new = ib_Status old \<Longrightarrow>
       \<exists>rv w'. cl_UpdateImageBuild C new w = (Inr (with_rv new rv), w') \<and>
         healthy w' \<and> stored w' = (stored w)(ib_key new \<mapsto> with_rv new rv)"
    and trunc_law: "trunc (trunc t) = trunc t"
    and find_law: "FindStatusCondition C cs ty = List.find (\<lambda>c. cond_Type c = ty) cs"
    and set_law:
    "cl_SetStatusCondition C cs cond w = (cs', w') \<Longrightarrow>
       cond_map cs' = (cond_map cs)(cond_Type cond \<mapsto> cond_value cond) \<and>
       stored w' = stored w \<and> healthy w' = healthy w"
begin

abbreviation sync :: "'w rstate \<Rightarrow> bool" where
  "sync \<equiv> in_sync stored healthy trunc"

text \<open>A status operation that succeeds and has the effect \<open>f\<close> on the view.\<close>

definition refines :: "('w rstate, (go_error, unit) res) state \<Rightarrow> (view \<Rightarrow> view) \<Rightarrow> bool" where
  "refines m f \<longleftrightarrow>
     (\<forall>s. sync s \<longrightarrow> (\<exists>s'. run_state m s = (Ok (), s') \<and> sync s' \<and>
        view_of (rs_ib s') = f (view_of (rs_ib s))))"

lemma refines_return: "refines (State_Monad.return (Ok ())) id"
  by (simp add: refines_def)

lemma refinesD:
  assumes "refines m f" and "sync s"
  obtains s' where "run_state m s = (Ok (), s')" "sync s'" "view_of (rs_ib s') = f (view_of (rs_ib s))"
  using assms unfolding refines_def by blast

lemma map_event_idem: "map_event trunc (map_event trunc e) = map_event trunc e"
  by (simp add: map_event_def trunc_law)

lemma map_OnCommit_idem: "map_OnCommit trunc (map_OnCommit trunc oc) = map_OnCommit trunc oc"
  by (cases oc) (simp add: map_OnCommit_def map_event_idem trunc_law option.map_comp o_def)

lemma map_times_idem [simp]: "map_times trunc (map_times trunc st) = map_times trunc st"
  by (simp add: map_times_def map_OnCommit_idem trunc_law option.map_comp o_def)

lemma cond_map_times [simp]: "cond_map (st_Conditions (map_times f st)) = cond_map (st_Conditions st)"
proof
  fix t
  have "map_option cond_value (List.find (\<lambda>c. cond_Type c = t)
      (List.map (\<lambda>c. c\<lparr>cond_LastTransitionTime := f (cond_LastTransitionTime c)\<rparr>) cs)) =
    map_option cond_value (List.find (\<lambda>c. cond_Type c = t) cs)" for cs
    by (induction cs) (auto simp: cond_value_def)
  then show "cond_map (st_Conditions (map_times f st)) t = cond_map (st_Conditions st) t"
    by (simp add: cond_map_def map_times_def)
qed

lemma map_times_fields [simp]:
  "st_ObservedGeneration (map_times f st) = st_ObservedGeneration st"
  "st_BuildRef (map_times f st) = st_BuildRef st"
  "st_LatestImage (map_times f st) = st_LatestImage st"
  "st_LastBuildRunRef (map_times f st) = st_LastBuildRunRef st"
  "st_BuildRunCounter (map_times f st) = st_BuildRunCounter st"
  "st_OnCommit (map_times f st) = map_option (map_OnCommit f) (st_OnCommit st)"
  by (simp_all add: map_times_def)

lemma sync_OnCommit:
  "sync s \<Longrightarrow> map_option (map_OnCommit trunc) (st_OnCommit (ib_Status (rs_ib s))) =
     st_OnCommit (ib_Status (rs_ib s))"
  by (metis in_sync_def map_times_fields(6))

text \<open>Sending the difference to an object that is still the stored one.\<close>

lemma run_patch_status:
  assumes "healthy (rs_world s)" and "stored (rs_world s) (ib_key orig) = Some orig"
    and "ib_Meta (rs_ib s) = ib_Meta orig" and "ib_Spec (rs_ib s) = ib_Spec orig"
    and "map_option (map_OnCommit trunc) (st_OnCommit (ib_Status (rs_ib s))) =
      st_OnCommit (ib_Status (rs_ib s))"
  shows "\<exists>s'. run_state (patch_status C msg orig) s = (Ok (), s') \<and> sync s' \<and>
     view_of (rs_ib s') = view_of (rs_ib s)"
proof -
  from patch_status_law [OF assms(1-4)] obtain rv w' where
    w': "cl_PatchImageBuildStatus C orig (rs_ib s) (rs_world s) =
       (Inr (with_rv (orig\<lparr>ib_Status := map_times trunc (ib_Status (rs_ib s))\<rparr>) rv), w')"
    "healthy w'"
    "stored w' = (stored (rs_world s))(ib_key orig \<mapsto>
       with_rv (orig\<lparr>ib_Status := map_times trunc (ib_Status (rs_ib s))\<rparr>) rv)"
    by (auto simp: Let_def)
  then show ?thesis
    using assms(3-5)
    by (auto simp: patch_status_def in_sync_def view_of_def ObjectKeyOf_def)
qed

lemma run_set_status_condition:
  "\<exists>w' cs'. run_state (set_status_condition C c) s =
       ((), s\<lparr>rs_world := w', rs_ib := (rs_ib s)\<lparr>ib_Status := (ib_Status (rs_ib s))\<lparr>st_Conditions := cs'\<rparr>\<rparr>\<rparr>) \<and>
     cond_map cs' = (cond_map (st_Conditions (ib_Status (rs_ib s))))(cond_Type c \<mapsto> cond_value c) \<and>
     stored w' = stored (rs_world s) \<and> healthy w' = healthy (rs_world s)"
proof -
  obtain cs' w' where set: "cl_SetStatusCondition C (st_Conditions (ib_Status (rs_ib s))) c (rs_world s) =
      (cs', w')" by fastforce
  from set_law [OF this] set show ?thesis by (auto simp: set_status_condition_def)
qed

subsection \<open>The status operations\<close>

lemma refines_patchReadyCondition:
  "refines (patchReadyCondition C st reason msg) (a_condition TypeReady st reason msg)"
  unfolding refines_def
proof (intro allI impI)
  fix s
  assume sync: "sync s"
  let ?c = "new_condition TypeReady st reason msg (ib_Generation (rs_ib s))"
  let ?s1 = "s\<lparr>rs_ib := set_ObservedGeneration (rs_ib s)\<rparr>"
  from run_set_status_condition [of ?c ?s1] obtain w' cs' where set:
    "run_state (set_status_condition C ?c) ?s1 =
       ((), ?s1\<lparr>rs_world := w', rs_ib := (rs_ib ?s1)\<lparr>ib_Status := (ib_Status (rs_ib ?s1))\<lparr>st_Conditions := cs'\<rparr>\<rparr>\<rparr>)"
    "cond_map cs' = (cond_map (st_Conditions (ib_Status (rs_ib ?s1))))(cond_Type ?c \<mapsto> cond_value ?c)"
    "stored w' = stored (rs_world s)" "healthy w' = healthy (rs_world s)" by auto
  let ?s2 = "?s1\<lparr>rs_world := w', rs_ib := (rs_ib ?s1)\<lparr>ib_Status := (ib_Status (rs_ib ?s1))\<lparr>st_Conditions := cs'\<rparr>\<rparr>\<rparr>"
  have "\<exists>s'. run_state (patch_status C ''failed to patch Ready condition status'' (rs_ib s)) ?s2 = (Ok (), s') \<and>
      sync s' \<and> view_of (rs_ib s') = view_of (rs_ib ?s2)"
    using sync sync_OnCommit [OF sync] set(3,4)
    by (intro run_patch_status) (simp_all add: in_sync_def set_ObservedGeneration_def)
  moreover have "view_of (rs_ib ?s2) = a_condition TypeReady st reason msg (view_of (rs_ib s))"
    using set(2)
    by (simp add: view_of_def a_condition_def a_observe_def set_ObservedGeneration_def
        new_condition_def cond_value_def)
  ultimately show "\<exists>s'. run_state (patchReadyCondition C st reason msg) s = (Ok (), s') \<and> sync s' \<and>
      view_of (rs_ib s') = a_condition TypeReady st reason msg (view_of (rs_ib s))"
    using set(1) by (simp add: patchReadyCondition_def)
qed

lemma refines_patchBuildSucceededCondition:
  "refines (patchBuildSucceededCondition C br) (a_BuildSucceeded C br)"
  unfolding refines_def
proof (intro allI impI)
  fix s
  assume sync: "sync s"
  obtain st reason msg where der: "deriveBuildSucceededStatus C br = (st, reason, msg)"
    by (metis surj_pair)
  let ?ib1 = "(rs_ib s)\<lparr>ib_Status := (ib_Status (rs_ib s))
    \<lparr>st_ObservedGeneration := ib_Generation (rs_ib s), st_LastBuildRunRef := br_Name br\<rparr>\<rparr>"
  let ?c = "new_condition TypeBuildSucceeded st reason msg (ib_Generation (rs_ib s))"
  let ?s1 = "s\<lparr>rs_ib := ?ib1\<rparr>"
  from run_set_status_condition [of ?c ?s1] obtain w' cs' where set:
    "run_state (set_status_condition C ?c) ?s1 =
       ((), ?s1\<lparr>rs_world := w', rs_ib := (rs_ib ?s1)\<lparr>ib_Status := (ib_Status (rs_ib ?s1))\<lparr>st_Conditions := cs'\<rparr>\<rparr>\<rparr>)"
    "cond_map cs' = (cond_map (st_Conditions (ib_Status (rs_ib ?s1))))(cond_Type ?c \<mapsto> cond_value ?c)"
    "stored w' = stored (rs_world s)" "healthy w' = healthy (rs_world s)" by auto
  let ?s2 = "?s1\<lparr>rs_world := w', rs_ib := (rs_ib ?s1)\<lparr>ib_Status := (ib_Status (rs_ib ?s1))\<lparr>st_Conditions := cs'\<rparr>\<rparr>\<rparr>"
  have "\<exists>s'. run_state (patch_status C ''failed to patch BuildSucceeded condition status'' (rs_ib s)) ?s2 =
      (Ok (), s') \<and> sync s' \<and> view_of (rs_ib s') = view_of (rs_ib ?s2)"
    using sync sync_OnCommit [OF sync] set(3,4)
    by (intro run_patch_status) (simp_all add: in_sync_def)
  moreover have "view_of (rs_ib ?s2) = a_BuildSucceeded C br (view_of (rs_ib s))"
    using set(2) der
    by (simp add: view_of_def a_BuildSucceeded_def a_condition_def a_observe_def new_condition_def
        cond_value_def)
  ultimately show "\<exists>s'. run_state (patchBuildSucceededCondition C br) s = (Ok (), s') \<and> sync s' \<and>
      view_of (rs_ib s') = a_BuildSucceeded C br (view_of (rs_ib s))"
    using set(1) der by (simp add: patchBuildSucceededCondition_def)
qed

lemma refines_plain:
  assumes "\<And>ib. ib_Meta (upd ib) = ib_Meta ib" and "\<And>ib. ib_Spec (upd ib) = ib_Spec ib"
    and "\<And>ib. st_OnCommit (ib_Status (upd ib)) = st_OnCommit (ib_Status ib)"
    and "\<And>ib. view_of (upd ib) = f (view_of ib)"
  shows "refines (do { ib \<leftarrow> get_ib; _ \<leftarrow> put_ib (upd ib); patch_status C msg ib }) f"
  unfolding refines_def
proof (intro allI impI)
  fix s
  assume sync: "sync s"
  let ?s1 = "s\<lparr>rs_ib := upd (rs_ib s)\<rparr>"
  have "\<exists>s'. run_state (patch_status C msg (rs_ib s)) ?s1 = (Ok (), s') \<and> sync s' \<and>
      view_of (rs_ib s') = view_of (rs_ib ?s1)"
    using sync sync_OnCommit [OF sync] assms
    by (intro run_patch_status) (simp_all add: in_sync_def)
  then show "\<exists>s'. run_state (get_ib \<bind> (\<lambda>ib. put_ib (upd ib) \<bind> (\<lambda>_. patch_status C msg ib))) s =
      (Ok (), s') \<and> sync s' \<and> view_of (rs_ib s') = f (view_of (rs_ib s))"
    using assms(4) by simp
qed

lemma refines_patchLatestImage: "refines (patchLatestImage C img) (a_LatestImage img)"
proof (cases "img = ''''")
  case True
  then show ?thesis
    using refines_return by (simp add: patchLatestImage_def a_LatestImage_def refines_def)
next
  case False
  then show ?thesis
    unfolding patchLatestImage_def
    by (simp only: if_False)
      (rule refines_plain, simp_all add: view_of_def a_LatestImage_def a_observe_def)
qed

lemma refines_patchBuildRef:
  "refines (patchBuildRef C) (\<lambda>v. if v_BuildRef v = om_Name (v_Meta v) @ ''-build'' \<and>
     v_ObservedGeneration v = om_Generation (v_Meta v) then v else a_BuildRef v)"
proof -
  have patch: "refines (do { ib \<leftarrow> get_ib;
      _ \<leftarrow> put_ib (ib\<lparr>ib_Status := (ib_Status ib)
              \<lparr>st_ObservedGeneration := ib_Generation ib, st_BuildRef := buildNameFor ib\<rparr>\<rparr>);
      patch_status C ''failed to patch ImageBuild status'' ib }) a_BuildRef"
    by (rule refines_plain) (simp_all add: view_of_def a_BuildRef_def a_observe_def buildNameFor_def)
  show ?thesis
    unfolding refines_def
  proof (intro allI impI)
    fix s
    assume sync: "sync s"
    from refinesD [OF patch sync] obtain s' where s': "run_state (do { ib \<leftarrow> get_ib;
      _ \<leftarrow> put_ib (ib\<lparr>ib_Status := (ib_Status ib)
              \<lparr>st_ObservedGeneration := ib_Generation ib, st_BuildRef := buildNameFor ib\<rparr>\<rparr>);
      patch_status C ''failed to patch ImageBuild status'' ib }) s = (Ok (), s')"
      "sync s'" "view_of (rs_ib s') = a_BuildRef (view_of (rs_ib s))" .
    then show "\<exists>s'. run_state (patchBuildRef C) s = (Ok (), s') \<and> sync s' \<and>
        view_of (rs_ib s') =
          (if v_BuildRef (view_of (rs_ib s)) = om_Name (v_Meta (view_of (rs_ib s))) @ ''-build'' \<and>
              v_ObservedGeneration (view_of (rs_ib s)) = om_Generation (v_Meta (view_of (rs_ib s)))
           then view_of (rs_ib s) else a_BuildRef (view_of (rs_ib s)))"
      using sync
      by (cases "st_BuildRef (ib_Status (rs_ib s)) = buildNameFor (rs_ib s) \<and>
          st_ObservedGeneration (ib_Status (rs_ib s)) = ib_Generation (rs_ib s)")
        (auto simp: patchBuildRef_def Let_def view_of_def buildNameFor_def)
  qed
qed

end

section \<open>A server with BuildRuns\<close>

locale run_server = api_server C stored healthy trunc
  for C :: "'w client" and stored healthy trunc +
  fixes runs :: "'w \<Rightarrow> NamespacedName \<Rightarrow> BuildRun option"
  assumes get_run_law:
    "healthy w \<Longrightarrow> \<exists>w'. healthy w' \<and> stored w' = stored w \<and> runs w' = runs w \<and>
       (case runs w k of
          Some br \<Rightarrow> cl_GetBuildRun C k w = (Inr br, w')
        | None \<Rightarrow> \<exists>e. IsNotFound e \<and> cl_GetBuildRun C k w = (Inl e, w'))"
    and create_run_law:
    "healthy w \<Longrightarrow> runs w (ObjectKeyOf (br_Meta b)) = None \<Longrightarrow>
       \<exists>br w'. cl_CreateBuildRun C b w = (Inr br, w') \<and> ObjectKeyOf (br_Meta br) = ObjectKeyOf (br_Meta b) \<and>
         healthy w' \<and> stored w' = stored w \<and> runs w' = (runs w)(ObjectKeyOf (br_Meta b) \<mapsto> br)"
    and other_writes_law:
    "cl_PatchImageBuildStatus C orig new w = (r, w') \<Longrightarrow> runs w' = runs w"
    "cl_UpdateImageBuild C new w = (r, w') \<Longrightarrow> runs w' = runs w"
    and owner_law:
    "om_OwnerReferences m = [] \<Longrightarrow> om_Namespace m = om_Namespace owner \<Longrightarrow>
       \<exists>m'. SetControllerReference C owner m = Inr m' \<and> ObjectKeyOf m' = ObjectKeyOf m"
begin

lemma run_create:
  assumes "healthy (rs_world s)" and "runs (rs_world s) (ObjectKeyOf (br_Meta desired)) = None"
    and "om_OwnerReferences (br_Meta desired) = []" and "om_Namespace (br_Meta desired) = ib_Namespace (rs_ib s)"
  shows "\<exists>br w'. run_state (getOrCreateBuildRun C desired) s = (Ok (br, True), s\<lparr>rs_world := w'\<rparr>) \<and>
     ObjectKeyOf (br_Meta br) = ObjectKeyOf (br_Meta desired) \<and>
     healthy w' \<and> stored w' = stored (rs_world s) \<and>
     runs w' = (runs (rs_world s))(ObjectKeyOf (br_Meta desired) \<mapsto> br)"
proof -
  let ?k = "ObjectKeyOf (br_Meta desired)"
  from get_run_law [OF assms(1), of ?k] assms(2) obtain w1 e where
    get: "cl_GetBuildRun C ?k (rs_world s) = (Inl e, w1)" "IsNotFound e" and
    w1: "healthy w1" "stored w1 = stored (rs_world s)" "runs w1 = runs (rs_world s)" by auto
  from owner_law [OF assms(3,4)] obtain m where
    m: "SetControllerReference C (ib_Meta (rs_ib s)) (br_Meta desired) = Inr m" "ObjectKeyOf m = ?k"
    by blast
  from create_run_law [OF w1(1), of "desired\<lparr>br_Meta := m\<rparr>"] w1(3) m(2) assms(2)
  obtain br w2 where "cl_CreateBuildRun C (desired\<lparr>br_Meta := m\<rparr>) w1 = (Inr br, w2)"
    "ObjectKeyOf (br_Meta br) = ?k" "healthy w2" "stored w2 = stored w1"
    "runs w2 = (runs w1)(?k \<mapsto> br)" by auto
  with get m w1 show ?thesis
    by (auto simp: getOrCreateBuildRun_def Let_def)
qed

end

end
