(* ===== verification/Status_Refinement.thy ===== *)
theory Status_Refinement
  imports Api_Server
begin

text \<open>
  The last step of a reconcile, \<open>reconcileStatus\<close>, against a well-behaved server: it
  refines an operation on the view of the ImageBuild, and leaves the status that the run
  calls for.
\<close>

section \<open>The operation on views\<close>

definition a_readyIsCurrent :: "view \<Rightarrow> bool" where
  "a_readyIsCurrent v \<longleftrightarrow>
     (case v_Condition v TypeReady of
        None \<Rightarrow> False
      | Some (st, reason, msg, gen) \<Rightarrow>
          st = ConditionTrue \<and> gen = om_Generation (v_Meta v) \<and> reason = ReasonReconciled)"

definition a_buildIsUnknown :: "view \<Rightarrow> bool" where
  "a_buildIsUnknown v \<longleftrightarrow>
     (case v_Condition v TypeBuildSucceeded of
        None \<Rightarrow> False
      | Some (st, _) \<Rightarrow> st = ConditionUnknown)"

text \<open>The image a run produced, of an output specification.\<close>

definition image_of :: "'z lib_scheme \<Rightarrow> ImageBuildOutput \<Rightarrow> BuildRun \<Rightarrow> string" where
  "image_of L out br =
     (case brs_Output (br_Status br) of
        Some u \<Rightarrow> if bro_Digest u \<noteq> '''' then out_Image out @ ''@'' @ bro_Digest u
                  else if isTagOrDigestPresent L (out_Image out) then out_Image out else ''''
      | None \<Rightarrow> if isTagOrDigestPresent L (out_Image out) then out_Image out else '''')"

definition a_reconcileStatus :: "'z lib_scheme \<Rightarrow> BuildRun option \<Rightarrow> view \<Rightarrow> view \<times> bool" where
  "a_reconcileStatus L buildRun v =
     (let v1 = (case buildRun of None \<Rightarrow> v | Some br \<Rightarrow> a_BuildSucceeded L br v);
          v2 = (if a_readyIsCurrent v1 then v1
                else a_condition TypeReady ConditionTrue ReasonReconciled ''ImageBuild is reconciled'' v1);
          v3 = (case buildRun of
                  None \<Rightarrow> v2
                | Some br \<Rightarrow>
                    if IsSuccessful L (br_Status br)
                    then a_LatestImage (image_of L (spec_Output (v_Spec v2)) br) v2 else v2)
      in (v3, a_buildIsUnknown v3))"

lemma computeLatestImage_image_of:
  "computeLatestImage L ib br = image_of L (spec_Output (ib_Spec ib)) br"
  by (simp add: computeLatestImage_def image_of_def Let_def split: option.splits)

section \<open>Refinement\<close>

context api_server
begin

lemma readyIsCurrent_view: "readyIsCurrent C ib = a_readyIsCurrent (view_of ib)"
  by (auto simp: readyIsCurrent_def a_readyIsCurrent_def find_law view_of_def cond_map_def
      cond_value_def split: option.splits)

lemma buildIsUnknown_view: "buildIsUnknown C ib = a_buildIsUnknown (view_of ib)"
  by (auto simp: buildIsUnknown_def a_buildIsUnknown_def find_law view_of_def cond_map_def
      cond_value_def split: option.splits)

text \<open>A step of an operation: an optional status write, then the rest.\<close>

lemma run_refined:
  assumes "refines m f" and "sync s"
    and "\<And>s'. sync s' \<Longrightarrow> view_of (rs_ib s') = f (view_of (rs_ib s)) \<Longrightarrow>
      \<exists>s''. run_state (k ()) s' = (Ok b, s'') \<and> P s''"
  shows "\<exists>s''. run_state (bind_res m k) s = (Ok b, s'') \<and> P s''"
  using assms by (auto elim: refinesD)

lemma refines_if: "refines m f \<Longrightarrow>
    refines (if b then m else State_Monad.return (Ok ())) (\<lambda>v. if b then f v else v)"
  using refines_return by (simp add: refines_def)

lemma view_Spec: "v_Spec (view_of ib) = ib_Spec ib"
  by (simp add: view_of_def)

lemma run_reconcileStatus:
  assumes "sync s"
  shows "\<exists>s'. run_state (reconcileStatus C buildRun) s =
       (Ok (snd (a_reconcileStatus C buildRun (view_of (rs_ib s)))), s') \<and>
     (sync s' \<and> view_of (rs_ib s') = fst (a_reconcileStatus C buildRun (view_of (rs_ib s))))"
proof -
  have first: "refines (case buildRun of
        Some br \<Rightarrow> patchBuildSucceededCondition C br | None \<Rightarrow> State_Monad.return (Ok ()))
      (case buildRun of None \<Rightarrow> id | Some br \<Rightarrow> a_BuildSucceeded C br)"
    by (cases buildRun) (simp_all add: refines_patchBuildSucceededCondition refines_return)
  show ?thesis
    unfolding reconcileStatus_def
  proof (rule run_refined [OF first assms])
    fix s1
    let ?v1 = "(case buildRun of None \<Rightarrow> id | Some br \<Rightarrow> a_BuildSucceeded C br) (view_of (rs_ib s))"
    assume s1: "sync s1" "view_of (rs_ib s1) = ?v1"
    let ?ready = "patchReadyCondition C ConditionTrue ReasonReconciled ''ImageBuild is reconciled''"
    let ?f2 = "\<lambda>v. if \<not> readyIsCurrent C (rs_ib s1)
      then a_condition TypeReady ConditionTrue ReasonReconciled ''ImageBuild is reconciled'' v else v"
    obtain s2 where s2: "run_state (if \<not> readyIsCurrent C (rs_ib s1) then ?ready else State_Monad.return (Ok ())) s1 =
        (Ok (), s2)" "sync s2" "view_of (rs_ib s2) = ?f2 (view_of (rs_ib s1))"
      by (rule refinesD [OF refines_if [OF refines_patchReadyCondition] s1(1)])
    let ?last = "case buildRun of
        Some br \<Rightarrow> if IsSuccessful C (br_Status br)
                   then patchLatestImage C (computeLatestImage C (rs_ib s2) br)
                   else State_Monad.return (Ok ())
      | None \<Rightarrow> State_Monad.return (Ok ())"
    let ?f3 = "\<lambda>v. case buildRun of
        None \<Rightarrow> v
      | Some br \<Rightarrow> if IsSuccessful C (br_Status br)
                   then a_LatestImage (computeLatestImage C (rs_ib s2) br) v else v"
    have "refines ?last ?f3"
      using refines_if [OF refines_patchLatestImage] refines_return
      by (cases buildRun) (simp_all add: id_def)
    then obtain s3 where
      s3: "run_state ?last s2 = (Ok (), s3)" "sync s3" "view_of (rs_ib s3) = ?f3 (view_of (rs_ib s2))"
      by (rule refinesD [OF _ s2(2)])
    have spec: "computeLatestImage C (rs_ib s2) br = image_of C (spec_Output (v_Spec (?f2 ?v1))) br" for br
      using s2(3) s1(2) view_Spec [of "rs_ib s2"] by (simp only: computeLatestImage_image_of)
    have "view_of (rs_ib s3) = fst (a_reconcileStatus C buildRun (view_of (rs_ib s)))"
      using s3(3) s2(3) s1(2) spec
      by (auto simp: a_reconcileStatus_def Let_def readyIsCurrent_view split: option.splits)
    moreover from this have "buildIsUnknown C (rs_ib s3) = snd (a_reconcileStatus C buildRun (view_of (rs_ib s)))"
      by (simp add: buildIsUnknown_view a_reconcileStatus_def Let_def)
    ultimately show "\<exists>s''. run_state (get_ib \<bind> (\<lambda>ib.
        bind_res (if \<not> readyIsCurrent C ib then ?ready else State_Monad.return (Ok ())) (\<lambda>_.
        get_ib \<bind> (\<lambda>ib. bind_res (case buildRun of
            Some br \<Rightarrow> if IsSuccessful C (br_Status br)
                       then patchLatestImage C (computeLatestImage C ib br)
                       else State_Monad.return (Ok ())
          | None \<Rightarrow> State_Monad.return (Ok ())) (\<lambda>_.
        get_ib \<bind> (\<lambda>ib. State_Monad.return (Ok (buildIsUnknown C ib)))))))) s1 =
      (Ok (snd (a_reconcileStatus C buildRun (view_of (rs_ib s)))), s'') \<and>
      (sync s'' \<and> view_of (rs_ib s'') = fst (a_reconcileStatus C buildRun (view_of (rs_ib s))))"
      using s2(1) s3(1,2) by simp
  qed
qed

end

context api_server
begin

lemma run_ensureOnCommitLabel:
  assumes "sync s"
  shows "\<exists>s'. run_state (ensureOnCommitLabel C) s = (Ok (), s') \<and> sync s' \<and>
     view_of (rs_ib s') = (view_of (rs_ib s))
       \<lparr>v_Meta := (v_Meta (view_of (rs_ib s)))\<lparr>om_Labels := (om_Labels (ib_Meta (rs_ib s)))
          (LabelKeyOnCommitEnabled \<mapsto> onCommitLabelValue (rs_ib s))\<rparr>\<rparr>"
proof (cases "om_Labels (ib_Meta (rs_ib s)) LabelKeyOnCommitEnabled = Some (onCommitLabelValue (rs_ib s))")
  case True
  then have "(om_Labels (ib_Meta (rs_ib s)))(LabelKeyOnCommitEnabled \<mapsto> onCommitLabelValue (rs_ib s)) =
      om_Labels (ib_Meta (rs_ib s))" by (simp add: fun_upd_idem)
  with True assms show ?thesis by (simp add: ensureOnCommitLabel_def Let_def view_of_def)
next
  case False
  let ?new = "(rs_ib s)\<lparr>ib_Meta := (ib_Meta (rs_ib s))\<lparr>om_Labels := (om_Labels (ib_Meta (rs_ib s)))
      (LabelKeyOnCommitEnabled \<mapsto> onCommitLabelValue (rs_ib s))\<rparr>\<rparr>"
  have ne: "onCommitLabelValue (rs_ib s) \<noteq> ''''"
    by (simp add: onCommitLabelValue_def split: option.split)
  have "healthy (rs_world s)" "stored (rs_world s) (ib_key (rs_ib s)) = Some (rs_ib s)"
    using assms by (simp_all add: in_sync_def)
  from patch_object_law [OF this, of ?new] obtain rv w' where
    "cl_PatchImageBuild C (rs_ib s) ?new (rs_world s) = (Inr (with_rv ?new rv), w')" "healthy w'"
    "stored w' = (stored (rs_world s))(ib_key (rs_ib s) \<mapsto> with_rv ?new rv)"
    by (auto simp: ObjectKeyOf_def)
  with False ne assms show ?thesis
    by (auto simp: ensureOnCommitLabel_def patch_object_def Let_def in_sync_def view_of_def
        ObjectKeyOf_def split: option.splits)
qed

end

section \<open>The properties\<close>

text \<open>
  C11. Against a well-behaved server, with the object in memory being the one stored, the
  last step of a reconcile succeeds, leaves the object in memory and on the server equal,
  and implements the operation on views: its answer and the new view are those of
  \<open>a_reconcileStatus\<close>.
\<close>

theorem reconcileStatus_refines:
  assumes "api_server C stored healthy trunc" and "in_sync stored healthy trunc s"
  shows "\<exists>s'. run_state (reconcileStatus C buildRun) s =
       (Ok (snd (a_reconcileStatus C buildRun (view_of (rs_ib s)))), s') \<and>
     in_sync stored healthy trunc s' \<and>
     view_of (rs_ib s') = fst (a_reconcileStatus C buildRun (view_of (rs_ib s)))"
  using api_server.run_reconcileStatus [OF assms] by simp

lemma a_readyIsCurrent_condition:
  "a_readyIsCurrent v \<Longrightarrow> \<exists>msg. v_Condition v TypeReady =
     Some (ConditionTrue, ReasonReconciled, msg, om_Generation (v_Meta v))"
  by (auto simp: a_readyIsCurrent_def split: option.splits prod.splits)


lemma a_ready_step:
  "\<exists>m. (if a_readyIsCurrent v then v
      else a_condition TypeReady ConditionTrue ReasonReconciled ''ImageBuild is reconciled'' v) =
    v\<lparr>v_ObservedGeneration := (if a_readyIsCurrent v then v_ObservedGeneration v else om_Generation (v_Meta v)),
      v_Condition := (v_Condition v)
        (TypeReady \<mapsto> (ConditionTrue, ReasonReconciled, m, om_Generation (v_Meta v)))\<rparr>"
proof (cases "a_readyIsCurrent v")
  case True
  from a_readyIsCurrent_condition [OF True] obtain msg where
    "v_Condition v TypeReady = Some (ConditionTrue, ReasonReconciled, msg, om_Generation (v_Meta v))"
    by blast
  with True show ?thesis by (intro exI [of _ msg]) (simp add: fun_upd_idem)
next
  case False
  then show ?thesis
    by (intro exI [of _ "''ImageBuild is reconciled''"]) (simp add: a_condition_def a_observe_def)
qed

lemma a_reconcileStatus_run:
  assumes der: "deriveBuildSucceededStatus L br = (st, reason, msg)"
  shows "\<exists>m. a_reconcileStatus L (Some br) v =
     (v\<lparr>v_ObservedGeneration := om_Generation (v_Meta v),
        v_LastBuildRunRef := br_Name br,
        v_LatestImage :=
          (let img = image_of L (spec_Output (v_Spec v)) br in
           if IsSuccessful L (br_Status br) \<and> img \<noteq> '''' then img else v_LatestImage v),
        v_Condition := (v_Condition v)
          (TypeBuildSucceeded \<mapsto> (st, reason, msg, om_Generation (v_Meta v)),
           TypeReady \<mapsto> (ConditionTrue, ReasonReconciled, m, om_Generation (v_Meta v)))\<rparr>,
      st = ConditionUnknown)"
proof -
  have v1: "a_BuildSucceeded L br v = v\<lparr>v_ObservedGeneration := om_Generation (v_Meta v),
      v_LastBuildRunRef := br_Name br,
      v_Condition := (v_Condition v)(TypeBuildSucceeded \<mapsto> (st, reason, msg, om_Generation (v_Meta v)))\<rparr>"
    by (simp add: a_BuildSucceeded_def a_condition_def a_observe_def der)
  from a_ready_step [of "a_BuildSucceeded L br v"] obtain m where step: "(if a_readyIsCurrent (a_BuildSucceeded L br v) then a_BuildSucceeded L br v
      else a_condition TypeReady ConditionTrue ReasonReconciled ''ImageBuild is reconciled''
        (a_BuildSucceeded L br v)) =
      (a_BuildSucceeded L br v)\<lparr>v_ObservedGeneration :=
          (if a_readyIsCurrent (a_BuildSucceeded L br v) then v_ObservedGeneration (a_BuildSucceeded L br v)
           else om_Generation (v_Meta (a_BuildSucceeded L br v))),
        v_Condition := (v_Condition (a_BuildSucceeded L br v))
          (TypeReady \<mapsto> (ConditionTrue, ReasonReconciled, m, om_Generation (v_Meta (a_BuildSucceeded L br v))))\<rparr>"
    by blast
  have v2: "(if a_readyIsCurrent (a_BuildSucceeded L br v) then a_BuildSucceeded L br v
      else a_condition TypeReady ConditionTrue ReasonReconciled ''ImageBuild is reconciled''
        (a_BuildSucceeded L br v)) =
      v\<lparr>v_ObservedGeneration := om_Generation (v_Meta v), v_LastBuildRunRef := br_Name br,
        v_Condition := (v_Condition v)
          (TypeBuildSucceeded \<mapsto> (st, reason, msg, om_Generation (v_Meta v)),
           TypeReady \<mapsto> (ConditionTrue, ReasonReconciled, m, om_Generation (v_Meta v)))\<rparr>"
    unfolding step by (simp add: v1)
  show ?thesis
    unfolding a_reconcileStatus_def Let_def option.case v2
    by (intro exI [of _ m])
      (cases "IsSuccessful L (br_Status br)"; cases "image_of L (spec_Output (v_Spec v)) br = ''''";
        simp add: a_LatestImage_def a_observe_def a_buildIsUnknown_def)
qed

text \<open>
  C19. What the status says after the last step for a run, against a well-behaved server:
  the run is the one referred to; BuildSucceeded is what the run reports, at the current
  generation; Ready is True with reason Reconciled at the current generation; the latest
  image changes only on a success that names an image, and then to that image; nothing
  else of the status changes but the observed generation, nor do the spec, the labels
  and the annotations; and the reconcile is to poll exactly while the outcome is unknown.
\<close>

theorem status_reflects_run:
  assumes "api_server C stored healthy trunc" and "in_sync stored healthy trunc s"
    and "deriveBuildSucceededStatus C br = (st, reason, msg)"
  shows "\<exists>s' v v' m.
     run_state (reconcileStatus C (Some br)) s = (Ok (st = ConditionUnknown), s') \<and>
     v = view_of (rs_ib s) \<and> v' = view_of (rs_ib s') \<and>
     v' = v
       \<lparr>v_ObservedGeneration := om_Generation (v_Meta v),
        v_LastBuildRunRef := br_Name br,
        v_LatestImage :=
          (let img = image_of C (spec_Output (v_Spec v)) br in
           if IsSuccessful C (br_Status br) \<and> img \<noteq> '''' then img else v_LatestImage v),
        v_Condition := (v_Condition v)
          (TypeBuildSucceeded \<mapsto> (st, reason, msg, om_Generation (v_Meta v)),
           TypeReady \<mapsto> (ConditionTrue, ReasonReconciled, m, om_Generation (v_Meta v)))\<rparr>"
proof -
  from api_server.run_reconcileStatus [OF assms(1,2)] obtain s' where
    "run_state (reconcileStatus C (Some br)) s =
       (Ok (snd (a_reconcileStatus C (Some br) (view_of (rs_ib s)))), s')"
    "view_of (rs_ib s') = fst (a_reconcileStatus C (Some br) (view_of (rs_ib s)))" by blast
  with a_reconcileStatus_run [OF assms(3), of "view_of (rs_ib s)"] show ?thesis by auto
qed

text \<open>
  C24. Against a well-behaved server the label step succeeds and leaves the on-commit label
  with the value the spec asks for, keeping every other label, annotation and the status;
  the object in memory stays the one stored. The label is what the webhook selects by.
\<close>

theorem label_follows_spec:
  assumes "api_server C stored healthy trunc" and "in_sync stored healthy trunc s"
  shows "\<exists>s'. run_state (ensureOnCommitLabel C) s = (Ok (), s') \<and> in_sync stored healthy trunc s' \<and>
     om_Labels (ib_Meta (rs_ib s')) = (om_Labels (ib_Meta (rs_ib s)))
       (LabelKeyOnCommitEnabled \<mapsto> onCommitLabelValue (rs_ib s')) \<and>
     om_Annotations (ib_Meta (rs_ib s')) = om_Annotations (ib_Meta (rs_ib s)) \<and>
     ib_Spec (rs_ib s') = ib_Spec (rs_ib s)"
proof -
  from api_server.run_ensureOnCommitLabel [OF assms] obtain s' where
    run: "run_state (ensureOnCommitLabel C) s = (Ok (), s')" "in_sync stored healthy trunc s'" and
    view: "view_of (rs_ib s') = (view_of (rs_ib s))
       \<lparr>v_Meta := (v_Meta (view_of (rs_ib s)))\<lparr>om_Labels := (om_Labels (ib_Meta (rs_ib s)))
          (LabelKeyOnCommitEnabled \<mapsto> onCommitLabelValue (rs_ib s))\<rparr>\<rparr>" by blast
  have "ib_Spec (rs_ib s') = ib_Spec (rs_ib s)"
    using arg_cong [OF view, of v_Spec] by (simp add: view_of_def)
  moreover from this have "onCommitLabelValue (rs_ib s') = onCommitLabelValue (rs_ib s)"
    by (simp add: onCommitLabelValue_def)
  moreover have "om_Labels (ib_Meta (rs_ib s')) = (om_Labels (ib_Meta (rs_ib s)))
      (LabelKeyOnCommitEnabled \<mapsto> onCommitLabelValue (rs_ib s))"
    using arg_cong [OF view, of "\<lambda>v. om_Labels (v_Meta v)"] by (simp add: view_of_def)
  moreover have "om_Annotations (ib_Meta (rs_ib s')) = om_Annotations (ib_Meta (rs_ib s))"
    using arg_cong [OF view, of "\<lambda>v. om_Annotations (v_Meta v)"] by (simp add: view_of_def)
  ultimately show ?thesis using run by auto
qed

end
