(* ===== verification/Reference_Client.thy ===== *)
theory Reference_Client
  imports Kube_Client
begin

text \<open>
  A concrete cluster for the parameter of \<open>Kube_Client\<close>: an object store in memory, like
  the fake client the repository's tests use, with a clock and with faults that can be
  injected per request. It follows the documented behaviour of each call and shows that
  the laws assumed of a cluster can hold together; the witnesses run the operator on it.
  No property rests on it.
\<close>

record mem =
  m_ImageBuilds :: "(NamespacedName \<times> ImageBuild) list"
  m_Policies :: "string \<rightharpoonup> ImageBuildPolicy"
  m_Strategies :: "string list"
  m_Builds :: "NamespacedName \<rightharpoonup> Build"
  m_BuildRuns :: "NamespacedName \<rightharpoonup> BuildRun"
  m_Secrets :: "NamespacedName \<rightharpoonup> (string \<rightharpoonup> string)"
  m_Clock :: time
  m_Fault :: "api_call \<Rightarrow> go_error option"

definition not_found :: "go_error + 'a" where
  "not_found = Inl (LibError NotFound ''not found'')"

definition guarded :: "api_call \<Rightarrow> (mem \<Rightarrow> (go_error + 'a) \<times> mem) \<Rightarrow> mem \<Rightarrow> (go_error + 'a) \<times> mem" where
  "guarded c f w = (case m_Fault w c of Some e \<Rightarrow> (Inl e, w) | None \<Rightarrow> f w)"

definition lookup :: "('k \<rightharpoonup> 'v) \<Rightarrow> 'k \<Rightarrow> mem \<Rightarrow> (go_error + 'v) \<times> mem" where
  "lookup m k w = (case m k of None \<Rightarrow> not_found | Some v \<Rightarrow> Inr v, w)"

fun put :: "'k \<Rightarrow> 'v \<Rightarrow> ('k \<times> 'v) list \<Rightarrow> ('k \<times> 'v) list" where
  "put k v [] = [(k, v)]"
| "put k v ((k', v') # kvs) = (if k = k' then (k, v) # kvs else (k', v') # put k v kvs)"

section \<open>Conditions and owner references\<close>

fun ref_set_condition :: "Condition list \<Rightarrow> Condition \<Rightarrow> time \<Rightarrow> Condition list" where
  "ref_set_condition [] c now = [c\<lparr>cond_LastTransitionTime := now\<rparr>]"
| "ref_set_condition (d # ds) c now =
     (if cond_Type d = cond_Type c
      then c\<lparr>cond_LastTransitionTime :=
             (if cond_Status d = cond_Status c then cond_LastTransitionTime d else now)\<rparr> # ds
      else d # ref_set_condition ds c now)"

definition controllerOf :: "ObjectMeta \<Rightarrow> OwnerReference option" where
  "controllerOf m = find or_Controller (om_OwnerReferences m)"

definition ref_IsControlledBy :: "ObjectMeta \<Rightarrow> ObjectMeta \<Rightarrow> bool" where
  "ref_IsControlledBy m owner =
     (case controllerOf m of None \<Rightarrow> False | Some r \<Rightarrow> or_UID r = om_UID owner)"

definition ref_SetControllerReference :: "ObjectMeta \<Rightarrow> ObjectMeta \<Rightarrow> go_error + ObjectMeta" where
  "ref_SetControllerReference owner m =
     (case controllerOf m of
        None \<Rightarrow> Inr (m\<lparr>om_OwnerReferences :=
                  om_OwnerReferences m @ [\<lparr>or_UID = om_UID owner, or_Controller = True\<rparr>]\<rparr>)
      | Some r \<Rightarrow> if or_UID r = om_UID owner then Inr m
                  else Inl (LibError AlreadyOwned ''already owned''))"

definition ref_ParseNormalizedNamed :: "string \<Rightarrow> go_error + Named" where
  "ref_ParseNormalizedNamed s =
     (if s = '''' then Inl (LibError OtherError ''invalid reference format'')
      else
        (let name = takeWhile (\<lambda>c. c \<noteq> CHR ''@'') s;
             final = rev (takeWhile (\<lambda>c. c \<noteq> CHR ''/'') (rev name)) in
         Inr \<lparr>nm_Digested = CHR ''@'' \<in> set s,
              nm_IsNameOnly = (CHR ''@'' \<notin> set s \<and> CHR '':'' \<notin> set final)\<rparr>))"

section \<open>Writes\<close>

text \<open>
  A merge patch changes the fields in which the modified object differs from the
  original one and leaves the others as the server has them.
\<close>

definition merge_field :: "'a \<Rightarrow> 'a \<Rightarrow> 'a \<Rightarrow> 'a" where
  "merge_field orig new stored = (if new = orig then stored else new)"

definition merge_OnCommit :: "ImageBuildOnCommitStatus option \<Rightarrow> ImageBuildOnCommitStatus option \<Rightarrow>
    ImageBuildOnCommitStatus option \<Rightarrow> ImageBuildOnCommitStatus option" where
  "merge_OnCommit orig new stored =
     (case (orig, new, stored) of
        (Some a, Some b, Some s) \<Rightarrow> Some
          \<lparr>ocs_LastReceived = merge_field (ocs_LastReceived a) (ocs_LastReceived b) (ocs_LastReceived s),
           ocs_Pending = merge_field (ocs_Pending a) (ocs_Pending b) (ocs_Pending s),
           ocs_LastTriggeredBuildRun =
             merge_field (ocs_LastTriggeredBuildRun a) (ocs_LastTriggeredBuildRun b)
               (ocs_LastTriggeredBuildRun s),
           ocs_TriggerCounter =
             merge_field (ocs_TriggerCounter a) (ocs_TriggerCounter b) (ocs_TriggerCounter s)\<rparr>
      | _ \<Rightarrow> merge_field orig new stored)"

definition merge_status :: "ImageBuildStatus \<Rightarrow> ImageBuildStatus \<Rightarrow> ImageBuildStatus \<Rightarrow>
    ImageBuildStatus" where
  "merge_status a b s =
     \<lparr>st_ObservedGeneration =
        merge_field (st_ObservedGeneration a) (st_ObservedGeneration b) (st_ObservedGeneration s),
      st_BuildRef = merge_field (st_BuildRef a) (st_BuildRef b) (st_BuildRef s),
      st_Conditions = merge_field (st_Conditions a) (st_Conditions b) (st_Conditions s),
      st_LatestImage = merge_field (st_LatestImage a) (st_LatestImage b) (st_LatestImage s),
      st_LastBuildRunRef =
        merge_field (st_LastBuildRunRef a) (st_LastBuildRunRef b) (st_LastBuildRunRef s),
      st_BuildRunCounter =
        merge_field (st_BuildRunCounter a) (st_BuildRunCounter b) (st_BuildRunCounter s),
      st_OnCommit = merge_OnCommit (st_OnCommit a) (st_OnCommit b) (st_OnCommit s)\<rparr>"

definition store_ImageBuild :: "(ImageBuild \<Rightarrow> ImageBuild) \<Rightarrow> ImageBuild \<Rightarrow> mem \<Rightarrow>
    (go_error + ImageBuild) \<times> mem" where
  "store_ImageBuild f ib w =
     (case map_of (m_ImageBuilds w) (ObjectKeyOf (ib_Meta ib)) of
        None \<Rightarrow> (not_found, w)
      | Some stored \<Rightarrow>
          (Inr (f stored),
           w\<lparr>m_ImageBuilds := put (ObjectKeyOf (ib_Meta ib)) (f stored) (m_ImageBuilds w)\<rparr>))"

definition ref_CreateBuildRun :: "BuildRun \<Rightarrow> mem \<Rightarrow> (go_error + BuildRun) \<times> mem" where
  "ref_CreateBuildRun br w =
     (let k = ObjectKeyOf (br_Meta br) in
      case m_BuildRuns w k of
        Some _ \<Rightarrow> (Inl (LibError OtherError ''already exists''), w)
      | None \<Rightarrow> (Inr br, w\<lparr>m_BuildRuns := (m_BuildRuns w)(k \<mapsto> br)\<rparr>))"

definition ref_CreateOrPatchBuild :: "Build \<Rightarrow> (Build \<Rightarrow> go_error + Build) \<Rightarrow> mem \<Rightarrow>
    (go_error + Build) \<times> mem" where
  "ref_CreateOrPatchBuild b f w =
     (let k = ObjectKeyOf (build_Meta b);
          current = (case m_Builds w k of None \<Rightarrow> b | Some stored \<Rightarrow> stored) in
      case f current of
        Inl e \<Rightarrow> (Inl e, w)
      | Inr new \<Rightarrow> (Inr new, w\<lparr>m_Builds := (m_Builds w)(k \<mapsto> new)\<rparr>))"

definition ref_client :: "mem client" where
  "ref_client =
     \<lparr>FindStatusCondition = (\<lambda>cs t. find (\<lambda>c. cond_Type c = t) cs),
      IsControlledBy = ref_IsControlledBy,
      SetControllerReference = ref_SetControllerReference,
      AlreadyOwnedError_Error = (\<lambda>m. ''Object '' @ om_Namespace m @ ''/'' @ om_Name m @ '' is already owned''),
      GetCondition_Succeeded = (\<lambda>st. find (\<lambda>c. brc_Type c = ''Succeeded'') (brs_Conditions st)),
      IsSuccessful = (\<lambda>st. case find (\<lambda>c. brc_Type c = ''Succeeded'') (brs_Conditions st) of
         None \<Rightarrow> False | Some c \<Rightarrow> brc_Status c = ConditionTrue),
      ParseNormalizedNamed = ref_ParseNormalizedNamed,
      cl_GetImageBuild = (\<lambda>k. guarded (GetImageBuild k) (\<lambda>w. lookup (map_of (m_ImageBuilds w)) k w)),
      cl_GetImageBuildPolicy =
        (\<lambda>n. guarded (GetImageBuildPolicy n) (\<lambda>w. lookup (m_Policies w) n w)),
      cl_GetClusterBuildStrategy = (\<lambda>n. guarded (GetClusterBuildStrategy n)
         (\<lambda>w. (if List.member (m_Strategies w) n then Inr () else not_found, w))),
      cl_GetBuildRun = (\<lambda>k. guarded (GetBuildRun k None) (\<lambda>w. lookup (m_BuildRuns w) k w)),
      cl_GetSecret = (\<lambda>k. guarded (GetSecret k None) (\<lambda>w. lookup (m_Secrets w) k w)),
      cl_ListImageBuilds = (\<lambda>(k, v). guarded (ListImageBuilds (k, v))
         (\<lambda>w. (Inr (List.filter (\<lambda>ib. om_Labels (ib_Meta ib) k = Some v \<and>
                       map_of (m_ImageBuilds w) (ObjectKeyOf (ib_Meta ib)) = Some ib)
                     (List.map snd (m_ImageBuilds w))), w))),
      cl_PatchImageBuild = (\<lambda>a b. guarded (PatchImageBuild a b)
         (store_ImageBuild (\<lambda>s. s\<lparr>ib_Meta := ib_Meta b, ib_Spec := ib_Spec b\<rparr>) b)),
      cl_PatchImageBuildStatus = (\<lambda>a b. guarded (PatchImageBuildStatus a b)
         (store_ImageBuild
           (\<lambda>s. s\<lparr>ib_Status := merge_status (ib_Status a) (ib_Status b) (ib_Status s)\<rparr>) b)),
      cl_UpdateImageBuild = (\<lambda>b. guarded (UpdateImageBuild b)
         (store_ImageBuild (\<lambda>s. s\<lparr>ib_Meta := ib_Meta b, ib_Spec := ib_Spec b\<rparr>) b)),
      cl_CreateBuildRun = (\<lambda>b. guarded (CreateBuildRun b) (ref_CreateBuildRun b)),
      cl_CreateOrPatchBuild = (\<lambda>b f. guarded (CreateOrPatchBuild b) (ref_CreateOrPatchBuild b f)),
      cl_SetStatusCondition = (\<lambda>cs c w. (ref_set_condition cs c (m_Clock w), w)),
      cl_Now = (\<lambda>w. (m_Clock w, w))\<rparr>"

text \<open>A namespace with one ImageBuild, as the tests set it up.\<close>

definition demo_meta :: "(string \<rightharpoonup> string) \<Rightarrow> ObjectMeta" where
  "demo_meta ls = (new_meta ''ns'' ''ib'' ls)\<lparr>om_UID := ''uid'', om_Generation := 1\<rparr>"

definition demo_status :: ImageBuildStatus where
  "demo_status =
     \<lparr>st_ObservedGeneration = 0, st_BuildRef = '''', st_Conditions = [], st_LatestImage = '''',
      st_LastBuildRunRef = '''', st_BuildRunCounter = 0, st_OnCommit = None\<rparr>"

definition demo_spec :: ImageBuildSpec where
  "demo_spec =
     \<lparr>spec_Source = \<lparr>src_Type = ''Git'',
        src_Git = \<lparr>git_URL = ''https://git/r'', git_Revision = ''main'', git_CloneSecret = None\<rparr>,
        src_ContextDir = ''''\<rparr>,
      spec_BuildFile = \<lparr>bf_Mode = ''Absent''\<rparr>, spec_Rebuild = None,
      spec_Output = \<lparr>out_Image = ''reg/app'', out_PushSecret = None\<rparr>, spec_OnCommit = None,
      spec_Retention = None\<rparr>"

definition demo_ib :: ImageBuild where
  "demo_ib = \<lparr>ib_Meta = demo_meta Map.empty, ib_Spec = demo_spec, ib_Status = demo_status\<rparr>"

definition demo_policy :: ImageBuildPolicy where
  "demo_policy =
     \<lparr>pol_Meta = new_meta '''' ''image-build-policy'' Map.empty,
      pol_Spec = \<lparr>ps_ClusterBuildStrategy = \<lparr>cs_BuildFile =
        \<lparr>bfs_Present = ''present'', bfs_Absent = ''absent''\<rparr>\<rparr>, ps_Retention = None\<rparr>\<rparr>"

definition demo_key :: NamespacedName where
  "demo_key = \<lparr>nn_Namespace = ''ns'', nn_Name = ''ib''\<rparr>"

definition demo_mem :: "ImageBuild \<Rightarrow> mem" where
  "demo_mem ib =
     \<lparr>m_ImageBuilds = [(demo_key, ib)], m_Policies = [''image-build-policy'' \<mapsto> demo_policy],
      m_Strategies = [''absent'', ''present''], m_Builds = Map.empty, m_BuildRuns = Map.empty,
      m_Secrets = Map.empty, m_Clock = 1000 * second, m_Fault = (\<lambda>_. None)\<rparr>"

end
