(* ===== verification/Reference_Server.thy ===== *)
theory Reference_Server
  imports Api_Server Reference_Client
begin

text \<open>
  The contract of \<open>Api_Server\<close> holds of the cluster in memory as long as no fault is
  injected, and it is kept by logging: so it can be satisfied, and what is proved under
  it applies to the runs the logs are about.
\<close>

lemma map_of_put [simp]: "map_of (put k v kvs) = (map_of kvs)(k \<mapsto> v)"
  by (induction k v kvs rule: put.induct) auto

lemma merge_OnCommit_same [simp]: "merge_OnCommit a b a = b"
  by (cases "(a, b)" rule: prod.exhaust)
    (auto simp: merge_OnCommit_def merge_field_def split: option.splits
      intro!: ImageBuildOnCommitStatus.equality)

lemma merge_status_same [simp]: "merge_status a b a = b"
  by (auto simp: merge_status_def merge_field_def intro!: ImageBuildStatus.equality)

lemma cond_map_ref_set_condition:
  "cond_map (ref_set_condition cs c now) = (cond_map cs)(cond_Type c \<mapsto> cond_value c)"
proof (induction cs c now rule: ref_set_condition.induct)
  case (1 c now)
  show ?case by (auto simp: cond_map_def cond_value_def fun_eq_iff)
next
  case (2 d ds c now)
  show ?case
  proof (cases "cond_Type d = cond_Type c")
    case True
    then show ?thesis by (auto simp: cond_map_def cond_value_def fun_eq_iff)
  next
    case False
    with 2 show ?thesis by (auto simp: cond_map_def fun_eq_iff)
  qed
qed

definition mem_stored :: "mem \<Rightarrow> NamespacedName \<Rightarrow> ImageBuild option" where
  "mem_stored w = map_of (m_ImageBuilds w)"

definition mem_healthy :: "mem \<Rightarrow> bool" where
  "mem_healthy w \<longleftrightarrow> (\<forall>c. m_Fault w c = None)"

lemma store_ImageBuild_sync:
  "mem_stored w (ib_key ib) = Some old \<Longrightarrow>
     store_ImageBuild f ib w =
       (Inr (f old), w\<lparr>m_ImageBuilds := put (ib_key ib) (f old) (m_ImageBuilds w)\<rparr>)"
  by (simp add: store_ImageBuild_def mem_stored_def)

lemma with_rv_same [simp]: "with_rv ib (om_ResourceVersion (ib_Meta ib)) = ib"
  by simp

lemma map_event_id [simp]: "map_event id e = e"
  by (simp add: map_event_def)

lemma map_OnCommit_id [simp]: "map_OnCommit id oc = oc"
  by (cases oc) (simp add: map_OnCommit_def option.map_ident cong: option.map_cong)

lemma map_times_id [simp]: "map_times id st = st"
  by (cases st) (simp add: map_times_def option.map_ident cong: option.map_cong)

interpretation ref: api_server ref_client mem_stored mem_healthy id
proof unfold_locales
  fix w and orig new :: ImageBuild
  assume h: "mem_healthy w" "mem_stored w (ib_key orig) = Some orig"
    "ib_Meta new = ib_Meta orig" "ib_Spec new = ib_Spec orig"
  let ?r = "orig\<lparr>ib_Status := ib_Status new\<rparr>"
  have "cl_PatchImageBuildStatus ref_client orig new w =
      (Inr ?r, w\<lparr>m_ImageBuilds := put (ib_key orig) ?r (m_ImageBuilds w)\<rparr>)"
    using h by (simp add: ref_client_def guarded_def mem_healthy_def store_ImageBuild_sync)
  then show "\<exists>rv w'. let r = with_rv (orig\<lparr>ib_Status := map_times id (ib_Status new)\<rparr>) rv in
      cl_PatchImageBuildStatus ref_client orig new w = (Inr r, w') \<and> mem_healthy w' \<and>
      mem_stored w' = (mem_stored w)(ib_key orig \<mapsto> r)"
    using h(1) by (intro exI [of _ "om_ResourceVersion (ib_Meta orig)"])
      (simp add: mem_stored_def mem_healthy_def Let_def)
next
  fix w and orig new :: ImageBuild
  assume h: "mem_healthy w" "mem_stored w (ib_key orig) = Some orig" "ib_key new = ib_key orig"
    "ib_Spec new = ib_Spec orig" "ib_Status new = ib_Status orig"
  have eq: "(orig\<lparr>ib_Meta := ib_Meta new, ib_Spec := ib_Spec new\<rparr>) = new"
    using h by (cases orig; cases new) simp
  have "cl_PatchImageBuild ref_client orig new w =
      (Inr (orig\<lparr>ib_Meta := ib_Meta new, ib_Spec := ib_Spec new\<rparr>),
       w\<lparr>m_ImageBuilds := put (ib_key orig) (orig\<lparr>ib_Meta := ib_Meta new, ib_Spec := ib_Spec new\<rparr>) (m_ImageBuilds w)\<rparr>)"
    using h(1-3) by (simp add: ref_client_def guarded_def mem_healthy_def store_ImageBuild_sync)
  note this [unfolded eq]
  then show "\<exists>rv w'. cl_PatchImageBuild ref_client orig new w = (Inr (with_rv new rv), w') \<and>
      mem_healthy w' \<and> mem_stored w' = (mem_stored w)(ib_key orig \<mapsto> with_rv new rv)"
    using h(1) by (intro exI [of _ "om_ResourceVersion (ib_Meta new)"])
      (simp add: mem_stored_def mem_healthy_def)
next
  fix w and new old :: ImageBuild
  assume h: "mem_healthy w" "mem_stored w (ib_key new) = Some old"
    "ib_Spec new = ib_Spec old" "ib_Status new = ib_Status old"
  have eq: "(old\<lparr>ib_Meta := ib_Meta new, ib_Spec := ib_Spec new\<rparr>) = new"
    using h by (cases old; cases new) simp
  have "cl_UpdateImageBuild ref_client new w =
      (Inr (old\<lparr>ib_Meta := ib_Meta new, ib_Spec := ib_Spec new\<rparr>),
       w\<lparr>m_ImageBuilds := put (ib_key new) (old\<lparr>ib_Meta := ib_Meta new, ib_Spec := ib_Spec new\<rparr>) (m_ImageBuilds w)\<rparr>)"
    using h(1,2) by (simp add: ref_client_def guarded_def mem_healthy_def store_ImageBuild_sync)
  note this [unfolded eq]
  then show "\<exists>rv w'. cl_UpdateImageBuild ref_client new w = (Inr (with_rv new rv), w') \<and>
      mem_healthy w' \<and> mem_stored w' = (mem_stored w)(ib_key new \<mapsto> with_rv new rv)"
    using h(1) by (intro exI [of _ "om_ResourceVersion (ib_Meta new)"])
      (simp add: mem_stored_def mem_healthy_def)
next
  fix cs cond w cs' w'
  assume "cl_SetStatusCondition ref_client cs cond w = (cs', w')"
  then show "cond_map cs' = (cond_map cs)(cond_Type cond \<mapsto> cond_value cond) \<and>
      mem_stored w' = mem_stored w \<and> mem_healthy w' = mem_healthy w"
    by (auto simp: ref_client_def cond_map_ref_set_condition)
qed (simp_all add: ref_client_def)

interpretation ref_runs: run_server ref_client mem_stored mem_healthy id m_BuildRuns
proof unfold_locales
  fix w k
  assume "mem_healthy w"
  then show "\<exists>w'. mem_healthy w' \<and> mem_stored w' = mem_stored w \<and> m_BuildRuns w' = m_BuildRuns w \<and>
      (case m_BuildRuns w k of
         Some br \<Rightarrow> cl_GetBuildRun ref_client k w = (Inr br, w')
       | None \<Rightarrow> \<exists>e. IsNotFound e \<and> cl_GetBuildRun ref_client k w = (Inl e, w'))"
    by (intro exI [of _ w])
      (auto simp: ref_client_def guarded_def mem_healthy_def lookup_def not_found_def IsNotFound_def
        split: option.splits)
next
  fix w and b :: BuildRun
  assume "mem_healthy w" "m_BuildRuns w (ObjectKeyOf (br_Meta b)) = None"
  then show "\<exists>br w'. cl_CreateBuildRun ref_client b w = (Inr br, w') \<and>
      ObjectKeyOf (br_Meta br) = ObjectKeyOf (br_Meta b) \<and> mem_healthy w' \<and>
      mem_stored w' = mem_stored w \<and> m_BuildRuns w' = (m_BuildRuns w)(ObjectKeyOf (br_Meta b) \<mapsto> br)"
    by (simp add: ref_client_def guarded_def mem_healthy_def ref_CreateBuildRun_def mem_stored_def Let_def)
next
  fix orig new :: ImageBuild and w r w'
  show "m_BuildRuns w' = m_BuildRuns w" if "cl_PatchImageBuildStatus ref_client orig new w = (r, w')"
    using that by (auto simp: ref_client_def guarded_def store_ImageBuild_def split: option.splits)
next
  fix new :: ImageBuild and w r w'
  show "m_BuildRuns w' = m_BuildRuns w" if "cl_UpdateImageBuild ref_client new w = (r, w')"
    using that by (auto simp: ref_client_def guarded_def store_ImageBuild_def split: option.splits)
next
  fix m :: ObjectMeta and owner
  assume "om_OwnerReferences m = []"
  then show "\<exists>m'. SetControllerReference ref_client owner m = Inr m' \<and> ObjectKeyOf m' = ObjectKeyOf m"
    by (auto simp: ref_client_def ref_SetControllerReference_def controllerOf_def ObjectKeyOf_def)
qed

lemma find_append: "List.find P (xs @ ys) = (case List.find P xs of None \<Rightarrow> List.find P ys | r \<Rightarrow> r)"
  by (induction xs) auto

interpretation ref_owner: controller_reference ref_client
proof unfold_locales
  fix owner m m'
  assume "SetControllerReference ref_client owner m = Inr m'"
  then have r: "ref_SetControllerReference owner m = Inr m'" by (simp add: ref_client_def)
  then show "m' = m\<lparr>om_OwnerReferences := om_OwnerReferences m'\<rparr>"
    by (auto simp: ref_SetControllerReference_def split: option.splits if_splits)
  show "SetControllerReference ref_client owner (m'\<lparr>om_Labels := ls\<rparr>) = Inr (m'\<lparr>om_Labels := ls\<rparr>)" for ls
    using r
    by (auto simp: ref_client_def ref_SetControllerReference_def controllerOf_def find_append
        split: option.splits if_splits)
qed

text \<open>Logging keeps the contract.\<close>

context api_server
begin

lemma logged_server: "api_server (logged C) (\<lambda>w. stored (fst w)) (\<lambda>w. healthy (fst w)) trunc"
proof unfold_locales
  fix w :: "'w logging" and orig new :: ImageBuild
  assume "healthy (fst w)" "stored (fst w) (ib_key orig) = Some orig"
    "ib_Meta new = ib_Meta orig" "ib_Spec new = ib_Spec orig"
  from patch_status_law [OF this]
  show "\<exists>rv w'. let r = with_rv (orig\<lparr>ib_Status := map_times trunc (ib_Status new)\<rparr>) rv in
      cl_PatchImageBuildStatus (logged C) orig new w = (Inr r, w') \<and> healthy (fst w') \<and>
      stored (fst w') = (stored (fst w))(ib_key orig \<mapsto> r)"
    by (cases w) (auto simp: logged_def log_call_def Let_def)
next
  fix w :: "'w logging" and orig new :: ImageBuild
  assume "healthy (fst w)" "stored (fst w) (ib_key orig) = Some orig" "ib_key new = ib_key orig"
    "ib_Spec new = ib_Spec orig" "ib_Status new = ib_Status orig"
  from patch_object_law [OF this]
  show "\<exists>rv w'. cl_PatchImageBuild (logged C) orig new w = (Inr (with_rv new rv), w') \<and>
      healthy (fst w') \<and> stored (fst w') = (stored (fst w))(ib_key orig \<mapsto> with_rv new rv)"
    by (cases w) (auto simp: logged_def log_call_def)
next
  fix w :: "'w logging" and new old :: ImageBuild
  assume "healthy (fst w)" "stored (fst w) (ib_key new) = Some old"
    "om_ResourceVersion (ib_Meta new) = om_ResourceVersion (ib_Meta old)"
    "ib_Spec new = ib_Spec old" "ib_Status new = ib_Status old"
  from update_law [OF this]
  show "\<exists>rv w'. cl_UpdateImageBuild (logged C) new w = (Inr (with_rv new rv), w') \<and>
      healthy (fst w') \<and> stored (fst w') = (stored (fst w))(ib_key new \<mapsto> with_rv new rv)"
    by (cases w) (auto simp: logged_def log_call_def)
next
  fix cs cond w cs' w'
  assume "cl_SetStatusCondition (logged C) cs cond w = (cs', w')"
  then show "cond_map cs' = (cond_map cs)(cond_Type cond \<mapsto> cond_value cond) \<and>
      stored (fst w') = stored (fst w) \<and> healthy (fst w') = healthy (fst w)"
    using set_law by (cases w) (auto simp: logged_def split: prod.splits)
qed (simp_all add: trunc_law find_law)

end

interpretation ref_logged: api_server "logged ref_client" "\<lambda>w. mem_stored (fst w)"
    "\<lambda>w. mem_healthy (fst w)" id
  by (rule ref.logged_server)

end
