(* ===== verification/Identity.thy ===== *)
theory Identity
  imports Controller
begin

text \<open>
  Which ImageBuild a reconcile works on. The object in memory is the one that was read,
  until a write is answered: controller-runtime then stores the answer in its place. The
  relation \<open>becomes\<close> holds of an ImageBuild that a reconcile can hold in this way after it
  has read another, and the locale proves that the reconciler, whose own changes are to
  the status, the labels and the annotations, never holds any other.
\<close>

section \<open>Identities\<close>

text \<open>The name an ImageBuild is asked for by, and its UID.\<close>

type_synonym identity = "NamespacedName \<times> string"

definition ident :: "ImageBuild \<Rightarrow> identity" where
  "ident ib = (ObjectKeyOf (ib_Meta ib), om_UID (ib_Meta ib))"

lemma ident_changes [simp]:
  "ident (ib\<lparr>ib_Status := st\<rparr>) = ident ib"
  "ident (ib\<lparr>ib_Meta := (ib_Meta ib)\<lparr>om_Labels := ls\<rparr>\<rparr>) = ident ib"
  "ident (ib\<lparr>ib_Meta := (ib_Meta ib)\<lparr>om_Annotations := as\<rparr>\<rparr>) = ident ib"
  "ident (set_ObservedGeneration ib) = ident ib"
  "ident (upd_OnCommit f ib) = ident ib"
  "recordBuildSpec ib = Ok ib' \<Longrightarrow> ident ib' = ident ib"
  by (auto simp: ident_def ObjectKeyOf_def set_ObservedGeneration_def upd_OnCommit_def
      recordBuildSpec_def)

text \<open>
  \<open>becomes C i j\<close>: starting from an object \<open>i\<close>, sending what is in memory and taking over
  the answers of \<open>C\<close> can lead to \<open>j\<close>.
\<close>

inductive becomes :: "('w, 'z) client_scheme \<Rightarrow> identity \<Rightarrow> identity \<Rightarrow> bool"
  for C :: "('w, 'z) client_scheme" and i :: identity where
  read: "becomes C i i"
| patched: "becomes C i (ident ib) \<Longrightarrow> cl_PatchImageBuild C orig ib w = (Inr ib', w') \<Longrightarrow>
     becomes C i (ident ib')"
| status_patched: "becomes C i (ident ib) \<Longrightarrow>
     cl_PatchImageBuildStatus C orig ib w = (Inr ib', w') \<Longrightarrow> becomes C i (ident ib')"
| updated: "becomes C i (ident ib) \<Longrightarrow> cl_UpdateImageBuild C ib w = (Inr ib', w') \<Longrightarrow>
     becomes C i (ident ib')"

text \<open>
  A server that answers a write with the object of the name that was sent never makes the
  reconcile change to an ImageBuild of another name; one that also checks the UID never
  makes it change to a later ImageBuild of the same name.
\<close>

lemma becomes_same:
  assumes "becomes C i j"
    and "\<And>orig ib w ib' w'. cl_PatchImageBuild C orig ib w = (Inr ib', w') \<Longrightarrow> f (ident ib') = f (ident ib)"
    and "\<And>orig ib w ib' w'. cl_PatchImageBuildStatus C orig ib w = (Inr ib', w') \<Longrightarrow> f (ident ib') = f (ident ib)"
    and "\<And>ib w ib' w'. cl_UpdateImageBuild C ib w = (Inr ib', w') \<Longrightarrow> f (ident ib') = f (ident ib)"
  shows "f j = f i"
  using assms by (induction rule: becomes.induct) metis+

section \<open>The object in memory\<close>

locale identified =
  fixes C :: "'w client" and P :: "identity \<Rightarrow> bool"
  assumes patch_law: "P (ident ib) \<Longrightarrow> cl_PatchImageBuild C orig ib w = (Inr ib', w') \<Longrightarrow> P (ident ib')"
    and status_law: "P (ident ib) \<Longrightarrow> cl_PatchImageBuildStatus C orig ib w = (Inr ib', w') \<Longrightarrow> P (ident ib')"
    and update_law: "P (ident ib) \<Longrightarrow> cl_UpdateImageBuild C ib w = (Inr ib', w') \<Longrightarrow> P (ident ib')"

definition stays :: "(identity \<Rightarrow> bool) \<Rightarrow> ('w rstate, 'a) state \<Rightarrow> bool" where
  "stays P m \<longleftrightarrow> (\<forall>s. P (ident (rs_ib s)) \<longrightarrow> P (ident (rs_ib (snd (run_state m s)))))"

named_theorems stays_intros

lemma staysD: "stays P m \<Longrightarrow> run_state m s = (r, s') \<Longrightarrow> P (ident (rs_ib s)) \<Longrightarrow> P (ident (rs_ib s'))"
  unfolding stays_def by (metis snd_conv)

lemma stays_return [stays_intros]: "stays P (State_Monad.return a)"
  by (simp add: stays_def)

lemma stays_bind [stays_intros]:
  "stays P m \<Longrightarrow> (\<And>a. stays P (f a)) \<Longrightarrow> stays P (State_Monad.bind m f)"
  unfolding stays_def by (auto split: prod.splits)

lemma stays_bind_res [stays_intros]:
  "stays P m \<Longrightarrow> (\<And>a. stays P (f a)) \<Longrightarrow> stays P (bind_res m f)"
  unfolding bind_res_def by (auto intro!: stays_intros split: res.splits)

lemma stays_call [stays_intros]: "stays P (call f)"
  by (auto simp: stays_def split: prod.splits)

lemma stays_get_ib:
  "(\<And>ib. P (ident ib) \<Longrightarrow> stays P (f ib)) \<Longrightarrow> stays P (State_Monad.bind get_ib f)"
  by (simp add: stays_def)

lemma stays_bind_res_return:
  "(\<And>x. r = Ok x \<Longrightarrow> stays P (f x)) \<Longrightarrow> stays P (bind_res (State_Monad.return r) f)"
  by (cases r) (auto simp: bind_res_def intro: stays_return)

lemma stays_put_ib: "P (ident ib) \<Longrightarrow> stays P (put_ib ib)"
  by (simp add: stays_def)

lemmas stays_memory = stays_get_ib stays_put_ib

lemma stays_write:
  assumes "\<And>ib w ib' w'. P (ident ib) \<Longrightarrow> f ib w = (Inr ib', w') \<Longrightarrow> P (ident ib')"
  shows "stays P (do {
     ib \<leftarrow> get_ib;
     r \<leftarrow> call (f ib);
     case r of
       Inl e \<Rightarrow> State_Monad.return (Err (wrap msg e))
     | Inr ib' \<Rightarrow> do { _ \<leftarrow> put_ib ib'; State_Monad.return (Ok ()) }
   })"
  using assms by (auto simp: stays_def split: prod.splits sum.splits)

context identified
begin

lemma stays_writes [stays_intros]:
  "stays P (patch_status C msg orig)" "stays P (patch_object C msg orig)" "stays P (update_object C msg)"
  unfolding patch_status_def patch_object_def update_object_def
  by (rule stays_write; fact status_law patch_law update_law)+

lemma stays_status [stays_intros]:
  "stays P (set_status_condition C c)"
  "stays P (patchReadyCondition C st reason msg)"
  "stays P (setNotReady C reason msg)"
  "stays P (patchBuildRef C)"
  "stays P (patchBuildSucceededCondition C br)"
  "stays P (patchLatestImage C img)"
  by (auto simp: set_status_condition_def patchReadyCondition_def setNotReady_def patchBuildRef_def
      patchBuildSucceededCondition_def patchLatestImage_def Let_def
      intro!: stays_memory stays_intros split: prod.splits)

lemma stays_build [stays_intros]:
  "stays P (ensureOnCommitLabel C)"
  "stays P (validateWebhookSecret C)"
  "stays P (ensureBuild C policy sn)"
  by (auto simp: ensureOnCommitLabel_def validateWebhookSecret_def ensureBuild_def Let_def
      intro!: stays_memory stays_intros split: option.splits sum.splits)

lemma stays_runs [stays_intros]:
  "stays P (getOrCreateBuildRun C desired)"
  "stays P (getLastBuildRun C)"
  "stays P (positiveUntil C t)"
  by (auto simp: getOrCreateBuildRun_def getLastBuildRun_def positiveUntil_def Let_def
      intro!: stays_memory stays_intros split: option.splits sum.splits)

lemma stays_on_commit [stays_intros]:
  "stays P (getActiveBuildRun C)"
  "stays P (remainingWait C)"
  "stays P (patchOnCommitTriggered C br c sha)"
  by (auto simp: getActiveBuildRun_def remainingWait_def patchOnCommitTriggered_def Let_def
      intro!: stays_memory stays_intros split: option.splits)

lemma stays_ensure_run [stays_intros]:
  "stays P (ensureBuildRun C)"
  "stays P (ensureOnCommitBuildRun C sha)"
  by (auto simp: ensureBuildRun_def ensureOnCommitBuildRun_def Let_def
      intro!: stays_memory stays_intros split: option.splits prod.splits)

lemma stays_reconcileStatus [stays_intros]: "stays P (reconcileStatus C b)"
  by (auto simp: reconcileStatus_def intro!: stays_memory stays_intros split: option.splits)

end

text \<open>The objects that \<open>becomes\<close> allows, for the client that the logs are about.\<close>

interpretation held: identified "logged C" "becomes C i" for C :: "'w client" and i
  by unfold_locales
    (auto simp: logged_def log_call_def intro: becomes.intros split: prod.splits)

end
