(* ===== verification/Controller_Log.thy ===== *)
theory Controller_Log
  imports Identity
begin

text \<open>
  What a reconcile asks of the cluster, whatever the cluster answers: which requests
  write Builds and BuildRuns, in which order and how often. Everything here is about
  the logging client, for an arbitrary client underneath.
\<close>

section \<open>The writes of Builds and BuildRuns\<close>

fun is_build_write :: "entry \<Rightarrow> bool" where
  "is_build_write (CreateBuildRun b, ok) \<longleftrightarrow> True"
| "is_build_write (CreateOrPatchBuild d, ok) \<longleftrightarrow> True"
| "is_build_write _ \<longleftrightarrow> False"

definition build_writes :: "entry list \<Rightarrow> entry list" where
  "build_writes l = List.filter is_build_write l"

definition wlg :: "'w logging rstate \<Rightarrow> entry list" where
  "wlg s = build_writes (lg s)"

text \<open>A computation that sends no such write.\<close>

definition quiet :: "('w logging rstate, 'a) state \<Rightarrow> bool" where
  "quiet m \<longleftrightarrow> (\<forall>s. wlg (snd (run_state m s)) = wlg s)"

named_theorems quiet_intros

lemma quiet_return [quiet_intros]: "quiet (State_Monad.return a)"
  by (simp add: quiet_def)

lemma quiet_bind [quiet_intros]:
  "quiet m \<Longrightarrow> (\<And>a. quiet (f a)) \<Longrightarrow> quiet (State_Monad.bind m f)"
  by (auto simp: quiet_def split: prod.splits) (metis snd_conv)

lemma quiet_bind_res [quiet_intros]:
  "quiet m \<Longrightarrow> (\<And>a. quiet (f a)) \<Longrightarrow> quiet (bind_res m f)"
  unfolding bind_res_def by (auto intro!: quiet_intros split: res.splits)

lemma quiet_get_put [quiet_intros]: "quiet get_ib" "quiet (put_ib ib)"
  by (simp_all add: quiet_def wlg_def)

lemma quiet_if [quiet_intros]: "quiet m \<Longrightarrow> quiet n \<Longrightarrow> quiet (if c then m else n)"
  by simp

lemma quiet_calls [quiet_intros]:
  "quiet (call (cl_GetImageBuildPolicy (logged C) n))"
  "quiet (call (cl_GetClusterBuildStrategy (logged C) n))"
  "quiet (call (cl_GetBuildRun (logged C) k))"
  "quiet (call (cl_GetSecret (logged C) k))"
  "quiet (call (cl_PatchImageBuild (logged C) a b))"
  "quiet (call (cl_PatchImageBuildStatus (logged C) a b))"
  "quiet (call (cl_UpdateImageBuild (logged C) a))"
  "quiet (call (cl_SetStatusCondition (logged C) cs c))"
  "quiet (call (cl_Now (logged C)))"
  by (auto simp: quiet_def wlg_def build_writes_def logged_def log_call_def
      split: prod.splits sum.splits)

lemmas quiet_splits = sum.splits option.splits res.splits prod.splits

lemma quiet_patches [quiet_intros]:
  "quiet (patch_status (logged C) msg orig)"
  "quiet (patch_object (logged C) msg orig)"
  "quiet (update_object (logged C) msg)"
  by (auto simp: patch_status_def patch_object_def update_object_def
      intro!: quiet_intros split: quiet_splits)

lemma quiet_status [quiet_intros]:
  "quiet (set_status_condition (logged C) c)"
  "quiet (patchReadyCondition (logged C) st reason msg)"
  "quiet (setNotReady (logged C) reason msg)"
  "quiet (patchBuildRef (logged C))"
  "quiet (patchBuildSucceededCondition (logged C) br)"
  "quiet (patchLatestImage (logged C) img)"
  by (auto simp: set_status_condition_def patchReadyCondition_def setNotReady_def patchBuildRef_def
      patchBuildSucceededCondition_def patchLatestImage_def Let_def
      intro!: quiet_intros split: quiet_splits)

lemma quiet_steps [quiet_intros]:
  "quiet (ensureOnCommitLabel (logged C))"
  "quiet (validateWebhookSecret (logged C))"
  "quiet (getLastBuildRun (logged C))"
  "quiet (getActiveBuildRun (logged C))"
  "quiet (positiveUntil (logged C) t)"
  "quiet (remainingWait (logged C))"
  "quiet (patchOnCommitTriggered (logged C) br c sha)"
  "quiet (reconcileStatus (logged C) b)"
  by (auto simp: ensureOnCommitLabel_def validateWebhookSecret_def getLastBuildRun_def
      getActiveBuildRun_def positiveUntil_def remainingWait_def patchOnCommitTriggered_def
      reconcileStatus_def Let_def
      intro!: quiet_intros split: quiet_splits)

section \<open>The steps that write\<close>

text \<open>
  What a step appends to the writes, as long as the object in memory satisfies \<open>P\<close>, which
  the step keeps. A step that is quiet and keeps \<open>P\<close> appends nothing.
\<close>

definition emits_as :: "(identity \<Rightarrow> bool) \<Rightarrow> ('w logging rstate, 'a) state \<Rightarrow>
    ('a \<Rightarrow> entry list \<Rightarrow> bool) \<Rightarrow> bool" where
  "emits_as P m Q \<longleftrightarrow>
     (\<forall>s. P (ident (rs_ib s)) \<longrightarrow> P (ident (rs_ib (snd (run_state m s)))) \<and>
        (\<exists>l. wlg (snd (run_state m s)) = wlg s @ l \<and> Q (fst (run_state m s)) l))"

lemma emits_asI:
  "(\<And>s a s'. P (ident (rs_ib s)) \<Longrightarrow> run_state m s = (a, s') \<Longrightarrow>
      P (ident (rs_ib s')) \<and> (\<exists>l. wlg s' = wlg s @ l \<and> Q a l)) \<Longrightarrow> emits_as P m Q"
  unfolding emits_as_def by (metis prod.collapse)

lemma emits_asD:
  "emits_as P m Q \<Longrightarrow> P (ident (rs_ib s)) \<Longrightarrow> run_state m s = (a, s') \<Longrightarrow>
     P (ident (rs_ib s')) \<and> (\<exists>l. wlg s' = wlg s @ l \<and> Q a l)"
  by (auto simp: emits_as_def dest!: spec [of _ s])

lemma emits_as_weaken: "emits_as P m Q \<Longrightarrow> (\<And>a l. Q a l \<Longrightarrow> R a l) \<Longrightarrow> emits_as P m R"
  unfolding emits_as_def by blast

lemma emits_as_return: "Q a [] \<Longrightarrow> emits_as P (State_Monad.return a) Q"
  by (simp add: emits_as_def)

lemma emits_as_bind:
  assumes m: "emits_as P m Q" and f: "\<And>a l. Q a l \<Longrightarrow> emits_as P (f a) (\<lambda>b l'. R b (l @ l'))"
  shows "emits_as P (State_Monad.bind m f) R"
proof (rule emits_asI)
  fix s b s''
  assume s: "P (ident (rs_ib s))" and "run_state (State_Monad.bind m f) s = (b, s'')"
  then obtain a s' where run: "run_state m s = (a, s')" "run_state (f a) s' = (b, s'')"
    by (auto split: prod.splits)
  from emits_asD [OF m s run(1)] obtain l
    where s': "P (ident (rs_ib s'))" and l: "wlg s' = wlg s @ l" "Q a l" by blast
  from emits_asD [OF f [OF l(2)] s' run(2)] l(1)
  show "P (ident (rs_ib s'')) \<and> (\<exists>l. wlg s'' = wlg s @ l \<and> R b l)" by auto
qed

lemma emits_as_get_ib:
  "(\<And>ib. P (ident ib) \<Longrightarrow> emits_as P (f ib) Q) \<Longrightarrow> emits_as P (State_Monad.bind get_ib f) Q"
  by (simp add: emits_as_def)

lemma emits_as_quiet: "quiet m \<Longrightarrow> stays P m \<Longrightarrow> (\<And>r. Q r []) \<Longrightarrow> emits_as P m Q"
  by (auto simp: emits_as_def quiet_def stays_def)

lemma emits_as_quiet_left:
  "quiet m \<Longrightarrow> stays P m \<Longrightarrow> (\<And>a. emits_as P (f a) Q) \<Longrightarrow> emits_as P (State_Monad.bind m f) Q"
  by (rule emits_as_bind [where Q = "\<lambda>_ l. l = []"]) (auto intro: emits_as_quiet)

lemma emits_as_quiet_right:
  "emits_as P m (\<lambda>_. Q) \<Longrightarrow> (\<And>a. quiet (f a)) \<Longrightarrow> (\<And>a. stays P (f a)) \<Longrightarrow>
     emits_as P (State_Monad.bind m f) (\<lambda>_. Q)"
  by (erule emits_as_bind) (auto intro: emits_as_quiet)

lemma emits_as_quiet_left_res:
  "quiet m \<Longrightarrow> stays P m \<Longrightarrow> (\<And>a. emits_as P (f a) Q) \<Longrightarrow> (\<And>e. Q (Err e) []) \<Longrightarrow> Q Panic [] \<Longrightarrow>
     emits_as P (bind_res m f) Q"
  unfolding bind_res_def
  by (erule emits_as_quiet_left) (auto intro: emits_as_return split: res.splits)

lemmas memory_intros = quiet_intros stays_memory held.stays_writes held.stays_status
  held.stays_build held.stays_runs held.stays_on_commit
  held.stays_ensure_run held.stays_reconcileStatus stays_intros

text \<open>
  A run as the operator creates it: the one it wants for the ImageBuild in memory, whose
  identity satisfies \<open>P\<close>, and some counter, with that ImageBuild set as its controller.
\<close>

definition owned_run :: "'z lib_scheme \<Rightarrow> (identity \<Rightarrow> bool) \<Rightarrow> BuildRun \<Rightarrow> bool" where
  "owned_run L P b \<longleftrightarrow>
     (\<exists>ib c desired m. P (ident ib) \<and>
        (desired = newBuildRun ib c \<or> desired = onCommitBuildRun ib c) \<and>
        SetControllerReference L (ib_Meta ib) (br_Meta desired) = Inr m \<and>
        b = desired\<lparr>br_Meta := m\<rparr>)"

lemma owned_runI:
  "P (ident ib) \<Longrightarrow> SetControllerReference L (ib_Meta ib) (br_Meta (newBuildRun ib c)) = Inr m \<Longrightarrow>
     owned_run L P (newBuildRun ib c\<lparr>br_Meta := m\<rparr>)"
  "P (ident ib) \<Longrightarrow> SetControllerReference L (ib_Meta ib) (br_Meta (onCommitBuildRun ib c)) = Inr m \<Longrightarrow>
     owned_run L P (onCommitBuildRun ib c\<lparr>br_Meta := m\<rparr>)"
  unfolding owned_run_def by blast+

definition at_most_one_run :: "'z lib_scheme \<Rightarrow> (identity \<Rightarrow> bool) \<Rightarrow> entry list \<Rightarrow> bool" where
  "at_most_one_run L P l \<longleftrightarrow> l = [] \<or> (\<exists>b ok. l = [(CreateBuildRun b, ok)] \<and> owned_run L P b)"

lemma at_most_one_run_Nil [simp]: "at_most_one_run L P []"
  by (simp add: at_most_one_run_def)

lemma wlg_simps [simp]:
  "wlg (s\<lparr>rs_ib := ib\<rparr>) = wlg s"
  "wlg (s\<lparr>rs_world := (w, l)\<rparr>) = build_writes l"
  "build_writes (l @ l') = build_writes l @ build_writes l'"
  "build_writes (lg s) = wlg s"
  by (simp_all add: wlg_def build_writes_def)

lemma quiet_run: "quiet m \<Longrightarrow> run_state m s = (r, s') \<Longrightarrow> wlg s' = wlg s"
  by (metis quiet_def snd_conv)

text \<open>What \<open>getOrCreateBuildRun\<close> does to the object in memory (nothing) and to the log.\<close>

lemma run_getOrCreateBuildRun:
  assumes "run_state (getOrCreateBuildRun (logged C) desired) s = (r, s')"
  shows "rs_ib s' = rs_ib s \<and>
     (wlg s' = wlg s \<or>
      (\<exists>m ok. SetControllerReference C (ib_Meta (rs_ib s)) (br_Meta desired) = Inr m \<and>
         wlg s' = wlg s @ [(CreateBuildRun (desired\<lparr>br_Meta := m\<rparr>), ok)]))"
  using assms
  by (auto simp: getOrCreateBuildRun_def logged_def log_call_def Let_def wlg_def build_writes_def
      split: prod.splits sum.splits if_splits)

lemma emits_ensureBuildRun:
  "emits_as (becomes C i) (ensureBuildRun (logged C)) (\<lambda>_. at_most_one_run C (becomes C i))"
proof (rule emits_asI)
  fix s r s''
  assume P: "becomes C i (ident (rs_ib s))"
    and run: "run_state (ensureBuildRun (logged C)) s = (r, s'')"
  let ?ib = "rs_ib s" and ?c = "nextCounter (st_BuildRunCounter (ib_Status (rs_ib s)))"
  obtain r' s' where goc:
      "run_state (getOrCreateBuildRun (logged C) (newBuildRun ?ib ?c)) s = (r', s')" by fastforce
  from run goc have "wlg s'' = wlg s'"
    by (auto simp: ensureBuildRun_def Let_def split: res.splits prod.splits if_splits
        dest!: quiet_run [OF quiet_patches(1)])
  with run_getOrCreateBuildRun [OF goc] P
  have "\<exists>l. wlg s'' = wlg s @ l \<and> at_most_one_run C (becomes C i) l"
    by (auto simp: at_most_one_run_def intro: owned_runI)
  with staysD [OF held.stays_ensure_run(1) run P]
  show "becomes C i (ident (rs_ib s'')) \<and> (\<exists>l. wlg s'' = wlg s @ l \<and> at_most_one_run C (becomes C i) l)"
    by blast
qed

text \<open>
  The on-commit flow answers \<open>(nil, nil)\<close>, on which the reconcile goes on to the default
  flow, only without having created a run.
\<close>

definition handed_over :: "'z lib_scheme \<Rightarrow> (identity \<Rightarrow> bool) \<Rightarrow>
    (go_error, BuildRun option \<times> duration option) res \<Rightarrow> entry list \<Rightarrow> bool" where
  "handed_over L P r l \<longleftrightarrow> at_most_one_run L P l \<and> (r = Ok (None, None) \<longrightarrow> l = [])"

lemma handed_over_Nil [simp]: "handed_over L P r []"
  by (simp add: handed_over_def)

lemma quiet_handed_over: "quiet m \<Longrightarrow> stays P m \<Longrightarrow> emits_as P m (handed_over L P)"
  by (erule (1) emits_as_quiet) simp

lemma ensureOnCommitBuildRun_found:
  "fst (run_state (ensureOnCommitBuildRun C sha) s) \<noteq> Ok (None, None)"
  by (auto simp: ensureOnCommitBuildRun_def Let_def split: option.splits prod.splits res.splits)

lemma emits_ensureOnCommitBuildRun:
  "emits_as (becomes C i) (ensureOnCommitBuildRun (logged C) sha) (handed_over C (becomes C i))"
proof (rule emits_asI)
  fix s r s''
  assume P: "becomes C i (ident (rs_ib s))"
    and run: "run_state (ensureOnCommitBuildRun (logged C) sha) s = (r, s'')"
  then have found: "r \<noteq> Ok (None, None)" using ensureOnCommitBuildRun_found by (metis fst_conv)
  have "\<exists>l. wlg s'' = wlg s @ l \<and> handed_over C (becomes C i) r l"
  proof (cases "st_OnCommit (ib_Status (rs_ib s))")
    case None
    with run show ?thesis by (auto simp: ensureOnCommitBuildRun_def)
  next
    case (Some oc)
    let ?ib = "rs_ib s" and ?c = "nextCounter (ocs_TriggerCounter oc)"
    obtain r' s' where goc:
        "run_state (getOrCreateBuildRun (logged C) (onCommitBuildRun ?ib ?c)) s = (r', s')"
      by fastforce
    from run goc Some have "wlg s'' = wlg s'"
      by (auto simp: ensureOnCommitBuildRun_def Let_def split: res.splits prod.splits if_splits
          dest!: quiet_run [OF quiet_steps(7)])
    with run_getOrCreateBuildRun [OF goc] found P show ?thesis
      by (auto simp: handed_over_def at_most_one_run_def intro: owned_runI)
  qed
  with staysD [OF held.stays_ensure_run(2) run P]
  show "becomes C i (ident (rs_ib s'')) \<and> (\<exists>l. wlg s'' = wlg s @ l \<and> handed_over C (becomes C i) r l)"
    by blast
qed

lemma emits_reconcileOnCommitBuildRun:
  "emits_as (becomes C i) (reconcileOnCommitBuildRun (logged C)) (handed_over C (becomes C i))"
proof -
  have clear: "emits_as (becomes C i) (put_ib (upd_OnCommit g ib) \<bind> (\<lambda>_. patch_status (logged C) msg ib \<bind>
      (\<lambda>r. State_Monad.return (map_res f r)))) (handed_over C (becomes C i))"
    if "becomes C i (ident ib)" for g ib msg f
    using that by (intro quiet_handed_over) (auto intro!: memory_intros)
  show ?thesis
    unfolding reconcileOnCommitBuildRun_def Let_def
    by (rule emits_as_get_ib)
      (auto intro!: emits_as_return emits_as_quiet_left_res emits_ensureOnCommitBuildRun clear
        memory_intros split: option.splits)
qed

lemma emits_reconcileDefaultBuildRun:
  "emits_as (becomes C i) (reconcileDefaultBuildRun (logged C)) (\<lambda>_. at_most_one_run C (becomes C i))"
  unfolding reconcileDefaultBuildRun_def
proof (rule emits_as_get_ib)
  fix ib
  show "emits_as (becomes C i)
     (if isSpecDrifted ib then do {
        r \<leftarrow> ensureBuildRun (logged C);
        bind_res (State_Monad.return (map_err (wrap2 (Sentinel errBuildRunFailed)) r)) (\<lambda>br. do {
          ib \<leftarrow> get_ib;
          bind_res (State_Monad.return
              (map_err (wrap ''failed to record build spec'') (recordBuildSpec ib))) (\<lambda>ib'. do {
            _ \<leftarrow> put_ib ib';
            r \<leftarrow> update_object (logged C) ''failed to update ImageBuild'';
            State_Monad.return (map_res (\<lambda>_. Some br) r)
          })
        })
      }
      else getLastBuildRun (logged C)) (\<lambda>_. at_most_one_run C (becomes C i))"
    by (cases "isSpecDrifted ib")
      (auto intro!: emits_as_quiet_right [OF emits_ensureBuildRun] emits_as_quiet
        stays_bind_res_return memory_intros)
qed

lemma emits_reconcileBuildRun:
  "emits_as (becomes C i) (reconcileBuildRun (logged C)) (\<lambda>_. at_most_one_run C (becomes C i))"
  unfolding reconcileBuildRun_def
proof (rule emits_as_bind [OF emits_reconcileOnCommitBuildRun])
  fix r l
  assume h: "handed_over C (becomes C i) r l"
  then have one: "at_most_one_run C (becomes C i) l" by (simp add: handed_over_def)
  note default = emits_as_quiet_right [OF emits_reconcileDefaultBuildRun]
  show "emits_as (becomes C i)
     (case r of
        Panic \<Rightarrow> State_Monad.return Panic
      | Err e \<Rightarrow> do {
          _ \<leftarrow> setNotReady (logged C) ReasonBuildRunReconcileFailed (error_text e);
          State_Monad.return (Err (wrap2 (Sentinel errBuildRunFailed) e))
        }
      | Ok (buildRun, requeueAfter) \<Rightarrow>
          if requeueAfter \<noteq> None \<or> buildRun \<noteq> None
          then State_Monad.return (Ok (buildRun, requeueAfter))
          else do {
            r \<leftarrow> reconcileDefaultBuildRun (logged C);
            case r of
              Panic \<Rightarrow> State_Monad.return Panic
            | Err e \<Rightarrow>
                if \<not> errors_Is e errBuildRunFailed then State_Monad.return (Err e)
                else do {
                  _ \<leftarrow> setNotReady (logged C)
                         (if errors_As e AlreadyOwned then ReasonBuildRunConflict
                          else ReasonBuildRunReconcileFailed) (error_text e);
                  State_Monad.return (Err e)
                }
            | Ok buildRun \<Rightarrow> State_Monad.return (Ok (buildRun, None))
          }) (\<lambda>b l'. at_most_one_run C (becomes C i) (l @ l'))"
  proof (cases "r = Ok (None, None)")
    case True
    with h have "l = []" by (simp add: handed_over_def)
    with True show ?thesis
      by (auto intro!: default memory_intros split: res.splits)
  next
    case False
    with one show ?thesis
      by (auto intro!: emits_as_quiet memory_intros split: res.splits)
  qed
qed

section \<open>The whole reconcile\<close>

definition build_request :: "(identity \<Rightarrow> bool) \<Rightarrow> entry list \<Rightarrow> bool \<Rightarrow> bool" where
  "build_request P l ok \<longleftrightarrow>
     (\<exists>ib policy s. P (ident ib) \<and> l = [(CreateOrPatchBuild (blankBuild (newBuild ib policy s)), ok)])"

lemma build_requestI [intro]:
  "P (ident ib) \<Longrightarrow>
     build_request P [(CreateOrPatchBuild (blankBuild (newBuild ib policy s)), ok)] ok"
  unfolding build_request_def by blast

lemma run_ensureBuild_wlg:
  assumes "run_state (ensureBuild (logged C) policy s) st = (r, st')"
  shows "rs_ib st' = rs_ib st \<and>
     (wlg st' = wlg st \<and> \<not> is_ok r \<or>
      wlg st' = wlg st @ [(CreateOrPatchBuild (blankBuild (newBuild (rs_ib st) policy s)), is_ok r)])"
  using assms
  by (auto simp: ensureBuild_def logged_def log_call_def Let_def wlg_def build_writes_def
      split: prod.splits sum.splits)

lemma emits_wlg_ensureBuild:
  "emits_as P (ensureBuild (logged C) policy s)
     (\<lambda>r l. l = [] \<and> \<not> is_ok r \<or> build_request P l (is_ok r))"
  by (rule emits_asI) (drule run_ensureBuild_wlg, auto)

definition build_stage :: "(identity \<Rightarrow> bool) \<Rightarrow> (go_error, unit) res \<Rightarrow> entry list \<Rightarrow> bool" where
  "build_stage P r l \<longleftrightarrow> (l = [] \<and> \<not> is_ok r \<or> (\<exists>ok. build_request P l ok \<and> (is_ok r \<longrightarrow> ok)))"

lemma emits_reconcileBuild:
  "emits_as (becomes C i) (reconcileBuild (logged C)) (build_stage (becomes C i))"
  unfolding reconcileBuild_def
proof (rule emits_as_quiet_left [OF quiet_calls(1) stays_call])
  fix r :: "go_error + ImageBuildPolicy"
  show "emits_as (becomes C i)
     (case r of
        Inl e \<Rightarrow> do {
          _ \<leftarrow> (if IsNotFound e
                then setNotReady (logged C) ReasonMissingPolicy ''ImageBuildPolicy is missing''
                else State_Monad.return ());
          State_Monad.return (Err (wrap ''failed to get ImageBuildPolicy'' e))
        }
      | Inr policy \<Rightarrow> do {
          ib \<leftarrow> get_ib;
          r \<leftarrow> ensureBuild (logged C) policy (selectedStrategyName ib policy);
          case r of
            Err e \<Rightarrow> do {
              _ \<leftarrow> setNotReady (logged C) (buildFailureReason e) (error_text e);
              State_Monad.return (Err e)
            }
          | Panic \<Rightarrow> State_Monad.return Panic
          | Ok _ \<Rightarrow> patchBuildRef (logged C)
        }) (build_stage (becomes C i))"
  proof (cases r)
    case (Inl e)
    have "emits_as (becomes C i) (if IsNotFound e
        then setNotReady (logged C) ReasonMissingPolicy ''ImageBuildPolicy is missing''
        else State_Monad.return ()) (\<lambda>_ l. l = [])"
      by (rule emits_as_quiet) (auto intro: memory_intros)
    then show ?thesis
      using Inl by (auto intro!: emits_as_bind emits_as_return simp: build_stage_def)
  next
    case (Inr policy)
    have rest: "emits_as (becomes C i) (setNotReady (logged C) a b \<bind> (\<lambda>_. State_Monad.return (Err e)))
        (\<lambda>r l. l = [] \<and> r = Err e)" for a b e
      by (rule emits_as_bind [where Q = "\<lambda>_ l. l = []"])
        (auto intro!: emits_as_return emits_as_quiet memory_intros)
    have ref: "emits_as (becomes C i) (patchBuildRef (logged C)) (\<lambda>_ l. l = [])"
      by (rule emits_as_quiet) (auto intro: memory_intros)
    show ?thesis
      unfolding Inr sum.case
      by (intro emits_as_get_ib emits_as_bind [OF emits_wlg_ensureBuild])
        (auto simp: build_stage_def split: res.splits intro!: emits_as_return emits_as_weaken [OF rest]
          emits_as_weaken [OF ref])
  qed
qed

text \<open>The writes of one reconcile: nothing, the Build, or the Build and then one run.\<close>

definition write_order :: "'z lib_scheme \<Rightarrow> (identity \<Rightarrow> bool) \<Rightarrow> entry list \<Rightarrow> bool" where
  "write_order L P l \<longleftrightarrow>
     l = [] \<or> (\<exists>ok. build_request P l ok) \<or>
     (\<exists>l1 b ok. build_request P l1 True \<and> owned_run L P b \<and> l = l1 @ [(CreateBuildRun b, ok)])"

lemma write_order_build_stage: "build_stage P r l \<Longrightarrow> write_order L P l"
  by (auto simp: build_stage_def write_order_def)

lemma write_order_append:
  "build_stage P (Ok u) l \<Longrightarrow> at_most_one_run L P l' \<Longrightarrow> write_order L P (l @ l')"
  by (auto simp: build_stage_def write_order_def at_most_one_run_def)

lemma emits_reconcileFetched:
  "emits_as (becomes C i) (reconcileFetched (logged C)) (\<lambda>_. write_order C (becomes C i))"
proof -
  have tail: "emits_as (becomes C i) (case requeueAfter of
       Some d \<Rightarrow> State_Monad.return (requeue d)
     | None \<Rightarrow> do {
         r \<leftarrow> reconcileStatus (logged C) buildRun;
         State_Monad.return
           (case r of
              Panic \<Rightarrow> None
            | Err e \<Rightarrow> Some (\<lparr>RequeueAfter = 0\<rparr>, Some e)
            | Ok poll \<Rightarrow> if poll then requeue buildRunPollInterval else requeue 0)
       }) (\<lambda>_ l. l = [])" for requeueAfter buildRun
    by (rule emits_as_quiet) (auto intro!: memory_intros split: option.splits)
  have run: "emits_as (becomes C i) (State_Monad.bind (reconcileBuildRun (logged C)) f)
      (\<lambda>_. at_most_one_run C (becomes C i))"
    if "\<And>r. emits_as (becomes C i) (f r) (\<lambda>_ l. l = [])" for f :: "_ \<Rightarrow> (_, outcome) state"
    by (rule emits_as_bind [OF emits_reconcileBuildRun]) (auto intro: emits_as_weaken [OF that])
  show ?thesis
    unfolding reconcileFetched_def
    apply (rule emits_as_quiet_left [OF quiet_steps(1) held.stays_build(1)])
    apply (rename_tac r, case_tac r)
      apply (simp_all add: emits_as_return write_order_def [of _ _ "[]"])
    apply (rule emits_as_quiet_left [OF quiet_steps(2) held.stays_build(2)])
    apply (rename_tac r, case_tac r)
      apply (simp_all add: emits_as_return write_order_def [of _ _ "[]"])
    apply (rule emits_as_bind [OF emits_reconcileBuild])
    apply (rename_tac r l, case_tac r)
      apply (simp_all add: emits_as_return write_order_build_stage)
    apply (rule emits_as_weaken [OF run])
     apply (auto intro!: tail emits_as_return split: res.splits)[1]
    apply (erule write_order_append)
    apply assumption
    done
qed

lemma run_Reconcile:
  "run_state (Reconcile C req) w =
     (case cl_GetImageBuild C req w of
        (Inl e, w') \<Rightarrow>
          (if IsNotFound e then requeue 0
           else Some (\<lparr>RequeueAfter = 0\<rparr>, Some (wrap ''failed to get ImageBuild'' e)), w')
      | (Inr ib, w') \<Rightarrow>
          (case run_state (reconcileFetched C) \<lparr>rs_ib = ib, rs_world = w'\<rparr> of
             (out, s) \<Rightarrow> (out, rs_world s)))"
  by (simp add: Reconcile_def)

text \<open>The log of a reconcile that starts with none.\<close>

definition reconcile_log :: "'w client \<Rightarrow> NamespacedName \<Rightarrow> 'w \<Rightarrow> entry list" where
  "reconcile_log C req w = snd (snd (run_state (Reconcile (logged C) req) (w, [])))"

lemma reconcile_log_cases:
  "(\<exists>e w'. cl_GetImageBuild C req w = (Inl e, w') \<and>
      reconcile_log C req w = [(GetImageBuild req, False)]) \<or>
   (\<exists>ib w'. cl_GetImageBuild C req w = (Inr ib, w') \<and>
      reconcile_log C req w =
        lg (snd (run_state (reconcileFetched (logged C))
                   \<lparr>rs_ib = ib, rs_world = (w', [(GetImageBuild req, True)])\<rparr>)))"
  by (cases "cl_GetImageBuild C req w"; cases "fst (cl_GetImageBuild C req w)")
    (auto simp: reconcile_log_def run_Reconcile logged_def log_call_def split: prod.splits)

lemma reconcile_log_writes:
  "build_writes (reconcile_log C req w) = [] \<or>
   (\<exists>ib0 w0. cl_GetImageBuild C req w = (Inr ib0, w0) \<and>
      write_order C (becomes C (ident ib0)) (build_writes (reconcile_log C req w)))"
  using reconcile_log_cases [of C req w]
proof (elim disjE exE conjE)
  fix e w'
  assume "reconcile_log C req w = [(GetImageBuild req, False)]"
  then show ?thesis by (simp add: build_writes_def)
next
  fix ib and w' :: 'a
  let ?s = "\<lparr>rs_ib = ib, rs_world = (w', [(GetImageBuild req, True)])\<rparr>"
  assume get: "cl_GetImageBuild C req w = (Inr ib, w')"
    and log: "reconcile_log C req w = lg (snd (run_state (reconcileFetched (logged C)) ?s))"
  obtain r s' where run: "run_state (reconcileFetched (logged C)) ?s = (r, s')" by fastforce
  from emits_asD [OF emits_reconcileFetched _ run, of "ident ib"] obtain l where
    "wlg s' = wlg ?s @ l" "write_order C (becomes C (ident ib)) l" by (auto intro: becomes.read)
  moreover have "wlg ?s = []" by (simp add: wlg_def build_writes_def)
  ultimately show ?thesis using get log run by simp
qed

text \<open>
  C1. Whatever the cluster answers, and whoever else writes to it, one reconcile asks for
  at most one Build and then for at most one BuildRun: it writes neither, or sends the
  Build request once, or sends it, succeeds, and creates one run. The Build is the one of
  the ImageBuild that the request names: as it was read, or as the server answered the
  reconcile's own writes of it (\<open>becomes\<close>; with a server that answers a write with the
  object of the name sent, that is one name throughout, \<open>becomes_same\<close>). The run is the
  one wanted for that ImageBuild, for some counter and by one of the two flows, with that
  ImageBuild as its controller. No run is created before the Build has been brought up to
  date.
\<close>

theorem reconcile_write_order:
  "let l = build_writes (reconcile_log C req w) in
     l = [] \<or>
     (\<exists>ib0 w0. cl_GetImageBuild C req w = (Inr ib0, w0) \<and>
        ((\<exists>ib policy s ok. becomes C (ident ib0) (ident ib) \<and>
            l = [(CreateOrPatchBuild (blankBuild (newBuild ib policy s)), ok)]) \<or>
         (\<exists>ib policy s b ok. becomes C (ident ib0) (ident ib) \<and>
            l = [(CreateOrPatchBuild (blankBuild (newBuild ib policy s)), True),
                 (CreateBuildRun b, ok)] \<and>
            (\<exists>ib c desired m. becomes C (ident ib0) (ident ib) \<and>
               (desired = newBuildRun ib c \<or> desired = onCommitBuildRun ib c) \<and>
               SetControllerReference C (ib_Meta ib) (br_Meta desired) = Inr m \<and>
               b = desired\<lparr>br_Meta := m\<rparr>))))"
  using reconcile_log_writes [of C req w]
  unfolding Let_def write_order_def build_request_def owned_run_def by fastforce

end
