(* ===== verification/Trigger.thy ===== *)
theory Trigger
  imports Controller_Log Outcome
begin

text \<open>
  When a commit triggers a run: what has been checked, on the object and on the answers
  of the cluster, before the on-commit flow creates one.
\<close>

section \<open>What is checked\<close>

fun clock_reads :: "entry list \<Rightarrow> time list" where
  "clock_reads [] = []"
| "clock_reads ((Now t, ok) # l) = t # clock_reads l"
| "clock_reads (_ # l) = clock_reads l"

lemma clock_reads_append [simp]: "clock_reads (l @ l') = clock_reads l @ clock_reads l'"
  by (induction l rule: clock_reads.induct) auto

definition passed :: "time \<Rightarrow> duration \<Rightarrow> entry list \<Rightarrow> bool" where
  "passed t d l \<longleftrightarrow> IsZero t \<or> (\<exists>now \<in> set (clock_reads l). t + d \<le> now)"

definition waited :: "ImageBuildOnCommitStatus \<Rightarrow> ImageBuildOnCommitEvent \<Rightarrow> entry list \<Rightarrow> bool" where
  "waited oc p l \<longleftrightarrow>
     passed (ev_ReceivedAt p) onCommitDebounce l \<and>
     (case ocs_LastTriggeredBuildRun oc of
        None \<Rightarrow> True
      | Some lt \<Rightarrow> passed (lt_TriggeredAt lt) onCommitMinInterval l)"

definition new_commit :: "ImageBuildOnCommitStatus \<Rightarrow> ImageBuildOnCommitEvent \<Rightarrow> bool" where
  "new_commit oc p \<longleftrightarrow>
     (case ocs_LastTriggeredBuildRun oc of
        None \<Rightarrow> True
      | Some lt \<Rightarrow> lt_CommitSHA lt \<noteq> ev_CommitSHA p)"

text \<open>The run the status refers to was looked up and is not one in progress.\<close>

definition none_active :: "'z lib_scheme \<Rightarrow> ImageBuild \<Rightarrow> entry list \<Rightarrow> bool" where
  "none_active L ib l \<longleftrightarrow>
     st_LastBuildRunRef (ib_Status ib) = '''' \<or>
     (\<exists>x. (GetBuildRun \<lparr>nn_Namespace = ib_Namespace ib,
                nn_Name = st_LastBuildRunRef (ib_Status ib)\<rparr> x, x \<noteq> None) \<in> set l \<and>
        (case x of
           None \<Rightarrow> True
         | Some br \<Rightarrow> \<not> (IsControlledBy L (br_Meta br) (ib_Meta ib) \<and> isActiveBuildRun L br)))"

lemma passed_append: "passed t d l \<Longrightarrow> passed t d (l @ l')"
  by (auto simp: passed_def)

lemma waited_append: "waited oc p l \<Longrightarrow> waited oc p (l @ l')"
  by (auto simp: waited_def passed_append split: option.splits)

lemma none_active_append: "none_active L ib l' \<Longrightarrow> none_active L ib (l @ l' @ l'')"
  unfolding none_active_def by auto

section \<open>The steps\<close>

lemma isActiveBuildRun_logged [simp]: "isActiveBuildRun (logged C) br = isActiveBuildRun C br"
  by (simp add: isActiveBuildRun_def)

lemma logged_GetBuildRun:
  "cl_GetBuildRun (logged C) k wl =
     (case cl_GetBuildRun C k (fst wl) of
        (Inl e, w') \<Rightarrow> (Inl e, w', snd wl @ [(GetBuildRun k None, False)])
      | (Inr br, w') \<Rightarrow> (Inr br, w', snd wl @ [(GetBuildRun k (Some br), True)]))"
  by (cases wl) (auto simp: logged_def split: prod.splits sum.splits)

lemma run_positiveUntil_logged:
  "run_state (positiveUntil (logged C) t) s = (r, s') \<Longrightarrow>
     rs_ib s' = rs_ib s \<and> (\<exists>now. lg s' = lg s @ [(Now now, True)] \<and> (r = None \<longrightarrow> t \<le> now))"
  by (auto simp: positiveUntil_def logged_def Let_def time_Sub_pos_iff split: prod.splits if_splits)

lemma run_remainingWait_logged:
  assumes oc: "st_OnCommit (ib_Status (rs_ib s)) = Some oc" "ocs_Pending oc = Some p"
    and run: "run_state (remainingWait (logged C)) s = (Ok None, s')"
  shows "rs_ib s' = rs_ib s \<and> (\<exists>l. lg s' = lg s @ l \<and> build_writes l = [] \<and> waited oc p l)"
proof -
  have debounce: "rs_ib s1 = rs_ib s \<and>
      (\<exists>l. lg s1 = lg s @ l \<and> build_writes l = [] \<and> passed (ev_ReceivedAt p) onCommitDebounce l)"
    if "run_state (if \<not> IsZero (ev_ReceivedAt p)
          then positiveUntil (logged C) (time_Add (ev_ReceivedAt p) onCommitDebounce)
          else State_Monad.return None) s = (None, s1)" for s1
    using that
    by (auto simp: passed_def build_writes_def time_Add_def split: if_splits
        dest!: run_positiveUntil_logged)
  obtain w s1 where run1: "run_state (if \<not> IsZero (ev_ReceivedAt p)
          then positiveUntil (logged C) (time_Add (ev_ReceivedAt p) onCommitDebounce)
          else State_Monad.return None) s = (w, s1)" by fastforce
  from run run1 oc have w: "w = None"
    by (cases w) (auto simp: remainingWait_def Let_def)
  from debounce run1 w obtain l where
    l: "rs_ib s1 = rs_ib s" "lg s1 = lg s @ l" "build_writes l = []"
      "passed (ev_ReceivedAt p) onCommitDebounce l" by blast
  show ?thesis
  proof (cases "ocs_LastTriggeredBuildRun oc")
    case None
    with run run1 oc w l show ?thesis by (auto simp: remainingWait_def Let_def waited_def)
  next
    case (Some lt)
    show ?thesis
    proof (cases "IsZero (lt_TriggeredAt lt)")
      case True
      with run run1 oc w l Some show ?thesis
        by (auto simp: remainingWait_def Let_def waited_def passed_def)
    next
      case False
      with run run1 oc w Some have
        "run_state (positiveUntil (logged C) (time_Add (lt_TriggeredAt lt) onCommitMinInterval)) s1 =
           (None, s')"
        by (auto simp: remainingWait_def Let_def split: prod.splits)
      from run_positiveUntil_logged [OF this] l Some show ?thesis
        by (auto simp: waited_def passed_def time_Add_def build_writes_def)
    qed
  qed
qed

lemma run_getActiveBuildRun_logged:
  assumes "run_state (getActiveBuildRun (logged C)) s = (Ok None, s')"
  shows "rs_ib s' = rs_ib s \<and>
     (\<exists>l. lg s' = lg s @ l \<and> build_writes l = [] \<and> none_active C (rs_ib s) l)"
  using assms
  by (auto simp: getActiveBuildRun_def getLastBuildRun_def logged_GetBuildRun Let_def none_active_def
      build_writes_def split: prod.splits sum.splits if_splits)

lemma run_ensureOnCommitBuildRun_logged:
  assumes oc: "st_OnCommit (ib_Status (rs_ib s)) = Some oc"
    and run: "run_state (ensureOnCommitBuildRun (logged C) sha) s = (r, s')"
  shows "wlg s' = wlg s \<or>
     (\<exists>m ok. SetControllerReference C (ib_Meta (rs_ib s))
           (br_Meta (onCommitBuildRun (rs_ib s) (nextCounter (ocs_TriggerCounter oc)))) = Inr m \<and>
        wlg s' = wlg s @
          [(CreateBuildRun (onCommitBuildRun (rs_ib s) (nextCounter (ocs_TriggerCounter oc))
              \<lparr>br_Meta := m\<rparr>), ok)])"
proof -
  obtain r' s1 where goc: "run_state (getOrCreateBuildRun (logged C)
      (onCommitBuildRun (rs_ib s) (nextCounter (ocs_TriggerCounter oc)))) s = (r', s1)"
    by fastforce
  from run goc oc have "wlg s' = wlg s1"
    by (auto simp: ensureOnCommitBuildRun_def Let_def split: res.splits prod.splits if_splits
        dest!: quiet_run [OF quiet_steps(7)])
  with run_getOrCreateBuildRun [OF goc] show ?thesis by auto
qed

text \<open>Everything that was checked when the on-commit flow writes.\<close>

definition trigger_due :: "'z lib_scheme \<Rightarrow> ImageBuild \<Rightarrow> entry list \<Rightarrow> bool" where
  "trigger_due L ib l \<longleftrightarrow>
     (\<exists>oc p b m ok.
        st_OnCommit (ib_Status ib) = Some oc \<and> ocs_Pending oc = Some p \<and> onCommitLabelValue ib = ''true'' \<and>
        waited oc p l \<and> new_commit oc p \<and> none_active L ib l \<and>
        b = onCommitBuildRun ib (nextCounter (ocs_TriggerCounter oc)) \<and>
        SetControllerReference L (ib_Meta ib) (br_Meta b) = Inr m \<and>
        build_writes l = [(CreateBuildRun (b\<lparr>br_Meta := m\<rparr>), ok)])"

section \<open>The flow\<close>

abbreviation grows :: "('w logging rstate, 'a) state \<Rightarrow> bool" where
  "grows m \<equiv> emits lg m (\<lambda>_ _. True)"

lemma grows_weaken: "emits lg m Q \<Longrightarrow> grows m"
  by (erule emits_weaken) simp

lemma grows_bind: "grows m \<Longrightarrow> (\<And>a. grows (f a)) \<Longrightarrow> grows (State_Monad.bind m f)"
  by (rule emits_bind)

lemma grows_bind_res: "grows m \<Longrightarrow> (\<And>a. grows (f a)) \<Longrightarrow> grows (bind_res m f)"
  by (rule emits_bind_res) auto

lemmas grows_intros = grows_bind grows_bind_res emits_return emits_rules [THEN grows_weaken]

lemma grows_ensureOnCommitBuildRun: "grows (ensureOnCommitBuildRun (logged C) sha)"
  by (auto simp: ensureOnCommitBuildRun_def getOrCreateBuildRun_def patchOnCommitTriggered_def Let_def
      intro!: grows_intros split: option.splits sum.splits)

text \<open>The flow once it is enabled, by the outcome of the wait.\<close>

lemma run_reconcileOnCommitBuildRun:
  assumes "isRebuildEnabled (rs_ib s)"
    and oc: "st_OnCommit (ib_Status (rs_ib s)) = Some oc" "ocs_Pending oc = Some p"
    and wait: "run_state (remainingWait C) s = (r1, s1)"
  shows "run_state (reconcileOnCommitBuildRun C) s =
     (case r1 of
        Err e \<Rightarrow> (Err e, s1)
      | Panic \<Rightarrow> (Panic, s1)
      | Ok (Some d) \<Rightarrow> (Ok (None, Some d), s1)
      | Ok None \<Rightarrow>
          if \<not> new_commit oc p
          then run_state (put_ib (upd_OnCommit (\<lambda>oc. oc\<lparr>ocs_Pending := None\<rparr>) (rs_ib s)) \<bind>
                 (\<lambda>_. patch_status C ''failed to clear pending commit status'' (rs_ib s) \<bind>
                   (\<lambda>r. State_Monad.return (map_res (\<lambda>_. (None, None)) r)))) s1
          else
            (case run_state (getActiveBuildRun C) s1 of
               (Ok None, s2) \<Rightarrow> run_state (ensureOnCommitBuildRun C (ev_CommitSHA p)) s2
             | (Ok (Some br), s2) \<Rightarrow> (Ok (Some br, None), s2)
             | (Err e, s2) \<Rightarrow> (Err e, s2)
             | (Panic, s2) \<Rightarrow> (Panic, s2)))"
  using assms
  by (cases "ocs_LastTriggeredBuildRun oc")
    (simp_all add: reconcileOnCommitBuildRun_def isDuplicateCommit_def new_commit_def
      split: res.split option.split prod.split)

lemma trigger_checks:
  assumes run: "run_state (reconcileOnCommitBuildRun (logged C)) s = (r, s')"
  shows "wlg s' = wlg s \<or> (\<exists>l. lg s' = lg s @ l \<and> trigger_due C (rs_ib s) l)"
proof (cases "wlg s' = wlg s")
  case True
  then show ?thesis ..
next
  case changed: False
  let ?ib = "rs_ib s"
  from run changed have enabled: "isRebuildEnabled ?ib"
    by (auto simp: reconcileOnCommitBuildRun_def split: if_splits)
  then obtain oc p rb where oc: "st_OnCommit (ib_Status ?ib) = Some oc" "ocs_Pending oc = Some p"
    and rb: "spec_Rebuild (ib_Spec ?ib) = Some rb" "rb_Mode rb = ImageBuildRebuildModeOnCommit"
    by (rule isRebuildEnabledE)
  obtain r1 s1 where wait: "run_state (remainingWait (logged C)) s = (r1, s1)" by fastforce
  have w1: "wlg s1 = wlg s" by (rule quiet_run [OF quiet_steps(6) wait])
  note flow = run [unfolded run_reconcileOnCommitBuildRun [OF enabled oc wait]]
  have r1: "r1 = Ok None"
    using flow changed w1 by (auto split: res.splits option.splits)
  have new: "new_commit oc p"
    using flow changed w1 r1
    by (auto split: if_splits prod.splits dest!: quiet_run [OF quiet_patches(1)])
  from run_remainingWait_logged [OF oc] wait r1 obtain l1 where
    l1: "rs_ib s1 = ?ib" "lg s1 = lg s @ l1" "build_writes l1 = []" "waited oc p l1" by blast
  obtain r2 s2 where act: "run_state (getActiveBuildRun (logged C)) s1 = (r2, s2)" by fastforce
  have w2: "wlg s2 = wlg s" using quiet_run [OF quiet_steps(4) act] w1 by simp
  have "r2 = Ok None \<and>
      run_state (ensureOnCommitBuildRun (logged C) (ev_CommitSHA p)) s2 = (r, s')"
  proof (cases "r2 = Ok None")
    case True
    with flow r1 new act show ?thesis by simp
  next
    case False
    with flow r1 new act have "s' = s2" by (cases r2) (simp_all split: option.splits)
    with changed w2 show ?thesis by simp
  qed
  then have r2: "r2 = Ok None"
    and ens: "run_state (ensureOnCommitBuildRun (logged C) (ev_CommitSHA p)) s2 = (r, s')" by auto
  from run_getActiveBuildRun_logged act r2 l1(1) obtain l2 where
    l2: "rs_ib s2 = ?ib" "lg s2 = lg s1 @ l2" "build_writes l2 = []" "none_active C ?ib l2"
    by metis
  from emitsD [OF grows_ensureOnCommitBuildRun ens] obtain l3 where l3: "lg s' = lg s2 @ l3" by blast
  have "wlg s' = wlg s2 @ build_writes l3" unfolding wlg_def l3 by simp
  with run_ensureOnCommitBuildRun_logged [OF _ ens] l2(1) oc changed w2 obtain m ok where
    m: "SetControllerReference C (ib_Meta ?ib)
          (br_Meta (onCommitBuildRun ?ib (nextCounter (ocs_TriggerCounter oc)))) = Inr m"
    "build_writes l3 = [(CreateBuildRun (onCommitBuildRun ?ib (nextCounter (ocs_TriggerCounter oc))
        \<lparr>br_Meta := m\<rparr>), ok)]" by auto
  have "lg s' = lg s @ (l1 @ l2 @ l3)" by (simp add: l1 l2 l3)
  moreover have "trigger_due C ?ib (l1 @ l2 @ l3)"
    unfolding trigger_due_def
    using oc rb new m l1(3) l2(3) waited_append [OF l1(4)] none_active_append [OF l2(4)]
    by (auto simp: onCommitLabelValue_def)
  ultimately show ?thesis by blast
qed

text \<open>
  C2. The on-commit flow creates a run only when one is due. Either it writes no run, or
  the ImageBuild asks for rebuilds on commits and has a pending commit; the debounce
  since the commit was received and the minimal interval since the last trigger have
  passed, by times read from the clock in this very reconcile; the commit is not the one
  triggered last; the run last referred to was looked up and is not in progress; and the
  one run created is the one wanted for the next trigger counter, owned by the ImageBuild.
\<close>

theorem oncommit_trigger_due:
  "let l = lg (snd (run_state (reconcileOnCommitBuildRun (logged C))
                     \<lparr>rs_ib = ib, rs_world = (w, [])\<rparr>)) in
   build_writes l = [] \<or>
   (\<exists>oc p b m ok.
      st_OnCommit (ib_Status ib) = Some oc \<and> ocs_Pending oc = Some p \<and>
      onCommitLabelValue ib = ''true'' \<and>
      waited oc p l \<and> new_commit oc p \<and> none_active C ib l \<and>
      b = onCommitBuildRun ib (nextCounter (ocs_TriggerCounter oc)) \<and>
      SetControllerReference C (ib_Meta ib) (br_Meta b) = Inr m \<and>
      build_writes l = [(CreateBuildRun (b\<lparr>br_Meta := m\<rparr>), ok)])"
proof -
  let ?s = "\<lparr>rs_ib = ib, rs_world = (w, [])\<rparr>"
  obtain r s' where run: "run_state (reconcileOnCommitBuildRun (logged C)) ?s = (r, s')" by fastforce
  have "wlg ?s = []" by (simp add: wlg_def build_writes_def)
  with trigger_checks [OF run] have "build_writes (lg s') = [] \<or> trigger_due C ib (lg s')"
    by auto
  with run show ?thesis by (simp add: Let_def trigger_due_def)
qed

section \<open>A run that is already there\<close>

text \<open>
  When a run of the wanted name exists and the ImageBuild controls it, both flows take
  it for the one they want. That is right while the counter has just been advanced for
  it, but it is also the situation after the run was created and the patch of the
  counter failed.
\<close>

lemma run_getOrCreateBuildRun_existing:
  assumes "cl_GetBuildRun C (ObjectKeyOf (br_Meta desired)) w = (Inr br, w')"
    and "IsControlledBy C (br_Meta br) (ib_Meta ib)"
  shows "run_state (getOrCreateBuildRun (logged C) desired) \<lparr>rs_ib = ib, rs_world = (w, l)\<rparr> =
     (Ok (br, False), \<lparr>rs_ib = ib,
        rs_world = (w', l @ [(GetBuildRun (ObjectKeyOf (br_Meta desired)) (Some br), True)])\<rparr>)"
  using assms by (simp add: getOrCreateBuildRun_def Let_def logged_GetBuildRun)

text \<open>
  C28. If the spec has changed and a run of the next counter already exists under the
  ImageBuild's control, no run is created for the changed spec and the counter is not
  advanced; yet the object sent to the server records the changed spec as the one last
  built, so it no longer counts as drifted. As the counter stays, the same happens for
  every later change of the spec.
\<close>

theorem stale_run_taken_for_new_spec:
  assumes "isSpecDrifted ib"
    and "cl_GetBuildRun C (ObjectKeyOf (br_Meta (newBuildRun ib
           (nextCounter (st_BuildRunCounter (ib_Status ib)))))) w = (Inr br, w')"
    and "IsControlledBy C (br_Meta br) (ib_Meta ib)"
  shows "\<exists>ib' ok k. recordBuildSpec ib = Ok ib' \<and>
     lg (snd (run_state (reconcileDefaultBuildRun (logged C)) \<lparr>rs_ib = ib, rs_world = (w, [])\<rparr>)) =
       [(GetBuildRun k (Some br), True), (UpdateImageBuild ib', ok)] \<and>
     st_BuildRunCounter (ib_Status ib') = st_BuildRunCounter (ib_Status ib) \<and>
     (isSpecDrifted ib' \<longleftrightarrow> st_LastBuildRunRef (ib_Status ib) = '''')"
proof -
  have "run_state (ensureBuildRun (logged C)) \<lparr>rs_ib = ib, rs_world = (w, [])\<rparr> =
     (Ok br, \<lparr>rs_ib = ib, rs_world = (w', [(GetBuildRun (ObjectKeyOf (br_Meta (newBuildRun ib
        (nextCounter (st_BuildRunCounter (ib_Status ib)))))) (Some br), True)])\<rparr>)"
    using run_getOrCreateBuildRun_existing [OF assms(2,3), of "[]"]
    by (simp add: ensureBuildRun_def Let_def)
  moreover have "isSpecDrifted ib' \<longleftrightarrow> st_LastBuildRunRef (ib_Status ib) = ''''"
    if "recordBuildSpec ib = Ok ib'" for ib'
    using that by (auto simp: recordBuildSpec_def isSpecDrifted_recorded inputs_of_def)
  moreover obtain ib' where "recordBuildSpec ib = Ok ib'" "ib_Status ib' = ib_Status ib"
    by (simp add: recordBuildSpec_def)
  ultimately show ?thesis
    using assms(1)
    by (auto simp: reconcileDefaultBuildRun_def update_object_def logged_def log_call_def
        split: prod.splits sum.splits)
qed

text \<open>
  C29. If a run of the next trigger counter already exists under the ImageBuild's control,
  the on-commit flow answers with it and writes nothing at all: the pending commit is not
  cleared and the trigger counter is not advanced, so the next reconcile finds the same
  run again, whatever commit is pending by then.
\<close>

theorem stale_oncommit_run_blocks:
  assumes "st_OnCommit (ib_Status ib) = Some oc"
    and "cl_GetBuildRun C (ObjectKeyOf (br_Meta (onCommitBuildRun ib
           (nextCounter (ocs_TriggerCounter oc))))) w = (Inr br, w')"
    and "IsControlledBy C (br_Meta br) (ib_Meta ib)"
  shows "run_state (ensureOnCommitBuildRun C sha) \<lparr>rs_ib = ib, rs_world = w\<rparr> =
     (Ok (Some br, None), \<lparr>rs_ib = ib, rs_world = w'\<rparr>)"
  using assms by (simp add: ensureOnCommitBuildRun_def getOrCreateBuildRun_def Let_def)

end
