(* ===== verification/Convergence.thy ===== *)
theory Convergence
  imports Status_Refinement Reference_Server Trigger
begin

text \<open>
  A changed spec is built once: against a server that also keeps the BuildRuns, the
  default flow creates the run, counts it and records the spec, and after the status
  has been written the ImageBuild no longer counts as drifted.
\<close>

section \<open>The default flow\<close>

lemma isSpecDrifted_view: "view_of a = view_of b \<Longrightarrow> isSpecDrifted a = isSpecDrifted b"
proof -
  assume v: "view_of a = view_of b"
  from arg_cong [OF v, of v_Spec] arg_cong [OF v, of v_LastBuildRunRef]
    arg_cong [OF v, of "\<lambda>v. om_Annotations (v_Meta v)"]
  have "ib_Spec a = ib_Spec b" "st_LastBuildRunRef (ib_Status a) = st_LastBuildRunRef (ib_Status b)"
    "om_Annotations (ib_Meta a) = om_Annotations (ib_Meta b)" by (simp_all add: view_of_def)
  then show ?thesis by (simp only: isSpecDrifted_def)
qed

text \<open>What the default flow leaves of the view of an ImageBuild that it builds.\<close>

definition a_built :: "ImageBuild \<Rightarrow> view \<Rightarrow> view" where
  "a_built ib v = v
     \<lparr>v_BuildRunCounter := nextCounter (v_BuildRunCounter v),
      v_Meta := (v_Meta v)\<lparr>om_Annotations :=
        (om_Annotations (v_Meta v))(AnnotationKeyLastBuildSpec \<mapsto> json_Marshal (inputs_of ib))\<rparr>\<rparr>"

context run_server
begin

lemma run_ensureBuildRun:
  fixes s :: "'w rstate"
  defines "k \<equiv> ObjectKeyOf (br_Meta (newBuildRun (rs_ib s)
      (nextCounter (st_BuildRunCounter (ib_Status (rs_ib s))))))"
  assumes sync: "sync s" and fresh: "runs (rs_world s) k = None"
  shows "\<exists>br s'. run_state (ensureBuildRun C) s = (Ok br, s') \<and> ObjectKeyOf (br_Meta br) = k \<and>
     runs (rs_world s') = (runs (rs_world s))(k \<mapsto> br) \<and> sync s' \<and>
     view_of (rs_ib s') = (view_of (rs_ib s))
       \<lparr>v_BuildRunCounter := nextCounter (st_BuildRunCounter (ib_Status (rs_ib s)))\<rparr>"
proof -
  let ?ib = "rs_ib s"
  let ?c = "nextCounter (st_BuildRunCounter (ib_Status ?ib))"
  from sync have healthy: "healthy (rs_world s)" by (simp add: in_sync_def)
  have "om_OwnerReferences (br_Meta (newBuildRun ?ib ?c)) = []"
    "om_Namespace (br_Meta (newBuildRun ?ib ?c)) = ib_Namespace ?ib"
    by (simp_all add: newBuildRun_def new_meta_def)
  from run_create [OF healthy fresh [unfolded k_def] this] obtain br w' where
    goc: "run_state (getOrCreateBuildRun C (newBuildRun ?ib ?c)) s = (Ok (br, True), s\<lparr>rs_world := w'\<rparr>)"
    and key: "ObjectKeyOf (br_Meta br) = k" and w': "healthy w'" "stored w' = stored (rs_world s)"
    "runs w' = (runs (rs_world s))(k \<mapsto> br)"
    unfolding k_def by blast
  let ?s1 = "s\<lparr>rs_world := w', rs_ib := ?ib\<lparr>ib_Status := (ib_Status ?ib)\<lparr>st_BuildRunCounter := ?c\<rparr>\<rparr>\<rparr>"
  have "\<exists>s'. run_state (patch_status C ''failed to patch BuildRunCounter status'' ?ib) ?s1 = (Ok (), s') \<and>
      sync s' \<and> view_of (rs_ib s') = view_of (rs_ib ?s1)"
    using sync sync_OnCommit [OF sync] w' by (intro run_patch_status) (simp_all add: in_sync_def)
  then obtain s' where patch:
    "run_state (patch_status C ''failed to patch BuildRunCounter status'' ?ib) ?s1 = (Ok (), s')"
    "sync s'" "view_of (rs_ib s') = view_of (rs_ib ?s1)" by blast
  have "runs (rs_world s') = runs w'"
    using patch(1) by (auto simp: patch_status_def split: prod.splits sum.splits
        dest: other_writes_law(1))
  moreover have "run_state (ensureBuildRun C) s = (Ok br, s')"
    using goc patch(1) by (simp add: ensureBuildRun_def Let_def)
  ultimately show ?thesis
    using key w'(3) patch(2,3) by (auto simp: view_of_def)
qed

lemma run_reconcileDefaultBuildRun:
  fixes s :: "'w rstate"
  defines "k \<equiv> ObjectKeyOf (br_Meta (newBuildRun (rs_ib s)
      (nextCounter (st_BuildRunCounter (ib_Status (rs_ib s))))))"
  assumes sync: "sync s" and drifted: "isSpecDrifted (rs_ib s)" and fresh: "runs (rs_world s) k = None"
  shows "\<exists>br s'. run_state (reconcileDefaultBuildRun C) s = (Ok (Some br), s') \<and>
     ObjectKeyOf (br_Meta br) = k \<and> runs (rs_world s') = (runs (rs_world s))(k \<mapsto> br) \<and> sync s' \<and>
     view_of (rs_ib s') = a_built (rs_ib s) (view_of (rs_ib s))"
proof -
  from run_ensureBuildRun [OF sync fresh [unfolded k_def]] obtain br s1 where
    ens: "run_state (ensureBuildRun C) s = (Ok br, s1)" "ObjectKeyOf (br_Meta br) = k"
    "runs (rs_world s1) = (runs (rs_world s))(k \<mapsto> br)" "sync s1"
    and view: "view_of (rs_ib s1) = (view_of (rs_ib s))
       \<lparr>v_BuildRunCounter := nextCounter (st_BuildRunCounter (ib_Status (rs_ib s)))\<rparr>"
    unfolding k_def by blast
  let ?ib2 = "(rs_ib s1)\<lparr>ib_Meta := (ib_Meta (rs_ib s1))\<lparr>om_Annotations :=
      (om_Annotations (ib_Meta (rs_ib s1)))(AnnotationKeyLastBuildSpec \<mapsto> json_Marshal (inputs_of (rs_ib s1)))\<rparr>\<rparr>"
  have rec: "recordBuildSpec (rs_ib s1) = Ok ?ib2" by (simp add: recordBuildSpec_def)
  have key: "ib_key ?ib2 = ib_key (rs_ib s1)" by (simp add: ObjectKeyOf_def)
  with ens(4) have st: "healthy (rs_world s1)" "stored (rs_world s1) (ib_key ?ib2) = Some (rs_ib s1)"
    by (simp_all add: in_sync_def)
  from update_law [OF st] obtain rv w' where
    upd: "cl_UpdateImageBuild C ?ib2 (rs_world s1) = (Inr (with_rv ?ib2 rv), w')" "healthy w'"
    "stored w' = (stored (rs_world s1))(ib_key ?ib2 \<mapsto> with_rv ?ib2 rv)" by auto
  let ?s2 = "\<lparr>rs_ib = with_rv ?ib2 rv, rs_world = w'\<rparr>"
  have "run_state (reconcileDefaultBuildRun C) s = (Ok (Some br), ?s2)"
    using drifted ens(1) rec upd(1)
    by (simp add: reconcileDefaultBuildRun_def update_object_def)
  moreover have "sync ?s2"
    using upd(2,3) ens(4) by (simp add: in_sync_def ObjectKeyOf_def)
  moreover have "runs w' = runs (rs_world s1)" using other_writes_law(2) [OF upd(1)] .
  moreover have "inputs_of (rs_ib s1) = inputs_of (rs_ib s)"
    using arg_cong [OF view, of v_Spec] by (simp add: view_of_def inputs_of_def)
  moreover have "view_of (with_rv ?ib2 rv) = a_built (rs_ib s1) ((view_of (rs_ib s1))
      \<lparr>v_BuildRunCounter := v_BuildRunCounter (view_of (rs_ib s))\<rparr>)"
    using arg_cong [OF view, of v_BuildRunCounter] by (simp add: view_of_def a_built_def)
  ultimately show ?thesis
    using ens(2,3) view
    by (intro exI [of _ br] exI [of _ ?s2]) (simp add: a_built_def)
qed

end

section \<open>The property\<close>

lemma newBuildRun_name_ne: "br_Name (newBuildRun ib c) \<noteq> ''''"
  by (simp add: spec_flow.name)

text \<open>
  C7. Against a server that keeps ImageBuilds and runs, a changed spec is built exactly
  once. If the spec has drifted and the run of the next counter does not exist yet, the
  default flow creates that run, advances the counter, and the status step that follows
  refers to it; afterwards the ImageBuild no longer counts as drifted, the object in
  memory is the one stored, and the counter is still the one of that run. So the next
  reconcile creates no further run until the spec changes again.
\<close>

theorem changed_spec_built_once:
  fixes s :: "'w rstate"
  defines "c \<equiv> nextCounter (st_BuildRunCounter (ib_Status (rs_ib s)))"
  assumes "run_server C stored healthy trunc runs" and "in_sync stored healthy trunc s"
    and "isSpecDrifted (rs_ib s)"
    and "runs (rs_world s) (ObjectKeyOf (br_Meta (newBuildRun (rs_ib s) c))) = None"
  shows "\<exists>br s1 poll s2.
     run_state (reconcileDefaultBuildRun C) s = (Ok (Some br), s1) \<and>
     runs (rs_world s1) = (runs (rs_world s))(ObjectKeyOf (br_Meta (newBuildRun (rs_ib s) c)) \<mapsto> br) \<and>
     run_state (reconcileStatus C (Some br)) s1 = (Ok poll, s2) \<and>
     st_LastBuildRunRef (ib_Status (rs_ib s2)) = br_Name br \<and>
     st_BuildRunCounter (ib_Status (rs_ib s2)) = c \<and>
     in_sync stored healthy trunc s2 \<and> \<not> isSpecDrifted (rs_ib s2)"
proof -
  from assms(2) have api: "api_server C stored healthy trunc" by (rule run_server.axioms)
  from run_server.run_reconcileDefaultBuildRun [OF assms(2-4) assms(5) [unfolded c_def]]
  obtain br s1 where r1: "run_state (reconcileDefaultBuildRun C) s = (Ok (Some br), s1)"
    "ObjectKeyOf (br_Meta br) = ObjectKeyOf (br_Meta (newBuildRun (rs_ib s) c))"
    "runs (rs_world s1) = (runs (rs_world s))(ObjectKeyOf (br_Meta (newBuildRun (rs_ib s) c)) \<mapsto> br)"
    "in_sync stored healthy trunc s1" and view1: "view_of (rs_ib s1) = a_built (rs_ib s) (view_of (rs_ib s))"
    unfolding c_def by blast
  from view1 have r1': "v_BuildRunCounter (view_of (rs_ib s1)) = c"
    "v_Spec (view_of (rs_ib s1)) = ib_Spec (rs_ib s)"
    "om_Annotations (v_Meta (view_of (rs_ib s1))) AnnotationKeyLastBuildSpec =
       Some (json_Marshal (inputs_of (rs_ib s)))"
    by (simp_all add: a_built_def c_def view_of_def)
  from api_server.run_reconcileStatus [OF api r1(4), of "Some br"] obtain s2 where
    r2: "run_state (reconcileStatus C (Some br)) s1 =
       (Ok (snd (a_reconcileStatus C (Some br) (view_of (rs_ib s1)))), s2)" "in_sync stored healthy trunc s2"
    and view: "view_of (rs_ib s2) = fst (a_reconcileStatus C (Some br) (view_of (rs_ib s1)))" by blast
  obtain st reason msg where "deriveBuildSucceededStatus C br = (st, reason, msg)" by (metis surj_pair)
  from a_reconcileStatus_run [OF this, of "view_of (rs_ib s1)"] view have
    v2: "v_LastBuildRunRef (view_of (rs_ib s2)) = br_Name br" "v_BuildRunCounter (view_of (rs_ib s2)) = c"
      "v_Spec (view_of (rs_ib s2)) = ib_Spec (rs_ib s)"
      "v_Meta (view_of (rs_ib s2)) = v_Meta (view_of (rs_ib s1))"
    using r1'(1,2) by auto
  have ann: "om_Annotations (ib_Meta (rs_ib s2)) AnnotationKeyLastBuildSpec =
      Some (json_Marshal (inputs_of (rs_ib s)))"
    using r1'(3) unfolding v2(4) [symmetric] by (simp add: view_of_def)
  have "br_Name br \<noteq> ''''"
    using r1(2) newBuildRun_name_ne [of "rs_ib s" c] by (simp add: ObjectKeyOf_def)
  with isSpecDrifted_recorded [OF ann] v2(1,3) have "\<not> isSpecDrifted (rs_ib s2)"
    by (simp add: view_of_def inputs_of_def)
  with r1(1,3) r2 v2(1,2) show ?thesis
    by (intro exI [of _ br] exI [of _ s1] exI [of _ s2] exI) (auto simp: view_of_def)
qed

end
