(* ===== verification/Commit_Flow.thy ===== *)
theory Commit_Flow
  imports Convergence
begin

text \<open>
  A due commit is built, once: against a server that keeps objects and runs and has a
  clock, the on-commit flow creates the run of the next trigger counter and takes the
  commit out of the queue.
\<close>

locale clocked_server = run_server C stored healthy trunc runs
  for C :: "'w client" and stored healthy trunc runs +
  fixes clock :: "'w \<Rightarrow> time"
  assumes clock_law:
    "healthy w \<Longrightarrow> \<exists>w'. cl_Now C w = (clock w, w') \<and> clock w \<le> clock w' \<and>
       healthy w' \<and> stored w' = stored w \<and> runs w' = runs w"

interpretation ref_clock: clocked_server ref_client mem_stored mem_healthy id m_BuildRuns m_Clock
  by unfold_locales (simp add: ref_client_def)

section \<open>When a commit is due\<close>

definition elapsed :: "time \<Rightarrow> duration \<Rightarrow> time \<Rightarrow> bool" where
  "elapsed t d now \<longleftrightarrow> IsZero t \<or> t + d \<le> now"

definition due :: "ImageBuildOnCommitStatus \<Rightarrow> ImageBuildOnCommitEvent \<Rightarrow> time \<Rightarrow> bool" where
  "due oc p now \<longleftrightarrow> elapsed (ev_ReceivedAt p) onCommitDebounce now \<and> new_commit oc p \<and>
     (case ocs_LastTriggeredBuildRun oc of
        None \<Rightarrow> True | Some lt \<Rightarrow> elapsed (lt_TriggeredAt lt) onCommitMinInterval now)"

text \<open>The run the status refers to is none, gone, of another owner, or finished.\<close>

definition idle :: "'z lib_scheme \<Rightarrow> (NamespacedName \<Rightarrow> BuildRun option) \<Rightarrow> ImageBuild \<Rightarrow> bool" where
  "idle L rs ib \<longleftrightarrow>
     st_LastBuildRunRef (ib_Status ib) = '''' \<or>
     (case rs \<lparr>nn_Namespace = ib_Namespace ib, nn_Name = st_LastBuildRunRef (ib_Status ib)\<rparr> of
        None \<Rightarrow> True
      | Some br \<Rightarrow> \<not> (IsControlledBy L (br_Meta br) (ib_Meta ib) \<and> isActiveBuildRun L br))"

text \<open>The on-commit status after its pending commit was triggered.\<close>

abbreviation triggered :: "ImageBuildOnCommitStatus \<Rightarrow> 64 word \<Rightarrow> string \<Rightarrow> string \<Rightarrow> time \<Rightarrow>
    ImageBuildOnCommitStatus" where
  "triggered oc c name sha t \<equiv> oc
     \<lparr>ocs_TriggerCounter := c,
      ocs_LastTriggeredBuildRun := Some \<lparr>lt_Name = name, lt_CommitSHA = sha, lt_TriggeredAt = t\<rparr>,
      ocs_Pending := None\<rparr>"

context clocked_server
begin

text \<open>The steps before the creation change nothing but the clock.\<close>

abbreviation same_state :: "'w \<Rightarrow> 'w \<Rightarrow> bool" where
  "same_state w w' \<equiv> healthy w' \<and> stored w' = stored w \<and> runs w' = runs w"

lemma run_positiveUntil_elapsed:
  assumes "healthy (rs_world s)" and "t \<le> clock (rs_world s)"
  shows "\<exists>w'. run_state (positiveUntil C t) s = (None, s\<lparr>rs_world := w'\<rparr>) \<and>
     same_state (rs_world s) w' \<and> clock (rs_world s) \<le> clock w'"
proof -
  from clock_law [OF assms(1)] obtain w' where
    "cl_Now C (rs_world s) = (clock (rs_world s), w')" "clock (rs_world s) \<le> clock w'"
    "same_state (rs_world s) w'" by blast
  moreover have "\<not> 0 < time_Sub t (clock (rs_world s))"
    using assms(2) by (simp add: time_Sub_pos_iff)
  ultimately show ?thesis by (auto simp: positiveUntil_def Let_def)
qed

lemma run_remainingWait_due:
  assumes "healthy (rs_world s)" and "st_OnCommit (ib_Status (rs_ib s)) = Some oc"
    and "ocs_Pending oc = Some p" and "due oc p (clock (rs_world s))"
  shows "\<exists>w'. run_state (remainingWait C) s = (Ok None, s\<lparr>rs_world := w'\<rparr>) \<and> same_state (rs_world s) w'"
proof -
  let ?first = "if \<not> IsZero (ev_ReceivedAt p)
      then positiveUntil C (time_Add (ev_ReceivedAt p) onCommitDebounce) else State_Monad.return None"
  have "\<exists>w'. run_state ?first s = (None, s\<lparr>rs_world := w'\<rparr>) \<and>
      same_state (rs_world s) w' \<and> clock (rs_world s) \<le> clock w'"
  proof (cases "IsZero (ev_ReceivedAt p)")
    case True
    with assms(1) show ?thesis by (intro exI [of _ "rs_world s"]) simp
  next
    case False
    with assms(4) run_positiveUntil_elapsed [OF assms(1)] show ?thesis
      by (simp add: due_def elapsed_def time_Add_def)
  qed
  then obtain w1 where w1: "run_state ?first s = (None, s\<lparr>rs_world := w1\<rparr>)" "same_state (rs_world s) w1"
    "clock (rs_world s) \<le> clock w1" by blast
  show ?thesis
  proof (cases "ocs_LastTriggeredBuildRun oc")
    case None
    with w1 assms(2,3) show ?thesis by (auto simp: remainingWait_def Let_def)
  next
    case (Some lt)
    show ?thesis
    proof (cases "IsZero (lt_TriggeredAt lt)")
      case True
      with Some w1 assms(2,3) show ?thesis by (auto simp: remainingWait_def Let_def)
    next
      case False
      with assms(4) Some w1(3) have "lt_TriggeredAt lt + onCommitMinInterval \<le> clock w1"
        by (simp add: due_def elapsed_def)
      with run_positiveUntil_elapsed [of "s\<lparr>rs_world := w1\<rparr>"] w1(2) obtain w2 where
        "run_state (positiveUntil C (time_Add (lt_TriggeredAt lt) onCommitMinInterval)) (s\<lparr>rs_world := w1\<rparr>) =
           (None, s\<lparr>rs_world := w2\<rparr>)" "same_state (rs_world s) w2"
        by (auto simp: time_Add_def)
      with Some False w1(1) assms(2,3) show ?thesis by (auto simp: remainingWait_def Let_def)
    qed
  qed
qed

lemma run_getActiveBuildRun_idle:
  assumes "healthy (rs_world s)" and "idle C (runs (rs_world s)) (rs_ib s)"
  shows "\<exists>w'. run_state (getActiveBuildRun C) s = (Ok None, s\<lparr>rs_world := w'\<rparr>) \<and> same_state (rs_world s) w'"
proof (cases "st_LastBuildRunRef (ib_Status (rs_ib s)) = ''''")
  case True
  with assms(1) show ?thesis
    by (intro exI [of _ "rs_world s"]) (simp add: getActiveBuildRun_def getLastBuildRun_def)
next
  case False
  let ?k = "\<lparr>nn_Namespace = ib_Namespace (rs_ib s), nn_Name = st_LastBuildRunRef (ib_Status (rs_ib s))\<rparr>"
  from get_run_law [OF assms(1), of ?k] obtain w' where w': "same_state (rs_world s) w'"
    "case runs (rs_world s) ?k of
       Some br \<Rightarrow> cl_GetBuildRun C ?k (rs_world s) = (Inr br, w')
     | None \<Rightarrow> \<exists>e. IsNotFound e \<and> cl_GetBuildRun C ?k (rs_world s) = (Inl e, w')" by blast
  with False assms(2) show ?thesis
    by (intro exI [of _ w'])
      (auto simp: getActiveBuildRun_def getLastBuildRun_def Let_def idle_def split: option.splits)
qed

text \<open>The mark of the trigger, on an object in step with the server.\<close>

lemma run_patchOnCommitTriggered:
  assumes sync: "sync s" and oc: "st_OnCommit (ib_Status (rs_ib s)) = Some oc"
  shows "\<exists>s' t. run_state (patchOnCommitTriggered C br c sha) s = (Ok (), s') \<and> sync s' \<and>
     runs (rs_world s') = runs (rs_world s) \<and>
     view_of (rs_ib s') = (view_of (rs_ib s))\<lparr>v_OnCommit := Some (triggered oc c (br_Name br) sha t)\<rparr>"
proof -
  let ?ib = "rs_ib s"
  from sync have healthy: "healthy (rs_world s)" and st: "stored (rs_world s) (ib_key ?ib) = Some ?ib"
    by (simp_all add: in_sync_def)
  from clock_law [OF healthy] obtain w1 where
    now: "cl_Now C (rs_world s) = (clock (rs_world s), w1)" and w1: "same_state (rs_world s) w1" by blast
  let ?t = "clock (rs_world s)"
  let ?new = "?ib\<lparr>ib_Status := (ib_Status ?ib)\<lparr>st_OnCommit := Some (triggered oc c (br_Name br) sha ?t)\<rparr>\<rparr>"
  from w1 st have "healthy w1" "stored w1 (ib_key ?ib) = Some ?ib" by simp_all
  from patch_status_law [OF this, of ?new] obtain rv w2 where
    p: "cl_PatchImageBuildStatus C ?ib ?new w1 =
      (Inr (with_rv (?ib\<lparr>ib_Status := map_times trunc (ib_Status ?new)\<rparr>) rv), w2)" "healthy w2"
    "stored w2 = (stored w1)(ib_key ?ib \<mapsto> with_rv (?ib\<lparr>ib_Status := map_times trunc (ib_Status ?new)\<rparr>) rv)"
    by (auto simp: Let_def)
  let ?s' = "\<lparr>rs_ib = with_rv (?ib\<lparr>ib_Status := map_times trunc (ib_Status ?new)\<rparr>) rv, rs_world = w2\<rparr>"
  have "run_state (patchOnCommitTriggered C br c sha) s = (Ok (), ?s')"
    using oc now p(1) by (simp add: patchOnCommitTriggered_def patch_status_def upd_OnCommit_def)
  moreover have "sync ?s'" using p(2,3) by (simp add: in_sync_def ObjectKeyOf_def)
  moreover have "runs w2 = runs (rs_world s)" using other_writes_law(1) [OF p(1)] w1 by simp
  moreover have "map_option (map_event trunc) (ocs_LastReceived oc) = ocs_LastReceived oc"
  proof -
    from sync_OnCommit [OF sync] oc have "map_OnCommit trunc oc = oc" by simp
    from arg_cong [OF this, of ocs_LastReceived] show ?thesis by (simp add: map_OnCommit_def)
  qed
  moreover from this have "map_OnCommit trunc (triggered oc c (br_Name br) sha ?t) = triggered oc c (br_Name br) sha (trunc ?t)"
    by (cases oc) (simp add: map_OnCommit_def)
  then have "view_of (rs_ib ?s') = (view_of ?ib)\<lparr>v_OnCommit := Some (triggered oc c (br_Name br) sha (trunc ?t))\<rparr>"
    using cond_map_times [of trunc "ib_Status ?ib"] by (simp add: view_of_def map_times_def)
  ultimately show ?thesis by (intro exI [of _ ?s'] exI [of _ "trunc ?t"] conjI) simp_all
qed

lemma run_ensureOnCommitBuildRun:
  fixes s :: "'w rstate"
  assumes sync: "sync s" and oc: "st_OnCommit (ib_Status (rs_ib s)) = Some oc"
  defines "c \<equiv> nextCounter (ocs_TriggerCounter oc)"
  defines "k \<equiv> ObjectKeyOf (br_Meta (onCommitBuildRun (rs_ib s) c))"
  assumes fresh: "runs (rs_world s) k = None"
  shows "\<exists>br s' t. run_state (ensureOnCommitBuildRun C sha) s = (Ok (Some br, None), s') \<and>
     ObjectKeyOf (br_Meta br) = k \<and> runs (rs_world s') = (runs (rs_world s))(k \<mapsto> br) \<and> sync s' \<and>
     view_of (rs_ib s') = (view_of (rs_ib s))\<lparr>v_OnCommit := Some (triggered oc c (br_Name br) sha t)\<rparr>"
proof -
  from sync have healthy: "healthy (rs_world s)" by (simp add: in_sync_def)
  have "om_OwnerReferences (br_Meta (onCommitBuildRun (rs_ib s) c)) = []"
    "om_Namespace (br_Meta (onCommitBuildRun (rs_ib s) c)) = ib_Namespace (rs_ib s)"
    by (simp_all add: onCommitBuildRun_def newBuildRun_def new_meta_def Let_def)
  from run_create [OF healthy fresh [unfolded k_def] this] obtain br w' where
    goc: "run_state (getOrCreateBuildRun C (onCommitBuildRun (rs_ib s) c)) s = (Ok (br, True), s\<lparr>rs_world := w'\<rparr>)"
    and w': "ObjectKeyOf (br_Meta br) = k" "healthy w'" "stored w' = stored (rs_world s)"
      "runs w' = (runs (rs_world s))(k \<mapsto> br)"
    unfolding k_def by blast
  from sync w' have sync1: "sync (s\<lparr>rs_world := w'\<rparr>)" by (simp add: in_sync_def)
  from run_patchOnCommitTriggered [OF sync1, of oc br c sha] oc obtain s' t where
    "run_state (patchOnCommitTriggered C br c sha) (s\<lparr>rs_world := w'\<rparr>) = (Ok (), s')" "sync s'"
    "runs (rs_world s') = runs w'"
    "view_of (rs_ib s') = (view_of (rs_ib s))\<lparr>v_OnCommit := Some (triggered oc c (br_Name br) sha t)\<rparr>" by auto
  with goc w'(1,4) oc show ?thesis
    by (intro exI [of _ br] exI [of _ s'] exI [of _ t]) (simp add: ensureOnCommitBuildRun_def Let_def c_def)
qed

lemma run_reconcileOnCommitBuildRun_due:
  fixes s :: "'w rstate"
  assumes sync: "sync s" and enabled: "onCommitLabelValue (rs_ib s) = ''true''"
    and oc: "st_OnCommit (ib_Status (rs_ib s)) = Some oc" "ocs_Pending oc = Some p"
    and due: "due oc p (clock (rs_world s))" and idle: "idle C (runs (rs_world s)) (rs_ib s)"
  defines "c \<equiv> nextCounter (ocs_TriggerCounter oc)"
  defines "k \<equiv> ObjectKeyOf (br_Meta (onCommitBuildRun (rs_ib s) c))"
  assumes fresh: "runs (rs_world s) k = None"
  shows "\<exists>br s' t. run_state (reconcileOnCommitBuildRun C) s = (Ok (Some br, None), s') \<and>
     ObjectKeyOf (br_Meta br) = k \<and> runs (rs_world s') = (runs (rs_world s))(k \<mapsto> br) \<and> sync s' \<and>
     view_of (rs_ib s') = (view_of (rs_ib s))
       \<lparr>v_OnCommit := Some (triggered oc c (br_Name br) (ev_CommitSHA p) t)\<rparr>"
proof -
  from sync have healthy: "healthy (rs_world s)" by (simp add: in_sync_def)
  from run_remainingWait_due [OF healthy oc due] obtain w1 where
    w1: "run_state (remainingWait C) s = (Ok None, s\<lparr>rs_world := w1\<rparr>)" "same_state (rs_world s) w1" by blast
  from run_getActiveBuildRun_idle [of "s\<lparr>rs_world := w1\<rparr>"] w1(2) idle obtain w2 where
    w2: "run_state (getActiveBuildRun C) (s\<lparr>rs_world := w1\<rparr>) = (Ok None, s\<lparr>rs_world := w2\<rparr>)"
    "same_state (rs_world s) w2" by auto
  from sync w2(2) have sync2: "sync (s\<lparr>rs_world := w2\<rparr>)" by (simp add: in_sync_def)
  from run_ensureOnCommitBuildRun [OF sync2, of oc "ev_CommitSHA p"] oc(1) fresh w2(2) obtain br s' t where
    run: "run_state (ensureOnCommitBuildRun C (ev_CommitSHA p)) (s\<lparr>rs_world := w2\<rparr>) = (Ok (Some br, None), s')"
    and rest: "ObjectKeyOf (br_Meta br) = k" "runs (rs_world s') = (runs (rs_world s))(k \<mapsto> br)" "sync s'"
    "view_of (rs_ib s') = (view_of (rs_ib s))
       \<lparr>v_OnCommit := Some (triggered oc c (br_Name br) (ev_CommitSHA p) t)\<rparr>"
    unfolding k_def c_def by auto
  have "isRebuildEnabled (rs_ib s)"
    using enabled oc
    by (auto simp: isRebuildEnabled_def onCommitLabelValue_def split: option.splits if_splits)
  moreover have "isDuplicateCommit (rs_ib s) (ev_CommitSHA p) = Ok False"
    using oc(1) due by (auto simp: isDuplicateCommit_def due_def new_commit_def split: option.splits)
  ultimately have "run_state (reconcileOnCommitBuildRun C) s = (Ok (Some br, None), s')"
    using w1(1) w2(1) run oc by (simp add: reconcileOnCommitBuildRun_def)
  with rest show ?thesis by blast
qed

end

text \<open>
  C6. A commit that is due is built, and once. Against a server that keeps objects and
  runs, if the ImageBuild asks for rebuilds, a commit is pending, the debounce and the
  minimal interval have passed by the clock, the commit is not the one triggered last, no
  run is in progress, and the run of the next trigger counter does not exist, then the
  on-commit flow creates that run; afterwards no commit is pending, the counter is the
  one of the run, the last trigger names run and commit, and the event last received is
  kept. The object in memory is the one stored, so the next reconcile does not see the
  commit again.
\<close>

theorem due_commit_built_once:
  assumes "clocked_server C stored healthy trunc runs clock" and "in_sync stored healthy trunc s"
    and "onCommitLabelValue (rs_ib s) = ''true''"
    and "st_OnCommit (ib_Status (rs_ib s)) = Some oc" and "ocs_Pending oc = Some p"
    and "due oc p (clock (rs_world s))" and "idle C (runs (rs_world s)) (rs_ib s)"
    and "c = nextCounter (ocs_TriggerCounter oc)"
    and "k = ObjectKeyOf (br_Meta (onCommitBuildRun (rs_ib s) c))" and "runs (rs_world s) k = None"
  shows "\<exists>br s' t. run_state (reconcileOnCommitBuildRun C) s = (Ok (Some br, None), s') \<and>
     runs (rs_world s') = (runs (rs_world s))(k \<mapsto> br) \<and> in_sync stored healthy trunc s' \<and>
     st_OnCommit (ib_Status (rs_ib s')) = Some
       \<lparr>ocs_LastReceived = ocs_LastReceived oc, ocs_Pending = None,
        ocs_LastTriggeredBuildRun =
          Some \<lparr>lt_Name = br_Name br, lt_CommitSHA = ev_CommitSHA p, lt_TriggeredAt = t\<rparr>,
        ocs_TriggerCounter = c\<rparr> \<and>
     \<not> isRebuildEnabled (rs_ib s')"
proof -
  from clocked_server.run_reconcileOnCommitBuildRun_due [OF assms(1-7)] assms(8-10)
  obtain br s' t where "run_state (reconcileOnCommitBuildRun C) s = (Ok (Some br, None), s')"
    "runs (rs_world s') = (runs (rs_world s))(k \<mapsto> br)" "in_sync stored healthy trunc s'"
    and v: "view_of (rs_ib s') = (view_of (rs_ib s))
      \<lparr>v_OnCommit := Some (triggered oc c (br_Name br) (ev_CommitSHA p) t)\<rparr>" by auto
  with of_view(12) [OF v] show ?thesis
    by (intro exI [of _ br] exI [of _ s'] exI [of _ t]) (cases oc, simp add: isRebuildEnabled_def)
qed

end
