(* ===== verification/Webhook_Provider.thy ===== *)
theory Webhook_Provider
  imports API_Types
begin

text \<open>
  The Git providers of \<open>internal/webhook/git\<close>: the interface \<open>webhookProvider\<close>
  (\<open>types.go\<close>), its two implementations (\<open>github.go\<close>, \<open>gitlab.go\<close>) and the helpers
  they share with the handler (\<open>handler.go\<close>). What the provider libraries do (reading
  a payload, checking a signature or a token) is a parameter, the record \<open>hooklib\<close>.
\<close>

section \<open>Requests and provider libraries\<close>

text \<open>Header values are indexed by canonical key; a body may fail to be read, with a text.\<close>

record Request =
  req_Method :: string
  req_Header :: "string \<Rightarrow> string list"
  req_Body :: "string + string"

definition Header_Get :: "Request \<Rightarrow> string \<Rightarrow> string" where
  "Header_Get r k = (case req_Header r k of [] \<Rightarrow> '''' | v # _ \<Rightarrow> v)"

record github_push =
  gh_SSHURL :: string
  gh_CloneURL :: string
  gh_Ref :: string
  gh_After :: string

datatype github_event = PushEvent github_push | OtherEvent string

record gitlab_push =
  gl_GitSSHURL :: string
  gl_GitHTTPURL :: string
  gl_Ref :: string
  gl_After :: string

record 'h hooklib =
  vcsurl_Parse :: "string \<Rightarrow> go_error + string"
  github_WebHookType :: "Request \<Rightarrow> string"
  github_ParseWebHook_push :: "string \<Rightarrow> go_error + github_event"
  github_ValidatePayload :: "Request \<Rightarrow> string \<Rightarrow> go_error + string"
  gitlab_PushEvents :: string
  gitlab_Unmarshal :: "string \<Rightarrow> go_error + gitlab_push"
  gitlab_New :: "string \<Rightarrow> go_error + 'h"
  gitlab_Parse :: "'h \<Rightarrow> Request \<Rightarrow> go_error option"

section \<open>Push events\<close>

record pushEvent =
  pe_cloneURLs :: "string list"
  pe_ref :: string
  pe_commitSHA :: string

definition newPushEvent :: "string list \<Rightarrow> string \<Rightarrow> string \<Rightarrow> go_error + pushEvent" where
  "newPushEvent cloneURLs ref commitSHA =
     (if TrimSpace ref = '''' \<or> length cloneURLs = 0 then Inl (Sentinel errMissingPushEventFields)
      else Inr \<lparr>pe_cloneURLs = cloneURLs, pe_ref = ref, pe_commitSHA = commitSHA\<rparr>)"

fun appendTrimmedNonEmpty :: "string list \<Rightarrow> string list" where
  "appendTrimmedNonEmpty [] = []"
| "appendTrimmedNonEmpty (s # elems) =
     (let trimmed = TrimSpace s in
      if trimmed \<noteq> '''' then trimmed # appendTrimmedNonEmpty elems
      else appendTrimmedNonEmpty elems)"

section \<open>The interface and its implementations\<close>

record webhookProvider =
  wp_Name :: string
  wp_Detect :: "Request \<Rightarrow> bool"
  wp_ReadPushEvent :: "string \<Rightarrow> go_error + pushEvent"
  wp_Authenticate :: "Request \<Rightarrow> string \<Rightarrow> string \<Rightarrow> go_error option"

definition github_Detect :: "'h hooklib \<Rightarrow> Request \<Rightarrow> bool" where
  "github_Detect H r \<longleftrightarrow> github_WebHookType H r = ''push''"

definition github_ReadPushEvent :: "'h hooklib \<Rightarrow> string \<Rightarrow> go_error + pushEvent" where
  "github_ReadPushEvent H body =
     (case github_ParseWebHook_push H body of
        Inl e \<Rightarrow> Inl (wrap ''failed to parse GitHub push event'' e)
      | Inr (OtherEvent ty) \<Rightarrow> Inl (wrap_text (Sentinel errUnexpectedGitHubEvent) ('': '' @ ty))
      | Inr (PushEvent payload) \<Rightarrow>
          newPushEvent (appendTrimmedNonEmpty [gh_SSHURL payload, gh_CloneURL payload])
            (gh_Ref payload) (gh_After payload))"

definition github_Authenticate :: "'h hooklib \<Rightarrow> Request \<Rightarrow> string \<Rightarrow> string \<Rightarrow> go_error option" where
  "github_Authenticate H r body secret =
     (case github_ValidatePayload H (r\<lparr>req_Body := Inr body\<rparr>) secret of
        Inl e \<Rightarrow> Some (wrap ''failed to validate GitHub webhook signature'' e)
      | Inr _ \<Rightarrow> None)"

definition githubProvider :: "'h hooklib \<Rightarrow> webhookProvider" where
  "githubProvider H =
     \<lparr>wp_Name = ''github'', wp_Detect = github_Detect H,
      wp_ReadPushEvent = github_ReadPushEvent H, wp_Authenticate = github_Authenticate H\<rparr>"

definition gitlabEventHeader :: string where
  "gitlabEventHeader = ''X-Gitlab-Event''"

definition gitlab_Detect :: "'h hooklib \<Rightarrow> Request \<Rightarrow> bool" where
  "gitlab_Detect H r \<longleftrightarrow>
     EqualFold (TrimSpace (Header_Get r gitlabEventHeader)) (gitlab_PushEvents H)"

definition gitlab_ReadPushEvent :: "'h hooklib \<Rightarrow> string \<Rightarrow> go_error + pushEvent" where
  "gitlab_ReadPushEvent H body =
     (case gitlab_Unmarshal H body of
        Inl e \<Rightarrow> Inl (wrap ''failed to parse GitLab push event'' e)
      | Inr payload \<Rightarrow>
          newPushEvent (appendTrimmedNonEmpty [gl_GitSSHURL payload, gl_GitHTTPURL payload])
            (gl_Ref payload) (gl_After payload))"

definition gitlab_Authenticate :: "'h hooklib \<Rightarrow> Request \<Rightarrow> string \<Rightarrow> string \<Rightarrow> go_error option" where
  "gitlab_Authenticate H r body secret =
     (case gitlab_New H secret of
        Inl e \<Rightarrow> Some (wrap ''failed to create GitLab webhook validator'' e)
      | Inr hook \<Rightarrow>
          (case gitlab_Parse H hook (r\<lparr>req_Body := Inr body\<rparr>) of
             Some e \<Rightarrow> Some (wrap ''failed to validate GitLab webhook token'' e)
           | None \<Rightarrow> None))"

definition gitlabProvider :: "'h hooklib \<Rightarrow> webhookProvider" where
  "gitlabProvider H =
     \<lparr>wp_Name = ''gitlab'', wp_Detect = gitlab_Detect H,
      wp_ReadPushEvent = gitlab_ReadPushEvent H, wp_Authenticate = gitlab_Authenticate H\<rparr>"

section \<open>The contract of a provider\<close>

text \<open>
  What the handler relies on: an event that was read has a clone URL (it indexes the
  first one), every clone URL is trimmed and non-empty, and the ref is not blank.
  Authentication does not depend on what is left of the request's body, since a
  provider restores it.
\<close>

locale push_provider =
  fixes p :: webhookProvider
  assumes urls_ne: "wp_ReadPushEvent p body = Inr ev \<Longrightarrow> pe_cloneURLs ev \<noteq> []"
    and urls_trimmed:
      "wp_ReadPushEvent p body = Inr ev \<Longrightarrow> u \<in> set (pe_cloneURLs ev) \<Longrightarrow> u \<noteq> '''' \<and> TrimSpace u = u"
    and ref_nonblank: "wp_ReadPushEvent p body = Inr ev \<Longrightarrow> TrimSpace (pe_ref ev) \<noteq> ''''"
    and auth_body: "wp_Authenticate p (r\<lparr>req_Body := b\<rparr>) body secret = wp_Authenticate p r body secret"
begin

lemma ref_ne: "wp_ReadPushEvent p body = Inr ev \<Longrightarrow> pe_ref ev \<noteq> ''''"
  using ref_nonblank [of body ev] by auto

end

lemma appendTrimmedNonEmpty_set:
  "u \<in> set (appendTrimmedNonEmpty ss) \<Longrightarrow> u \<noteq> '''' \<and> TrimSpace u = u"
  by (induction ss) (auto simp: Let_def split: if_splits)

lemma newPushEvent_Inr:
  "newPushEvent us ref sha = Inr ev \<Longrightarrow>
     pe_cloneURLs ev = us \<and> us \<noteq> [] \<and> pe_ref ev = ref \<and> TrimSpace ref \<noteq> '''' \<and> pe_commitSHA ev = sha"
  by (auto simp: newPushEvent_def split: if_splits)

lemma github_reads:
  "github_ReadPushEvent H body = Inr ev \<Longrightarrow>
     \<exists>ss ref sha. newPushEvent (appendTrimmedNonEmpty ss) ref sha = Inr ev"
  by (auto simp: github_ReadPushEvent_def split: sum.splits github_event.splits
      simp del: appendTrimmedNonEmpty.simps)

lemma gitlab_reads:
  "gitlab_ReadPushEvent H body = Inr ev \<Longrightarrow>
     \<exists>ss ref sha. newPushEvent (appendTrimmedNonEmpty ss) ref sha = Inr ev"
  by (auto simp: gitlab_ReadPushEvent_def split: sum.splits
      simp del: appendTrimmedNonEmpty.simps)

interpretation github: push_provider "githubProvider H" for H
proof unfold_locales
  fix body ev
  assume "wp_ReadPushEvent (githubProvider H) body = Inr ev"
  then obtain ss ref sha where ev: "newPushEvent (appendTrimmedNonEmpty ss) ref sha = Inr ev"
    using github_reads by (fastforce simp: githubProvider_def)
  from newPushEvent_Inr [OF ev] show "pe_cloneURLs ev \<noteq> []" "TrimSpace (pe_ref ev) \<noteq> ''''"
    by auto
  show "u \<noteq> '''' \<and> TrimSpace u = u" if "u \<in> set (pe_cloneURLs ev)" for u
    using that newPushEvent_Inr [OF ev] appendTrimmedNonEmpty_set by metis
qed (simp add: githubProvider_def github_Authenticate_def)

interpretation gitlab: push_provider "gitlabProvider H" for H
proof unfold_locales
  fix body ev
  assume "wp_ReadPushEvent (gitlabProvider H) body = Inr ev"
  then obtain ss ref sha where ev: "newPushEvent (appendTrimmedNonEmpty ss) ref sha = Inr ev"
    using gitlab_reads by (fastforce simp: gitlabProvider_def)
  from newPushEvent_Inr [OF ev] show "pe_cloneURLs ev \<noteq> []" "TrimSpace (pe_ref ev) \<noteq> ''''"
    by auto
  show "u \<noteq> '''' \<and> TrimSpace u = u" if "u \<in> set (pe_cloneURLs ev)" for u
    using that newPushEvent_Inr [OF ev] appendTrimmedNonEmpty_set by metis
qed (simp add: gitlabProvider_def gitlab_Authenticate_def split: sum.split)

end
