(* ===== verification/Webhook_Handler.thy ===== *)
theory Webhook_Handler
  imports Webhook_Provider Kube_Client
begin

text \<open>
  \<open>internal/webhook/git/handler.go\<close>: the HTTP handler. It recognises the provider,
  reads the push event, finds the ImageBuilds of that repository and branch, and for
  each one that authenticates the request records the commit as pending. The loop over
  the matching ImageBuilds stops at the first internal error.
\<close>

section \<open>Repositories\<close>

definition normalizeRepoURL :: "string \<Rightarrow> string" where
  "normalizeRepoURL s =
     (let s = TrimSpace s;
          s = ToLower s;
          s = TrimRight s (CHR ''/'')
      in TrimSuffix s ''.git'')"

definition repoIdentity :: "'h hooklib \<Rightarrow> string \<Rightarrow> string" where
  "repoIdentity H remoteURL =
     (let s = TrimSpace remoteURL in
      if s = '''' then ''''
      else
        (case vcsurl_Parse H s of
           Inl e \<Rightarrow> normalizeRepoURL remoteURL
         | Inr info_ID \<Rightarrow> if info_ID = '''' then normalizeRepoURL remoteURL else ToLower info_ID))"

section \<open>Which ImageBuilds an event concerns\<close>

definition matchesEvent :: "'h hooklib \<Rightarrow> pushEvent \<Rightarrow> string list \<Rightarrow> ImageBuild \<Rightarrow> bool" where
  "matchesEvent H event eventRepoIdentities ib =
     (if (case spec_Rebuild (ib_Spec ib) of
            None \<Rightarrow> True
          | Some rb \<Rightarrow> rb_Mode rb \<noteq> ImageBuildRebuildModeOnCommit) \<or>
         src_Type (spec_Source (ib_Spec ib)) \<noteq> ImageBuildSourceTypeGit \<or>
         git_URL (src_Git (spec_Source (ib_Spec ib))) = '''' \<or>
         git_Revision (src_Git (spec_Source (ib_Spec ib))) = '''' \<or>
         pe_ref event \<noteq> ''refs/heads/'' @ git_Revision (src_Git (spec_Source (ib_Spec ib)))
      then False
      else
        (let specID = repoIdentity H (git_URL (src_Git (spec_Source (ib_Spec ib)))) in
         list_ex (\<lambda>id. specID = id) eventRepoIdentities))"

definition findMatches :: "'h hooklib \<Rightarrow> pushEvent \<Rightarrow> ImageBuild list \<Rightarrow> ImageBuild list" where
  "findMatches H event items =
     (let eventRepoIdentities = List.map (repoIdentity H) (pe_cloneURLs event) in
      List.filter (matchesEvent H event eventRepoIdentities) items)"

section \<open>The provider of a request\<close>

fun firstDetected :: "webhookProvider list \<Rightarrow> Request \<Rightarrow> webhookProvider option" where
  "firstDetected [] r = None"
| "firstDetected (p # ps) r = (if wp_Detect p r then Some p else firstDetected ps r)"

definition detectProvider :: "'h hooklib \<Rightarrow> Request \<Rightarrow> go_error + string \<times> webhookProvider" where
  "detectProvider H r =
     (if req_Method r \<noteq> ''POST''
      then Inl (wrap_text (Sentinel errMethodNotAllowed) ('': '' @ req_Method r))
      else
        (case req_Body r of
           Inl msg \<Rightarrow> Inl (wrap ''failed to read body'' (LibError OtherError msg))
         | Inr body \<Rightarrow>
             (case firstDetected [githubProvider H, gitlabProvider H] r of
                Some p \<Rightarrow> Inr (body, p)
              | None \<Rightarrow> Inl (Sentinel errUnsupportedWebhook))))"

section \<open>Cluster operations\<close>

text \<open>
  \<open>Retry\<close> is \<open>retry.RetryOnConflict(retry.DefaultBackoff, \<cdot>)\<close>. The two fields of the
  status that get the event share one pointer in the code; the object is sent at once
  and dropped, so values do.
\<close>

type_synonym 'w retry = "('w \<Rightarrow> go_error option \<times> 'w) \<Rightarrow> 'w \<Rightarrow> go_error option \<times> 'w"

definition recordEvent :: "pushEvent \<Rightarrow> time \<Rightarrow> ImageBuild \<Rightarrow> ImageBuild" where
  "recordEvent event now latest =
     (let oc = (case st_OnCommit (ib_Status latest) of
                  None \<Rightarrow> empty_OnCommitStatus | Some oc \<Rightarrow> oc);
          ev = \<lparr>ev_Ref = pe_ref event, ev_CommitSHA = pe_commitSHA event, ev_ReceivedAt = now\<rparr>
      in latest\<lparr>ib_Status := (ib_Status latest)
           \<lparr>st_OnCommit := Some (oc\<lparr>ocs_LastReceived := Some ev, ocs_Pending := Some ev\<rparr>)\<rparr>\<rparr>)"

definition recordOnce :: "('w, 'z) client_scheme \<Rightarrow> ImageBuild \<Rightarrow> pushEvent \<Rightarrow> time \<Rightarrow>
    'w \<Rightarrow> go_error option \<times> 'w" where
  \<comment> \<open>the function \<open>patchOnCommitStatus\<close> gives to \<open>RetryOnConflict\<close>\<close>
  "recordOnce C ib event now = (\<lambda>w.
     case cl_GetImageBuild C (ObjectKeyOf (ib_Meta ib)) w of
       (Inl e, w') \<Rightarrow>
         (Some (wrap (''failed to get ImageBuild '' @ ib_Namespace ib @ ''/'' @ ib_Name ib) e), w')
     | (Inr latest, w') \<Rightarrow>
         (case cl_PatchImageBuildStatus C latest (recordEvent event now latest) w' of
            (Inl e, w'') \<Rightarrow> (Some e, w'')
          | (Inr _, w'') \<Rightarrow> (None, w'')))"

definition patchOnCommitStatus :: "('w, 'z) client_scheme \<Rightarrow> 'w retry \<Rightarrow> ImageBuild \<Rightarrow> pushEvent \<Rightarrow>
    time \<Rightarrow> ('w, go_error option) state" where
  "patchOnCommitStatus C Retry ib event now = State (\<lambda>w.
     (case Retry (recordOnce C ib event now) w of
        (Some e, w') \<Rightarrow>
          (Some (wrap (''failed to patch on-commit status for '' @ ib_Namespace ib @ ''/'' @ ib_Name ib) e), w')
      | (None, w') \<Rightarrow> (None, w')))"

definition getWebhookSecret :: "('w, 'z) client_scheme \<Rightarrow> ImageBuild \<Rightarrow>
    ('w, go_error + string) state" where
  "getWebhookSecret C ib =
     (case spec_OnCommit (ib_Spec ib) of
        None \<Rightarrow> State_Monad.return (Inl (Sentinel errMissingOnCommit))
      | Some oc \<Rightarrow> do {
          let ref = oc_WebhookSecretRef oc;
          let at = ib_Namespace ib @ ''/'' @ sel_Name ref;
          r \<leftarrow> State (cl_GetSecret C \<lparr>nn_Namespace = ib_Namespace ib, nn_Name = sel_Name ref\<rparr>);
          State_Monad.return
            (case r of
               Inl e \<Rightarrow> Inl (wrap (''failed to get webhook secret '' @ at) e)
             | Inr d \<Rightarrow>
                 (case d (sel_Key ref) of
                    None \<Rightarrow> Inl (wrap_text (Sentinel errMissingWebhookSecretKey)
                                ('': '' @ quote (sel_Key ref) @ '' in secret '' @ at))
                  | Some val \<Rightarrow>
                      if length val = 0
                      then Inl (wrap_text (Sentinel errMissingWebhookSecretKey)
                                ('': '' @ quote (sel_Key ref) @ '' in secret '' @ at))
                      else Inr val))
        })"

section \<open>ServeHTTP\<close>

record Response =
  rsp_Status :: nat
  rsp_Body :: string

definition http_Error :: "string \<Rightarrow> nat \<Rightarrow> Response" where
  "http_Error msg code = \<lparr>rsp_Status = code, rsp_Body = msg @ [CHR 0x0A]\<rparr>"

definition WriteHeader :: "nat \<Rightarrow> Response" where
  "WriteHeader code = \<lparr>rsp_Status = code, rsp_Body = ''''\<rparr>"

text \<open>
  The recorder of the handler may be nil; \<open>Eventf\<close> gets the object, the reason, the
  action and the text of a Normal event.
\<close>

record 'w Handler =
  h_Client :: "'w client"
  h_EventRecorder :: "(ImageBuild \<Rightarrow> string \<Rightarrow> string \<Rightarrow> string \<Rightarrow> 'w \<Rightarrow> 'w) option"

definition eventAccepted :: "'w Handler \<Rightarrow> ImageBuild \<Rightarrow> ('w, unit) state" where
  "eventAccepted h ib =
     (case h_EventRecorder h of
        None \<Rightarrow> State_Monad.return ()
      | Some f \<Rightarrow> State (\<lambda>w. ((), f ib ''WebhookAccepted'' ''Accepted''
          (''git webhook accepted for '' @ ib_Namespace ib @ ''/'' @ ib_Name ib) w)))"

text \<open>The loop over the matches: an early response, or the number that authenticated.\<close>

fun authenticateAll :: "'w Handler \<Rightarrow> 'w retry \<Rightarrow> webhookProvider \<Rightarrow> Request \<Rightarrow> string \<Rightarrow> pushEvent \<Rightarrow>
    time \<Rightarrow> ImageBuild list \<Rightarrow> nat \<Rightarrow> ('w, Response + nat) state" where
  "authenticateAll h Retry p r body event now [] authenticatedCount =
     State_Monad.return (Inr authenticatedCount)"
| "authenticateAll h Retry p r body event now (ib # matches) authenticatedCount = do {
     s \<leftarrow> getWebhookSecret (h_Client h) ib;
     case s of
       Inl e \<Rightarrow> State_Monad.return (Inl (http_Error ''internal error'' 500))
     | Inr secret \<Rightarrow>
         if wp_Authenticate p r body secret \<noteq> None
         then authenticateAll h Retry p r body event now matches authenticatedCount
         else do {
           e \<leftarrow> patchOnCommitStatus (h_Client h) Retry ib event now;
           if e \<noteq> None then State_Monad.return (Inl (http_Error ''internal error'' 500))
           else do {
             _ \<leftarrow> eventAccepted h ib;
             authenticateAll h Retry p r body event now matches (Suc authenticatedCount)
           }
         }
   }"

text \<open>\<open>None\<close> is the panic of indexing the first of no clone URLs.\<close>

definition serveEvent :: "'h hooklib \<Rightarrow> 'w Handler \<Rightarrow> 'w retry \<Rightarrow> webhookProvider \<Rightarrow> Request \<Rightarrow> string \<Rightarrow>
    pushEvent \<Rightarrow> ('w, Response option) state" where
  \<comment> \<open>\<open>ServeHTTP\<close> after the event has been read\<close>
  "serveEvent H h Retry p r body event = do {
     list \<leftarrow> State (cl_ListImageBuilds (h_Client h) (LabelKeyOnCommitEnabled, ''true''));
     case list of
       Inl e \<Rightarrow> State_Monad.return (Some (http_Error ''internal error'' 500))
     | Inr items \<Rightarrow>
         let matches = findMatches H event items in
         if length matches = 0 then
           (case pe_cloneURLs event of
              [] \<Rightarrow> State_Monad.return None
            | _ \<Rightarrow> State_Monad.return (Some (WriteHeader 202)))
         else do {
           now \<leftarrow> State (cl_Now (h_Client h));
           out \<leftarrow> authenticateAll h Retry p r body event now matches 0;
           State_Monad.return
             (case out of
                Inl rsp \<Rightarrow> Some rsp
              | Inr authenticatedCount \<Rightarrow>
                  if authenticatedCount = 0 then Some (http_Error ''unauthenticated'' 401)
                  else Some (WriteHeader 202))
         }
   }"

definition ServeHTTP :: "'h hooklib \<Rightarrow> 'w Handler \<Rightarrow> 'w retry \<Rightarrow> Request \<Rightarrow>
    ('w, Response option) state" where
  "ServeHTTP H h Retry r =
     (case detectProvider H r of
        Inl e \<Rightarrow> State_Monad.return (Some (http_Error (error_text e)
          (if errors_Is e errMethodNotAllowed then 405 else 400)))
      | Inr (body, p) \<Rightarrow>
          (case wp_ReadPushEvent p body of
             Inl e \<Rightarrow> State_Monad.return (Some (http_Error ''invalid payload'' 400))
           | Inr event \<Rightarrow> serveEvent H h Retry p r body event))"

end
