(* ===== verification/Webhook_Response.thy ===== *)
theory Webhook_Response
  imports Webhook_Handler
begin

text \<open>
  What the webhook handler answers, for every request, provider library and cluster; and
  which ImageBuilds a push event concerns.
\<close>

section \<open>The provider in use\<close>

lemma firstDetected_in: "firstDetected ps r = Some p \<Longrightarrow> p \<in> set ps \<and> wp_Detect p r"
  by (induction ps r rule: firstDetected.induct) (auto split: if_splits)

lemma firstDetected_None: "firstDetected ps r = None \<longleftrightarrow> (\<forall>p \<in> set ps. \<not> wp_Detect p r)"
  by (induction ps r rule: firstDetected.induct) auto

lemma detectProvider_Inr:
  "detectProvider H r = Inr (body, p) \<longleftrightarrow>
     req_Method r = ''POST'' \<and> req_Body r = Inr body \<and>
     firstDetected [githubProvider H, gitlabProvider H] r = Some p"
  by (auto simp: detectProvider_def split: sum.splits option.splits simp del: firstDetected.simps)

lemma detectProvider_Inl:
  "detectProvider H r = Inl e \<Longrightarrow> errors_Is e errMethodNotAllowed \<longleftrightarrow> req_Method r \<noteq> ''POST''"
  by (auto simp: detectProvider_def split: sum.splits option.splits if_splits
      simp del: firstDetected.simps)

lemma provider_contract:
  assumes "detectProvider H r = Inr (body, p)"
  shows "push_provider p"
proof -
  from assms have "p = githubProvider H \<or> p = gitlabProvider H"
    by (auto simp: detectProvider_Inr simp del: firstDetected.simps dest!: firstDetected_in)
  then show ?thesis using github.push_provider_axioms gitlab.push_provider_axioms by auto
qed

section \<open>The status of the response\<close>

lemma run_authenticateAll_Cons:
  "run_state (authenticateAll h Retry p r body event now (ib # ms) n) w =
     (case run_state (getWebhookSecret (h_Client h) ib) w of
        (Inl e, w1) \<Rightarrow> (Inl (http_Error ''internal error'' 500), w1)
      | (Inr secret, w1) \<Rightarrow>
          if wp_Authenticate p r body secret \<noteq> None
          then run_state (authenticateAll h Retry p r body event now ms n) w1
          else
            (case run_state (patchOnCommitStatus (h_Client h) Retry ib event now) w1 of
               (Some e, w2) \<Rightarrow> (Inl (http_Error ''internal error'' 500), w2)
             | (None, w2) \<Rightarrow> run_state (authenticateAll h Retry p r body event now ms (Suc n))
                 (snd (run_state (eventAccepted h ib) w2))))"
  by (simp split: prod.split sum.split option.split)

lemma authenticateAll_status:
  "run_state (authenticateAll h Retry p r body event now ms n) w = (out, w') \<Longrightarrow>
     out = Inl (http_Error ''internal error'' 500) \<or> (\<exists>k. out = Inr k \<and> n \<le> k \<and> k \<le> n + length ms)"
proof (induction ms arbitrary: n w)
  case (Cons ib ms)
  from Cons.prems consider "out = Inl (http_Error ''internal error'' 500)"
    | w1 where "run_state (authenticateAll h Retry p r body event now ms n) w1 = (out, w')"
    | w1 where "run_state (authenticateAll h Retry p r body event now ms (Suc n)) w1 = (out, w')"
    unfolding run_authenticateAll_Cons
    by (auto split: prod.splits sum.splits if_splits option.splits)
  then show ?case by cases (auto dest!: Cons.IH)
qed auto

text \<open>The response after the event has been read: never a panic for a provider of the contract.\<close>

lemma serveEvent_status:
  assumes "pe_cloneURLs event \<noteq> []"
  shows "\<exists>rsp. fst (run_state (serveEvent H h Retry p r body event) w) = Some rsp \<and>
     rsp_Status rsp \<in> {202, 401, 500}"
  using assms authenticateAll_status
  by (auto simp: serveEvent_def Let_def WriteHeader_def http_Error_def
      split: prod.splits sum.splits list.splits dest!: authenticateAll_status)

definition readEvent :: "'h hooklib \<Rightarrow> Request \<Rightarrow> (string \<times> webhookProvider \<times> pushEvent) option" where
  "readEvent H r =
     (case detectProvider H r of
        Inl e \<Rightarrow> None
      | Inr (body, p) \<Rightarrow>
          (case wp_ReadPushEvent p body of Inl e \<Rightarrow> None | Inr event \<Rightarrow> Some (body, p, event)))"

lemma run_ServeHTTP:
  "readEvent H r = Some (body, p, event) \<Longrightarrow>
     run_state (ServeHTTP H h Retry r) w = run_state (serveEvent H h Retry p r body event) w"
  by (auto simp: readEvent_def ServeHTTP_def split: sum.splits prod.splits)

lemma readEvent_urls: "readEvent H r = Some (body, p, event) \<Longrightarrow> pe_cloneURLs event \<noteq> []"
  by (auto simp: readEvent_def split: sum.splits dest!: provider_contract push_provider.urls_ne)

text \<open>
  C27. The handler answers every request, with one of five statuses: it never indexes an
  empty list of clone URLs. A 405 is the answer to the requests that are not a POST and
  a 400 to the others from which no push event can be read, both without touching the
  cluster; the rest get 202, 401 or 500.
\<close>

theorem serve_http_responds:
  "\<exists>rsp w'. run_state (ServeHTTP H h Retry r) w = (Some rsp, w') \<and>
     (if req_Method r \<noteq> ''POST'' then rsp_Status rsp = 405 \<and> w' = w
      else if readEvent H r = None then rsp_Status rsp = 400 \<and> w' = w
      else rsp_Status rsp \<in> {202, 401, 500})"
proof (cases "readEvent H r")
  case None
  then show ?thesis
    by (cases "detectProvider H r")
      (auto simp: detectProvider_Inl readEvent_def ServeHTTP_def http_Error_def detectProvider_Inr
        split: sum.splits prod.splits simp del: firstDetected.simps)
next
  case (Some x)
  then obtain body p event where x: "readEvent H r = Some (body, p, event)" by (cases x) auto
  then have "req_Method r = ''POST''"
    by (auto simp: readEvent_def detectProvider_Inr split: sum.splits simp del: firstDetected.simps)
  with x serveEvent_status [OF readEvent_urls [OF x], of H h Retry p r body w] show ?thesis
    by (cases "run_state (serveEvent H h Retry p r body event) w") (auto simp: run_ServeHTTP)
qed

section \<open>Which ImageBuilds an event concerns\<close>

lemma matchesEvent_label:
  "matchesEvent H event ids ib \<Longrightarrow>
     \<exists>rb. spec_Rebuild (ib_Spec ib) = Some rb \<and> rb_Mode rb = ImageBuildRebuildModeOnCommit"
  by (auto simp: matchesEvent_def split: if_splits option.splits)

lemma findMatches_in:
  "ib \<in> set (findMatches H event items) \<longleftrightarrow>
     ib \<in> set items \<and>
     (\<exists>rb. spec_Rebuild (ib_Spec ib) = Some rb \<and> rb_Mode rb = ImageBuildRebuildModeOnCommit) \<and>
     src_Type (spec_Source (ib_Spec ib)) = ImageBuildSourceTypeGit \<and>
     git_URL (src_Git (spec_Source (ib_Spec ib))) \<noteq> '''' \<and>
     git_Revision (src_Git (spec_Source (ib_Spec ib))) \<noteq> '''' \<and>
     pe_ref event = ''refs/heads/'' @ git_Revision (src_Git (spec_Source (ib_Spec ib))) \<and>
     (\<exists>u \<in> set (pe_cloneURLs event).
        repoIdentity H (git_URL (src_Git (spec_Source (ib_Spec ib)))) = repoIdentity H u)"
  by (auto simp: findMatches_def matchesEvent_def Let_def list_ex_iff split: option.splits)

subsection \<open>Spellings of a repository's URL\<close>

lemma TrimSpace_all_space: "\<forall>c \<in> set w. is_space c \<Longrightarrow> TrimSpace w = ''''"
  by (simp add: TrimSpace_def dropWhile_eq_Nil_conv [THEN iffD2])

lemma TrimSpace_hd_last:
  "s \<noteq> [] \<Longrightarrow> TrimSpace s = s \<longleftrightarrow> \<not> is_space (hd s) \<and> \<not> is_space (last s)"
proof
  assume ne: "s \<noteq> []" and eq: "TrimSpace s = s"
  let ?d = "dropWhile is_space s"
  have len: "length (rev (dropWhile is_space (rev ?d))) \<le> length ?d" "length ?d \<le> length s"
    using length_dropWhile_le [of is_space "rev ?d"] length_dropWhile_le [of is_space s] by simp_all
  with eq have "length ?d = length s" by (simp add: TrimSpace_def)
  moreover have "length (takeWhile is_space s) + length ?d = length s"
    by (metis length_append takeWhile_dropWhile_id)
  ultimately have "takeWhile is_space s = []" by simp
  then have d: "?d = s" by (metis append_Nil takeWhile_dropWhile_id)
  with eq have "dropWhile is_space (rev s) = rev s" by (simp add: TrimSpace_def rev_swap)
  with d ne show "\<not> is_space (hd s) \<and> \<not> is_space (last s)"
    by (auto simp: dropWhile_eq_self_iff hd_rev)
next
  assume "s \<noteq> []" and "\<not> is_space (hd s) \<and> \<not> is_space (last s)"
  then have "dropWhile is_space s = s" "dropWhile is_space (rev s) = rev s"
    by (auto simp: dropWhile_eq_self_iff hd_rev)
  then show "TrimSpace s = s" by (simp add: TrimSpace_def)
qed

lemma TrimSpace_pad:
  assumes "\<forall>c \<in> set w1. is_space c" and "\<forall>c \<in> set w2. is_space c" and "TrimSpace s = s"
  shows "TrimSpace (w1 @ s @ w2) = s"
proof (cases "s = []")
  case True
  with assms show ?thesis by (auto intro!: TrimSpace_all_space)
next
  case False
  with assms TrimSpace_hd_last have "\<not> is_space (hd s)" "\<not> is_space (last s)" by auto
  with False assms(1,2) have "dropWhile is_space (w1 @ s @ w2) = s @ w2"
    and "dropWhile is_space (rev w2 @ rev s) = rev s"
    using dropWhile_append2 [of "rev w2" is_space "rev s"]
    by (auto simp: dropWhile_append2 dropWhile_eq_self_iff hd_rev)
  then show ?thesis by (simp add: TrimSpace_def)
qed

lemma is_space_lower [simp]: "is_space (lower_char c) = is_space c"
  by (auto simp: is_space_def lower_char_def Let_def)

lemma TrimRight_replicate [simp]: "TrimRight (s @ replicate k c) c = TrimRight s c"
  by (simp add: TrimRight_def dropWhile_append3 dropWhile_append2 flip: replicate_append_same)
    (metis (mono_tags, lifting) dropWhile_append2 in_set_replicate)

lemma TrimRight_self: "s = '''' \<or> last s \<noteq> c \<Longrightarrow> TrimRight s c = s"
proof -
  assume "s = '''' \<or> last s \<noteq> c"
  then have "dropWhile (\<lambda>x. x = c) (rev s) = rev s" by (auto simp: dropWhile_eq_self_iff hd_rev)
  then show ?thesis by (simp add: TrimRight_def)
qed

lemma lower_char_slash [simp]: "lower_char c = CHR ''/'' \<longleftrightarrow> c = CHR ''/''"
proof
  assume h: "lower_char c = CHR ''/''"
  show "c = CHR ''/''"
  proof (cases "65 \<le> (of_char c :: nat) \<and> (of_char c :: nat) \<le> 90")
    case True
    with h have "of_char (char_of (of_char c + 32 :: nat) :: char) = (47 :: nat)"
      by (simp add: lower_char_def Let_def)
    with True show ?thesis by (simp add: of_char_of)
  next
    case False
    with h show ?thesis by (auto simp: lower_char_def Let_def split: if_splits)
  qed
qed (simp add: lower_char_def)

lemma last_ToLower: "s \<noteq> [] \<Longrightarrow> last (ToLower s) = lower_char (last s)"
  by (simp add: ToLower_def last_map)

text \<open>
  C36. Two spellings of a repository's URL that differ in surrounding white space, in the
  case of letters, in a suffix .git or in trailing slashes behind it, have the same
  normal form, the URL in lower case: an event finds an ImageBuild in spite of such
  differences. The URL itself must be non-empty, trimmed, and not end in either.
\<close>

theorem normalizeRepoURL_spellings:
  assumes "u \<noteq> ''''" and "TrimSpace u = u" and "last u \<noteq> CHR ''/''"
    and "\<not> HasSuffix (ToLower u) ''.git''"
    and "ToLower g = '''' \<or> ToLower g = ''.git''"
    and "\<forall>c \<in> set w1. is_space c" and "\<forall>c \<in> set w2. is_space c"
  shows "normalizeRepoURL (w1 @ (u @ g @ replicate k (CHR ''/'')) @ w2) = ToLower u"
proof -
  let ?t = "u @ g @ replicate k (CHR ''/'')"
  have g: "g = '''' \<or> \<not> is_space (last g) \<and> last g \<noteq> CHR ''/''"
  proof (cases "g = ''''")
    case False
    with assms(5) have "lower_char (last g) = CHR ''t''"
      using last_ToLower [of g] by (auto simp: ToLower_def)
    then show ?thesis
      using is_space_lower [of "last g"] by (auto simp: is_space_def lower_char_def)
  qed simp
  have "\<not> is_space (hd u)" "\<not> is_space (last u)" using TrimSpace_hd_last assms(1,2) by auto
  with g have "TrimSpace ?t = ?t"
    using assms(1) TrimSpace_hd_last [of ?t]
    by (cases k) (auto simp: last_append is_space_def)
  then have "TrimSpace (w1 @ ?t @ w2) = ?t" using TrimSpace_pad assms(6,7) by blast
  moreover have "TrimRight (ToLower ?t) (CHR ''/'') = ToLower u @ ToLower g"
  proof -
    have "last (u @ g) \<noteq> CHR ''/''" using g assms(1,3) by (auto simp: last_append)
    then have "TrimRight (ToLower (u @ g)) (CHR ''/'') = ToLower (u @ g)"
      using assms(1) last_ToLower [of "u @ g"] by (intro TrimRight_self) simp
    then show ?thesis
      using TrimRight_replicate [of "ToLower (u @ g)" k "CHR ''/''"]
      by (simp add: ToLower_def map_replicate_const lower_char_def)
  qed
  moreover have "TrimSuffix (ToLower u @ ToLower g) ''.git'' = ToLower u"
  proof (cases "ToLower g = ''''")
    case True
    with assms(4) show ?thesis by (simp add: TrimSuffix_def)
  next
    case False
    with assms(5) show ?thesis by (metis TrimSuffix_append)
  qed
  ultimately show ?thesis by (simp add: normalizeRepoURL_def Let_def)
qed

subsection \<open>The label selector\<close>

lemma run_listed:
  assumes "readEvent H r = Some (body, p, event)"
    and "cl_ListImageBuilds (h_Client h) (LabelKeyOnCommitEnabled, ''true'') w = (Inr items, w1)"
    and "findMatches H event items = m # ms"
    and "cl_Now (h_Client h) w1 = (now, w2)"
  shows "run_state (ServeHTTP H h Retry r) w =
     (case run_state (authenticateAll h Retry p r body event now (m # ms) 0) w2 of
        (Inl rsp, w') \<Rightarrow> (Some rsp, w')
      | (Inr k, w') \<Rightarrow>
          (Some (if k = 0 then http_Error ''unauthenticated'' 401 else WriteHeader 202), w'))"
  using assms
  by (simp add: run_ServeHTTP serveEvent_def del: authenticateAll.simps split: prod.splits sum.splits)

text \<open>A loop that has not ended at a match goes on with the next one.\<close>

lemma run_authenticateAll_append:
  "run_state (authenticateAll h Retry p r body event now (pre @ ms) n) w =
     (case run_state (authenticateAll h Retry p r body event now pre n) w of
        (Inl rsp, w') \<Rightarrow> (Inl rsp, w')
      | (Inr k, w') \<Rightarrow> run_state (authenticateAll h Retry p r body event now ms k) w')"
proof (induction pre arbitrary: n w)
  case (Cons m pre)
  then show ?case
    unfolding append_Cons run_authenticateAll_Cons by (auto split: prod.split sum.split option.split)
qed simp

lemma run_authenticateAll_unconfigured:
  assumes "spec_OnCommit (ib_Spec ib) = None"
  shows "run_state (authenticateAll h Retry p r body event now (pre @ ib # ms) n) w =
     (Inl (http_Error ''internal error'' 500),
      snd (run_state (authenticateAll h Retry p r body event now pre n) w))"
proof -
  obtain out w' where pre: "run_state (authenticateAll h Retry p r body event now pre n) w = (out, w')"
    by fastforce
  then show ?thesis
    using authenticateAll_status [OF pre] assms
    by (auto simp: run_authenticateAll_append run_authenticateAll_Cons getWebhookSecret_def
        simp del: authenticateAll.simps)
qed

text \<open>
  C32. One matching ImageBuild that asks for rebuilds on commits but has no webhook secret
  reference, which the API allows, ends the request wherever it stands among the matches:
  the answer is 500, whether or not matches before it have authenticated the request and
  had their commit recorded, and none of the matches behind it is looked at, whatever
  secret the sender knows. The cluster is left exactly as the matches before it leave it.
\<close>

theorem unconfigured_match_ends_request:
  assumes "readEvent H r = Some (body, p, event)"
    and "cl_ListImageBuilds (h_Client h) (LabelKeyOnCommitEnabled, ''true'') w = (Inr items, w1)"
    and "findMatches H event items = pre @ ib # ms"
    and "cl_Now (h_Client h) w1 = (now, w2)"
    and "spec_OnCommit (ib_Spec ib) = None"
  shows "run_state (ServeHTTP H h Retry r) w =
     (Some (http_Error ''internal error'' 500),
      snd (run_state (authenticateAll h Retry p r body event now pre 0) w2))"
proof -
  obtain m ms' where m: "pre @ ib # ms = m # ms'" by (cases pre) auto
  with assms(3) have "findMatches H event items = m # ms'" by simp
  from run_listed [OF assms(1,2) this assms(4)] show ?thesis
    by (simp add: m [symmetric] run_authenticateAll_unconfigured [OF assms(5)]
        del: authenticateAll.simps)
qed

end
