(* ===== verification/Webhook_Auth.thy ===== *)
theory Webhook_Auth
  imports Webhook_Response
begin

text \<open>
  Who may make the handler write: every read or write of an ImageBuild in the log of a
  request belongs to one matching ImageBuild and stands behind a read of that one's
  webhook secret whose value authenticates the request; what is patched is the object read
  under that ImageBuild's name.
\<close>

section \<open>Retrying on a conflict\<close>

text \<open>
  \<open>RetryOnConflict\<close> calls its argument until it succeeds or fails with something else
  than a conflict, at least once and a bounded number of times, and answers as the
  last call did.
\<close>

fun attempts :: "nat \<Rightarrow> ('w \<Rightarrow> go_error option \<times> 'w) \<Rightarrow> 'w \<Rightarrow> go_error option \<times> 'w" where
  "attempts 0 f w = f w"
| "attempts (Suc n) f w =
     (case f w of
        (None, w') \<Rightarrow> (None, w')
      | (Some e, w') \<Rightarrow> if errors_As e Conflict then attempts n f w' else (Some e, w'))"

locale retry_on_conflict =
  fixes Retry :: "'w retry"
  assumes attempts: "\<exists>n. Retry f w = attempts n f w"
begin

lemma invariant:
  assumes step: "\<And>w r w'. f w = (r, w') \<Longrightarrow> I w \<Longrightarrow> I w'" and "I w" and "Retry f w = (r, w')"
  shows "I w'"
proof -
  from attempts obtain n where n: "Retry f w = attempts n f w" by blast
  have "attempts n f w = (r, w') \<Longrightarrow> I w \<Longrightarrow> I w'" for n w
  proof (induction n arbitrary: w)
    case 0
    then show ?case using step by simp
  next
    case (Suc n)
    then show ?case using step by (auto split: prod.splits option.splits if_splits)
  qed
  with n assms(2,3) show ?thesis by simp
qed

text \<open>A success is the success of the last call.\<close>

lemma success:
  assumes "Retry f w = (None, w')"
  shows "\<exists>w0. f w0 = (None, w')"
proof -
  from attempts obtain n where n: "Retry f w = attempts n f w" by blast
  have "attempts n f w = (None, w') \<Longrightarrow> \<exists>w0. f w0 = (None, w')" for n w
    by (induction n arbitrary: w) (auto split: prod.splits option.splits if_splits)
  with n assms show ?thesis by simp
qed

end

text \<open>\<open>DefaultBackoff\<close> allows four calls.\<close>

interpretation default_backoff: retry_on_conflict "attempts 3"
  by unfold_locales auto

section \<open>The log of a request\<close>

abbreviation wl :: "'w logging \<Rightarrow> entry list" where "wl \<equiv> snd"

text \<open>
  Recording an event, in one attempt or several. An attempt reads the ImageBuild under its
  name; if that succeeds, it sends one status patch, of the very object that the cluster
  \<open>C\<close> answered with, in which the event is recorded.
\<close>

definition attempt_log :: "('w, 'z) client_scheme \<Rightarrow> ImageBuild \<Rightarrow> pushEvent \<Rightarrow> time \<Rightarrow> entry list \<Rightarrow> bool" where
  "attempt_log C ib event now l \<longleftrightarrow>
     l = [(GetImageBuild (ObjectKeyOf (ib_Meta ib)), False)] \<or>
     (\<exists>latest w w' ok. cl_GetImageBuild C (ObjectKeyOf (ib_Meta ib)) w = (Inr latest, w') \<and>
        l = [(GetImageBuild (ObjectKeyOf (ib_Meta ib)), True),
             (PatchImageBuildStatus latest (recordEvent event now latest), ok)])"

definition records :: "('w, 'z) client_scheme \<Rightarrow> ImageBuild \<Rightarrow> pushEvent \<Rightarrow> time \<Rightarrow> entry list \<Rightarrow> bool" where
  "records C ib event now l \<longleftrightarrow> (\<exists>ls. l = concat ls \<and> list_all (attempt_log C ib event now) ls)"

text \<open>
  What the handler does for one match: it reads the secret the ImageBuild refers to, if
  it refers to one, and goes on only if the value under the key authenticates.
\<close>

definition secret_key :: "ImageBuild \<Rightarrow> SecretKeySelector \<Rightarrow> NamespacedName" where
  "secret_key ib ref = \<lparr>nn_Namespace = ib_Namespace ib, nn_Name = sel_Name ref\<rparr>"

definition authentic :: "webhookProvider \<Rightarrow> Request \<Rightarrow> string \<Rightarrow> SecretKeySelector \<Rightarrow>
    (string \<rightharpoonup> string) option \<Rightarrow> bool" where
  "authentic p r body ref x \<longleftrightarrow>
     (\<exists>d secret. x = Some d \<and> d (sel_Key ref) = Some secret \<and> secret \<noteq> '''' \<and>
        wp_Authenticate p r body secret = None)"

definition match_log :: "('w, 'z) client_scheme \<Rightarrow> webhookProvider \<Rightarrow> Request \<Rightarrow> string \<Rightarrow> pushEvent \<Rightarrow> time \<Rightarrow>
    ImageBuild \<Rightarrow> entry list \<Rightarrow> bool" where
  "match_log C p r body event now ib l \<longleftrightarrow>
     (case spec_OnCommit (ib_Spec ib) of
        None \<Rightarrow> l = []
      | Some oc \<Rightarrow>
          (\<exists>x ok l'. l = (GetSecret (secret_key ib (oc_WebhookSecretRef oc)) x, ok) # l' \<and>
             (l' = [] \<or> authentic p r body (oc_WebhookSecretRef oc) x \<and> records C ib event now l')))"

lemma records_intros:
  "records C ib event now []"
  "attempt_log C ib event now l \<Longrightarrow> records C ib event now l"
  "records C ib event now l \<Longrightarrow> records C ib event now l' \<Longrightarrow> records C ib event now (l @ l')"
proof -
  show "records C ib event now []"
    unfolding records_def by (rule exI [of _ "[]"]) simp
  show "records C ib event now l" if "attempt_log C ib event now l"
    unfolding records_def using that by (intro exI [of _ "[l]"]) simp
  assume "records C ib event now l" and "records C ib event now l'"
  then obtain ls ls' where "l = concat ls" "list_all (attempt_log C ib event now) ls"
    "l' = concat ls'" "list_all (attempt_log C ib event now) ls'"
    unfolding records_def by blast
  then show "records C ib event now (l @ l')"
    unfolding records_def by (intro exI [of _ "ls @ ls'"]) simp
qed

lemma recordOnce_logged:
  assumes "recordOnce (logged C) ib event now w = (r, w')"
  shows "\<exists>l. wl w' = wl w @ l \<and> attempt_log C ib event now l"
proof -
  obtain v0 l0 where w: "w = (v0, l0)" by (cases w)
  let ?k = "ObjectKeyOf (ib_Meta ib)"
  obtain g v1 where get: "cl_GetImageBuild C ?k v0 = (g, v1)" by fastforce
  show ?thesis
  proof (cases g)
    case (Inl e)
    with assms w get have "wl w' = wl w @ [(GetImageBuild ?k, False)]"
      by (auto simp: recordOnce_def logged_def log_call_def)
    then show ?thesis by (auto simp: attempt_log_def)
  next
    case (Inr latest)
    with assms w get have "\<exists>ok. wl w' = wl w @
        [(GetImageBuild ?k, True), (PatchImageBuildStatus latest (recordEvent event now latest), ok)]"
      by (auto simp: recordOnce_def logged_def log_call_def split: prod.splits sum.splits)
    with get Inr show ?thesis by (auto simp: attempt_log_def)
  qed
qed

lemma patchOnCommitStatus_logged:
  assumes "retry_on_conflict Retry"
    and "run_state (patchOnCommitStatus (logged C) Retry ib event now) w = (r, w')"
  shows "\<exists>l. wl w' = wl w @ l \<and> records C ib event now l"
proof -
  from assms(2) obtain r0 where "Retry (recordOnce (logged C) ib event now) w = (r0, w')"
    by (auto simp: patchOnCommitStatus_def split: prod.splits option.splits)
  then show ?thesis
  proof (rule retry_on_conflict.invariant [OF assms(1), rotated 2])
    show "\<exists>l. wl w = wl w @ l \<and> records C ib event now l"
      by (rule exI [of _ "[]"]) (simp add: records_intros)
  next
    fix w1 r w2
    assume "recordOnce (logged C) ib event now w1 = (r, w2)"
    from recordOnce_logged [OF this] show "\<exists>l. wl w2 = wl w @ l \<and> records C ib event now l"
      if "\<exists>l. wl w1 = wl w @ l \<and> records C ib event now l"
      using that by (auto intro: records_intros(2) intro!: records_intros(3))
  qed
qed

lemma getWebhookSecret_logged:
  assumes "run_state (getWebhookSecret (logged C) ib) w = (s, w')"
  shows "(case spec_OnCommit (ib_Spec ib) of
     None \<Rightarrow> w' = w \<and> isl s
   | Some oc \<Rightarrow> \<exists>x ok.
       wl w' = wl w @ [(GetSecret (secret_key ib (oc_WebhookSecretRef oc)) x, ok)] \<and>
       (\<forall>secret. s = Inr secret \<longrightarrow>
          (\<exists>d. x = Some d \<and> d (sel_Key (oc_WebhookSecretRef oc)) = Some secret \<and> secret \<noteq> '''')))"
  using assms
  by (cases w)
    (auto simp: getWebhookSecret_def logged_def secret_key_def Let_def
      split: option.splits prod.splits sum.splits if_splits)

definition logged_handler :: "'w Handler \<Rightarrow> 'w logging Handler" where
  "logged_handler h =
     \<lparr>h_Client = logged (h_Client h),
      h_EventRecorder =
        map_option (\<lambda>f ib reason action note (w, l). (f ib reason action note w, l)) (h_EventRecorder h)\<rparr>"

lemma logged_handler_client [simp]: "h_Client (logged_handler h) = logged (h_Client h)"
  by (simp add: logged_handler_def)

lemma eventAccepted_logged: "wl (snd (run_state (eventAccepted (logged_handler h) ib) w)) = wl w"
  by (cases w) (simp add: eventAccepted_def logged_handler_def split: option.splits)

lemma match_log_intros:
  "spec_OnCommit (ib_Spec ib) = None \<Longrightarrow> match_log C p r body event now ib []"
  "spec_OnCommit (ib_Spec ib) = Some oc \<Longrightarrow>
     match_log C p r body event now ib [(GetSecret (secret_key ib (oc_WebhookSecretRef oc)) x, ok)]"
  "spec_OnCommit (ib_Spec ib) = Some oc \<Longrightarrow> authentic p r body (oc_WebhookSecretRef oc) x \<Longrightarrow>
     records C ib event now l \<Longrightarrow>
     match_log C p r body event now ib ((GetSecret (secret_key ib (oc_WebhookSecretRef oc)) x, ok) # l)"
  by (auto simp: match_log_def)

text \<open>One match: its part of the log, and where the loop goes on.\<close>

lemma authenticateAll_step:
  assumes retry: "retry_on_conflict Retry"
    and run: "run_state (authenticateAll (logged_handler h) Retry p r body event now (ib # ms) n) w = (out, w')"
  shows "\<exists>l w1. wl w1 = wl w @ l \<and> match_log (h_Client h) p r body event now ib l \<and>
     (w' = w1 \<or>
      (\<exists>k. run_state (authenticateAll (logged_handler h) Retry p r body event now ms k) w1 = (out, w')))"
proof -
  obtain s w1 where sec: "run_state (getWebhookSecret (logged (h_Client h)) ib) w = (s, w1)" by (metis surj_pair)
  note log = getWebhookSecret_logged [OF sec]
  note run' = run [unfolded run_authenticateAll_Cons logged_handler_client sec]
  show ?thesis
  proof (cases "spec_OnCommit (ib_Spec ib)")
    case None
    with log run' have "w' = w" by (cases s) auto
    with None show ?thesis
      by (intro exI [of _ "[]"] exI [of _ w]) (auto intro: match_log_intros)
  next
    case (Some oc)
    with log obtain x ok where
      l1: "wl w1 = wl w @ [(GetSecret (secret_key ib (oc_WebhookSecretRef oc)) x, ok)]"
      and s: "\<And>secret. s = Inr secret \<Longrightarrow>
          \<exists>d. x = Some d \<and> d (sel_Key (oc_WebhookSecretRef oc)) = Some secret \<and> secret \<noteq> ''''"
      by auto
    show ?thesis
    proof (cases "\<exists>secret. s = Inr secret \<and> wp_Authenticate p r body secret = None")
      case False
      with run' have "w' = w1 \<or>
          (\<exists>k. run_state (authenticateAll (logged_handler h) Retry p r body event now ms k) w1 = (out, w'))"
        by (cases s) (auto split: if_splits)
      with l1 match_log_intros(2) [OF Some] show ?thesis by blast
    next
      case True
      then obtain secret where sr: "s = Inr secret" "wp_Authenticate p r body secret = None" by blast
      obtain e w2 where pat: "run_state (patchOnCommitStatus (logged (h_Client h)) Retry ib event now) w1 = (e, w2)"
        by (metis surj_pair)
      from patchOnCommitStatus_logged [OF retry pat] obtain l2 where
        l2: "wl w2 = wl w1 @ l2" "records (h_Client h) ib event now l2" by blast
      let ?w3 = "snd (run_state (eventAccepted (logged_handler h) ib) w2)"
      have "w' = w2 \<or>
          (\<exists>k. run_state (authenticateAll (logged_handler h) Retry p r body event now ms k) ?w3 = (out, w'))"
        using run' sr pat by (cases e) auto
      moreover have "authentic p r body (oc_WebhookSecretRef oc) x"
        using s [OF sr(1)] sr by (auto simp: authentic_def)
      ultimately show ?thesis
        using l1 l2 match_log_intros(3) [OF Some] eventAccepted_logged [of h ib w2]
        by (metis append_assoc append_Cons append_Nil)
    qed
  qed
qed

lemma authenticateAll_logged:
  assumes retry: "retry_on_conflict Retry"
  shows "run_state (authenticateAll (logged_handler h) Retry p r body event now ms n) w = (out, w') \<Longrightarrow>
     \<exists>ls. wl w' = wl w @ concat ls \<and> length ls \<le> length ms \<and>
       list_all2 (match_log (h_Client h) p r body event now) (take (length ls) ms) ls"
proof (induction ms arbitrary: n w)
  case Nil
  then show ?case by (auto intro: exI [of _ "[]"])
next
  case (Cons ib ms)
  from authenticateAll_step [OF retry Cons.prems] obtain l w1 where
    l: "wl w1 = wl w @ l" "match_log (h_Client h) p r body event now ib l" and
    next_: "w' = w1 \<or> (\<exists>k. run_state (authenticateAll (logged_handler h) Retry p r body event now ms k) w1 = (out, w'))"
    by blast
  from next_ obtain ls where
    "wl w' = wl w1 @ concat ls" "length ls \<le> length ms"
    "list_all2 (match_log (h_Client h) p r body event now) (take (length ls) ms) ls"
    using Cons.IH by (metis append_Nil2 concat.simps(1) le0 list.size(3) list_all2_Nil take0)
  with l show ?case by (intro exI [of _ "l # ls"]) auto
qed

lemma serveEvent_logged:
  assumes retry: "retry_on_conflict Retry"
    and run: "run_state (serveEvent H (logged_handler h) Retry p r body event) (w, []) = (rsp, w')"
  shows "wl w' = [(ListImageBuilds (LabelKeyOnCommitEnabled, ''true''), False)] \<or>
     (\<exists>items w1. cl_ListImageBuilds (h_Client h) (LabelKeyOnCommitEnabled, ''true'') w = (Inr items, w1) \<and>
        (wl w' = [(ListImageBuilds (LabelKeyOnCommitEnabled, ''true''), True)] \<or>
         (\<exists>now ls. wl w' = (ListImageBuilds (LabelKeyOnCommitEnabled, ''true''), True) # (Now now, True) # concat ls \<and>
            length ls \<le> length (findMatches H event items) \<and>
            list_all2 (match_log (h_Client h) p r body event now)
              (take (length ls) (findMatches H event items)) ls)))"
proof -
  obtain lst w1 where lst:
    "cl_ListImageBuilds (h_Client h) (LabelKeyOnCommitEnabled, ''true'') w = (lst, w1)" by fastforce
  show ?thesis
  proof (cases lst)
    case (Inl e)
    with run lst show ?thesis by (auto simp: serveEvent_def logged_def log_call_def)
  next
    case (Inr items)
    show ?thesis
    proof (cases "findMatches H event items")
      case Nil
      with run lst Inr show ?thesis
        by (auto simp: serveEvent_def logged_def log_call_def split: list.splits)
    next
      case (Cons m ms)
      obtain now w2 where now: "cl_Now (h_Client h) w1 = (now, w2)" by fastforce
      let ?l = "[(ListImageBuilds (LabelKeyOnCommitEnabled, ''true''), True), (Now now, True)]"
      obtain out w3 where all: "run_state (authenticateAll (logged_handler h) Retry p r body event now
          (m # ms) 0) (w2, ?l) = (out, w3)" by (metis surj_pair)
      with run lst Inr Cons now have "w' = w3"
        by (auto simp: serveEvent_def logged_def log_call_def simp del: authenticateAll.simps)
      with authenticateAll_logged [OF retry all] Cons Inr lst show ?thesis by auto
    qed
  qed
qed

text \<open>
  C3. Only an authenticated request makes the handler touch an ImageBuild. For every
  request, provider library and cluster, the requests the handler sends are: none if no
  push event can be read; else one list by the on-commit label, and, if ImageBuilds
  match, one read of the clock and then one part per match, in the order of the list and
  possibly breaking off. The part of a match reads the Secret that this ImageBuild refers
  to in its own namespace; it reads and patches an ImageBuild only if the Secret was
  found, holds a non-empty value under the key, and the provider accepts the request with
  that value. What it then sends, once or again after a conflict, is a read of this
  ImageBuild, by its namespace and name, and, if the read succeeds, one status patch of
  the object that the cluster answered, which records the event; nothing else.
\<close>

theorem webhook_writes_authenticated:
  assumes "retry_on_conflict Retry"
  shows "let l = wl (snd (run_state (ServeHTTP H (logged_handler h) Retry r) (w, [])));
             sel = ListImageBuilds (LabelKeyOnCommitEnabled, ''true'') in
     (case readEvent H r of
        None \<Rightarrow> l = []
      | Some (body, p, event) \<Rightarrow>
          l = [(sel, False)] \<or>
          (\<exists>items w1.
             cl_ListImageBuilds (h_Client h) (LabelKeyOnCommitEnabled, ''true'') w = (Inr items, w1) \<and>
             (l = [(sel, True)] \<or>
              (\<exists>now ls. l = (sel, True) # (Now now, True) # concat ls \<and>
                 length ls \<le> length (findMatches H event items) \<and>
                 list_all2 (match_log (h_Client h) p r body event now)
                   (take (length ls) (findMatches H event items)) ls))))"
proof (cases "readEvent H r")
  case None
  then have "snd (run_state (ServeHTTP H (logged_handler h) Retry r) (w, [])) = (w, [])"
    by (auto simp: readEvent_def ServeHTTP_def split: sum.splits prod.splits)
  with None show ?thesis by simp
next
  case (Some x)
  then obtain body p event where x: "readEvent H r = Some (body, p, event)" by (cases x) auto
  obtain rsp w' where run: "run_state (serveEvent H (logged_handler h) Retry p r body event) (w, []) = (rsp, w')"
    by (metis surj_pair)
  from serveEvent_logged [OF assms run] show ?thesis
    by (simp add: x run_ServeHTTP [OF x] run)
qed

section \<open>What is recorded\<close>

lemma recordOnce_success:
  "recordOnce C ib event now w = (None, w') \<longleftrightarrow>
     (\<exists>latest w1 ib'. cl_GetImageBuild C (ObjectKeyOf (ib_Meta ib)) w = (Inr latest, w1) \<and>
        cl_PatchImageBuildStatus C latest (recordEvent event now latest) w1 = (Inr ib', w'))"
  by (auto simp: recordOnce_def split: prod.splits sum.splits)

lemma recordEvent_eq:
  "recordEvent event now latest = latest\<lparr>ib_Status := (ib_Status latest)\<lparr>st_OnCommit := Some
     \<lparr>ocs_LastReceived = Some \<lparr>ev_Ref = pe_ref event, ev_CommitSHA = pe_commitSHA event, ev_ReceivedAt = now\<rparr>,
      ocs_Pending = Some \<lparr>ev_Ref = pe_ref event, ev_CommitSHA = pe_commitSHA event, ev_ReceivedAt = now\<rparr>,
      ocs_LastTriggeredBuildRun =
        Option.bind (st_OnCommit (ib_Status latest)) ocs_LastTriggeredBuildRun,
      ocs_TriggerCounter =
        (case st_OnCommit (ib_Status latest) of None \<Rightarrow> 0 | Some oc \<Rightarrow> ocs_TriggerCounter oc)\<rparr>\<rparr>\<rparr>"
proof (cases "st_OnCommit (ib_Status latest)")
  case None
  then show ?thesis by (simp add: recordEvent_def empty_OnCommitStatus_def Let_def)
next
  case (Some oc)
  then show ?thesis by (cases oc) (simp add: recordEvent_def Let_def)
qed

text \<open>
  C26. When the handler reports success for an ImageBuild, its last attempt has read the
  object and the server has accepted a status patch made from that very reading. The patch
  sets the event as last received and as pending, with the time the request was handled,
  and keeps everything else: the last trigger, the trigger counter, the rest of the
  status, the spec and the metadata. An older pending commit is thereby replaced.
\<close>

theorem event_recorded_on_success:
  assumes "retry_on_conflict Retry"
    and "run_state (patchOnCommitStatus C Retry ib event now) w = (None, w')"
  shows "\<exists>latest w0 w1 new ib' oc.
     cl_GetImageBuild C (ObjectKeyOf (ib_Meta ib)) w0 = (Inr latest, w1) \<and>
     cl_PatchImageBuildStatus C latest new w1 = (Inr ib', w') \<and>
     oc = \<lparr>ocs_LastReceived = Some \<lparr>ev_Ref = pe_ref event, ev_CommitSHA = pe_commitSHA event, ev_ReceivedAt = now\<rparr>,
           ocs_Pending = Some \<lparr>ev_Ref = pe_ref event, ev_CommitSHA = pe_commitSHA event, ev_ReceivedAt = now\<rparr>,
           ocs_LastTriggeredBuildRun =
             Option.bind (st_OnCommit (ib_Status latest)) ocs_LastTriggeredBuildRun,
           ocs_TriggerCounter =
             (case st_OnCommit (ib_Status latest) of None \<Rightarrow> 0 | Some oc \<Rightarrow> ocs_TriggerCounter oc)\<rparr> \<and>
     new = latest\<lparr>ib_Status := (ib_Status latest)\<lparr>st_OnCommit := Some oc\<rparr>\<rparr>"
proof -
  from assms(2) have "Retry (recordOnce C ib event now) w = (None, w')"
    by (auto simp: patchOnCommitStatus_def split: prod.splits option.splits)
  then obtain w0 where "recordOnce C ib event now w0 = (None, w')"
    using retry_on_conflict.success [OF assms(1)] by blast
  then obtain latest w1 ib' where
    "cl_GetImageBuild C (ObjectKeyOf (ib_Meta ib)) w0 = (Inr latest, w1)"
    "cl_PatchImageBuildStatus C latest (recordEvent event now latest) w1 = (Inr ib', w')"
    by (auto simp: recordOnce_success)
  then show ?thesis unfolding recordEvent_eq by blast
qed

end
