(* ===== verification/Lost_Update.thy ===== *)
theory Lost_Update
  imports Commit_Flow Webhook_Auth
begin

text \<open>
  Two writers, no lock: what becomes of a push that the webhook records while a reconcile
  is about to mark an older commit as triggered. The reconcile's patch is a merge patch
  without a resource version, so the server accepts it.
\<close>

section \<open>Merge patches\<close>

text \<open>
  A read returns the object stored. A merge patch made from an object read earlier is
  applied to what is stored now: a field that the writer did not change stays as it is
  stored, a field that the writer removed is removed.
\<close>

locale merging_server = clocked_server C stored healthy trunc runs clock
  for C :: "'w client" and stored healthy trunc runs clock +
  assumes read_law:
    "healthy w \<Longrightarrow> stored w k = Some ib \<Longrightarrow>
       \<exists>w'. cl_GetImageBuild C k w = (Inr ib, w') \<and> healthy w' \<and> stored w' = stored w"
    and merge_law:
    "healthy w \<Longrightarrow> stored w (ib_key orig) = Some cur \<Longrightarrow>
       ib_Meta new = ib_Meta orig \<Longrightarrow> ib_Spec new = ib_Spec orig \<Longrightarrow>
       st_OnCommit (ib_Status orig) = Some a \<Longrightarrow> st_OnCommit (ib_Status new) = Some b \<Longrightarrow>
       st_OnCommit (ib_Status cur) = Some c \<Longrightarrow>
       \<exists>ib' d w'. cl_PatchImageBuildStatus C orig new w = (Inr ib', w') \<and>
         healthy w' \<and> stored w' = (stored w)(ib_key orig \<mapsto> ib') \<and>
         ib_Spec ib' = ib_Spec cur \<and> st_OnCommit (ib_Status ib') = Some d \<and>
         (ocs_LastReceived b = ocs_LastReceived a \<longrightarrow> ocs_LastReceived d = ocs_LastReceived c) \<and>
         (ocs_Pending a \<noteq> None \<longrightarrow> ocs_Pending b = None \<longrightarrow> ocs_Pending d = None)"
begin

text \<open>The webhook records an event: it is pending on the server.\<close>

lemma run_recordOnce:
  assumes "healthy w" and "stored w (ib_key ib) = Some ib"
  shows "\<exists>w' cur oc e. recordOnce C ib event now w = (None, w') \<and> healthy w' \<and>
     stored w' (ib_key ib) = Some cur \<and> st_OnCommit (ib_Status cur) = Some oc \<and>
     ocs_LastReceived oc = Some e \<and> ocs_Pending oc = Some e \<and> ev_CommitSHA e = pe_commitSHA event"
proof -
  from read_law [OF assms] obtain w1 where
    g: "cl_GetImageBuild C (ib_key ib) w = (Inr ib, w1)" "healthy w1" "stored w1 = stored w" by blast
  let ?new = "recordEvent event now ib"
  have "ib_Meta ?new = ib_Meta ib" "ib_Spec ?new = ib_Spec ib" by (simp_all add: recordEvent_eq)
  from patch_status_law [OF g(2), of ib ?new] this g(3) assms(2) obtain rv w2 where
    p: "cl_PatchImageBuildStatus C ib ?new w1 = (Inr (with_rv (ib\<lparr>ib_Status := map_times trunc (ib_Status ?new)\<rparr>) rv), w2)"
    "healthy w2" "stored w2 = (stored w1)(ib_key ib \<mapsto> with_rv (ib\<lparr>ib_Status := map_times trunc (ib_Status ?new)\<rparr>) rv)"
    by (auto simp: Let_def)
  from g(1) p(1) have "recordOnce C ib event now w = (None, w2)" by (simp add: recordOnce_def)
  with p(2,3) show ?thesis
    by (auto simp: recordEvent_eq map_times_def map_OnCommit_def map_event_def)
qed

text \<open>The reconcile marks its commit: whatever is pending on the server is removed.\<close>

lemma run_patchOnCommitTriggered_merge:
  fixes s :: "'w rstate"
  assumes "healthy (rs_world s)" and "stored (rs_world s) (ib_key (rs_ib s)) = Some cur"
    and "st_OnCommit (ib_Status (rs_ib s)) = Some a" and "ocs_Pending a \<noteq> None"
    and "st_OnCommit (ib_Status cur) = Some c"
  shows "\<exists>s' d. run_state (patchOnCommitTriggered C br n sha) s = (Ok (), s') \<and>
     stored (rs_world s') (ib_key (rs_ib s)) = Some (rs_ib s') \<and>
     st_OnCommit (ib_Status (rs_ib s')) = Some d \<and>
     ocs_LastReceived d = ocs_LastReceived c \<and> ocs_Pending d = None"
proof -
  from clock_law [OF assms(1)] obtain w1 where
    now: "cl_Now C (rs_world s) = (clock (rs_world s), w1)" "healthy w1" "stored w1 = stored (rs_world s)" by blast
  let ?b = "a\<lparr>ocs_TriggerCounter := n, ocs_LastTriggeredBuildRun := Some
      \<lparr>lt_Name = br_Name br, lt_CommitSHA = sha, lt_TriggeredAt = clock (rs_world s)\<rparr>, ocs_Pending := None\<rparr>"
  let ?new = "(rs_ib s)\<lparr>ib_Status := (ib_Status (rs_ib s))\<lparr>st_OnCommit := Some ?b\<rparr>\<rparr>"
  from merge_law [OF now(2), of "rs_ib s" cur ?new a ?b c] assms(2-5) now(3) obtain ib' d w2 where
    "cl_PatchImageBuildStatus C (rs_ib s) ?new w1 = (Inr ib', w2)"
    "stored w2 = (stored w1)(ib_key (rs_ib s) \<mapsto> ib')" "st_OnCommit (ib_Status ib') = Some d"
    "ocs_LastReceived d = ocs_LastReceived c" "ocs_Pending d = None"
    by auto
  with now(1) assms(3) show ?thesis
    by (intro exI [of _ "\<lparr>rs_ib = ib', rs_world = w2\<rparr>"] exI [of _ d])
      (simp add: patchOnCommitTriggered_def patch_status_def upd_OnCommit_def)
qed

end

text \<open>
  C30. A newer commit is erased. A commit is pending and the reconcile has read it; the
  webhook then records a newer event, and answers its sender with success; then the
  reconcile marks the older commit as triggered. Against a server that merges patches as
  documented, this last patch is accepted and removes the pending event of the newer
  commit, which stays the event last received: the on-commit flow has nothing left to do,
  and the newer commit is not built.
\<close>

theorem newer_commit_erased:
  assumes "merging_server C stored healthy trunc runs clock" and "in_sync stored healthy trunc s"
    and "st_OnCommit (ib_Status (rs_ib s)) = Some oc" and "ocs_Pending oc = Some p"
  shows "\<exists>w1 s' oc'. recordOnce C (rs_ib s) event now (rs_world s) = (None, w1) \<and>
     run_state (patchOnCommitTriggered C br n (ev_CommitSHA p)) (s\<lparr>rs_world := w1\<rparr>) = (Ok (), s') \<and>
     stored (rs_world s') (ib_key (rs_ib s)) = Some (rs_ib s') \<and>
     st_OnCommit (ib_Status (rs_ib s')) = Some oc' \<and>
     map_option ev_CommitSHA (ocs_LastReceived oc') = Some (pe_commitSHA event) \<and>
     run_state (reconcileOnCommitBuildRun C) s' = (Ok (None, None), s')"
proof -
  from assms(2) have "healthy (rs_world s)" "stored (rs_world s) (ib_key (rs_ib s)) = Some (rs_ib s)"
    by (simp_all add: in_sync_def)
  from merging_server.run_recordOnce [OF assms(1) this, of event now] obtain w1 cur c e where
    w1: "recordOnce C (rs_ib s) event now (rs_world s) = (None, w1)" "healthy w1"
    "stored w1 (ib_key (rs_ib s)) = Some cur" "st_OnCommit (ib_Status cur) = Some c"
    "ocs_LastReceived c = Some e" "ev_CommitSHA e = pe_commitSHA event" by blast
  from merging_server.run_patchOnCommitTriggered_merge [OF assms(1), of "s\<lparr>rs_world := w1\<rparr>" cur oc c br n
      "ev_CommitSHA p"] w1 assms(3,4) obtain s' d where
    s': "run_state (patchOnCommitTriggered C br n (ev_CommitSHA p)) (s\<lparr>rs_world := w1\<rparr>) = (Ok (), s')"
    "stored (rs_world s') (ib_key (rs_ib s)) = Some (rs_ib s')"
    "st_OnCommit (ib_Status (rs_ib s')) = Some d" "ocs_LastReceived d = Some e" "ocs_Pending d = None" by auto
  then have "run_state (reconcileOnCommitBuildRun C) s' = (Ok (None, None), s')"
    by (simp add: reconcileOnCommitBuildRun_def isRebuildEnabled_def)
  with w1(1,6) s' show ?thesis by auto
qed

section \<open>The contract can hold\<close>

interpretation ref_merge: merging_server ref_client mem_stored mem_healthy id m_BuildRuns m_Clock
proof unfold_locales
  fix w k and ib :: ImageBuild
  assume "mem_healthy w" "mem_stored w k = Some ib"
  then show "\<exists>w'. cl_GetImageBuild ref_client k w = (Inr ib, w') \<and> mem_healthy w' \<and> mem_stored w' = mem_stored w"
    by (simp add: ref_client_def guarded_def lookup_def mem_healthy_def mem_stored_def)
next
  fix w and orig cur new :: ImageBuild and a b c
  assume h: "mem_healthy w" "mem_stored w (ib_key orig) = Some cur" "ib_Meta new = ib_Meta orig"
    "st_OnCommit (ib_Status orig) = Some a" "st_OnCommit (ib_Status new) = Some b"
    "st_OnCommit (ib_Status cur) = Some c"
  let ?r = "cur\<lparr>ib_Status := merge_status (ib_Status orig) (ib_Status new) (ib_Status cur)\<rparr>"
  have "cl_PatchImageBuildStatus ref_client orig new w =
      (Inr ?r, w\<lparr>m_ImageBuilds := put (ib_key orig) ?r (m_ImageBuilds w)\<rparr>)"
    using h by (simp add: ref_client_def guarded_def mem_healthy_def store_ImageBuild_sync)
  with h show "\<exists>ib' d w'. cl_PatchImageBuildStatus ref_client orig new w = (Inr ib', w') \<and>
      mem_healthy w' \<and> mem_stored w' = (mem_stored w)(ib_key orig \<mapsto> ib') \<and>
      ib_Spec ib' = ib_Spec cur \<and> st_OnCommit (ib_Status ib') = Some d \<and>
      (ocs_LastReceived b = ocs_LastReceived a \<longrightarrow> ocs_LastReceived d = ocs_LastReceived c) \<and>
      (ocs_Pending a \<noteq> None \<longrightarrow> ocs_Pending b = None \<longrightarrow> ocs_Pending d = None)"
    by (auto simp: merge_status_def merge_OnCommit_def merge_field_def mem_healthy_def mem_stored_def)
qed

end
