(* ===== verification/Failure.thy ===== *)
theory Failure
  imports Controller_Log Outcome
begin

text \<open>Reconciles that end early: what they answer and what they leave in the status.\<close>

lemma run_setNotReady_logged:
  "\<exists>cs w2 w3 ok.
     cl_SetStatusCondition C (st_Conditions (ib_Status ib))
       (new_condition TypeReady ConditionFalse reason msg (ib_Generation ib)) w = (cs, w2) \<and>
     rs_world (snd (run_state (setNotReady (logged C) reason msg) \<lparr>rs_ib = ib, rs_world = (w, l)\<rparr>)) =
       (w3, l @ [(PatchImageBuildStatus ib (ib\<lparr>ib_Status := (ib_Status ib)
          \<lparr>st_ObservedGeneration := ib_Generation ib, st_Conditions := cs\<rparr>\<rparr>), ok)])"
  by (cases "cl_SetStatusCondition C (st_Conditions (ib_Status ib))
       (new_condition TypeReady ConditionFalse reason msg (ib_Generation ib)) w")
    (auto simp: setNotReady_def patchReadyCondition_def set_status_condition_def patch_status_def
      set_ObservedGeneration_def logged_def log_call_def split: prod.splits sum.splits)

lemma run_validateWebhookSecret_missing:
  assumes "spec_OnCommit (ib_Spec ib) = Some oc"
    and "cl_GetSecret C \<lparr>nn_Namespace = ib_Namespace ib, nn_Name = sel_Name (oc_WebhookSecretRef oc)\<rparr> w =
      (Inl e, w')"
    and "IsNotFound e"
  shows "run_state (validateWebhookSecret (logged C)) \<lparr>rs_ib = ib, rs_world = (w, l)\<rparr> =
     (Err (wrap_text (Sentinel errWebhookSecretMissing)
        ('': '' @ quote (sel_Name (oc_WebhookSecretRef oc)))),
      snd (run_state (setNotReady (logged C) ReasonWebhookSecretMissing
          (''WebhookSecret '' @ quote (sel_Name (oc_WebhookSecretRef oc)) @ '' not found''))
        \<lparr>rs_ib = ib, rs_world = (w', l @ [(GetSecret \<lparr>nn_Namespace = ib_Namespace ib,
           nn_Name = sel_Name (oc_WebhookSecretRef oc)\<rparr> None, False)])\<rparr>))"
proof -
  have "cl_GetSecret (logged C) \<lparr>nn_Namespace = ib_Namespace ib, nn_Name = sel_Name (oc_WebhookSecretRef oc)\<rparr> (w, l) =
      (Inl e, w', l @ [(GetSecret \<lparr>nn_Namespace = ib_Namespace ib,
         nn_Name = sel_Name (oc_WebhookSecretRef oc)\<rparr> None, False)])"
    using assms(2) by (simp add: logged_def)
  with assms(1,3) show ?thesis
    by (simp add: validateWebhookSecret_def Let_def split: prod.split)
qed

text \<open>
  C33. An ImageBuild whose webhook secret does not exist is not built. The reconcile ends
  after looking for the secret, with a requeue after the error interval and no error;
  the one write it sends is a status patch that sets Ready to False with the reason
  WebhookSecretMissing at the current generation. No Build or run is requested.
\<close>

theorem missing_secret_stops_reconcile:
  assumes "cl_GetImageBuild C req w = (Inr ib, w1)"
    and "om_Labels (ib_Meta ib) LabelKeyOnCommitEnabled = Some (onCommitLabelValue ib)"
    and "spec_OnCommit (ib_Spec ib) = Some oc"
    and "k = \<lparr>nn_Namespace = ib_Namespace ib, nn_Name = sel_Name (oc_WebhookSecretRef oc)\<rparr>"
    and "cl_GetSecret C k w1 = (Inl e, w2)" and "IsNotFound e"
  shows "\<exists>cs w3 ok msg.
     fst (run_state (Reconcile (logged C) req) (w, [])) = requeue errorRequeueInterval \<and>
     cl_SetStatusCondition C (st_Conditions (ib_Status ib))
       (new_condition TypeReady ConditionFalse ReasonWebhookSecretMissing msg (ib_Generation ib)) w2 = (cs, w3) \<and>
     reconcile_log C req w =
       [(GetImageBuild req, True), (GetSecret k None, False),
        (PatchImageBuildStatus ib (ib\<lparr>ib_Status := (ib_Status ib)
           \<lparr>st_ObservedGeneration := ib_Generation ib, st_Conditions := cs\<rparr>\<rparr>), ok)]"
proof -
  let ?s = "\<lparr>rs_ib = ib, rs_world = (w1, [(GetImageBuild req, True)])\<rparr>"
  let ?msg = "''WebhookSecret '' @ quote (sel_Name (oc_WebhookSecretRef oc)) @ '' not found''"
  have get: "cl_GetImageBuild (logged C) req (w, []) = (Inr ib, w1, [(GetImageBuild req, True)])"
    using assms(1) by (simp add: logged_def log_call_def)
  have label: "run_state (ensureOnCommitLabel (logged C)) ?s = (Ok (), ?s)"
    using assms(2) by (simp add: ensureOnCommitLabel_def Let_def)
  note secret = run_validateWebhookSecret_missing [OF assms(3) assms(5) [unfolded assms(4)] assms(6),
      of "[(GetImageBuild req, True)]"]
  obtain cs w3 w4 ok where set:
    "cl_SetStatusCondition C (st_Conditions (ib_Status ib))
       (new_condition TypeReady ConditionFalse ReasonWebhookSecretMissing ?msg (ib_Generation ib)) w2 = (cs, w3)"
    "rs_world (snd (run_state (setNotReady (logged C) ReasonWebhookSecretMissing ?msg)
        \<lparr>rs_ib = ib, rs_world = (w2, [(GetImageBuild req, True), (GetSecret k None, False)])\<rparr>)) =
      (w4, [(GetImageBuild req, True), (GetSecret k None, False),
        (PatchImageBuildStatus ib (ib\<lparr>ib_Status := (ib_Status ib)
           \<lparr>st_ObservedGeneration := ib_Generation ib, st_Conditions := cs\<rparr>\<rparr>), ok)])"
    using run_setNotReady_logged [of C ib ReasonWebhookSecretMissing ?msg w2
        "[(GetImageBuild req, True), (GetSecret k None, False)]"] by auto
  have "run_state (Reconcile (logged C) req) (w, []) =
      (requeue errorRequeueInterval,
       rs_world (snd (run_state (setNotReady (logged C) ReasonWebhookSecretMissing ?msg)
        \<lparr>rs_ib = ib, rs_world = (w2, [(GetImageBuild req, True), (GetSecret k None, False)])\<rparr>)))"
    using secret by (simp add: run_Reconcile get reconcileFetched_def label assms(4))
  with set show ?thesis by (auto simp: reconcile_log_def)
qed

end
