(* ===== verification/Provenance.thy ===== *)
theory Provenance
  imports Api_Server Webhook_Auth Reference_Client
begin

text \<open>
  Where the commits in a status come from. The reconciler and the webhook handler write
  the same objects, at the same time and without locks; whatever their order, and
  whatever fails, a commit named in the on-commit status of an ImageBuild is one that a
  request named which was authenticated for this ImageBuild.
\<close>

section \<open>The contract\<close>

text \<open>The commits an ImageBuild's on-commit status names.\<close>

definition commits_of :: "ImageBuildOnCommitStatus \<Rightarrow> string set" where
  "commits_of oc =
     (set_option (map_option ev_CommitSHA (ocs_LastReceived oc)) \<union>
      set_option (map_option ev_CommitSHA (ocs_Pending oc)) \<union>
      set_option (map_option lt_CommitSHA (ocs_LastTriggeredBuildRun oc))) - {''''}"

definition commits :: "ImageBuild \<Rightarrow> string set" where
  "commits ib = (case st_OnCommit (ib_Status ib) of None \<Rightarrow> {} | Some oc \<Rightarrow> commits_of oc)"

type_synonym custody = "NamespacedName \<Rightarrow> string set"

text \<open>
  \<open>valid A w\<close>: all objects that can be read from \<open>w\<close>, now or from a cache, name commits in
  \<open>A\<close> only. A read returns such an object under its name. Every call keeps the world valid,
  with what other clients do meanwhile, provided the operator's status patches name commits
  in \<open>A\<close>: a merge patch leaves a field or sets it to what is sent. The status subresource is
  written by the operator only.
\<close>

locale custodian =
  fixes C :: "'w client" and valid :: "custody \<Rightarrow> 'w \<Rightarrow> bool"
  assumes mono: "valid A w \<Longrightarrow> A \<le> B \<Longrightarrow> valid B w"
    and get_law: "valid A w \<Longrightarrow> cl_GetImageBuild C k w = (Inr ib, w') \<Longrightarrow> ib_key ib = k \<and> commits ib \<subseteq> A k"
    and status_law:
    "valid A w \<Longrightarrow> commits new \<subseteq> A (ib_key new) \<Longrightarrow> cl_PatchImageBuildStatus C orig new w = (r, w') \<Longrightarrow>
       valid A w' \<and> (case r of Inl _ \<Rightarrow> True | Inr ib \<Rightarrow> ib_key ib = ib_key new \<and> commits ib \<subseteq> A (ib_key new))"
    and object_law:
    "valid A w \<Longrightarrow> cl_PatchImageBuild C orig new w = (r, w') \<Longrightarrow>
       valid A w' \<and> (case r of Inl _ \<Rightarrow> True | Inr ib \<Rightarrow> ib_key ib = ib_key new \<and> commits ib \<subseteq> A (ib_key new))"
    "valid A w \<Longrightarrow> cl_UpdateImageBuild C new w = (r, w') \<Longrightarrow>
       valid A w' \<and> (case r of Inl _ \<Rightarrow> True | Inr ib \<Rightarrow> ib_key ib = ib_key new \<and> commits ib \<subseteq> A (ib_key new))"
    and other_calls_law:
    "valid A w \<Longrightarrow> valid A (snd (cl_GetImageBuild C k w))"
    "valid A w \<Longrightarrow> valid A (snd (cl_GetImageBuildPolicy C n w))"
    "valid A w \<Longrightarrow> valid A (snd (cl_GetClusterBuildStrategy C n w))"
    "valid A w \<Longrightarrow> valid A (snd (cl_GetBuildRun C k w))"
    "valid A w \<Longrightarrow> valid A (snd (cl_GetSecret C k w))"
    "valid A w \<Longrightarrow> valid A (snd (cl_ListImageBuilds C sel w))"
    "valid A w \<Longrightarrow> valid A (snd (cl_CreateBuildRun C br w))"
    "valid A w \<Longrightarrow> valid A (snd (cl_CreateOrPatchBuild C b f w))"
    "valid A w \<Longrightarrow> valid A (snd (cl_SetStatusCondition C cs c w))"
    "valid A w \<Longrightarrow> valid A (snd (cl_Now C w))"

section \<open>The reconciler\<close>

definition safe :: "custody \<Rightarrow> NamespacedName \<Rightarrow> ImageBuild \<Rightarrow> bool" where
  "safe A k ib \<longleftrightarrow> ib_key ib = k \<and> commits ib \<subseteq> A k"

definition keeps :: "(custody \<Rightarrow> 'w \<Rightarrow> bool) \<Rightarrow> custody \<Rightarrow> NamespacedName \<Rightarrow> ('w rstate, 'a) state \<Rightarrow> bool" where
  "keeps valid A k m \<longleftrightarrow>
     (\<forall>s. valid A (rs_world s) \<longrightarrow> safe A k (rs_ib s) \<longrightarrow>
        valid A (rs_world (snd (run_state m s))) \<and> safe A k (rs_ib (snd (run_state m s))))"

named_theorems keeps_intros

lemma keeps_return [keeps_intros]: "keeps V A k (State_Monad.return a)"
  by (simp add: keeps_def)

lemma keeps_bind [keeps_intros]:
  "keeps V A k m \<Longrightarrow> (\<And>a. keeps V A k (f a)) \<Longrightarrow> keeps V A k (State_Monad.bind m f)"
  unfolding keeps_def by (auto split: prod.splits)

lemma keeps_bind_res [keeps_intros]:
  "keeps V A k m \<Longrightarrow> (\<And>a. keeps V A k (f a)) \<Longrightarrow> keeps V A k (bind_res m f)"
  unfolding bind_res_def by (auto intro!: keeps_intros split: res.splits)

text \<open>What was read from memory is safe: this rule is tried before the one for any step.\<close>

lemma keeps_get_ib:
  "(\<And>ib. safe A k ib \<Longrightarrow> keeps V A k (f ib)) \<Longrightarrow> keeps V A k (State_Monad.bind get_ib f)"
  by (simp add: keeps_def)

lemma keeps_bind_res_return:
  "(\<And>x. r = Ok x \<Longrightarrow> keeps V A k (f x)) \<Longrightarrow> keeps V A k (bind_res (State_Monad.return r) f)"
  by (cases r) (auto simp: bind_res_def intro: keeps_return)

lemma keeps_put_ib: "safe A k ib \<Longrightarrow> keeps V A k (put_ib ib)"
  by (simp add: keeps_def)

lemma keeps_call:
  "(\<And>w. V A w \<Longrightarrow> V A (snd (f w))) \<Longrightarrow> keeps V A k (call f)"
  by (auto simp: keeps_def split: prod.splits) (metis snd_conv)

text \<open>A write whose answer is put back into memory.\<close>

lemma keeps_write:
  assumes "\<And>w ib r w'. V A w \<Longrightarrow> safe A k ib \<Longrightarrow> f ib w = (r, w') \<Longrightarrow>
     V A w' \<and> (case r of Inl _ \<Rightarrow> True | Inr ib' \<Rightarrow> safe A k ib')"
  shows "keeps V A k (do {
     ib \<leftarrow> get_ib;
     r \<leftarrow> call (f ib);
     case r of
       Inl e \<Rightarrow> State_Monad.return (Err (wrap msg e))
     | Inr ib' \<Rightarrow> do { _ \<leftarrow> put_ib ib'; State_Monad.return (Ok ()) }
   })" (is "keeps V A k ?m")
  unfolding keeps_def
proof (intro allI impI)
  fix s :: "'a rstate"
  assume s: "V A (rs_world s)" "safe A k (rs_ib s)"
  obtain r w' where f: "f (rs_ib s) (rs_world s) = (r, w')" by fastforce
  from assms [OF s f] f s(2)
  show "V A (rs_world (snd (run_state ?m s))) \<and> safe A k (rs_ib (snd (run_state ?m s)))"
    by (cases r) simp_all
qed

lemma safe_changes [simp]:
  "safe A k (ib\<lparr>ib_Status := (ib_Status ib)\<lparr>st_ObservedGeneration := a, st_BuildRef := b\<rparr>\<rparr>) = safe A k ib"
  "safe A k (ib\<lparr>ib_Status := (ib_Status ib)\<lparr>st_ObservedGeneration := a, st_LastBuildRunRef := b\<rparr>\<rparr>) = safe A k ib"
  "safe A k (ib\<lparr>ib_Status := (ib_Status ib)\<lparr>st_ObservedGeneration := a, st_LatestImage := b\<rparr>\<rparr>) = safe A k ib"
  "safe A k (ib\<lparr>ib_Status := (ib_Status ib)\<lparr>st_BuildRunCounter := c\<rparr>\<rparr>) = safe A k ib"
  "safe A k (ib\<lparr>ib_Status := (ib_Status ib)\<lparr>st_Conditions := cs\<rparr>\<rparr>) = safe A k ib"
  "safe A k (set_ObservedGeneration ib) = safe A k ib"
  "safe A k (ib\<lparr>ib_Meta := (ib_Meta ib)\<lparr>om_Labels := ls\<rparr>\<rparr>) = safe A k ib"
  "recordBuildSpec ib = Ok ib' \<Longrightarrow> safe A k ib' = safe A k ib"
  by (auto simp: safe_def commits_def ObjectKeyOf_def set_ObservedGeneration_def recordBuildSpec_def)

lemma safe_clear: "safe A k ib \<Longrightarrow> safe A k (upd_OnCommit (\<lambda>oc. oc\<lparr>ocs_Pending := None\<rparr>) ib)"
  by (auto simp: safe_def commits_def commits_of_def upd_OnCommit_def split: option.splits)

lemma safe_trigger:
  assumes "safe A k ib" and "sha \<in> insert '''' (A k)"
  shows "safe A k (upd_OnCommit (\<lambda>oc. oc\<lparr>ocs_TriggerCounter := c,
     ocs_LastTriggeredBuildRun := Some \<lparr>lt_Name = n, lt_CommitSHA = sha, lt_TriggeredAt = t\<rparr>,
     ocs_Pending := None\<rparr>) ib)"
  using assms by (auto simp: safe_def commits_def commits_of_def upd_OnCommit_def split: option.splits)

lemma safe_pending:
  "safe A k ib \<Longrightarrow> st_OnCommit (ib_Status ib) = Some oc \<Longrightarrow> ocs_Pending oc = Some p \<Longrightarrow>
     ev_CommitSHA p \<in> insert '''' (A k)"
  by (auto simp: safe_def commits_def commits_of_def)

context custodian
begin

abbreviation kept :: "custody \<Rightarrow> NamespacedName \<Rightarrow> ('w rstate, 'a) state \<Rightarrow> bool" where
  "kept \<equiv> keeps valid"

lemma kept_calls [keeps_intros]:
  "kept A k (call (cl_GetImageBuildPolicy C n))" "kept A k (call (cl_GetClusterBuildStrategy C n))"
  "kept A k (call (cl_GetBuildRun C key))" "kept A k (call (cl_GetSecret C key))"
  "kept A k (call (cl_CreateBuildRun C br))" "kept A k (call (cl_CreateOrPatchBuild C b f))"
  "kept A k (call (cl_SetStatusCondition C cs c))" "kept A k (call (cl_Now C))"
  by (intro keeps_call other_calls_law; assumption)+

lemma kept_writes [keeps_intros]:
  "kept A k (patch_status C msg orig)" "kept A k (patch_object C msg orig)" "kept A k (update_object C msg)"
proof -
  show "kept A k (patch_status C msg orig)"
    unfolding patch_status_def
  proof (rule keeps_write)
    show "valid A w' \<and> (case r of Inl _ \<Rightarrow> True | Inr ib' \<Rightarrow> safe A k ib')"
      if "valid A w" "safe A k ib" "cl_PatchImageBuildStatus C orig ib w = (r, w')" for w ib r w'
      using status_law [of A w ib orig r w'] that by (auto simp: safe_def split: sum.splits)
  qed
  show "kept A k (patch_object C msg orig)"
    unfolding patch_object_def
  proof (rule keeps_write)
    show "valid A w' \<and> (case r of Inl _ \<Rightarrow> True | Inr ib' \<Rightarrow> safe A k ib')"
      if "valid A w" "safe A k ib" "cl_PatchImageBuild C orig ib w = (r, w')" for w ib r w'
      using object_law(1) [of A w orig ib r w'] that by (auto simp: safe_def split: sum.splits)
  qed
  show "kept A k (update_object C msg)"
    unfolding update_object_def
  proof (rule keeps_write)
    show "valid A w' \<and> (case r of Inl _ \<Rightarrow> True | Inr ib' \<Rightarrow> safe A k ib')"
      if "valid A w" "safe A k ib" "cl_UpdateImageBuild C ib w = (r, w')" for w ib r w'
      using object_law(2) [of A w ib r w'] that by (auto simp: safe_def split: sum.splits)
  qed
qed

lemmas kept_memory = keeps_get_ib keeps_put_ib

lemma kept_status [keeps_intros]:
  "kept A k (set_status_condition C c)"
  "kept A k (patchReadyCondition C st reason msg)"
  "kept A k (setNotReady C reason msg)"
  "kept A k (patchBuildRef C)"
  "kept A k (patchBuildSucceededCondition C br)"
  "kept A k (patchLatestImage C img)"
  by (auto simp: set_status_condition_def patchReadyCondition_def setNotReady_def patchBuildRef_def
      patchBuildSucceededCondition_def patchLatestImage_def Let_def
      intro!: kept_memory keeps_intros split: prod.splits)

lemma kept_build [keeps_intros]:
  "kept A k (ensureOnCommitLabel C)"
  "kept A k (validateWebhookSecret C)"
  "kept A k (ensureBuild C policy s)"
  by (auto simp: ensureOnCommitLabel_def validateWebhookSecret_def ensureBuild_def Let_def
      intro!: kept_memory keeps_intros split: option.splits sum.splits)

lemma kept_reconcileBuild [keeps_intros]: "kept A k (reconcileBuild C)"
  by (auto simp: reconcileBuild_def intro!: kept_memory keeps_intros split: res.splits sum.splits)

lemma kept_runs [keeps_intros]:
  "kept A k (getOrCreateBuildRun C desired)"
  "kept A k (getLastBuildRun C)"
  "kept A k (positiveUntil C t)"
  by (auto simp: getOrCreateBuildRun_def getLastBuildRun_def positiveUntil_def Let_def
      intro!: kept_memory keeps_intros split: option.splits sum.splits)

lemma kept_getActiveBuildRun [keeps_intros]: "kept A k (getActiveBuildRun C)"
  by (auto simp: getActiveBuildRun_def intro!: kept_memory keeps_intros)

lemma kept_remainingWait [keeps_intros]: "kept A k (remainingWait C)"
  by (auto simp: remainingWait_def Let_def intro!: kept_memory keeps_intros split: option.splits)

lemma kept_ensureBuildRun [keeps_intros]: "kept A k (ensureBuildRun C)"
  by (auto simp: ensureBuildRun_def Let_def intro!: kept_memory keeps_intros split: prod.splits)

lemma kept_reconcileDefaultBuildRun [keeps_intros]: "kept A k (reconcileDefaultBuildRun C)"
  unfolding reconcileDefaultBuildRun_def
  by (auto intro!: kept_memory keeps_bind_res_return keeps_intros)

lemma kept_patchOnCommitTriggered:
  "sha \<in> insert '''' (A k) \<Longrightarrow> kept A k (patchOnCommitTriggered C br c sha)"
  unfolding patchOnCommitTriggered_def
  by (intro keeps_get_ib) (auto intro!: keeps_put_ib keeps_intros safe_trigger)

lemma kept_ensureOnCommitBuildRun:
  "sha \<in> insert '''' (A k) \<Longrightarrow> kept A k (ensureOnCommitBuildRun C sha)"
  unfolding ensureOnCommitBuildRun_def
  by (intro keeps_get_ib) (auto simp: Let_def intro!: keeps_intros kept_patchOnCommitTriggered
      split: option.splits prod.splits)

lemma kept_reconcileOnCommitBuildRun [keeps_intros]: "kept A k (reconcileOnCommitBuildRun C)"
  unfolding reconcileOnCommitBuildRun_def
proof (rule keeps_get_ib)
  fix ib
  assume ib: "safe A k ib"
  have clear: "kept A k (do {
      _ \<leftarrow> put_ib (upd_OnCommit (\<lambda>oc. oc\<lparr>ocs_Pending := None\<rparr>) ib);
      r \<leftarrow> patch_status C msg ib;
      State_Monad.return (map_res f r) })" for msg and f :: "unit \<Rightarrow> 'x"
    by (intro keeps_intros keeps_put_ib safe_clear ib)
  have trigger: "kept A k (ensureOnCommitBuildRun C (ev_CommitSHA p))"
    if "Option.bind (st_OnCommit (ib_Status ib)) ocs_Pending = Some p" for p
    using safe_pending [OF ib] that
    by (intro kept_ensureOnCommitBuildRun) (auto simp: Option.bind_eq_Some_conv)
  show "kept A k (if \<not> isRebuildEnabled ib then State_Monad.return (Ok (None, None))
     else bind_res (remainingWait C) (\<lambda>remaining.
       case remaining of
         Some d \<Rightarrow> State_Monad.return (Ok (None, Some d))
       | None \<Rightarrow>
           (case Option.bind (st_OnCommit (ib_Status ib)) ocs_Pending of
              None \<Rightarrow> State_Monad.return Panic
            | Some p \<Rightarrow>
                let pendingCommit = ev_CommitSHA p in
                bind_res (State_Monad.return (isDuplicateCommit ib pendingCommit)) (\<lambda>dup.
                  if dup then do {
                    _ \<leftarrow> put_ib (upd_OnCommit (\<lambda>oc. oc\<lparr>ocs_Pending := None\<rparr>) ib);
                    r \<leftarrow> patch_status C ''failed to clear pending commit status'' ib;
                    State_Monad.return (map_res (\<lambda>_. (None, None)) r)
                  }
                  else bind_res (getActiveBuildRun C) (\<lambda>active.
                    case active of
                      Some br \<Rightarrow> State_Monad.return (Ok (Some br, None))
                    | None \<Rightarrow> ensureOnCommitBuildRun C pendingCommit)))))"
    by (auto simp: Let_def
        intro!: keeps_bind_res keeps_return kept_remainingWait kept_getActiveBuildRun clear
          trigger
        split: option.splits)
qed

lemma kept_reconcileBuildRun [keeps_intros]: "kept A k (reconcileBuildRun C)"
  by (auto simp: reconcileBuildRun_def intro!: kept_memory keeps_intros split: res.splits prod.splits)

lemma kept_reconcileStatus [keeps_intros]: "kept A k (reconcileStatus C b)"
  by (auto simp: reconcileStatus_def intro!: kept_memory keeps_intros split: option.splits)

lemma kept_reconcileFetched: "kept A k (reconcileFetched C)"
  by (auto simp: reconcileFetched_def intro!: keeps_intros split: res.splits prod.splits option.splits)

lemma valid_Reconcile:
  assumes "valid A w"
  shows "valid A (snd (run_state (Reconcile C req) w))"
proof (cases "cl_GetImageBuild C req w")
  case (Pair r w')
  from other_calls_law(1) [OF assms, of req] Pair have w': "valid A w'" by simp
  show ?thesis
  proof (cases r)
    case (Inl e)
    with Pair w' show ?thesis by (simp add: Reconcile_def)
  next
    case (Inr ib)
    from get_law [OF assms, of req ib w'] Pair Inr have "safe A req ib" by (simp add: safe_def)
    with kept_reconcileFetched [of A req] w' Pair Inr show ?thesis
      by (auto simp: Reconcile_def keeps_def split: prod.splits) (metis rstate.select_convs snd_conv)
  qed
qed

end

section \<open>The webhook handler\<close>

text \<open>
  The ImageBuilds a request is authenticated for, in the order of the handler's loop: the
  secret that the ImageBuild refers to has been read from the world as it is then, and the
  provider accepts the request with it. The loop ends at a secret that cannot be read and
  at a failed write.
\<close>

fun authenticated :: "'w Handler \<Rightarrow> 'w retry \<Rightarrow> webhookProvider \<Rightarrow> Request \<Rightarrow> string \<Rightarrow> pushEvent \<Rightarrow>
    time \<Rightarrow> ImageBuild list \<Rightarrow> 'w \<Rightarrow> ImageBuild list" where
  "authenticated h Retry p r body event now [] w = []"
| "authenticated h Retry p r body event now (ib # matches) w =
     (case run_state (getWebhookSecret (h_Client h) ib) w of
        (Inl e, w1) \<Rightarrow> []
      | (Inr secret, w1) \<Rightarrow>
          if wp_Authenticate p r body secret \<noteq> None
          then authenticated h Retry p r body event now matches w1
          else ib # (case run_state (patchOnCommitStatus (h_Client h) Retry ib event now) w1 of
                       (Some e, w2) \<Rightarrow> []
                     | (None, w2) \<Rightarrow> authenticated h Retry p r body event now matches
                                      (snd (run_state (eventAccepted h ib) w2))))"

text \<open>The commit of a push request that is accepted for the ImageBuild of a name.\<close>

definition accepted :: "'h hooklib \<Rightarrow> 'w Handler \<Rightarrow> 'w retry \<Rightarrow> Request \<Rightarrow> 'w \<Rightarrow> custody" where
  "accepted H h Retry r w k =
     {sha. \<exists>body p event items w1 now w2 ib.
        readEvent H r = Some (body, p, event) \<and> sha = pe_commitSHA event \<and>
        cl_ListImageBuilds (h_Client h) (LabelKeyOnCommitEnabled, ''true'') w = (Inr items, w1) \<and>
        cl_Now (h_Client h) w1 = (now, w2) \<and>
        ib \<in> set (authenticated h Retry p r body event now (findMatches H event items) w2) \<and>
        ib_key ib = k}"

lemma commits_recordEvent: "commits (recordEvent event now ib) \<subseteq> commits ib \<union> {pe_commitSHA event}"
  by (auto simp: commits_def commits_of_def recordEvent_def Let_def empty_OnCommitStatus_def split: option.splits)

locale hook_custodian = custodian C valid + retry_on_conflict Retry
  for C :: "'w client" and valid and Retry :: "'w retry" +
  fixes h :: "'w Handler"
  assumes client: "h_Client h = C"
    and recorder: "h_EventRecorder h = Some f \<Longrightarrow> valid A w \<Longrightarrow> valid A (f ib reason action msg w)"
begin

lemma valid_getWebhookSecret:
  "run_state (getWebhookSecret C ib) w = (r, w') \<Longrightarrow> valid A w \<Longrightarrow> valid A w'"
  using other_calls_law(5)
  by (auto simp: getWebhookSecret_def Let_def split: option.splits prod.splits) (metis snd_conv)+

lemma valid_recordOnce:
  assumes "recordOnce C ib event now w = (e, w')" and "valid A w"
    and "pe_commitSHA event \<in> A (ib_key ib)"
  shows "valid A w'"
proof (cases "cl_GetImageBuild C (ib_key ib) w")
  case (Pair r w1)
  from other_calls_law(1) [OF assms(2), of "ib_key ib"] Pair have w1: "valid A w1" by simp
  show ?thesis
  proof (cases r)
    case (Inl e)
    with assms(1) Pair w1 show ?thesis by (simp add: recordOnce_def)
  next
    case (Inr latest)
    with get_law [OF assms(2)] Pair have l: "ib_key latest = ib_key ib" "commits latest \<subseteq> A (ib_key ib)" by auto
    let ?new = "recordEvent event now latest"
    have "ib_key ?new = ib_key ib" by (simp add: l(1) recordEvent_def Let_def)
    moreover from commits_recordEvent [of event now latest] l(2) assms(3) have "commits ?new \<subseteq> A (ib_key ib)"
      by blast
    moreover obtain r' where "cl_PatchImageBuildStatus C latest ?new w1 = (r', w')"
      using assms(1) Pair Inr by (auto simp: recordOnce_def split: prod.splits sum.splits)
    ultimately show ?thesis using status_law [OF w1] by metis
  qed
qed

lemma valid_patchOnCommitStatus:
  assumes "run_state (patchOnCommitStatus C Retry ib event now) w = (e, w')" and "valid A w"
    and "pe_commitSHA event \<in> A (ib_key ib)"
  shows "valid A w'"
proof -
  obtain e' where "Retry (recordOnce C ib event now) w = (e', w')"
    using assms(1) by (auto simp: patchOnCommitStatus_def split: prod.splits option.splits)
  from invariant [of "recordOnce C ib event now" "valid A", OF _ assms(2) this] assms(3) show ?thesis
    using valid_recordOnce by blast
qed

lemma valid_eventAccepted: "valid A w \<Longrightarrow> valid A (snd (run_state (eventAccepted h ib) w))"
  by (auto simp: eventAccepted_def recorder split: option.splits)

lemma valid_authenticateAll:
  assumes "valid A w"
    and "\<And>ib. ib \<in> set (authenticated h Retry p r body event now ms w) \<Longrightarrow> pe_commitSHA event \<in> A (ib_key ib)"
  shows "valid A (snd (run_state (authenticateAll h Retry p r body event now ms n) w))"
  using assms
proof (induction ms arbitrary: w n)
  case Nil
  then show ?case by simp
next
  case (Cons ib ms)
  obtain s w1 where s: "run_state (getWebhookSecret C ib) w = (s, w1)" by fastforce
  from valid_getWebhookSecret [OF s Cons.prems(1)] have w1: "valid A w1" .
  show ?case
  proof (cases s)
    case (Inl e)
    with s w1 show ?thesis by (simp only: run_authenticateAll_Cons client) simp
  next
    case (Inr secret)
    show ?thesis
    proof (cases "wp_Authenticate p r body secret = None")
      case True
      with Cons.prems(2) [of ib] s Inr have sha: "pe_commitSHA event \<in> A (ib_key ib)" by (simp add: client)
      obtain e w2 where e: "run_state (patchOnCommitStatus C Retry ib event now) w1 = (e, w2)" by fastforce
      from valid_patchOnCommitStatus [OF e w1 sha] have w2: "valid A w2" .
      show ?thesis
      proof (cases e)
        case None
        have "valid A (snd (run_state (authenticateAll h Retry p r body event now ms (Suc n))
            (snd (run_state (eventAccepted h ib) w2))))"
          by (rule Cons.IH [OF valid_eventAccepted [OF w2]])
            (use Cons.prems(2) s Inr True e None in \<open>simp add: client\<close>)
        with s Inr True e None show ?thesis by (simp only: run_authenticateAll_Cons client) simp
      next
        case (Some x)
        with s Inr True e w2 show ?thesis by (simp only: run_authenticateAll_Cons client) simp
      qed
    next
      case False
      have "valid A (snd (run_state (authenticateAll h Retry p r body event now ms n) w1))"
        by (rule Cons.IH [OF w1]) (use Cons.prems(2) s Inr False in \<open>simp add: client\<close>)
      with s Inr False show ?thesis by (simp only: run_authenticateAll_Cons client) simp
    qed
  qed
qed

lemma valid_ServeHTTP:
  assumes "valid A w"
  shows "valid (\<lambda>k. A k \<union> accepted H h Retry r w k) (snd (run_state (ServeHTTP H h Retry r) w))"
    (is "valid ?A _")
proof -
  from mono [OF assms, of ?A] have v: "valid ?A w" by (simp add: le_fun_def)
  show ?thesis
  proof (cases "readEvent H r")
    case None
    then have "snd (run_state (ServeHTTP H h Retry r) w) = w"
      by (auto simp: readEvent_def ServeHTTP_def split: sum.splits prod.splits)
    with v show ?thesis by simp
  next
    case (Some x)
    then obtain body p event where x: "readEvent H r = Some (body, p, event)" by (cases x) auto
    obtain list w1 where list: "cl_ListImageBuilds C (LabelKeyOnCommitEnabled, ''true'') w = (list, w1)" by fastforce
    from other_calls_law(6) [OF v, of "(LabelKeyOnCommitEnabled, ''true'')"] list have w1: "valid ?A w1" by simp
    obtain now w2 where now: "cl_Now C w1 = (now, w2)" by fastforce
    from other_calls_law(10) [OF w1] now have w2: "valid ?A w2" by simp
    show ?thesis
    proof (cases list)
      case (Inl e)
      with x list w1 client show ?thesis by (simp add: run_ServeHTTP serveEvent_def)
    next
      case (Inr items)
      let ?ms = "findMatches H event items"
      have "valid ?A (snd (run_state (authenticateAll h Retry p r body event now ?ms 0) w2))"
        by (rule valid_authenticateAll [OF w2]) (use x list Inr now client in \<open>auto simp: accepted_def\<close>)
      with x list w1 client Inr now show ?thesis
        by (auto simp: run_ServeHTTP serveEvent_def Let_def split: list.splits prod.splits)
    qed
  qed
qed

end

section \<open>The system\<close>

text \<open>
  The states reachable when reconciles, webhook requests and other clients take turns in
  any order, together with the commits accepted so far. Other clients may do what keeps
  the objects valid: anything but name new commits in a status.
\<close>

inductive reachable :: "'w client \<Rightarrow> (custody \<Rightarrow> 'w \<Rightarrow> bool) \<Rightarrow> 'w retry \<Rightarrow> 'w Handler \<Rightarrow> 'h hooklib \<Rightarrow>
    custody \<Rightarrow> 'w \<Rightarrow> custody \<Rightarrow> 'w \<Rightarrow> bool"
  for C valid Retry h H A0 w0
where
  start: "reachable C valid Retry h H A0 w0 A0 w0"
| reconcile: "reachable C valid Retry h H A0 w0 A w \<Longrightarrow>
     reachable C valid Retry h H A0 w0 A (snd (run_state (Reconcile C req) w))"
| webhook: "reachable C valid Retry h H A0 w0 A w \<Longrightarrow>
     reachable C valid Retry h H A0 w0 (\<lambda>k. A k \<union> accepted H h Retry r w k) (snd (run_state (ServeHTTP H h Retry r) w))"
| other: "reachable C valid Retry h H A0 w0 A w \<Longrightarrow> (\<And>B. valid B w \<Longrightarrow> valid B w') \<Longrightarrow>
     reachable C valid Retry h H A0 w0 A w'"

context hook_custodian
begin

lemma reachable_valid:
  assumes "reachable C valid Retry h H A0 w0 A w" and "valid A0 w0"
  shows "valid A w"
  using assms
proof (induction rule: reachable.induct)
  case (reconcile A w req)
  then show ?case using valid_Reconcile by blast
next
  case (webhook A w r)
  then show ?case using valid_ServeHTTP by blast
qed auto

end

text \<open>
  C4. Custody of commits. In every state that reconciles, webhook requests and other clients
  reach together, in any order and with any failures, each commit that an ImageBuild's
  on-commit status names, as last received, pending or triggered, was either there at the
  start or is the commit of a push request that was accepted for this ImageBuild: one that
  the provider authenticated with a secret this ImageBuild refers to. Neither a lost
  write nor an object read from a stale cache brings in another commit, or one accepted
  for another ImageBuild.
\<close>

theorem commits_in_custody:
  assumes "hook_custodian C valid Retry h" and "valid A0 w0"
    and "reachable C valid Retry h H A0 w0 A w"
    and "cl_GetImageBuild C k w = (Inr ib, w')"
  shows "commits ib \<subseteq> A k"
  using custodian.get_law [OF hook_custodian.axioms(1) [OF assms(1)]
      hook_custodian.reachable_valid [OF assms(1,3,2)] assms(4)] by simp

section \<open>The contract can hold\<close>

definition mem_valid :: "custody \<Rightarrow> mem \<Rightarrow> bool" where
  "mem_valid A w \<longleftrightarrow> (\<forall>(k, ib) \<in> set (m_ImageBuilds w). ib_key ib = k \<and> commits ib \<subseteq> A k)"

lemma set_put: "set (put k v kvs) \<subseteq> insert (k, v) (set kvs)"
  by (induction k v kvs rule: put.induct) auto

lemma mem_valid_get: "mem_valid A w \<Longrightarrow> map_of (m_ImageBuilds w) k = Some ib \<Longrightarrow> ib_key ib = k \<and> commits ib \<subseteq> A k"
  by (auto simp: mem_valid_def dest!: map_of_SomeD)

lemma mem_valid_store:
  assumes "mem_valid A w" and "store_ImageBuild f new w = (r, w')"
    and "\<And>s. ib_key s = ib_key new \<Longrightarrow> commits s \<subseteq> A (ib_key new) \<Longrightarrow>
      ib_key (f s) = ib_key new \<and> commits (f s) \<subseteq> A (ib_key new)"
  shows "mem_valid A w' \<and> (case r of Inl _ \<Rightarrow> True | Inr ib \<Rightarrow> ib_key ib = ib_key new \<and> commits ib \<subseteq> A (ib_key new))"
proof (cases "map_of (m_ImageBuilds w) (ib_key new)")
  case None
  with assms(1,2) show ?thesis by (auto simp: store_ImageBuild_def not_found_def)
next
  case (Some s)
  from assms(3) mem_valid_get [OF assms(1) Some]
  have f: "ib_key (f s) = ib_key new" "commits (f s) \<subseteq> A (ib_key new)" by auto
  have "\<forall>(k, ib) \<in> insert (ib_key new, f s) (set (m_ImageBuilds w)). ib_key ib = k \<and> commits ib \<subseteq> A k"
    using assms(1) f by (auto simp: mem_valid_def)
  with set_put [of "ib_key new" "f s" "m_ImageBuilds w"]
  have "\<forall>(k, ib) \<in> set (put (ib_key new) (f s) (m_ImageBuilds w)). ib_key ib = k \<and> commits ib \<subseteq> A k"
    by blast
  then have "mem_valid A (w\<lparr>m_ImageBuilds := put (ib_key new) (f s) (m_ImageBuilds w)\<rparr>)"
    by (simp add: mem_valid_def)
  with assms(2) Some f show ?thesis by (auto simp: store_ImageBuild_def)
qed

lemma commits_merge:
  "commits (s\<lparr>ib_Status := merge_status (ib_Status a) (ib_Status b) (ib_Status s)\<rparr>) \<subseteq> commits s \<union> commits b"
  by (auto simp: commits_def commits_of_def merge_status_def merge_OnCommit_def merge_field_def
      split: option.splits if_splits)

lemma guarded_valid:
  assumes "guarded c f w = (r, w')" and "mem_valid A w"
    and "\<And>r w'. f w = (r, w') \<Longrightarrow> mem_valid A w' \<and> (case r of Inl _ \<Rightarrow> True | Inr x \<Rightarrow> Q x)"
  shows "mem_valid A w' \<and> (case r of Inl _ \<Rightarrow> True | Inr x \<Rightarrow> Q x)"
  using assms by (auto simp: guarded_def split: option.splits)

lemma ref_writes_valid:
  assumes "mem_valid A w"
  shows "commits new \<subseteq> A (ib_key new) \<Longrightarrow> cl_PatchImageBuildStatus ref_client orig new w = (r, w') \<Longrightarrow>
       mem_valid A w' \<and> (case r of Inl _ \<Rightarrow> True | Inr ib \<Rightarrow> ib_key ib = ib_key new \<and> commits ib \<subseteq> A (ib_key new))"
    and "cl_PatchImageBuild ref_client orig new w = (r, w') \<Longrightarrow>
       mem_valid A w' \<and> (case r of Inl _ \<Rightarrow> True | Inr ib \<Rightarrow> ib_key ib = ib_key new \<and> commits ib \<subseteq> A (ib_key new))"
    and "cl_UpdateImageBuild ref_client new w = (r, w') \<Longrightarrow>
       mem_valid A w' \<and> (case r of Inl _ \<Rightarrow> True | Inr ib \<Rightarrow> ib_key ib = ib_key new \<and> commits ib \<subseteq> A (ib_key new))"
proof -
  assume new: "commits new \<subseteq> A (ib_key new)" and "cl_PatchImageBuildStatus ref_client orig new w = (r, w')"
  then have run: "guarded (PatchImageBuildStatus orig new) (store_ImageBuild
      (\<lambda>s. s\<lparr>ib_Status := merge_status (ib_Status orig) (ib_Status new) (ib_Status s)\<rparr>) new) w = (r, w')"
    by (simp add: ref_client_def)
  show "mem_valid A w' \<and> (case r of Inl _ \<Rightarrow> True | Inr ib \<Rightarrow> ib_key ib = ib_key new \<and> commits ib \<subseteq> A (ib_key new))"
  proof (rule guarded_valid [OF run assms], erule mem_valid_store [OF assms], intro conjI)
    fix s
    assume s: "ib_key s = ib_key new" "commits s \<subseteq> A (ib_key new)"
    let ?m = "s\<lparr>ib_Status := merge_status (ib_Status orig) (ib_Status new) (ib_Status s)\<rparr>"
    from s(1) show "ib_key ?m = ib_key new" by simp
    from commits_merge [where s = s and a = "orig" and b = new] s(2) new show "commits ?m \<subseteq> A (ib_key new)" by blast
  qed
next
  assume "cl_PatchImageBuild ref_client orig new w = (r, w')"
  then have run: "guarded (PatchImageBuild orig new)
      (store_ImageBuild (\<lambda>s. s\<lparr>ib_Meta := ib_Meta new, ib_Spec := ib_Spec new\<rparr>) new) w = (r, w')"
    by (simp add: ref_client_def)
  show "mem_valid A w' \<and> (case r of Inl _ \<Rightarrow> True | Inr ib \<Rightarrow> ib_key ib = ib_key new \<and> commits ib \<subseteq> A (ib_key new))"
    by (rule guarded_valid [OF run assms], erule mem_valid_store [OF assms]) (simp add: commits_def)
next
  assume "cl_UpdateImageBuild ref_client new w = (r, w')"
  then have run: "guarded (UpdateImageBuild new)
      (store_ImageBuild (\<lambda>s. s\<lparr>ib_Meta := ib_Meta new, ib_Spec := ib_Spec new\<rparr>) new) w = (r, w')"
    by (simp add: ref_client_def)
  show "mem_valid A w' \<and> (case r of Inl _ \<Rightarrow> True | Inr ib \<Rightarrow> ib_key ib = ib_key new \<and> commits ib \<subseteq> A (ib_key new))"
    by (rule guarded_valid [OF run assms], erule mem_valid_store [OF assms]) (simp add: commits_def)
qed

lemma guarded_read:
  "(\<And>w. snd (f w) = w) \<Longrightarrow> snd (guarded c f w) = w"
  by (simp add: guarded_def split: option.splits)

interpretation ref_custody: custodian ref_client mem_valid
proof unfold_locales
  fix A :: custody and w :: mem and new orig :: ImageBuild
    and r :: "go_error + ImageBuild" and w' :: mem
  assume valid: "mem_valid A w"
  show "mem_valid B w" if "A \<le> B" for B
    using valid that by (fastforce simp: mem_valid_def le_fun_def)
  show "ib_key ib = k \<and> commits ib \<subseteq> A k" if "cl_GetImageBuild ref_client k w = (Inr ib, w')" for k ib
    using that mem_valid_get [OF valid]
    by (auto simp: ref_client_def guarded_def lookup_def not_found_def split: option.splits)
  show "mem_valid A w' \<and> (case r of Inl _ \<Rightarrow> True | Inr ib \<Rightarrow> ib_key ib = ib_key new \<and> commits ib \<subseteq> A (ib_key new))"
    if "commits new \<subseteq> A (ib_key new)" "cl_PatchImageBuildStatus ref_client orig new w = (r, w')"
    using ref_writes_valid(1) [OF valid that] .
  show "mem_valid A w' \<and> (case r of Inl _ \<Rightarrow> True | Inr ib \<Rightarrow> ib_key ib = ib_key new \<and> commits ib \<subseteq> A (ib_key new))"
    if "cl_PatchImageBuild ref_client orig new w = (r, w')"
    using ref_writes_valid(2) [OF valid that] .
  show "mem_valid A w' \<and> (case r of Inl _ \<Rightarrow> True | Inr ib \<Rightarrow> ib_key ib = ib_key new \<and> commits ib \<subseteq> A (ib_key new))"
    if "cl_UpdateImageBuild ref_client new w = (r, w')"
    using ref_writes_valid(3) [OF valid that] .
  show "mem_valid A (snd (cl_CreateBuildRun ref_client br w))" for br
    using valid
    by (auto simp: ref_client_def guarded_def ref_CreateBuildRun_def Let_def mem_valid_def split: option.splits)
  show "mem_valid A (snd (cl_CreateOrPatchBuild ref_client b f w))" for b f
    using valid
    by (auto simp: ref_client_def guarded_def ref_CreateOrPatchBuild_def Let_def mem_valid_def
        split: option.splits sum.splits)
  show "mem_valid A (snd (cl_GetImageBuild ref_client k w))"
    "mem_valid A (snd (cl_GetBuildRun ref_client k w))"
    "mem_valid A (snd (cl_GetSecret ref_client k w))" for k
    using valid by (simp_all add: ref_client_def guarded_read lookup_def)
  show "mem_valid A (snd (cl_GetImageBuildPolicy ref_client n w))"
    "mem_valid A (snd (cl_GetClusterBuildStrategy ref_client n w))" for n
    using valid by (simp_all add: ref_client_def guarded_read lookup_def)
  show "mem_valid A (snd (cl_ListImageBuilds ref_client sel w))" for sel
    using valid by (cases sel) (simp add: ref_client_def guarded_read)
  show "mem_valid A (snd (cl_SetStatusCondition ref_client cs c w))" for cs c
    using valid by (simp add: ref_client_def)
  show "mem_valid A (snd (cl_Now ref_client w))"
    using valid by (simp add: ref_client_def)
qed

interpretation ref_hook: hook_custodian ref_client mem_valid "attempts 3"
    "\<lparr>h_Client = ref_client, h_EventRecorder = None\<rparr>"
  by unfold_locales simp_all

end
