(* ===== verification/Witnesses.thy ===== *)
theory Witnesses
  imports Lost_Update Failure Provenance
begin

text \<open>
  Concrete inputs for the properties that have hypotheses: each lemma applies one
  property where its hypotheses hold, on the objects of \<open>Reference_Client\<close> and on a
  provider library that compares a header with the secret.
\<close>

section \<open>Objects\<close>

definition demo_run :: BuildRun where
  "demo_run = (newBuildRun demo_ib 1)\<lparr>br_Meta := (br_Meta (newBuildRun demo_ib 1))
     \<lparr>om_OwnerReferences := [\<lparr>or_UID = ''uid'', or_Controller = True\<rparr>]\<rparr>\<rparr>"

definition demo_commit_run :: BuildRun where
  "demo_commit_run = (onCommitBuildRun demo_ib 1)\<lparr>br_Meta := (br_Meta (onCommitBuildRun demo_ib 1))
     \<lparr>om_OwnerReferences := [\<lparr>or_UID = ''uid'', or_Controller = True\<rparr>]\<rparr>\<rparr>"

text \<open>The cluster of \<open>demo_mem\<close> in which a run exists already.\<close>

definition demo_mem_run :: "BuildRun \<Rightarrow> mem" where
  "demo_mem_run br = (demo_mem demo_ib)\<lparr>m_BuildRuns := [ObjectKeyOf (br_Meta br) \<mapsto> br]\<rparr>"

definition demo_pending :: ImageBuildOnCommitStatus where
  "demo_pending = empty_OnCommitStatus
     \<lparr>ocs_Pending := Some \<lparr>ev_Ref = ''refs/heads/main'', ev_CommitSHA = ''c1'', ev_ReceivedAt = 0\<rparr>\<rparr>"

text \<open>An ImageBuild that asks for rebuilds on commits, with or without a secret reference.\<close>

definition demo_commit_ib :: "ImageBuildOnCommit option \<Rightarrow> ImageBuild" where
  "demo_commit_ib oc = \<lparr>ib_Meta = demo_meta [LabelKeyOnCommitEnabled \<mapsto> ''true''],
     ib_Spec = demo_spec\<lparr>spec_Rebuild := Some \<lparr>rb_Mode = ''OnCommit''\<rparr>, spec_OnCommit := oc\<rparr>,
     ib_Status = demo_status\<lparr>st_OnCommit := Some demo_pending\<rparr>\<rparr>"

definition demo_secret_ref :: ImageBuildOnCommit where
  "demo_secret_ref = \<lparr>oc_WebhookSecretRef = \<lparr>sel_Name = ''hook'', sel_Key = ''token'', sel_Optional = None\<rparr>\<rparr>"

definition demo_push :: github_push where
  "demo_push = \<lparr>gh_SSHURL = '''', gh_CloneURL = ''https://git/r.git'', gh_Ref = ''refs/heads/main'',
     gh_After = ''c2''\<rparr>"

definition demo_hooklib :: "unit hooklib" where
  "demo_hooklib =
     \<lparr>vcsurl_Parse = (\<lambda>s. Inl (LibError OtherError ''unknown host'')),
      github_WebHookType = (\<lambda>r. Header_Get r ''X-Github-Event''),
      github_ParseWebHook_push = (\<lambda>body. Inr (PushEvent demo_push)),
      github_ValidatePayload = (\<lambda>r secret.
        if Header_Get r ''X-Hub-Signature'' = secret then Inr '''' else Inl (LibError OtherError ''bad'')),
      gitlab_PushEvents = ''Push Hook'',
      gitlab_Unmarshal = (\<lambda>body. Inl (LibError OtherError ''json'')),
      gitlab_New = (\<lambda>secret. Inr ()),
      gitlab_Parse = (\<lambda>h r. None)\<rparr>"

definition demo_request :: Request where
  "demo_request = \<lparr>req_Method = ''POST'',
     req_Header = (\<lambda>k. if k = ''X-Github-Event'' then [''push''] else []), req_Body = Inr ''body''\<rparr>"

definition demo_handler :: "mem Handler" where
  "demo_handler = \<lparr>h_Client = ref_client, h_EventRecorder = None\<rparr>"

lemmas demo_defs = demo_run_def demo_commit_run_def demo_mem_run_def demo_pending_def
  demo_commit_ib_def demo_secret_ref_def demo_push_def demo_hooklib_def demo_request_def
  demo_handler_def demo_mem_def demo_ib_def demo_meta_def demo_spec_def demo_status_def demo_key_def
  demo_policy_def empty_OnCommitStatus_def new_meta_def

lemmas ref_defs = ref_client_def guarded_def lookup_def ref_IsControlledBy_def controllerOf_def
  not_found_def

lemma demo_sync: "in_sync mem_stored mem_healthy id \<lparr>rs_ib = demo_ib, rs_world = demo_mem demo_ib\<rparr>"
  by (simp add: in_sync_def mem_stored_def mem_healthy_def demo_defs ObjectKeyOf_def)

lemma demo_drifted: "isSpecDrifted demo_ib"
  by (simp add: isSpecDrifted_def demo_defs)

lemma nextCounter_0 [simp]: "nextCounter 0 = 1"
  by (simp add: nextCounter_def)

section \<open>The controller\<close>

lemma run_names_unique_witness:
  "ObjectKeyOf (br_Meta (newBuildRun demo_ib 3)) \<noteq> ObjectKeyOf (br_Meta (newBuildRun demo_ib 4)) \<and>
   ObjectKeyOf (br_Meta (newBuildRun demo_ib 3)) \<noteq> ObjectKeyOf (br_Meta (onCommitBuildRun demo_ib 4))"
  using run_names_unique [of 3 4 demo_ib demo_ib] by simp

lemma build_mutation_converges_witness:
  "\<exists>b. mutateBuild ref_client demo_ib (newBuild demo_ib demo_policy ''absent'')
         (blankBuild (newBuild demo_ib demo_policy ''absent'')) = Inr b \<and>
     om_Labels (build_Meta b) LabelKeyParentImageBuild = Some ''ib'' \<and>
     mutateBuild ref_client demo_ib (newBuild demo_ib demo_policy ''absent'') b = Inr b"
proof -
  obtain b where "mutateBuild ref_client demo_ib (newBuild demo_ib demo_policy ''absent'')
      (blankBuild (newBuild demo_ib demo_policy ''absent'')) = Inr b"
    by (simp add: mutateBuild_def blankBuild_def ref_defs ref_SetControllerReference_def new_meta_def)
  with build_mutation_converges [OF ref_owner.controller_reference_axioms this] show ?thesis
    by (simp add: demo_ib_def demo_meta_def new_meta_def)
qed

lemma stale_run_taken_for_new_spec_witness:
  "\<exists>ib' ok k. recordBuildSpec demo_ib = Ok ib' \<and>
     lg (snd (run_state (reconcileDefaultBuildRun (logged ref_client))
       \<lparr>rs_ib = demo_ib, rs_world = (demo_mem_run demo_run, [])\<rparr>)) =
       [(GetBuildRun k (Some demo_run), True), (UpdateImageBuild ib', ok)] \<and>
     st_BuildRunCounter (ib_Status ib') = st_BuildRunCounter (ib_Status demo_ib) \<and>
     (isSpecDrifted ib' \<longleftrightarrow> st_LastBuildRunRef (ib_Status demo_ib) = '''')"
proof (rule stale_run_taken_for_new_spec [OF demo_drifted])
  show "cl_GetBuildRun ref_client (ObjectKeyOf (br_Meta (newBuildRun demo_ib
      (nextCounter (st_BuildRunCounter (ib_Status demo_ib)))))) (demo_mem_run demo_run) =
      (Inr demo_run, demo_mem_run demo_run)"
    by (simp add: ref_defs demo_defs ObjectKeyOf_def newBuildRun_def)
  show "IsControlledBy ref_client (br_Meta demo_run) (ib_Meta demo_ib)"
    by (simp add: ref_defs demo_defs newBuildRun_def)
qed

lemma stale_oncommit_run_blocks_witness:
  "run_state (ensureOnCommitBuildRun ref_client ''c1'')
     \<lparr>rs_ib = demo_commit_ib None, rs_world = demo_mem_run demo_commit_run\<rparr> =
   (Ok (Some demo_commit_run, None),
     \<lparr>rs_ib = demo_commit_ib None, rs_world = demo_mem_run demo_commit_run\<rparr>)"
proof (rule stale_oncommit_run_blocks [where oc = demo_pending])
  show "st_OnCommit (ib_Status (demo_commit_ib None)) = Some demo_pending"
    by (simp add: demo_commit_ib_def)
  show "cl_GetBuildRun ref_client (ObjectKeyOf (br_Meta (onCommitBuildRun (demo_commit_ib None)
      (nextCounter (ocs_TriggerCounter demo_pending))))) (demo_mem_run demo_commit_run) =
      (Inr demo_commit_run, demo_mem_run demo_commit_run)"
    by (simp add: ref_defs demo_defs ObjectKeyOf_def newBuildRun_def onCommitBuildRun_def)
  show "IsControlledBy ref_client (br_Meta demo_commit_run) (ib_Meta (demo_commit_ib None))"
    by (simp add: ref_defs demo_defs newBuildRun_def onCommitBuildRun_def)
qed

lemma missing_secret_stops_reconcile_witness:
  "fst (run_state (Reconcile (logged ref_client) demo_key)
     (demo_mem (demo_commit_ib (Some demo_secret_ref)), [])) = requeue errorRequeueInterval"
proof -
  let ?ib = "demo_commit_ib (Some demo_secret_ref)"
  have get: "cl_GetImageBuild ref_client demo_key (demo_mem ?ib) = (Inr ?ib, demo_mem ?ib)"
    by (simp add: ref_defs demo_defs)
  have label: "om_Labels (ib_Meta ?ib) LabelKeyOnCommitEnabled = Some (onCommitLabelValue ?ib)"
    by (simp add: demo_defs onCommitLabelValue_def go_consts)
  have oc: "spec_OnCommit (ib_Spec ?ib) = Some demo_secret_ref" by (simp add: demo_commit_ib_def)
  have secret: "cl_GetSecret ref_client
      \<lparr>nn_Namespace = ib_Namespace ?ib, nn_Name = sel_Name (oc_WebhookSecretRef demo_secret_ref)\<rparr> (demo_mem ?ib) =
      (Inl (LibError NotFound ''not found''), demo_mem ?ib)"
    by (simp add: ref_defs demo_defs)
  show ?thesis
    using missing_secret_stops_reconcile [OF get label oc refl secret] by (auto simp: IsNotFound_def)
qed

lemma label_follows_spec_witness:
  "\<exists>s'. run_state (ensureOnCommitLabel ref_client) \<lparr>rs_ib = demo_ib, rs_world = demo_mem demo_ib\<rparr> = (Ok (), s') \<and>
     om_Labels (ib_Meta (rs_ib s')) LabelKeyOnCommitEnabled = Some (onCommitLabelValue (rs_ib s'))"
  using label_follows_spec [OF ref.api_server_axioms demo_sync] by auto

lemma reconcileStatus_refines_witness:
  "\<exists>s'. run_state (reconcileStatus ref_client None) \<lparr>rs_ib = demo_ib, rs_world = demo_mem demo_ib\<rparr> = (Ok False, s') \<and>
     v_Condition (view_of (rs_ib s')) TypeReady =
       Some (ConditionTrue, ReasonReconciled, ''ImageBuild is reconciled'', 1)"
proof -
  have "a_reconcileStatus ref_client None (view_of demo_ib) =
      (a_condition TypeReady ConditionTrue ReasonReconciled ''ImageBuild is reconciled'' (view_of demo_ib), False)"
    by (simp add: a_reconcileStatus_def a_readyIsCurrent_def a_buildIsUnknown_def a_condition_def
        a_observe_def view_of_def cond_map_def demo_defs)
  with reconcileStatus_refines [OF ref.api_server_axioms demo_sync, of None] show ?thesis
    by (auto simp: a_condition_def a_observe_def view_of_def demo_defs)
qed

lemma status_reflects_run_witness:
  "\<exists>s'. run_state (reconcileStatus ref_client (Some demo_run))
       \<lparr>rs_ib = demo_ib, rs_world = demo_mem demo_ib\<rparr> = (Ok True, s') \<and>
     v_LastBuildRunRef (view_of (rs_ib s')) = br_Name demo_run"
proof -
  have "deriveBuildSucceededStatus ref_client demo_run =
      (ConditionUnknown, ReasonBuildRunPending, ''BuildRun has not reported status yet'')"
    by (simp add: deriveBuildSucceededStatus_def ref_client_def demo_run_def newBuildRun_def)
  from status_reflects_run [OF ref.api_server_axioms demo_sync this] show ?thesis by auto
qed

lemma changed_spec_built_once_witness:
  "\<exists>br s1 poll s2.
     run_state (reconcileDefaultBuildRun ref_client) \<lparr>rs_ib = demo_ib, rs_world = demo_mem demo_ib\<rparr> =
       (Ok (Some br), s1) \<and>
     run_state (reconcileStatus ref_client (Some br)) s1 = (Ok poll, s2) \<and>
     st_BuildRunCounter (ib_Status (rs_ib s2)) = 1 \<and> \<not> isSpecDrifted (rs_ib s2)"
proof -
  have "st_BuildRunCounter (ib_Status demo_ib) = 0" by (simp add: demo_defs)
  moreover have "m_BuildRuns (demo_mem demo_ib) k = None" for k by (simp add: demo_mem_def)
  ultimately show ?thesis
    using changed_spec_built_once [OF ref_runs.run_server_axioms demo_sync] demo_drifted by force
qed

section \<open>The webhook\<close>

definition demo_event :: pushEvent where
  "demo_event =
     \<lparr>pe_cloneURLs = [''https://git/r.git''], pe_ref = ''refs/heads/main'', pe_commitSHA = ''c2''\<rparr>"

lemma demo_readEvent:
  "readEvent demo_hooklib demo_request = Some (''body'', githubProvider demo_hooklib, demo_event)"
  by (simp add: demo_event_def readEvent_def detectProvider_def githubProvider_def github_Detect_def
      github_ReadPushEvent_def newPushEvent_def demo_defs Header_Get_def TrimSpace_def is_space_def)

lemma normalizeRepoURL_spellings_witness:
  "normalizeRepoURL ('' '' @ (''HTTPS://Git/R'' @ ''.GIT'' @ replicate 2 (CHR ''/'')) @ '' '') = ''https://git/r''"
proof -
  have low: "ToLower ''HTTPS://Git/R'' = ''https://git/r''" by code_simp
  have "normalizeRepoURL ('' '' @ (''HTTPS://Git/R'' @ ''.GIT'' @ replicate 2 (CHR ''/'')) @ '' '') =
      ToLower ''HTTPS://Git/R''"
  proof (rule normalizeRepoURL_spellings)
    show "TrimSpace ''HTTPS://Git/R'' = ''HTTPS://Git/R''" by code_simp
    show "\<not> HasSuffix (ToLower ''HTTPS://Git/R'') ''.git''" by code_simp
    show "ToLower ''.GIT'' = '''' \<or> ToLower ''.GIT'' = ''.git''" by code_simp
  qed (simp_all add: is_space_def)
  with low show ?thesis by simp
qed

lemma event_recorded_on_success_witness:
  "\<exists>w' latest w0 w1 ib'.
     run_state (patchOnCommitStatus ref_client (attempts 3) demo_ib demo_event 7)
       (demo_mem demo_ib) = (None, w') \<and>
     cl_GetImageBuild ref_client demo_key w0 = (Inr latest, w1)"
proof -
  have "fst (recordOnce ref_client demo_ib demo_event 7 (demo_mem demo_ib)) = None"
    by (simp add: recordOnce_def ref_defs demo_defs ObjectKeyOf_def store_ImageBuild_def recordEvent_def Let_def)
  then obtain w' where once: "recordOnce ref_client demo_ib demo_event 7 (demo_mem demo_ib) = (None, w')"
    by (cases "recordOnce ref_client demo_ib demo_event 7 (demo_mem demo_ib)") simp
  have "attempts 3 (recordOnce ref_client demo_ib demo_event 7) (demo_mem demo_ib) = (None, w')"
    using once by (simp add: numeral_3_eq_3)
  then have run: "run_state (patchOnCommitStatus ref_client (attempts 3) demo_ib demo_event 7) (demo_mem demo_ib) = (None, w')"
    by (simp add: patchOnCommitStatus_def)
  have "ObjectKeyOf (ib_Meta demo_ib) = demo_key" by (simp add: demo_defs ObjectKeyOf_def)
  with event_recorded_on_success [OF default_backoff.retry_on_conflict_axioms run] run
  show ?thesis by metis
qed

section \<open>Both together\<close>

lemma demo_commit_sync:
  "in_sync mem_stored mem_healthy id \<lparr>rs_ib = demo_commit_ib None, rs_world = demo_mem (demo_commit_ib None)\<rparr>"
  by (simp add: in_sync_def mem_stored_def mem_healthy_def demo_defs ObjectKeyOf_def)

lemma due_commit_built_once_witness:
  "\<exists>br s' t. run_state (reconcileOnCommitBuildRun ref_client)
       \<lparr>rs_ib = demo_commit_ib None, rs_world = demo_mem (demo_commit_ib None)\<rparr> = (Ok (Some br, None), s') \<and>
     m_BuildRuns (rs_world s') (ObjectKeyOf (br_Meta (onCommitBuildRun (demo_commit_ib None) 1))) = Some br \<and>
     st_OnCommit (ib_Status (rs_ib s')) = Some
       \<lparr>ocs_LastReceived = None, ocs_Pending = None,
        ocs_LastTriggeredBuildRun = Some \<lparr>lt_Name = br_Name br, lt_CommitSHA = ''c1'', lt_TriggeredAt = t\<rparr>,
        ocs_TriggerCounter = 1\<rparr>"
proof -
  let ?p = "\<lparr>ev_Ref = ''refs/heads/main'', ev_CommitSHA = ''c1'', ev_ReceivedAt = 0\<rparr>"
  let ?s = "\<lparr>rs_ib = demo_commit_ib None, rs_world = demo_mem (demo_commit_ib None)\<rparr>"
  have "onCommitLabelValue (demo_commit_ib None) = ''true''"
    by (simp add: onCommitLabelValue_def demo_defs go_consts)
  moreover have "due demo_pending ?p (m_Clock (demo_mem (demo_commit_ib None)))"
    by (simp add: due_def elapsed_def new_commit_def IsZero_def demo_defs)
  moreover have "idle ref_client (m_BuildRuns (demo_mem (demo_commit_ib None))) (demo_commit_ib None)"
    by (simp add: idle_def demo_defs)
  moreover have "m_BuildRuns (demo_mem (demo_commit_ib None)) k = None" for k by (simp add: demo_mem_def)
  ultimately show ?thesis
    using due_commit_built_once [OF ref_clock.clocked_server_axioms demo_commit_sync,
        of demo_pending ?p 1 "ObjectKeyOf (br_Meta (onCommitBuildRun (demo_commit_ib None) 1))"]
    by (force simp: demo_commit_ib_def demo_pending_def empty_OnCommitStatus_def)
qed

text \<open>A request is handled, then the ImageBuild reconciled, then read.\<close>

lemma commits_in_custody_witness:
  "let ib = demo_commit_ib (Some demo_secret_ref);
       w1 = snd (run_state (ServeHTTP demo_hooklib demo_handler (attempts 3) demo_request) (demo_mem ib));
       w2 = snd (run_state (Reconcile ref_client demo_key) w1) in
   case cl_GetImageBuild ref_client demo_key w2 of
     (Inl e, w') \<Rightarrow> True
   | (Inr ib', w') \<Rightarrow> commits ib' \<subseteq> {''c1''} \<union>
       accepted demo_hooklib demo_handler (attempts 3) demo_request (demo_mem ib) demo_key"
proof -
  let ?ib = "demo_commit_ib (Some demo_secret_ref)"
  let ?A = "\<lambda>k. if k = demo_key then {''c1''} else {}"
  have hook: "hook_custodian ref_client mem_valid (attempts 3) demo_handler"
    unfolding demo_handler_def by (rule ref_hook.hook_custodian_axioms)
  have start: "mem_valid ?A (demo_mem ?ib)"
    by (auto simp: mem_valid_def commits_def commits_of_def demo_defs ObjectKeyOf_def)
  note reach = reachable.reconcile [OF reachable.webhook [OF reachable.start,
        where r = demo_request and C = ref_client and H = demo_hooklib], where req = demo_key]
  show ?thesis
    using commits_in_custody [OF hook start reach]
    by (fastforce simp: Let_def split: prod.split sum.split)
qed

lemma newer_commit_erased_witness:
  "\<exists>w1 s' oc'. recordOnce ref_client (demo_commit_ib None) demo_event 7 (demo_mem (demo_commit_ib None)) = (None, w1) \<and>
     run_state (patchOnCommitTriggered ref_client demo_commit_run 1 ''c1'')
       \<lparr>rs_ib = demo_commit_ib None, rs_world = w1\<rparr> = (Ok (), s') \<and>
     st_OnCommit (ib_Status (rs_ib s')) = Some oc' \<and>
     map_option ev_CommitSHA (ocs_LastReceived oc') = Some ''c2'' \<and>
     run_state (reconcileOnCommitBuildRun ref_client) s' = (Ok (None, None), s')"
proof -
  have "st_OnCommit (ib_Status (demo_commit_ib None)) = Some demo_pending"
    "ocs_Pending demo_pending = Some \<lparr>ev_Ref = ''refs/heads/main'', ev_CommitSHA = ''c1'', ev_ReceivedAt = 0\<rparr>"
    by (simp_all add: demo_commit_ib_def demo_pending_def)
  from newer_commit_erased [OF ref_merge.merging_server_axioms demo_commit_sync, simplified, OF this,
      of demo_event 7 demo_commit_run 1]
  show ?thesis by (auto simp: demo_event_def)
qed

end
