(* ===== verification/Cluster.thy ===== *)
theory Cluster
  imports Convergence
begin

text \<open>
  The contract of a cluster that keeps objects, runs, Builds and settings, and the steps of
  a reconcile that come before the runs, under this contract: label, secret, Build.
\<close>

section \<open>The cluster\<close>

text \<open>What a reconcile reads and does not write.\<close>

record settings =
  cfg_Policy :: "string \<Rightarrow> ImageBuildPolicy option"
  cfg_Strategy :: "string \<Rightarrow> bool"
  cfg_Secret :: "NamespacedName \<Rightarrow> (string \<rightharpoonup> string) option"

locale cluster = run_server C stored healthy trunc runs
  for C :: "'w client" and stored healthy trunc runs +
  fixes builds :: "'w \<Rightarrow> NamespacedName \<Rightarrow> Build option" and settings :: "'w \<Rightarrow> settings"
  assumes reads:
    "healthy w \<Longrightarrow> stored w k = Some ib \<Longrightarrow> \<exists>w'. cl_GetImageBuild C k w = (Inr ib, w') \<and> healthy w' \<and>
       (stored w', runs w', builds w', settings w') = (stored w, runs w, builds w, settings w)"
    "healthy w \<Longrightarrow> cfg_Policy (settings w) n = Some p \<Longrightarrow>
       \<exists>w'. cl_GetImageBuildPolicy C n w = (Inr p, w') \<and> healthy w' \<and>
         (stored w', runs w', builds w', settings w') = (stored w, runs w, builds w, settings w)"
    "healthy w \<Longrightarrow> cfg_Strategy (settings w) n \<Longrightarrow>
       \<exists>w'. cl_GetClusterBuildStrategy C n w = (Inr (), w') \<and> healthy w' \<and>
         (stored w', runs w', builds w', settings w') = (stored w, runs w, builds w, settings w)"
    "healthy w \<Longrightarrow> cfg_Secret (settings w) k = Some d \<Longrightarrow>
       \<exists>w'. cl_GetSecret C k w = (Inr d, w') \<and> healthy w' \<and>
         (stored w', runs w', builds w', settings w') = (stored w, runs w, builds w, settings w)"
    and own_law:
    "SetControllerReference C owner m = Inr m' \<Longrightarrow> om_UID owner' = om_UID owner \<Longrightarrow>
       ObjectKeyOf owner' = ObjectKeyOf owner \<Longrightarrow> om_OwnerReferences a = om_OwnerReferences m' \<Longrightarrow>
       om_Namespace a = om_Namespace m' \<Longrightarrow>
       \<exists>a'. SetControllerReference C owner' a = Inr a'"
    and build_law:
    "healthy w \<Longrightarrow> f (case builds w (ObjectKeyOf (build_Meta b)) of None \<Rightarrow> b | Some x \<Rightarrow> x) = Inr wanted \<Longrightarrow>
       \<exists>b' w'. cl_CreateOrPatchBuild C b f w = (Inr b', w') \<and> build_Spec b' = build_Spec wanted \<and>
         om_OwnerReferences (build_Meta b') = om_OwnerReferences (build_Meta wanted) \<and>
         om_Namespace (build_Meta b') = om_Namespace (build_Meta wanted) \<and> healthy w' \<and>
         (stored w', runs w', builds w', settings w') =
           (stored w, runs w, (builds w)(ObjectKeyOf (build_Meta b) \<mapsto> b'), settings w)"
    and frame:
    "(builds (snd (cl_GetBuildRun C k w)), settings (snd (cl_GetBuildRun C k w))) = (builds w, settings w)"
    "(builds (snd (cl_CreateBuildRun C br w)), settings (snd (cl_CreateBuildRun C br w))) = (builds w, settings w)"
    "(builds (snd (cl_PatchImageBuildStatus C orig new w)), settings (snd (cl_PatchImageBuildStatus C orig new w))) =
       (builds w, settings w)"
    "(builds (snd (cl_UpdateImageBuild C new w)), settings (snd (cl_UpdateImageBuild C new w))) =
       (builds w, settings w)"
    "(runs (snd (cl_PatchImageBuild C orig new w)), builds (snd (cl_PatchImageBuild C orig new w)),
      settings (snd (cl_PatchImageBuild C orig new w))) = (runs w, builds w, settings w)"
    "(runs (snd (cl_SetStatusCondition C cs c w)), builds (snd (cl_SetStatusCondition C cs c w)),
      settings (snd (cl_SetStatusCondition C cs c w))) = (runs w, builds w, settings w)"

text \<open>The secret of the webhook exists, and an object can be taken into possession.\<close>

definition webhook_secret_ok :: "settings \<Rightarrow> ImageBuild \<Rightarrow> bool" where
  "webhook_secret_ok cfg ib \<longleftrightarrow>
     (case spec_OnCommit (ib_Spec ib) of
        None \<Rightarrow> True
      | Some oc \<Rightarrow> \<exists>d. cfg_Secret cfg \<lparr>nn_Namespace = ib_Namespace ib,
            nn_Name = sel_Name (oc_WebhookSecretRef oc)\<rparr> = Some d \<and> d (sel_Key (oc_WebhookSecretRef oc)) \<noteq> None)"

definition same_object :: "ObjectMeta \<Rightarrow> ObjectMeta \<Rightarrow> bool" where
  "same_object a b \<longleftrightarrow> om_UID a = om_UID b \<and> ObjectKeyOf a = ObjectKeyOf b"

definition ownable :: "'z lib_scheme \<Rightarrow> ObjectMeta \<Rightarrow> ObjectMeta \<Rightarrow> bool" where
  "ownable L owner m \<longleftrightarrow> (\<forall>o'. same_object o' owner \<longrightarrow> (\<exists>m'. SetControllerReference L o' m = Inr m'))"

lemma ownable_same: "same_object a b \<Longrightarrow> ownable L a = ownable L b"
  by (auto simp: ownable_def same_object_def fun_eq_iff)

text \<open>The Build is the one the spec and the policy call for, and stays in possession.\<close>

definition wanted_build :: "'z lib_scheme \<Rightarrow> ImageBuild \<Rightarrow> ImageBuildPolicy \<Rightarrow> Build \<Rightarrow> bool" where
  "wanted_build L ib policy b \<longleftrightarrow>
     build_Spec b = build_Spec (newBuild ib policy (selectedStrategyName ib policy)) \<and>
     ownable L (ib_Meta ib) (build_Meta b)"

definition build_key :: "ImageBuild \<Rightarrow> NamespacedName" where
  "build_key ib = \<lparr>nn_Namespace = ib_Namespace ib, nn_Name = buildNameFor ib\<rparr>"

section \<open>What steps leave alone\<close>

text \<open>How a part of the world is related before and after a step: the same, or not less.\<close>

definition moves :: "('x \<Rightarrow> 'x \<Rightarrow> bool) \<Rightarrow> ('w \<Rightarrow> 'x) \<Rightarrow> ('w rstate, 'a) state \<Rightarrow> bool" where
  "moves R f m \<longleftrightarrow> (\<forall>s. R (f (rs_world s)) (f (rs_world (snd (run_state m s)))))"

abbreviation steady :: "('w \<Rightarrow> 'x) \<Rightarrow> ('w rstate, 'a) state \<Rightarrow> bool" where
  "steady \<equiv> moves (=)"

abbreviation later :: "('w \<Rightarrow> 'x :: order) \<Rightarrow> ('w rstate, 'a) state \<Rightarrow> bool" where
  "later \<equiv> moves (\<le>)"

named_theorems steady_intros

lemma steady_return [steady_intros]: "reflp R \<Longrightarrow> moves R f (State_Monad.return a)"
  by (simp add: moves_def reflpD)

lemma steady_bind [steady_intros]:
  "transp R \<Longrightarrow> moves R f m \<Longrightarrow> (\<And>a. moves R f (g a)) \<Longrightarrow> moves R f (State_Monad.bind m g)"
  unfolding moves_def by (auto split: prod.splits) (metis snd_conv transpD)

lemma steady_bind_res [steady_intros]:
  "reflp R \<Longrightarrow> transp R \<Longrightarrow> moves R f m \<Longrightarrow> (\<And>a. moves R f (g a)) \<Longrightarrow> moves R f (bind_res m g)"
  unfolding bind_res_def by (auto intro!: steady_intros split: res.splits)

lemma steady_memory [steady_intros]: "reflp R \<Longrightarrow> moves R f get_ib" "reflp R \<Longrightarrow> moves R f (put_ib ib)"
  by (simp_all add: moves_def reflpD)

lemma steady_call: "(\<And>w. R (f w) (f (snd (g w)))) \<Longrightarrow> moves R f (call g)"
  by (auto simp: moves_def split: prod.splits) (metis snd_conv)

lemma movesD: "moves R f m \<Longrightarrow> run_state m s = (r, s') \<Longrightarrow> R (f (rs_world s)) (f (rs_world s'))"
  unfolding moves_def by (metis snd_conv)

lemma steadyD: "steady f m \<Longrightarrow> run_state m s = (r, s') \<Longrightarrow> f (rs_world s') = f (rs_world s)"
  using movesD [of "(=)" f m s r s'] by simp

context cluster
begin

abbreviation others :: "'w \<Rightarrow> (NamespacedName \<Rightarrow> Build option) \<times> settings" where
  "others w \<equiv> (builds w, settings w)"

lemma steady_runs_calls [steady_intros]:
  "steady runs (call (cl_PatchImageBuildStatus C orig new))"
  "steady runs (call (cl_PatchImageBuild C orig new))"
  "steady runs (call (cl_SetStatusCondition C cs c))"
  using frame(5,6) other_writes_law(1) by (auto intro!: steady_call) (metis surj_pair snd_conv)

lemma steady_others_calls [steady_intros]:
  "steady others (call (cl_GetBuildRun C k))" "steady others (call (cl_CreateBuildRun C br))"
  "steady others (call (cl_PatchImageBuildStatus C orig new))"
  "steady others (call (cl_UpdateImageBuild C new))" "steady others (call (cl_PatchImageBuild C orig new))"
  "steady others (call (cl_SetStatusCondition C cs c))"
  using frame by (auto intro!: steady_call)

lemmas step_defs = ensureOnCommitLabel_def patchBuildRef_def reconcileStatus_def patch_object_def
  patch_status_def update_object_def patchBuildSucceededCondition_def patchReadyCondition_def
  patchLatestImage_def set_status_condition_def getLastBuildRun_def getOrCreateBuildRun_def
  ensureBuildRun_def reconcileDefaultBuildRun_def Let_def

lemma steady_runs [steady_intros]:
  "steady runs (ensureOnCommitLabel C)" "steady runs (patchBuildRef C)" "steady runs (reconcileStatus C buildRun)"
  by (auto simp: step_defs intro!: steady_intros split: option.splits prod.splits sum.splits)

lemma steady_others [steady_intros]:
  "steady others (ensureOnCommitLabel C)" "steady others (patchBuildRef C)"
  "steady others (reconcileStatus C buildRun)" "steady others (reconcileDefaultBuildRun C)"
  by (auto simp: step_defs intro!: steady_intros split: option.splits prod.splits sum.splits)

section \<open>The steps\<close>

lemma run_validateWebhookSecret:
  fixes s :: "'w rstate"
  assumes "sync s" and "webhook_secret_ok (settings (rs_world s)) (rs_ib s)"
  shows "\<exists>w'. run_state (validateWebhookSecret C) s = (Ok (), s\<lparr>rs_world := w'\<rparr>) \<and> healthy w' \<and>
     (stored w', runs w', builds w', settings w') =
     (stored (rs_world s), runs (rs_world s), builds (rs_world s), settings (rs_world s))"
proof (cases "spec_OnCommit (ib_Spec (rs_ib s))")
  case None
  with assms(1) show ?thesis
    by (intro exI [of _ "rs_world s"]) (simp add: validateWebhookSecret_def in_sync_def)
next
  case (Some oc)
  from assms(1) have h: "healthy (rs_world s)" by (simp add: in_sync_def)
  from assms(2) Some obtain d where d: "cfg_Secret (settings (rs_world s)) \<lparr>nn_Namespace = ib_Namespace (rs_ib s),
      nn_Name = sel_Name (oc_WebhookSecretRef oc)\<rparr> = Some d" "d (sel_Key (oc_WebhookSecretRef oc)) \<noteq> None"
    by (auto simp: webhook_secret_ok_def)
  from reads(4) [OF h d(1)] Some d(2) show ?thesis
    by (auto simp: validateWebhookSecret_def Let_def)
qed

lemma run_ensureBuild:
  fixes s :: "'w rstate"
  defines "b0 \<equiv> builds (rs_world s) (build_key (rs_ib s))"
  assumes h: "healthy (rs_world s)" and strategy: "cfg_Strategy (settings (rs_world s)) n"
    and own: "case b0 of None \<Rightarrow> True | Some x \<Rightarrow> ownable C (ib_Meta (rs_ib s)) (build_Meta x)"
  shows "\<exists>b w'. run_state (ensureBuild C policy n) s = (Ok (), s\<lparr>rs_world := w'\<rparr>) \<and> healthy w' \<and>
     build_Spec b = build_Spec (newBuild (rs_ib s) policy n) \<and> ownable C (ib_Meta (rs_ib s)) (build_Meta b) \<and>
     (stored w', runs w', builds w', settings w') =
       (stored (rs_world s), runs (rs_world s), (builds (rs_world s))(build_key (rs_ib s) \<mapsto> b),
        settings (rs_world s))"
proof -
  let ?d = "newBuild (rs_ib s) policy n"
  let ?x = "case b0 of None \<Rightarrow> blankBuild ?d | Some x \<Rightarrow> x"
  have key: "ObjectKeyOf (build_Meta (blankBuild ?d)) = build_key (rs_ib s)"
    by (simp add: blankBuild_def build_key_def ObjectKeyOf_def new_meta_def)
  have "\<exists>m. SetControllerReference C (ib_Meta (rs_ib s)) (build_Meta ?x) = Inr m"
  proof (cases b0)
    case None
    have "om_OwnerReferences (build_Meta (blankBuild ?d)) = []" by (simp add: blankBuild_def new_meta_def)
    moreover have "om_Namespace (build_Meta (blankBuild ?d)) = om_Namespace (ib_Meta (rs_ib s))"
      by (simp add: blankBuild_def new_meta_def)
    ultimately show ?thesis using owner_law None by auto
  next
    case (Some x)
    with own show ?thesis by (simp add: ownable_def same_object_def)
  qed
  then obtain m wanted where m: "SetControllerReference C (ib_Meta (rs_ib s)) (build_Meta ?x) = Inr m"
    and new: "mutateBuild C (rs_ib s) ?d ?x = Inr wanted" "build_Spec wanted = build_Spec ?d"
      "om_OwnerReferences (build_Meta wanted) = om_OwnerReferences m"
      "om_Namespace (build_Meta wanted) = om_Namespace m"
    by (auto simp: mutateBuild_def)
  from reads(3) [OF h strategy] obtain w1 where w1: "cl_GetClusterBuildStrategy C n (rs_world s) = (Inr (), w1)"
    "healthy w1" "(stored w1, runs w1, builds w1, settings w1) =
      (stored (rs_world s), runs (rs_world s), builds (rs_world s), settings (rs_world s))" by blast
  have "mutateBuild C (rs_ib s) ?d (case builds w1 (ObjectKeyOf (build_Meta (blankBuild ?d))) of
      None \<Rightarrow> blankBuild ?d | Some x \<Rightarrow> x) = Inr wanted"
    using new(1) w1(3) key by (simp add: b0_def)
  from build_law [where b = "blankBuild ?d" and f = "mutateBuild C (rs_ib s) ?d", OF w1(2) this] obtain b w2 where
    "cl_CreateOrPatchBuild C (blankBuild ?d) (mutateBuild C (rs_ib s) ?d) w1 = (Inr b, w2)"
    "build_Spec b = build_Spec wanted" "om_OwnerReferences (build_Meta b) = om_OwnerReferences (build_Meta wanted)"
    "om_Namespace (build_Meta b) = om_Namespace (build_Meta wanted)" "healthy w2" "(stored w2, runs w2, builds w2, settings w2) =
       (stored w1, runs w1, (builds w1)(ObjectKeyOf (build_Meta (blankBuild ?d)) \<mapsto> b), settings w1)" by blast
  moreover from own_law [OF m] this(3,4) new(3,4) have "ownable C (ib_Meta (rs_ib s)) (build_Meta b)"
    by (simp add: ownable_def same_object_def)
  ultimately show ?thesis using w1(1,3) new(2) key
    by (intro exI [of _ b] exI [of _ w2]) (simp add: ensureBuild_def Let_def)
qed

lemma run_reconcileBuild:
  fixes s :: "'w rstate"
  defines "b0 \<equiv> builds (rs_world s) (build_key (rs_ib s))"
  assumes sync: "sync s" and policy: "cfg_Policy (settings (rs_world s)) policyName = Some policy"
    and strategy: "cfg_Strategy (settings (rs_world s)) (selectedStrategyName (rs_ib s) policy)"
    and own: "case b0 of None \<Rightarrow> True | Some x \<Rightarrow> ownable C (ib_Meta (rs_ib s)) (build_Meta x)"
  shows "\<exists>b s'. run_state (reconcileBuild C) s = (Ok (), s') \<and> sync s' \<and>
     wanted_build C (rs_ib s) policy b \<and>
     (runs (rs_world s'), builds (rs_world s'), settings (rs_world s')) =
       (runs (rs_world s), (builds (rs_world s))(build_key (rs_ib s) \<mapsto> b), settings (rs_world s)) \<and>
     view_of (rs_ib s') = (view_of (rs_ib s))
       \<lparr>v_ObservedGeneration := om_Generation (ib_Meta (rs_ib s)), v_BuildRef := buildNameFor (rs_ib s)\<rparr>"
proof -
  from sync have h: "healthy (rs_world s)" by (simp add: in_sync_def)
  from reads(2) [OF h policy] obtain w1 where
    w1: "cl_GetImageBuildPolicy C policyName (rs_world s) = (Inr policy, w1)" "healthy w1"
    "(stored w1, runs w1, builds w1, settings w1) =
      (stored (rs_world s), runs (rs_world s), builds (rs_world s), settings (rs_world s))" by blast
  let ?s1 = "s\<lparr>rs_world := w1\<rparr>"
  have "healthy (rs_world ?s1)" "cfg_Strategy (settings (rs_world ?s1)) (selectedStrategyName (rs_ib s) policy)"
    "case builds (rs_world ?s1) (build_key (rs_ib ?s1)) of
       None \<Rightarrow> True | Some x \<Rightarrow> ownable C (ib_Meta (rs_ib ?s1)) (build_Meta x)"
    using w1(2,3) strategy own by (simp_all add: b0_def split: option.splits)
  from run_ensureBuild [OF this, of policy] obtain b w2 where w2: "run_state (ensureBuild C policy (selectedStrategyName (rs_ib s) policy)) ?s1 =
      (Ok (), ?s1\<lparr>rs_world := w2\<rparr>)" "healthy w2"
    "wanted_build C (rs_ib s) policy b"
    "(stored w2, runs w2, builds w2, settings w2) =
      (stored w1, runs w1, (builds w1)(build_key (rs_ib s) \<mapsto> b), settings w1)"
    by (auto simp: wanted_build_def)
  let ?s2 = "s\<lparr>rs_world := w2\<rparr>"
  from sync w1(3) w2(2,4) have "sync ?s2" by (simp add: in_sync_def)
  from refinesD [OF refines_patchBuildRef this] obtain s3 where s3: "run_state (patchBuildRef C) ?s2 = (Ok (), s3)"
    "sync s3" and view: "view_of (rs_ib s3) = (if v_BuildRef (view_of (rs_ib ?s2)) = om_Name (v_Meta (view_of (rs_ib ?s2))) @ ''-build'' \<and>
     v_ObservedGeneration (view_of (rs_ib ?s2)) = om_Generation (v_Meta (view_of (rs_ib ?s2)))
     then view_of (rs_ib ?s2) else a_BuildRef (view_of (rs_ib ?s2)))" .
  have "view_of (rs_ib s3) = (view_of (rs_ib s))
      \<lparr>v_ObservedGeneration := om_Generation (ib_Meta (rs_ib s)), v_BuildRef := buildNameFor (rs_ib s)\<rparr>"
    unfolding view by (auto simp: view_of_def a_BuildRef_def a_observe_def buildNameFor_def)
  moreover have "runs (rs_world s3) = runs w2" "others (rs_world s3) = others w2"
    using steadyD [OF steady_runs(2) s3(1)] steadyD [OF steady_others(2) s3(1)] by simp_all
  moreover have "run_state (reconcileBuild C) s = (Ok (), s3)"
    using w1(1) w2(1) s3(1) by (simp add: reconcileBuild_def)
  ultimately show ?thesis using s3(2) w1(3) w2(3,4) by auto
qed

end

text \<open>The steps up to the runs: the label, the secret, the Build.\<close>

definition prepared :: "ImageBuild \<Rightarrow> view \<Rightarrow> view" where
  "prepared ib v = v
     \<lparr>v_Meta := (v_Meta v)\<lparr>om_Labels :=
        (om_Labels (v_Meta v))(LabelKeyOnCommitEnabled \<mapsto> onCommitLabelValue ib)\<rparr>,
      v_ObservedGeneration := om_Generation (v_Meta v), v_BuildRef := buildNameFor ib\<rparr>"

lemma view_fields [simp]:
  "v_Spec (view_of ib) = ib_Spec ib" "om_Name (v_Meta (view_of ib)) = ib_Name ib"
  "om_Namespace (v_Meta (view_of ib)) = ib_Namespace ib" "om_UID (v_Meta (view_of ib)) = om_UID (ib_Meta ib)"
  "om_Generation (v_Meta (view_of ib)) = om_Generation (ib_Meta ib)"
  "om_Labels (v_Meta (view_of ib)) = om_Labels (ib_Meta ib)"
  "om_Annotations (v_Meta (view_of ib)) = om_Annotations (ib_Meta ib)"
  "v_BuildRef (view_of ib) = st_BuildRef (ib_Status ib)"
  "v_LatestImage (view_of ib) = st_LatestImage (ib_Status ib)"
  "v_LastBuildRunRef (view_of ib) = st_LastBuildRunRef (ib_Status ib)"
  "v_BuildRunCounter (view_of ib) = st_BuildRunCounter (ib_Status ib)"
  "v_OnCommit (view_of ib) = st_OnCommit (ib_Status ib)"
  by (simp_all add: view_of_def)

text \<open>What depends on the spec, the name and the namespace only.\<close>

lemma same_spec:
  assumes "ib_Spec a = ib_Spec b" and "ib_Name a = ib_Name b" and "ib_Namespace a = ib_Namespace b"
  shows "newBuild a = newBuild b" "build_key a = build_key b" "buildNameFor a = buildNameFor b"
    "selectedStrategyName a = selectedStrategyName b" "webhook_secret_ok cfg a = webhook_secret_ok cfg b"
    "newBuildRun a = newBuildRun b" "onCommitLabelValue a = onCommitLabelValue b" "ib_key a = ib_key b"
  using assms
  by (auto simp: fun_eq_iff newBuild_def build_key_def buildNameFor_def selectedStrategyName_def webhook_secret_ok_def
      newBuildRun_def buildRunNameFor_def onCommitLabelValue_def ObjectKeyOf_def resolveRetention_def Let_def
      split: option.splits)

context cluster
begin

lemma run_prepare:
  fixes s :: "'w rstate"
  assumes sync: "sync s" and secret: "webhook_secret_ok (settings (rs_world s)) (rs_ib s)"
    and policy: "cfg_Policy (settings (rs_world s)) policyName = Some policy"
    and strategy: "cfg_Strategy (settings (rs_world s)) (selectedStrategyName (rs_ib s) policy)"
    and own: "case builds (rs_world s) (build_key (rs_ib s)) of
       None \<Rightarrow> True | Some x \<Rightarrow> ownable C (ib_Meta (rs_ib s)) (build_Meta x)"
  shows "\<exists>b s1 s2 s3. run_state (ensureOnCommitLabel C) s = (Ok (), s1) \<and>
     run_state (validateWebhookSecret C) s1 = (Ok (), s2) \<and> run_state (reconcileBuild C) s2 = (Ok (), s3) \<and>
     sync s3 \<and> view_of (rs_ib s3) = prepared (rs_ib s) (view_of (rs_ib s)) \<and>
     wanted_build C (rs_ib s) policy b \<and>
     (runs (rs_world s3), builds (rs_world s3), settings (rs_world s3)) =
       (runs (rs_world s), (builds (rs_world s))(build_key (rs_ib s) \<mapsto> b), settings (rs_world s))"
proof -
  from run_ensureOnCommitLabel [OF sync] obtain s1 where
    s1: "run_state (ensureOnCommitLabel C) s = (Ok (), s1)" "sync s1" and
    v1: "view_of (rs_ib s1) = (view_of (rs_ib s))
       \<lparr>v_Meta := (v_Meta (view_of (rs_ib s)))\<lparr>om_Labels := (om_Labels (ib_Meta (rs_ib s)))
          (LabelKeyOnCommitEnabled \<mapsto> onCommitLabelValue (rs_ib s))\<rparr>\<rparr>" by blast
  have f1: "runs (rs_world s1) = runs (rs_world s)" "builds (rs_world s1) = builds (rs_world s)"
    "settings (rs_world s1) = settings (rs_world s)"
    using steadyD [OF steady_runs(1) s1(1)] steadyD [OF steady_others(1) s1(1)] by simp_all
  have eq: "ib_Spec (rs_ib s1) = ib_Spec (rs_ib s)" "ib_Name (rs_ib s1) = ib_Name (rs_ib s)"
    "ib_Namespace (rs_ib s1) = ib_Namespace (rs_ib s)" "om_UID (ib_Meta (rs_ib s1)) = om_UID (ib_Meta (rs_ib s))"
    "om_Generation (ib_Meta (rs_ib s1)) = om_Generation (ib_Meta (rs_ib s))"
    using of_view(1-5) [OF v1] by simp_all
  note same = same_spec [OF eq(1-3)]
  have "same_object (ib_Meta (rs_ib s1)) (ib_Meta (rs_ib s))" using eq(2-4) by (simp add: same_object_def ObjectKeyOf_def)
  then have own1: "ownable C (ib_Meta (rs_ib s1)) = ownable C (ib_Meta (rs_ib s))" by (rule ownable_same)
  from run_validateWebhookSecret [OF s1(2)] secret f1(3) same(5) obtain w2 where
    s2: "run_state (validateWebhookSecret C) s1 = (Ok (), s1\<lparr>rs_world := w2\<rparr>)" "healthy w2"
    "(stored w2, runs w2, builds w2, settings w2) =
      (stored (rs_world s1), runs (rs_world s1), builds (rs_world s1), settings (rs_world s1))"
    by auto
  let ?s2 = "s1\<lparr>rs_world := w2\<rparr>"
  have "sync ?s2" using s1(2) s2(2,3) by (simp add: in_sync_def)
  moreover have "cfg_Policy (settings (rs_world ?s2)) policyName = Some policy"
    "cfg_Strategy (settings (rs_world ?s2)) (selectedStrategyName (rs_ib ?s2) policy)"
    "case builds (rs_world ?s2) (build_key (rs_ib ?s2)) of
       None \<Rightarrow> True | Some x \<Rightarrow> ownable C (ib_Meta (rs_ib ?s2)) (build_Meta x)"
    using policy strategy own s2(3) f1 same(2,4) own1 by (simp_all split: option.splits)
  ultimately obtain b s3 where s3: "run_state (reconcileBuild C) ?s2 = (Ok (), s3)" "sync s3"
    "wanted_build C (rs_ib ?s2) policy b"
    "(runs (rs_world s3), builds (rs_world s3), settings (rs_world s3)) =
       (runs (rs_world ?s2), (builds (rs_world ?s2))(build_key (rs_ib ?s2) \<mapsto> b), settings (rs_world ?s2))"
    and v3: "view_of (rs_ib s3) = (view_of (rs_ib ?s2))
       \<lparr>v_ObservedGeneration := om_Generation (ib_Meta (rs_ib ?s2)), v_BuildRef := buildNameFor (rs_ib ?s2)\<rparr>"
    using run_reconcileBuild [of ?s2 policy] by blast
  have "view_of (rs_ib s3) = prepared (rs_ib s) (view_of (rs_ib s))"
    using v3 v1 same(3) eq(5) by (simp add: prepared_def)
  moreover have "wanted_build C (rs_ib s) policy b"
    using s3(3) same(1,4) own1 by (simp add: wanted_build_def)
  ultimately show ?thesis using s1(1) s2(1,3) s3 f1 same
    by (intro exI [of _ b] exI [of _ s1] exI [of _ ?s2] exI [of _ s3]) simp
qed

end

section \<open>The contract can hold\<close>

definition mem_settings :: "mem \<Rightarrow> settings" where
  "mem_settings w =
     \<lparr>cfg_Policy = m_Policies w, cfg_Strategy = List.member (m_Strategies w), cfg_Secret = m_Secrets w\<rparr>"

lemma mem_settings_update [simp]:
  "mem_settings (w\<lparr>m_ImageBuilds := a\<rparr>) = mem_settings w" "mem_settings (w\<lparr>m_BuildRuns := b\<rparr>) = mem_settings w"
  "mem_settings (w\<lparr>m_Builds := c\<rparr>) = mem_settings w" for w :: mem
  by (simp_all add: mem_settings_def)

lemmas mem_defs = mem_healthy_def mem_stored_def guarded_def lookup_def not_found_def
  store_ImageBuild_def ref_CreateBuildRun_def ref_CreateOrPatchBuild_def ref_SetControllerReference_def
  controllerOf_def

interpretation ref_cluster: cluster ref_client mem_stored mem_healthy id m_BuildRuns m_Builds mem_settings
proof unfold_locales
  fix w :: mem and k ib n p d
  show "\<exists>w'. cl_GetImageBuild ref_client k w = (Inr ib, w') \<and> mem_healthy w' \<and>
      (mem_stored w', m_BuildRuns w', m_Builds w', mem_settings w') =
        (mem_stored w, m_BuildRuns w, m_Builds w, mem_settings w)"
    if "mem_healthy w" "mem_stored w k = Some ib"
    using that by (simp add: ref_client_def mem_defs)
  show "\<exists>w'. cl_GetImageBuildPolicy ref_client n w = (Inr p, w') \<and> mem_healthy w' \<and>
      (mem_stored w', m_BuildRuns w', m_Builds w', mem_settings w') =
        (mem_stored w, m_BuildRuns w, m_Builds w, mem_settings w)"
    if "mem_healthy w" "cfg_Policy (mem_settings w) n = Some p"
    using that by (simp add: ref_client_def mem_defs mem_settings_def)
  show "\<exists>w'. cl_GetClusterBuildStrategy ref_client n w = (Inr (), w') \<and> mem_healthy w' \<and>
      (mem_stored w', m_BuildRuns w', m_Builds w', mem_settings w') =
        (mem_stored w, m_BuildRuns w, m_Builds w, mem_settings w)"
    if "mem_healthy w" "cfg_Strategy (mem_settings w) n"
    using that by (simp add: ref_client_def mem_defs mem_settings_def)
  show "\<exists>w'. cl_GetSecret ref_client k w = (Inr d, w') \<and> mem_healthy w' \<and>
      (mem_stored w', m_BuildRuns w', m_Builds w', mem_settings w') =
        (mem_stored w, m_BuildRuns w, m_Builds w, mem_settings w)"
    if "mem_healthy w" "cfg_Secret (mem_settings w) k = Some d"
    using that by (simp add: ref_client_def mem_defs mem_settings_def)
next
  fix owner owner' m m' a :: ObjectMeta
  assume "SetControllerReference ref_client owner m = Inr m'" "om_UID owner' = om_UID owner"
    "om_OwnerReferences a = om_OwnerReferences m'"
  then show "\<exists>a'. SetControllerReference ref_client owner' a = Inr a'"
    by (auto simp: ref_client_def mem_defs find_append split: option.splits if_splits)
next
  fix w :: mem and f :: "Build \<Rightarrow> go_error + Build" and b wanted
  assume "mem_healthy w" "f (case m_Builds w (ObjectKeyOf (build_Meta b)) of None \<Rightarrow> b | Some x \<Rightarrow> x) = Inr wanted"
  then show "\<exists>b' w'. cl_CreateOrPatchBuild ref_client b f w = (Inr b', w') \<and> build_Spec b' = build_Spec wanted \<and>
      om_OwnerReferences (build_Meta b') = om_OwnerReferences (build_Meta wanted) \<and>
      om_Namespace (build_Meta b') = om_Namespace (build_Meta wanted) \<and> mem_healthy w' \<and>
      (mem_stored w', m_BuildRuns w', m_Builds w', mem_settings w') =
      (mem_stored w, m_BuildRuns w, (m_Builds w)(ObjectKeyOf (build_Meta b) \<mapsto> b'), mem_settings w)"
    by (simp add: ref_client_def mem_defs Let_def)
qed (auto simp: ref_client_def mem_defs Let_def split: option.splits)

end
