(* ===== verification/Whole_Reconcile.thy ===== *)
theory Whole_Reconcile
  imports Cluster
begin

text \<open>
  A reconcile from its read to its answer, against a cluster that keeps objects, runs,
  Builds and settings; and reconciles repeated until the outcome of a run is known.
\<close>

section \<open>The answer\<close>

text \<open>
  The object reports a run: label, reference to the Build, reference to the run, the two
  conditions and the image are up to date; spec and on-commit status are as they were.
\<close>

definition reports :: "'z lib_scheme \<Rightarrow> BuildRun \<Rightarrow> ImageBuild \<Rightarrow> ImageBuild \<Rightarrow> bool" where
  "reports L br ib ib' \<longleftrightarrow>
     same_object (ib_Meta ib') (ib_Meta ib) \<and>
     ib_Spec ib' = ib_Spec ib \<and> st_OnCommit (ib_Status ib') = st_OnCommit (ib_Status ib) \<and>
     om_Labels (ib_Meta ib') =
       (om_Labels (ib_Meta ib))(LabelKeyOnCommitEnabled \<mapsto> onCommitLabelValue ib) \<and>
     st_ObservedGeneration (ib_Status ib') = om_Generation (ib_Meta ib) \<and>
     st_BuildRef (ib_Status ib') = buildNameFor ib \<and> st_LastBuildRunRef (ib_Status ib') = br_Name br \<and>
     st_LatestImage (ib_Status ib') =
       (let img = image_of L (spec_Output (ib_Spec ib)) br in
        if IsSuccessful L (br_Status br) \<and> img \<noteq> '''' then img else st_LatestImage (ib_Status ib)) \<and>
     (\<exists>st reason msg m. deriveBuildSucceededStatus L br = (st, reason, msg) \<and>
        cond_map (st_Conditions (ib_Status ib')) TypeBuildSucceeded =
          Some (st, reason, msg, om_Generation (ib_Meta ib)) \<and>
        cond_map (st_Conditions (ib_Status ib')) TypeReady =
          Some (ConditionTrue, ReasonReconciled, m, om_Generation (ib_Meta ib)))"

definition poll_interval :: "'z lib_scheme \<Rightarrow> BuildRun \<Rightarrow> duration" where
  "poll_interval L br =
     (if fst (deriveBuildSucceededStatus L br) = ConditionUnknown then buildRunPollInterval else 0)"

lemma reports_status:
  assumes "view_of ib' = fst (a_reconcileStatus L (Some br) v)"
    and "v = prepared ib (view_of ib) \<or> v = a_built i (prepared ib (view_of ib))"
  shows "reports L br ib ib'" and "snd (a_reconcileStatus L (Some br) v) \<longleftrightarrow>
      fst (deriveBuildSucceededStatus L br) = ConditionUnknown"
proof -
  obtain st reason msg where der: "deriveBuildSucceededStatus L br = (st, reason, msg)" by (metis surj_pair)
  from a_reconcileStatus_run [OF der, of v] obtain m where
    a: "a_reconcileStatus L (Some br) v = (v\<lparr>v_ObservedGeneration := om_Generation (v_Meta v),
        v_LastBuildRunRef := br_Name br,
        v_LatestImage :=
          (let img = image_of L (spec_Output (v_Spec v)) br in
           if IsSuccessful L (br_Status br) \<and> img \<noteq> '''' then img else v_LatestImage v),
        v_Condition := (v_Condition v)
          (TypeBuildSucceeded \<mapsto> (st, reason, msg, om_Generation (v_Meta v)),
           TypeReady \<mapsto> (ConditionTrue, ReasonReconciled, m, om_Generation (v_Meta v)))\<rparr>,
      st = ConditionUnknown)" by blast
  from assms(1) have v: "view_of ib' = fst (a_reconcileStatus L (Some br) v)" .
  have obs: "st_ObservedGeneration (ib_Status ib') = v_ObservedGeneration (view_of ib')"
    and cond: "cond_map (st_Conditions (ib_Status ib')) = v_Condition (view_of ib')" by (simp_all add: view_of_def)
  have ne: "TypeBuildSucceeded \<noteq> TypeReady" by (simp add: go_consts)
  show "reports L br ib ib'"
    unfolding reports_def same_object_def ObjectKeyOf_def obs cond of_view [OF v] v a using assms(2) der ne
    by (elim disjE) (auto simp: prepared_def a_built_def Let_def)
  show "snd (a_reconcileStatus L (Some br) v) \<longleftrightarrow> fst (deriveBuildSucceededStatus L br) = ConditionUnknown"
    by (simp add: a der)
qed

text \<open>A reconcile all of whose steps succeed.\<close>

lemma run_Reconcile_stages:
  assumes "cl_GetImageBuild C req w = (Inr ib, w0)"
    and "run_state (ensureOnCommitLabel C) \<lparr>rs_ib = ib, rs_world = w0\<rparr> = (Ok (), s1)"
    and "run_state (validateWebhookSecret C) s1 = (Ok (), s2)"
    and "run_state (reconcileBuild C) s2 = (Ok (), s3)"
    and "run_state (reconcileBuildRun C) s3 = (Ok (buildRun, None), s4)"
    and "run_state (reconcileStatus C buildRun) s4 = (Ok poll, s5)"
  shows "run_state (Reconcile C req) w = (requeue (if poll then buildRunPollInterval else 0), rs_world s5)"
  using assms by (simp add: Reconcile_def reconcileFetched_def)

lemma run_reconcileBuildRun_default:
  assumes "\<not> isRebuildEnabled (rs_ib s)" and "run_state (reconcileDefaultBuildRun C) s = (Ok buildRun, s')"
  shows "run_state (reconcileBuildRun C) s = (Ok (buildRun, None), s')"
  using assms by (simp add: reconcileBuildRun_def reconcileOnCommitBuildRun_def)

lemma isRebuildEnabled_prepared:
  "view_of a = prepared ib (view_of ib) \<Longrightarrow> isRebuildEnabled a = isRebuildEnabled ib"
  using of_view(1,12) [of a "prepared ib (view_of ib)"] by (simp add: isRebuildEnabled_def prepared_def)

lemma isSpecDrifted_prepared:
  assumes "view_of a = prepared ib (view_of ib)"
  shows "isSpecDrifted a = isSpecDrifted ib"
proof -
  have "ib_Spec a = ib_Spec ib" "om_Annotations (ib_Meta a) = om_Annotations (ib_Meta ib)"
    "st_LastBuildRunRef (ib_Status a) = st_LastBuildRunRef (ib_Status ib)"
    using of_view(1,7,10) [OF assms] by (simp_all add: prepared_def)
  then show ?thesis by (simp only: isSpecDrifted_def)
qed

lemma ib_key_view: "v_Meta (view_of a) = v_Meta (view_of b) \<Longrightarrow> ib_key a = ib_key b"
  by (metis ObjectKeyOf_def view_fields(2,3))

lemma a_reconcileStatus_Meta: "v_Meta (fst (a_reconcileStatus L (Some br) v)) = v_Meta v"
proof -
  obtain st reason msg where "deriveBuildSucceededStatus L br = (st, reason, msg)" by (metis surj_pair)
  from a_reconcileStatus_run [OF this, of v] show ?thesis by auto
qed

text \<open>
  The cluster has what a reconcile of the object needs: the policy, the strategy it selects,
  the webhook's secret if the spec refers to one, and no Build of another owner under the
  Build's name.
\<close>

definition equipped :: "'z lib_scheme \<Rightarrow> settings \<Rightarrow> (NamespacedName \<Rightarrow> Build option) \<Rightarrow> ImageBuildPolicy \<Rightarrow>
    ImageBuild \<Rightarrow> bool" where
  "equipped L cfg bs policy ib \<longleftrightarrow>
     webhook_secret_ok cfg ib \<and> cfg_Policy cfg policyName = Some policy \<and>
     cfg_Strategy cfg (selectedStrategyName ib policy) \<and>
     (case bs (build_key ib) of
        None \<Rightarrow> True | Some x \<Rightarrow> ownable L (ib_Meta ib) (build_Meta x))"

text \<open>The steps of a reconcile up to the runs, and the state in which the runs are looked at.\<close>

definition preparation :: "('w, 'z) client_scheme \<Rightarrow> ('w rstate, (go_error, unit) res) state" where
  "preparation C =
     bind_res (ensureOnCommitLabel C) (\<lambda>_. bind_res (validateWebhookSecret C) (\<lambda>_. reconcileBuild C))"

definition prepares :: "('w, 'z) client_scheme \<Rightarrow> 'w \<Rightarrow> ImageBuild \<Rightarrow> 'w rstate \<Rightarrow> bool" where
  "prepares C w ib s \<longleftrightarrow>
     (\<exists>w0. cl_GetImageBuild C (ib_key ib) w = (Inr ib, w0) \<and>
        run_state (preparation C) \<lparr>rs_ib = ib, rs_world = w0\<rparr> = (Ok (), s))"

text \<open>A view as the run step leaves it, for an object that the reconcile goes on with.\<close>

definition ran_on :: "ImageBuild \<Rightarrow> view \<Rightarrow> bool" where
  "ran_on ib v \<longleftrightarrow> v = prepared ib (view_of ib) \<or> (\<exists>i. v = a_built i (prepared ib (view_of ib)))"

lemma reports_ran_on:
  assumes "ran_on ib v" and "view_of ib' = fst (a_reconcileStatus L (Some br) v)"
  shows "reports L br ib ib'"
    and "(if snd (a_reconcileStatus L (Some br) v) then buildRunPollInterval else 0) = poll_interval L br"
  using assms(1) reports_status [OF assms(2)] by (auto simp: ran_on_def poll_interval_def)

context cluster
begin

text \<open>
  The run step succeeds with a run; \<open>P\<close> is what is known of the run, the state after the step
  and the object reported on.
\<close>

definition run_step :: "'w \<Rightarrow> ImageBuild \<Rightarrow> (BuildRun \<Rightarrow> 'w rstate \<Rightarrow> ImageBuild \<Rightarrow> bool) \<Rightarrow> bool" where
  "run_step w ib P \<longleftrightarrow> (\<forall>s. prepares C w ib s \<longrightarrow> sync s \<longrightarrow> view_of (rs_ib s) = prepared ib (view_of ib) \<longrightarrow>
     runs (rs_world s) = runs w \<longrightarrow>
     (\<exists>br s' ib2. run_state (reconcileBuildRun C) s = (Ok (Some br, None), s') \<and> sync s' \<and>
        ib_key (rs_ib s') = ib_key ib \<and> others (rs_world s') = others (rs_world s) \<and>
        ran_on ib2 (view_of (rs_ib s')) \<and> P br s' ib2))"

text \<open>A reconcile that finds what it needs.\<close>

lemma run_Reconcile_with:
  assumes sync: "sync \<lparr>rs_ib = ib, rs_world = w\<rparr>" and eq: "equipped C (settings w) (builds w) policy ib"
    and flow: "run_step w ib P"
  shows "\<exists>br s ib2 b w' ib'. run_state (Reconcile C (ib_key ib)) w = (requeue (poll_interval C br), w') \<and>
     sync \<lparr>rs_ib = ib', rs_world = w'\<rparr> \<and> ib_key ib' = ib_key ib \<and> wanted_build C ib policy b \<and>
     (runs w', builds w', settings w') = (runs (rs_world s), (builds w)(build_key ib \<mapsto> b), settings w) \<and>
     reports C br ib2 ib' \<and> v_Meta (view_of ib') = v_Meta (view_of (rs_ib s)) \<and> P br s ib2"
proof -
  from sync have h: "healthy w" "stored w (ib_key ib) = Some ib" by (simp_all add: in_sync_def)
  from reads(1) [OF h] obtain w0 where w0: "cl_GetImageBuild C (ib_key ib) w = (Inr ib, w0)" "healthy w0"
    "(stored w0, runs w0, builds w0, settings w0) = (stored w, runs w, builds w, settings w)" by blast
  let ?s0 = "\<lparr>rs_ib = ib, rs_world = w0\<rparr>"
  have "sync ?s0" "webhook_secret_ok (settings (rs_world ?s0)) (rs_ib ?s0)"
    "cfg_Policy (settings (rs_world ?s0)) policyName = Some policy"
    "cfg_Strategy (settings (rs_world ?s0)) (selectedStrategyName (rs_ib ?s0) policy)"
    "case builds (rs_world ?s0) (build_key (rs_ib ?s0)) of
       None \<Rightarrow> True | Some x \<Rightarrow> ownable C (ib_Meta (rs_ib ?s0)) (build_Meta x)"
    using sync eq w0(2,3) by (simp_all add: in_sync_def equipped_def split: option.splits)
  from run_prepare [OF this] w0(3) obtain b s1 s2 s3 where
    pre: "run_state (ensureOnCommitLabel C) ?s0 = (Ok (), s1)"
      "run_state (validateWebhookSecret C) s1 = (Ok (), s2)" "run_state (reconcileBuild C) s2 = (Ok (), s3)"
    and s3: "sync s3" "view_of (rs_ib s3) = prepared ib (view_of ib)" "wanted_build C ib policy b"
      "(runs (rs_world s3), builds (rs_world s3), settings (rs_world s3)) =
         (runs w, (builds w)(build_key ib \<mapsto> b), settings w)"
    by auto
  have "prepares C w ib s3" using w0(1) pre by (auto simp: prepares_def preparation_def)
  from flow [unfolded run_step_def, rule_format, OF this s3(1,2)] s3(4) obtain br s4 ib2 where
    s4: "run_state (reconcileBuildRun C) s3 = (Ok (Some br, None), s4)" "sync s4" "ib_key (rs_ib s4) = ib_key ib"
      "others (rs_world s4) = others (rs_world s3)" "ran_on ib2 (view_of (rs_ib s4))" "P br s4 ib2" by auto
  from run_reconcileStatus [OF s4(2), of "Some br"] obtain s5 where
    s5: "run_state (reconcileStatus C (Some br)) s4 =
       (Ok (snd (a_reconcileStatus C (Some br) (view_of (rs_ib s4)))), s5)" "sync s5"
      "view_of (rs_ib s5) = fst (a_reconcileStatus C (Some br) (view_of (rs_ib s4)))" by blast
  note rep = reports_ran_on [OF s4(5) s5(3)]
  have "run_state (Reconcile C (ib_key ib)) w = (requeue (poll_interval C br), rs_world s5)"
    using run_Reconcile_stages [OF w0(1) pre s4(1) s5(1)] rep(2) by simp
  moreover have "runs (rs_world s5) = runs (rs_world s4)" "others (rs_world s5) = others (rs_world s4)"
    using steadyD [OF steady_runs(3) s5(1)] steadyD [OF steady_others(3) s5(1)] by simp_all
  moreover have m: "v_Meta (view_of (rs_ib s5)) = v_Meta (view_of (rs_ib s4))"
    by (simp only: s5(3) a_reconcileStatus_Meta)
  moreover from ib_key_view [OF m] s4(3) have "ib_key (rs_ib s5) = ib_key ib" by simp
  moreover have "sync \<lparr>rs_ib = rs_ib s5, rs_world = rs_world s5\<rparr>" using s5(2) by (simp add: in_sync_def)
  ultimately show ?thesis
    using rep(1) s3 s4
    by - (rule exI [of _ br], rule exI [of _ s4], rule exI [of _ ib2], rule exI [of _ b],
        rule exI [of _ "rs_world s5"], rule exI [of _ "rs_ib s5"], simp)
qed

text \<open>The two run steps of the default flow.\<close>

lemma drifted_step:
  fixes s :: "'w rstate"
  assumes s: "sync s" "view_of (rs_ib s) = prepared ib (view_of ib)"
    and quiet: "\<not> isRebuildEnabled ib" and drift: "isSpecDrifted ib"
    and k: "k = ObjectKeyOf (br_Meta (newBuildRun ib (nextCounter (st_BuildRunCounter (ib_Status ib)))))"
    and fresh: "runs (rs_world s) k = None"
  shows "\<exists>br s'. run_state (reconcileBuildRun C) s = (Ok (Some br, None), s') \<and> sync s' \<and>
     ib_key (rs_ib s') = ib_key ib \<and> others (rs_world s') = others (rs_world s) \<and>
     view_of (rs_ib s') = a_built ib (prepared ib (view_of ib)) \<and>
     ObjectKeyOf (br_Meta br) = k \<and> runs (rs_world s') = (runs (rs_world s))(k \<mapsto> br)"
proof -
  from of_view [OF s(2)] have eq: "ib_Spec (rs_ib s) = ib_Spec ib" "ib_Name (rs_ib s) = ib_Name ib"
    "ib_Namespace (rs_ib s) = ib_Namespace ib" "st_BuildRunCounter (ib_Status (rs_ib s)) = st_BuildRunCounter (ib_Status ib)"
    by (simp_all add: prepared_def)
  have "ObjectKeyOf (br_Meta (newBuildRun (rs_ib s) (nextCounter (st_BuildRunCounter (ib_Status (rs_ib s)))))) = k"
    using k same_spec(6) [OF eq(1-3)] eq(4) by simp
  with run_reconcileDefaultBuildRun [OF s(1)] isSpecDrifted_prepared [OF s(2)] drift fresh
  obtain br s' where r: "run_state (reconcileDefaultBuildRun C) s = (Ok (Some br), s')"
    "ObjectKeyOf (br_Meta br) = k" "runs (rs_world s') = (runs (rs_world s))(k \<mapsto> br)" "sync s'"
    and v: "view_of (rs_ib s') = a_built (rs_ib s) (view_of (rs_ib s))"
    by auto
  have v': "view_of (rs_ib s') = a_built ib (prepared ib (view_of ib))"
    using v s(2) eq(1) by (simp add: a_built_def inputs_of_def)
  from of_view(2,3) [OF v'] have "ib_key (rs_ib s') = ib_key ib"
    by (simp add: ObjectKeyOf_def a_built_def prepared_def)
  moreover have "run_state (reconcileBuildRun C) s = (Ok (Some br, None), s')"
    using run_reconcileBuildRun_default [OF _ r(1)] quiet isRebuildEnabled_prepared [OF s(2)] by simp
  ultimately show ?thesis using r(2-4) v' steadyD [OF steady_others(4) r(1)] by blast
qed

lemma known_step:
  fixes s :: "'w rstate"
  assumes s: "sync s" "view_of (rs_ib s) = prepared ib (view_of ib)"
    and quiet: "\<not> isRebuildEnabled ib" and drift: "\<not> isSpecDrifted ib"
    and run: "runs (rs_world s) \<lparr>nn_Namespace = ib_Namespace ib, nn_Name = st_LastBuildRunRef (ib_Status ib)\<rparr> = Some br"
  shows "\<exists>s'. run_state (reconcileBuildRun C) s = (Ok (Some br, None), s') \<and> sync s' \<and>
     ib_key (rs_ib s') = ib_key ib \<and> others (rs_world s') = others (rs_world s) \<and>
     view_of (rs_ib s') = prepared ib (view_of ib) \<and> runs (rs_world s') = runs (rs_world s)"
proof -
  from of_view [OF s(2)] have eq: "ib_Name (rs_ib s) = ib_Name ib" "ib_Namespace (rs_ib s) = ib_Namespace ib"
    "st_LastBuildRunRef (ib_Status (rs_ib s)) = st_LastBuildRunRef (ib_Status ib)"
    by (simp_all add: prepared_def)
  have ref: "st_LastBuildRunRef (ib_Status ib) \<noteq> ''''" using drift by (auto simp: isSpecDrifted_def)
  from s(1) have "healthy (rs_world s)" by (simp add: in_sync_def)
  from get_run_law [OF this, of "\<lparr>nn_Namespace = ib_Namespace ib, nn_Name = st_LastBuildRunRef (ib_Status ib)\<rparr>"] run
  obtain w' where w': "cl_GetBuildRun C \<lparr>nn_Namespace = ib_Namespace ib,
      nn_Name = st_LastBuildRunRef (ib_Status ib)\<rparr> (rs_world s) = (Inr br, w')"
    "healthy w'" "stored w' = stored (rs_world s)" "runs w' = runs (rs_world s)" by auto
  have "\<not> isSpecDrifted (rs_ib s)" using isSpecDrifted_prepared [OF s(2)] drift by simp
  then have r: "run_state (reconcileDefaultBuildRun C) s = (Ok (Some br), s\<lparr>rs_world := w'\<rparr>)"
    using ref w'(1) eq by (simp add: reconcileDefaultBuildRun_def getLastBuildRun_def Let_def)
  have "run_state (reconcileBuildRun C) s = (Ok (Some br, None), s\<lparr>rs_world := w'\<rparr>)"
    using run_reconcileBuildRun_default [OF _ r] quiet isRebuildEnabled_prepared [OF s(2)] by simp
  then show ?thesis
    using s w'(2-4) eq(1,2) steadyD [OF steady_others(4) r]
    by (intro exI [of _ "s\<lparr>rs_world := w'\<rparr>"]) (simp add: in_sync_def ObjectKeyOf_def)
qed

text \<open>Reconciles of an ImageBuild that has no commit pending.\<close>

lemma reconcile_drifted:
  assumes "sync \<lparr>rs_ib = ib, rs_world = w\<rparr>" and "equipped C (settings w) (builds w) policy ib"
    and "\<not> isRebuildEnabled ib" and "isSpecDrifted ib"
    and k: "k = ObjectKeyOf (br_Meta (newBuildRun ib (nextCounter (st_BuildRunCounter (ib_Status ib)))))"
    and "runs w k = None"
  shows "\<exists>br b w' ib'. run_state (Reconcile C (ib_key ib)) w = (requeue (poll_interval C br), w') \<and>
     sync \<lparr>rs_ib = ib', rs_world = w'\<rparr> \<and> ib_key ib' = ib_key ib \<and>
     runs w' = (runs w)(k \<mapsto> br) \<and> builds w' = (builds w)(build_key ib \<mapsto> b) \<and> settings w' = settings w \<and>
     wanted_build C ib policy b \<and> reports C br ib ib' \<and> \<not> isSpecDrifted ib'"
proof -
  let ?P = "\<lambda>br (s :: 'w rstate) ib2. ib2 = ib \<and> runs (rs_world s) = (runs w)(k \<mapsto> br) \<and> ObjectKeyOf (br_Meta br) = k \<and>
      view_of (rs_ib s) = a_built ib (prepared ib (view_of ib))"
  have "run_step w ib ?P"
    unfolding run_step_def
  proof (intro allI impI)
    fix s
    assume that: "prepares C w ib s" "sync s" "view_of (rs_ib s) = prepared ib (view_of ib)" "runs (rs_world s) = runs w"
    from drifted_step [OF that(2,3) assms(3-5)] assms(6) that(4) obtain br s' where
      r: "run_state (reconcileBuildRun C) s = (Ok (Some br, None), s')" "sync s'" "ib_key (rs_ib s') = ib_key ib"
      "others (rs_world s') = others (rs_world s)" "view_of (rs_ib s') = a_built ib (prepared ib (view_of ib))"
      "ObjectKeyOf (br_Meta br) = k" "runs (rs_world s') = (runs w)(k \<mapsto> br)" by metis
    then have "ran_on ib (view_of (rs_ib s'))" by (auto simp: ran_on_def)
    with r show "\<exists>br s' ib2. run_state (reconcileBuildRun C) s = (Ok (Some br, None), s') \<and> sync s' \<and>
        ib_key (rs_ib s') = ib_key ib \<and> others (rs_world s') = others (rs_world s) \<and>
        ran_on ib2 (view_of (rs_ib s')) \<and> ?P br s' ib2" by (intro exI conjI) (assumption | rule refl)+
  qed
  from run_Reconcile_with [OF assms(1,2) this] obtain br b w' ib' ib2 and s :: "'w rstate" where
    r: "run_state (Reconcile C (ib_key ib)) w = (requeue (poll_interval C br), w')"
      "sync \<lparr>rs_ib = ib', rs_world = w'\<rparr>" "ib_key ib' = ib_key ib" "wanted_build C ib policy b"
      "(runs w', builds w', settings w') = (runs (rs_world s), (builds w)(build_key ib \<mapsto> b), settings w)"
    and "reports C br ib2 ib'" "v_Meta (view_of ib') = v_Meta (view_of (rs_ib s))" and p: "?P br s ib2"
    by blast
  then have rep: "reports C br ib ib'"
    and meta: "v_Meta (view_of ib') = v_Meta (a_built ib (prepared ib (view_of ib)))" by simp_all
  have "om_Annotations (ib_Meta ib') AnnotationKeyLastBuildSpec = Some (json_Marshal (inputs_of ib))"
    using arg_cong [OF meta, of om_Annotations] by (simp add: a_built_def)
  moreover have "st_LastBuildRunRef (ib_Status ib') \<noteq> ''''"
    using rep p k newBuildRun_name_ne [of ib "nextCounter (st_BuildRunCounter (ib_Status ib))"]
    by (simp add: reports_def ObjectKeyOf_def)
  moreover have "inputs_of ib' = inputs_of ib" using rep by (simp add: reports_def inputs_of_def)
  ultimately have "\<not> isSpecDrifted ib'" by (simp add: isSpecDrifted_recorded)
  with r p rep show ?thesis by auto
qed

lemma reconcile_known_run:
  assumes "sync \<lparr>rs_ib = ib, rs_world = w\<rparr>" and "equipped C (settings w) (builds w) policy ib"
    and "\<not> isRebuildEnabled ib" and "\<not> isSpecDrifted ib"
    and "runs w \<lparr>nn_Namespace = ib_Namespace ib, nn_Name = st_LastBuildRunRef (ib_Status ib)\<rparr> = Some br"
    and name: "br_Name br = st_LastBuildRunRef (ib_Status ib)"
  shows "\<exists>b w' ib'. run_state (Reconcile C (ib_key ib)) w = (requeue (poll_interval C br), w') \<and>
     sync \<lparr>rs_ib = ib', rs_world = w'\<rparr> \<and> ib_key ib' = ib_key ib \<and>
     runs w' = runs w \<and> builds w' = (builds w)(build_key ib \<mapsto> b) \<and> settings w' = settings w \<and>
     wanted_build C ib policy b \<and> reports C br ib ib' \<and> \<not> isSpecDrifted ib'"
proof -
  let ?P = "\<lambda>br' (s :: 'w rstate) ib2. br' = br \<and> ib2 = ib \<and> runs (rs_world s) = runs w \<and>
      view_of (rs_ib s) = prepared ib (view_of ib)"
  have "run_step w ib ?P"
    unfolding run_step_def
  proof (intro allI impI)
    fix s
    assume that: "prepares C w ib s" "sync s" "view_of (rs_ib s) = prepared ib (view_of ib)" "runs (rs_world s) = runs w"
    from known_step [OF that(2,3) assms(3,4), of br] assms(5) that(4) obtain s' where
      r: "run_state (reconcileBuildRun C) s = (Ok (Some br, None), s')" "sync s'" "ib_key (rs_ib s') = ib_key ib"
      "others (rs_world s') = others (rs_world s)" "view_of (rs_ib s') = prepared ib (view_of ib)"
      "runs (rs_world s') = runs w" by metis
    then have "ran_on ib (view_of (rs_ib s'))" by (simp add: ran_on_def)
    with r show "\<exists>br' s' ib2. run_state (reconcileBuildRun C) s = (Ok (Some br', None), s') \<and> sync s' \<and>
        ib_key (rs_ib s') = ib_key ib \<and> others (rs_world s') = others (rs_world s) \<and>
        ran_on ib2 (view_of (rs_ib s')) \<and> ?P br' s' ib2" by (intro exI conjI) (assumption | rule refl)+
  qed
  from run_Reconcile_with [OF assms(1,2) this] obtain br' b w' ib' ib2 and s :: "'w rstate" where
    r: "run_state (Reconcile C (ib_key ib)) w = (requeue (poll_interval C br'), w')"
      "sync \<lparr>rs_ib = ib', rs_world = w'\<rparr>" "ib_key ib' = ib_key ib" "wanted_build C ib policy b"
      "(runs w', builds w', settings w') = (runs (rs_world s), (builds w)(build_key ib \<mapsto> b), settings w)"
    and "reports C br' ib2 ib'" "v_Meta (view_of ib') = v_Meta (view_of (rs_ib s))" and p: "?P br' s ib2"
    by blast
  then have rep: "reports C br ib ib'"
    and meta: "v_Meta (view_of ib') = v_Meta (prepared ib (view_of ib))" by simp_all
  have "om_Annotations (ib_Meta ib') = om_Annotations (ib_Meta ib)"
    using arg_cong [OF meta, of om_Annotations] by (simp add: prepared_def)
  moreover have "ib_Spec ib' = ib_Spec ib" "st_LastBuildRunRef (ib_Status ib') = st_LastBuildRunRef (ib_Status ib)"
    using rep name by (simp_all add: reports_def)
  ultimately have "\<not> isSpecDrifted ib'" using assms(4) by (simp only: isSpecDrifted_def not_False_eq_True)
  with r p rep show ?thesis by auto
qed

end

section \<open>The properties\<close>

text \<open>
  C8. A changed spec is reconciled. On a cluster that keeps what it is given and has what
  is needed, a reconcile of an ImageBuild whose spec is not built yet (and that has no
  commit pending) brings the Build up to date, creates exactly the run of the next
  counter, and leaves an ImageBuild that reports this run and is no longer drifted; the
  reconcile is repeated after ten seconds exactly if the outcome of the run is unknown.
\<close>

theorem changed_spec_reconciled:
  assumes "cluster C stored healthy trunc runs builds settings"
    and "in_sync stored healthy trunc \<lparr>rs_ib = ib, rs_world = w\<rparr>"
    and "equipped C (settings w) (builds w) policy ib"
    and "\<not> isRebuildEnabled ib" and "isSpecDrifted ib"
    and "k = ObjectKeyOf (br_Meta (newBuildRun ib (nextCounter (st_BuildRunCounter (ib_Status ib)))))"
    and "runs w k = None"
  shows "\<exists>br b w' ib'. run_state (Reconcile C (ib_key ib)) w = (requeue (poll_interval C br), w') \<and>
     in_sync stored healthy trunc \<lparr>rs_ib = ib', rs_world = w'\<rparr> \<and> ib_key ib' = ib_key ib \<and>
     runs w' = (runs w)(k \<mapsto> br) \<and> builds w' = (builds w)(build_key ib \<mapsto> b) \<and>
     settings w' = settings w \<and>
     wanted_build C ib policy b \<and>
     reports C br ib ib' \<and> \<not> isSpecDrifted ib'"
  by (rule cluster.reconcile_drifted [OF assms])

text \<open>
  C20. A run is reported, and an unchanged spec is not built again. On such a cluster a
  reconcile of an ImageBuild that is not drifted (and has no commit pending) creates no
  run; it keeps the Build up to date and leaves an ImageBuild that reports the run its
  status refers to, with the image on success, and is still not drifted. So it can be
  repeated until the outcome of the run is known; then no further reconcile is asked for.
\<close>

theorem known_run_reported:
  assumes "cluster C stored healthy trunc runs builds settings"
    and "in_sync stored healthy trunc \<lparr>rs_ib = ib, rs_world = w\<rparr>"
    and "equipped C (settings w) (builds w) policy ib"
    and "\<not> isRebuildEnabled ib" and "\<not> isSpecDrifted ib"
    and "runs w \<lparr>nn_Namespace = ib_Namespace ib, nn_Name = st_LastBuildRunRef (ib_Status ib)\<rparr> = Some br"
    and "br_Name br = st_LastBuildRunRef (ib_Status ib)"
  shows "\<exists>b w' ib'. run_state (Reconcile C (ib_key ib)) w = (requeue (poll_interval C br), w') \<and>
     in_sync stored healthy trunc \<lparr>rs_ib = ib', rs_world = w'\<rparr> \<and> ib_key ib' = ib_key ib \<and>
     runs w' = runs w \<and> builds w' = (builds w)(build_key ib \<mapsto> b) \<and> settings w' = settings w \<and>
     wanted_build C ib policy b \<and>
     reports C br ib ib' \<and> \<not> isSpecDrifted ib'"
  by (rule cluster.reconcile_known_run [OF assms])

section \<open>Repeated reconciles\<close>

text \<open>
  Reconciles of one ImageBuild, one after the other; between them something happens in
  the cluster.
\<close>

fun rounds :: "'w client \<Rightarrow> NamespacedName \<Rightarrow> (nat \<Rightarrow> 'w \<Rightarrow> 'w) \<Rightarrow> nat \<Rightarrow> 'w \<Rightarrow> 'w" where
  "rounds C req tick 0 w = w"
| "rounds C req tick (Suc n) w = tick n (snd (run_state (Reconcile C req) (rounds C req tick n w)))"

lemma equipped_after:
  assumes "equipped L cfg bs policy ib" and "reports L br ib ib'" and "wanted_build L ib policy b"
  shows "equipped L cfg (bs(build_key ib \<mapsto> b)) policy ib'"
proof -
  have eq: "ib_Spec ib' = ib_Spec ib" "ib_Name ib' = ib_Name ib" "ib_Namespace ib' = ib_Namespace ib"
    using assms(2) by (simp_all add: reports_def same_object_def ObjectKeyOf_def)
  have own: "ownable L (ib_Meta ib') = ownable L (ib_Meta ib)"
    using assms(2) by (intro ownable_same) (simp add: reports_def)
  show ?thesis
    using assms(1,3) by (simp add: equipped_def wanted_build_def same_spec [OF eq] own)
qed

lemma isRebuildEnabled_after: "reports L br ib ib' \<Longrightarrow> isRebuildEnabled ib' = isRebuildEnabled ib"
  by (simp add: reports_def isRebuildEnabled_def)

text \<open>The situation in which a run is polled, and that a round and what follows it keep it.\<close>

definition polled :: "'w client \<Rightarrow> ('w \<Rightarrow> NamespacedName \<Rightarrow> ImageBuild option) \<Rightarrow> ('w \<Rightarrow> bool) \<Rightarrow>
    (time \<Rightarrow> time) \<Rightarrow> ('w \<Rightarrow> NamespacedName \<Rightarrow> BuildRun option) \<Rightarrow> ('w \<Rightarrow> NamespacedName \<Rightarrow> Build option) \<Rightarrow>
    ('w \<Rightarrow> settings) \<Rightarrow> ImageBuildPolicy \<Rightarrow> BuildRun \<Rightarrow> ImageBuild \<Rightarrow> 'w \<Rightarrow> bool" where
  "polled C stored healthy trunc runs builds settings policy br ib w \<longleftrightarrow>
     in_sync stored healthy trunc \<lparr>rs_ib = ib, rs_world = w\<rparr> \<and>
     equipped C (settings w) (builds w) policy ib \<and> \<not> isRebuildEnabled ib \<and> \<not> isSpecDrifted ib \<and>
     runs w \<lparr>nn_Namespace = ib_Namespace ib, nn_Name = br_Name br\<rparr> = Some br \<and>
     st_LastBuildRunRef (ib_Status ib) = br_Name br"

lemma polled_step:
  assumes "cluster C stored healthy trunc runs builds settings"
    and "polled C stored healthy trunc runs builds settings policy br ib w"
  shows "\<exists>w' ib'. run_state (Reconcile C (ib_key ib)) w = (requeue (poll_interval C br), w') \<and>
     polled C stored healthy trunc runs builds settings policy br ib' w' \<and> reports C br ib ib' \<and>
     ib_key ib' = ib_key ib \<and> runs w' = runs w \<and> stored w' (ib_key ib) = Some ib'"
proof -
  from assms(2) have p: "in_sync stored healthy trunc \<lparr>rs_ib = ib, rs_world = w\<rparr>"
    "equipped C (settings w) (builds w) policy ib" "\<not> isRebuildEnabled ib" "\<not> isSpecDrifted ib"
    "runs w \<lparr>nn_Namespace = ib_Namespace ib, nn_Name = st_LastBuildRunRef (ib_Status ib)\<rparr> = Some br"
    "br_Name br = st_LastBuildRunRef (ib_Status ib)" by (simp_all add: polled_def)
  from cluster.reconcile_known_run [OF assms(1) p] obtain b w' ib' where
    r: "run_state (Reconcile C (ib_key ib)) w = (requeue (poll_interval C br), w')"
    "in_sync stored healthy trunc \<lparr>rs_ib = ib', rs_world = w'\<rparr>" "ib_key ib' = ib_key ib" "runs w' = runs w"
    "builds w' = (builds w)(build_key ib \<mapsto> b)" "settings w' = settings w" "wanted_build C ib policy b"
    "reports C br ib ib'" "\<not> isSpecDrifted ib'"
    by blast
  have "ib_Namespace ib' = ib_Namespace ib" using r(3) by (simp add: ObjectKeyOf_def)
  with r(2-9) p(3,5,6) equipped_after [OF p(2) r(8,7)] isRebuildEnabled_after [OF r(8)]
  have "polled C stored healthy trunc runs builds settings policy br ib' w'"
    by (simp add: polled_def) (simp add: reports_def)
  moreover have "stored w' (ib_key ib) = Some ib'" using r(2,3) by (simp add: in_sync_def)
  ultimately show ?thesis using r(1,3,4,8) by blast
qed

text \<open>
  Between two rounds the run makes progress: \<open>br n\<close> is its state in round \<open>n\<close>. Nothing else
  that matters to the reconcile changes.
\<close>

definition run_progress :: "('w \<Rightarrow> NamespacedName \<Rightarrow> ImageBuild option) \<Rightarrow> ('w \<Rightarrow> bool) \<Rightarrow>
    ('w \<Rightarrow> NamespacedName \<Rightarrow> BuildRun option) \<Rightarrow> ('w \<Rightarrow> NamespacedName \<Rightarrow> Build option) \<Rightarrow>
    ('w \<Rightarrow> settings) \<Rightarrow> NamespacedName \<Rightarrow> (nat \<Rightarrow> BuildRun) \<Rightarrow> (nat \<Rightarrow> 'w \<Rightarrow> 'w) \<Rightarrow> bool" where
  "run_progress stored healthy runs builds settings k br tick \<longleftrightarrow>
     (\<forall>n w. healthy w \<longrightarrow> healthy (tick n w) \<and>
        (stored (tick n w), builds (tick n w), settings (tick n w)) = (stored w, builds w, settings w) \<and>
        runs (tick n w) = (runs w)(k \<mapsto> br (Suc n))) \<and>
     (\<forall>n. br_Name (br n) = nn_Name k)"

lemma polled_rounds:
  assumes "cluster C stored healthy trunc runs builds settings"
    and "run_progress stored healthy runs builds settings k br tick" and "nn_Namespace k = ib_Namespace ib"
    and "polled C stored healthy trunc runs builds settings policy (br 0) ib w"
  shows "\<exists>ib'. polled C stored healthy trunc runs builds settings policy (br n) ib' (rounds C (ib_key ib) tick n w) \<and>
     ib_key ib' = ib_key ib \<and> ib_Spec ib' = ib_Spec ib \<and>
     runs (rounds C (ib_key ib) tick n w) = (runs w)(k \<mapsto> br n)"
proof (induction n)
  case 0
  have "k = \<lparr>nn_Namespace = ib_Namespace ib, nn_Name = br_Name (br 0)\<rparr>"
    using assms(2,3) by (simp add: run_progress_def)
  with assms(4) have "runs w k = Some (br 0)" by (simp add: polled_def)
  then show ?case using assms(4) by (intro exI [of _ ib]) (simp add: fun_upd_idem)
next
  case (Suc n)
  let ?w = "rounds C (ib_key ib) tick n w"
  from Suc.IH obtain ib1 where ib1: "polled C stored healthy trunc runs builds settings policy (br n) ib1 ?w"
    "ib_key ib1 = ib_key ib" "ib_Spec ib1 = ib_Spec ib" "runs ?w = (runs w)(k \<mapsto> br n)" by blast
  from polled_step [OF assms(1) ib1(1)] ib1(2) obtain w' ib2 where
    s: "run_state (Reconcile C (ib_key ib)) ?w = (requeue (poll_interval C (br n)), w')"
    "polled C stored healthy trunc runs builds settings policy (br n) ib2 w'" "reports C (br n) ib1 ib2"
    "ib_key ib2 = ib_key ib" "runs w' = runs ?w" by auto
  from s(2) have "healthy w'" by (simp add: polled_def in_sync_def)
  with assms(2) have t: "healthy (tick n w')" "stored (tick n w') = stored w'" "builds (tick n w') = builds w'"
    "settings (tick n w') = settings w'" "runs (tick n w') = (runs w')(k \<mapsto> br (Suc n))"
    "br_Name (br (Suc n)) = br_Name (br n)" "br_Name (br n) = nn_Name k"
    by (auto simp: run_progress_def)
  have "k = \<lparr>nn_Namespace = ib_Namespace ib2, nn_Name = br_Name (br (Suc n))\<rparr>"
    using t(6,7) s(4) assms(3) by (cases k) (simp add: ObjectKeyOf_def)
  then have "polled C stored healthy trunc runs builds settings policy (br (Suc n)) ib2 (tick n w')"
    using s(2) t by (simp add: polled_def in_sync_def)
  moreover have "rounds C (ib_key ib) tick (Suc n) w = tick n w'" using s(1) by simp
  moreover have "ib_Spec ib2 = ib_Spec ib" using s(3) ib1(3) by (simp add: reports_def)
  ultimately show ?case using s(4,5) t(5) ib1(4) by auto
qed

text \<open>
  C9. Polling ends, and not too early. If the run that an ImageBuild refers to makes progress
  and its outcome is known in round \<open>N\<close> at the latest, then the reconciles, repeated as
  they ask for it, go on every ten seconds as long as the outcome is unknown, and there
  is a round, not after \<open>N\<close>, that asks for no further one. By then the object on the server
  reports the run as it is, and no other run was created.
\<close>

theorem polling_ends:
  assumes "cluster C stored healthy trunc runs builds settings"
    and "polled C stored healthy trunc runs builds settings policy (br 0) ib w"
    and "run_progress stored healthy runs builds settings k br tick" and "nn_Namespace k = ib_Namespace ib"
    and "fst (deriveBuildSucceededStatus C (br N)) \<noteq> ConditionUnknown"
  shows "\<exists>n w' ib0 ib'. n \<le> N \<and>
     (\<forall>i < n. fst (run_state (Reconcile C (ib_key ib)) (rounds C (ib_key ib) tick i w)) =
        requeue buildRunPollInterval) \<and>
     run_state (Reconcile C (ib_key ib)) (rounds C (ib_key ib) tick n w) = (requeue 0, w') \<and>
     fst (deriveBuildSucceededStatus C (br n)) \<noteq> ConditionUnknown \<and>
     stored w' (ib_key ib) = Some ib' \<and> reports C (br n) ib0 ib' \<and> ib_Spec ib' = ib_Spec ib \<and>
     runs w' = (runs w)(k \<mapsto> br n)"
proof -
  have round: "\<exists>ib0 w' ib'. run_state (Reconcile C (ib_key ib)) (rounds C (ib_key ib) tick n w) =
      (requeue (poll_interval C (br n)), w') \<and> stored w' (ib_key ib) = Some ib' \<and> reports C (br n) ib0 ib' \<and>
      ib_Spec ib' = ib_Spec ib \<and> runs w' = (runs w)(k \<mapsto> br n)" for n
  proof -
    from polled_rounds [OF assms(1,3,4,2)] obtain ib0 where p:
      "polled C stored healthy trunc runs builds settings policy (br n) ib0 (rounds C (ib_key ib) tick n w)"
      "ib_key ib0 = ib_key ib" "ib_Spec ib0 = ib_Spec ib"
      "runs (rounds C (ib_key ib) tick n w) = (runs w)(k \<mapsto> br n)" by blast
    from polled_step [OF assms(1) p(1)] p(2) obtain w' ib' where s:
      "run_state (Reconcile C (ib_key ib)) (rounds C (ib_key ib) tick n w) = (requeue (poll_interval C (br n)), w')"
      "reports C (br n) ib0 ib'" "runs w' = runs (rounds C (ib_key ib) tick n w)" "stored w' (ib_key ib) = Some ib'"
      by auto
    from s(2) p(3) have "ib_Spec ib' = ib_Spec ib" by (simp add: reports_def)
    with s p(4) show ?thesis
      by (intro exI [of _ ib0] exI [of _ w'] exI [of _ ib']) simp
  qed
  let ?known = "\<lambda>n. fst (deriveBuildSucceededStatus C (br n)) \<noteq> ConditionUnknown"
  let ?n = "LEAST n. ?known n"
  have known: "?known ?n" using assms(5) by (rule LeastI)
  have le: "?n \<le> N" using assms(5) by (rule Least_le)
  have "fst (run_state (Reconcile C (ib_key ib)) (rounds C (ib_key ib) tick i w)) = requeue buildRunPollInterval"
    if "i < ?n" for i
    using round [of i] not_less_Least [OF that] by (auto simp: poll_interval_def)
  moreover from round [of ?n] known obtain ib0 w' ib' where
    "run_state (Reconcile C (ib_key ib)) (rounds C (ib_key ib) tick ?n w) = (requeue 0, w')"
    "stored w' (ib_key ib) = Some ib'" "reports C (br ?n) ib0 ib'" "ib_Spec ib' = ib_Spec ib"
    "runs w' = (runs w)(k \<mapsto> br ?n)" by (auto simp: poll_interval_def)
  ultimately show ?thesis using known le by blast
qed

end
