(* ===== verification/Push_Flow.thy ===== *)
theory Push_Flow
  imports Whole_Reconcile Commit_Flow Webhook_Auth
begin

text \<open>
  From a push to a run: the webhook handler records the commit, and a later reconcile, when
  the commit is due, creates its run. Both against one cluster that keeps what it is given.
\<close>

section \<open>The contract\<close>

text \<open>
  Besides the contracts of \<open>Cluster\<close> and \<open>Commit_Flow\<close>: the list by label is complete and
  lists what is stored; times are kept in the precision of the server; owners are compared
  by their UID; time does not run backwards during a call.
\<close>

locale operated = cluster C stored healthy trunc runs builds settings +
  clocked_server C stored healthy trunc runs clock
  for C :: "'w client" and stored healthy trunc runs builds settings clock +
  assumes list_law:
    "healthy w \<Longrightarrow> \<exists>items w'. cl_ListImageBuilds C (l, v) w = (Inr items, w') \<and> healthy w' \<and>
       stored w' = stored w \<and> settings w' = settings w \<and> clock w \<le> clock w' \<and>
       (\<forall>ib \<in> set items. stored w (ib_key ib) = Some ib) \<and>
       (\<forall>ib. stored w (ib_key ib) = Some ib \<longrightarrow> om_Labels (ib_Meta ib) l = Some v \<longrightarrow> ib \<in> set items)"
    and precision: "healthy w \<Longrightarrow> stored w k = Some ib \<Longrightarrow> map_times trunc (ib_Status ib) = ib_Status ib"
    and control_law: "om_UID owner = om_UID owner' \<Longrightarrow> IsControlledBy C m owner = IsControlledBy C m owner'"
    and now_frame: "(builds (snd (cl_Now C w)), settings (snd (cl_Now C w))) = (builds w, settings w)"
    and clock_mono:
    "clock w \<le> clock (snd (cl_GetImageBuild C k w))" "clock w \<le> clock (snd (cl_GetImageBuildPolicy C n w))"
    "clock w \<le> clock (snd (cl_GetClusterBuildStrategy C n w))" "clock w \<le> clock (snd (cl_GetSecret C k w))"
    "clock w \<le> clock (snd (cl_CreateOrPatchBuild C b f w))"
    "clock w \<le> clock (snd (cl_PatchImageBuild C orig new w))"
    "clock w \<le> clock (snd (cl_PatchImageBuildStatus C orig new w))"
    "clock w \<le> clock (snd (cl_SetStatusCondition C cs c w))"

section \<open>The request\<close>

text \<open>The secret of an ImageBuild as the handler reads it, and the ImageBuilds it admits a request for.\<close>

definition hook_secret :: "settings \<Rightarrow> ImageBuild \<Rightarrow> string option" where
  "hook_secret cfg ib =
     (case spec_OnCommit (ib_Spec ib) of
        None \<Rightarrow> None
      | Some oc \<Rightarrow>
          (case cfg_Secret cfg \<lparr>nn_Namespace = ib_Namespace ib, nn_Name = sel_Name (oc_WebhookSecretRef oc)\<rparr> of
             None \<Rightarrow> None
           | Some d \<Rightarrow> (case d (sel_Key (oc_WebhookSecretRef oc)) of
                None \<Rightarrow> None | Some v \<Rightarrow> if v = '''' then None else Some v)))"

definition admits :: "webhookProvider \<Rightarrow> Request \<Rightarrow> string \<Rightarrow> settings \<Rightarrow> ImageBuild \<Rightarrow> bool" where
  "admits p r body cfg ib \<longleftrightarrow> (\<exists>secret. hook_secret cfg ib = Some secret \<and> wp_Authenticate p r body secret = None)"

text \<open>The event recorder of the handler touches neither objects nor settings.\<close>

definition harmless :: "('w \<Rightarrow> NamespacedName \<Rightarrow> ImageBuild option) \<Rightarrow> ('w \<Rightarrow> bool) \<Rightarrow> ('w \<Rightarrow> settings) \<Rightarrow>
    'w Handler \<Rightarrow> bool" where
  "harmless stored healthy settings h \<longleftrightarrow>
     (\<forall>f ib a b c w. h_EventRecorder h = Some f \<longrightarrow> healthy w \<longrightarrow>
        healthy (f ib a b c w) \<and> stored (f ib a b c w) = stored w \<and> settings (f ib a b c w) = settings w)"

text \<open>An object with the event recorded, as the server keeps it.\<close>

definition recorded_as :: "pushEvent \<Rightarrow> time \<Rightarrow> ImageBuild \<Rightarrow> ImageBuild \<Rightarrow> bool" where
  "recorded_as event t ib ib' \<longleftrightarrow> (\<exists>rv. ib' = with_rv (recordEvent event t ib) rv)"

lemma recorded_as_fields:
  assumes "recorded_as event t ib ib'"
  shows "ib_key ib' = ib_key ib" "ib_Spec ib' = ib_Spec ib" "om_UID (ib_Meta ib') = om_UID (ib_Meta ib)"
  using assms by (auto simp: recorded_as_def recordEvent_def Let_def ObjectKeyOf_def)

lemma recorded_as_twice: "recorded_as event t a b \<Longrightarrow> recorded_as event t b c \<Longrightarrow> recorded_as event t a c"
  unfolding recorded_as_def by (elim exE) (auto simp: recordEvent_def Let_def)

lemma map_times_recordEvent:
  assumes "map_times f (ib_Status x) = ib_Status x"
  shows "map_times f (ib_Status (recordEvent event now x)) = ib_Status (recordEvent event (f now) x)"
proof -
  let ?last = "map_option (\<lambda>lt. lt\<lparr>lt_TriggeredAt := f (lt_TriggeredAt lt)\<rparr>)"
  have c: "List.map (\<lambda>c. c\<lparr>cond_LastTransitionTime := f (cond_LastTransitionTime c)\<rparr>) (st_Conditions (ib_Status x)) =
      st_Conditions (ib_Status x)"
    using arg_cong [OF assms, of st_Conditions] by (simp add: map_times_def)
  have "?last (Option.bind (st_OnCommit (ib_Status x)) ocs_LastTriggeredBuildRun) =
      Option.bind (st_OnCommit (ib_Status x)) ocs_LastTriggeredBuildRun"
  proof (cases "st_OnCommit (ib_Status x)")
    case (Some a)
    with arg_cong [OF assms, of st_OnCommit] have "map_OnCommit f a = a" by (simp add: map_times_def)
    from arg_cong [OF this, of ocs_LastTriggeredBuildRun] Some show ?thesis by (simp add: map_OnCommit_def)
  qed simp
  with c show ?thesis by (simp add: recordEvent_eq map_times_def map_OnCommit_def map_event_def)
qed

lemma attempts_success: "f w = (None, w') \<Longrightarrow> attempts n f w = (None, w')"
  by (cases n) simp_all

context operated
begin

lemma run_getWebhookSecret:
  assumes "healthy w" and "hook_secret (settings w) ib = Some secret"
  shows "\<exists>w'. run_state (getWebhookSecret C ib) w = (Inr secret, w') \<and> healthy w' \<and>
     stored w' = stored w \<and> settings w' = settings w"
proof -
  from assms(2) obtain oc d where oc: "spec_OnCommit (ib_Spec ib) = Some oc"
    "cfg_Secret (settings w) \<lparr>nn_Namespace = ib_Namespace ib, nn_Name = sel_Name (oc_WebhookSecretRef oc)\<rparr> = Some d"
    "d (sel_Key (oc_WebhookSecretRef oc)) = Some secret" "secret \<noteq> ''''"
    by (auto simp: hook_secret_def split: option.splits if_splits)
  from reads(4) [OF assms(1) oc(2)] oc show ?thesis by (auto simp: getWebhookSecret_def Let_def)
qed

lemma run_patchOnCommitStatus:
  assumes "retry_on_conflict Retry" and "healthy w" and "stored w (ib_key ib) = Some x" and "ib_key x = ib_key ib"
  shows "\<exists>w' x'. run_state (patchOnCommitStatus C Retry ib event now) w = (None, w') \<and> healthy w' \<and>
     settings w' = settings w \<and> stored w' = (stored w)(ib_key ib \<mapsto> x') \<and> recorded_as event (trunc now) x x'"
proof -
  let ?new = "recordEvent event now x"
  from reads(1) [OF assms(2,3)] obtain w1 where
    g: "cl_GetImageBuild C (ib_key ib) w = (Inr x, w1)" "healthy w1" "stored w1 = stored w" "settings w1 = settings w"
    by blast
  have st: "stored w1 (ib_key x) = Some x" using g(3) assms(3,4) by simp
  have "ib_Meta ?new = ib_Meta x" "ib_Spec ?new = ib_Spec x" by (simp_all add: recordEvent_def Let_def)
  from patch_status_law [OF g(2) st this] obtain rv w2 where
    p: "cl_PatchImageBuildStatus C x ?new w1 = (Inr (with_rv (x\<lparr>ib_Status := map_times trunc (ib_Status ?new)\<rparr>) rv), w2)"
    "healthy w2" "stored w2 = (stored w1)(ib_key x \<mapsto> with_rv (x\<lparr>ib_Status := map_times trunc (ib_Status ?new)\<rparr>) rv)"
    by (auto simp: Let_def)
  have keep: "map_times trunc (ib_Status x) = ib_Status x" using precision [OF g(2) st] .
  note map_times_recordEvent [OF keep, of event now]
  then have "recorded_as event (trunc now) x (with_rv (x\<lparr>ib_Status := map_times trunc (ib_Status ?new)\<rparr>) rv)"
    by (auto simp: recorded_as_def recordEvent_def Let_def)
  moreover have "recordOnce C ib event now w = (None, w2)" using g(1) p(1) by (simp add: recordOnce_def)
  then have "Retry (recordOnce C ib event now) w = (None, w2)"
    using retry_on_conflict.attempts [OF assms(1), of "recordOnce C ib event now" w] attempts_success by metis
  then have "run_state (patchOnCommitStatus C Retry ib event now) w = (None, w2)" by (simp add: patchOnCommitStatus_def)
  moreover have "settings w2 = settings w" using frame(3) [of x ?new w1] p(1) g(4) by simp
  ultimately show ?thesis using p(2,3) g(3) assms(4) by auto
qed

text \<open>The loop over the matches: the ones that admit the request get the event, nothing else changes.\<close>

lemma run_authenticateAll:
  assumes retry: "retry_on_conflict Retry" and h: "h_Client h = C" "harmless stored healthy settings h"
  shows "healthy w \<Longrightarrow> \<forall>ib \<in> set ms. hook_secret (settings w) ib \<noteq> None \<and>
       (\<exists>x. stored w (ib_key ib) = Some x \<and> ib_key x = ib_key ib) \<Longrightarrow>
     \<exists>n' w'. run_state (authenticateAll h Retry p r body event now ms n) w = (Inr n', w') \<and> healthy w' \<and> n \<le> n' \<and>
       (\<forall>k x. stored w k = Some x \<longrightarrow> ib_key x = k \<longrightarrow> (\<exists>x'. stored w' k = Some x' \<and>
          (x' = x \<or> recorded_as event (trunc now) x x') \<and>
          (\<forall>ib \<in> set ms. ib_key ib = k \<longrightarrow> admits p r body (settings w) ib \<longrightarrow>
             n < n' \<and> recorded_as event (trunc now) x x')))"
proof (induction ms arbitrary: n w)
  case Nil
  then show ?case by auto
next
  case (Cons ib ms)
  from Cons.prems(2) obtain secret x0 where secret: "hook_secret (settings w) ib = Some secret"
    and x0: "stored w (ib_key ib) = Some x0" "ib_key x0 = ib_key ib" by auto
  from run_getWebhookSecret [OF Cons.prems(1) secret] obtain w1 where
    w1: "run_state (getWebhookSecret C ib) w = (Inr secret, w1)" "healthy w1" "stored w1 = stored w" "settings w1 = settings w"
    by blast
  show ?case
  proof (cases "wp_Authenticate p r body secret = None")
    case False
    then have "\<not> admits p r body (settings w) ib" using secret by (simp add: admits_def)
    moreover have "run_state (authenticateAll h Retry p r body event now (ib # ms) n) w =
        run_state (authenticateAll h Retry p r body event now ms n) w1" using w1(1) False h(1) by simp
    ultimately show ?thesis using Cons.IH [OF w1(2), of n] Cons.prems(2) w1(3,4) by simp
  next
    case True
    from run_patchOnCommitStatus [OF retry w1(2), of ib x0 event now] x0 w1(3,4) obtain w2 x1 where
      w2: "run_state (patchOnCommitStatus C Retry ib event now) w1 = (None, w2)" "healthy w2" "settings w2 = settings w"
      "stored w2 = (stored w)(ib_key ib \<mapsto> x1)" and x1: "recorded_as event (trunc now) x0 x1" by auto
    obtain w3 where w3: "run_state (eventAccepted h ib) w2 = ((), w3)" "healthy w3" "settings w3 = settings w"
      "stored w3 = (stored w)(ib_key ib \<mapsto> x1)"
      using w2(2-4) h(2) by (cases "h_EventRecorder h") (auto simp: eventAccepted_def harmless_def)
    have "\<forall>i \<in> set ms. hook_secret (settings w3) i \<noteq> None \<and>
        (\<exists>x. stored w3 (ib_key i) = Some x \<and> ib_key x = ib_key i)"
      using Cons.prems(2) w3(3,4) x0(2) recorded_as_fields(1) [OF x1] by auto
    from Cons.IH [OF w3(2) this, of "Suc n"] obtain n' w' where
      ih: "run_state (authenticateAll h Retry p r body event now ms (Suc n)) w3 = (Inr n', w')" "healthy w'" "Suc n \<le> n'"
      "\<forall>k x. stored w3 k = Some x \<longrightarrow> ib_key x = k \<longrightarrow> (\<exists>x'. stored w' k = Some x' \<and>
          (x' = x \<or> recorded_as event (trunc now) x x') \<and>
          (\<forall>ib \<in> set ms. ib_key ib = k \<longrightarrow> admits p r body (settings w) ib \<longrightarrow>
             Suc n < n' \<and> recorded_as event (trunc now) x x'))"
      using w3(3) by auto
    have "run_state (authenticateAll h Retry p r body event now (ib # ms) n) w = (Inr n', w')"
      using w1(1) w2(1) w3(1) ih(1) True h(1) by simp
    moreover have "\<exists>x'. stored w' k = Some x' \<and> (x' = x \<or> recorded_as event (trunc now) x x') \<and>
          (\<forall>i \<in> set (ib # ms). ib_key i = k \<longrightarrow> admits p r body (settings w) i \<longrightarrow>
             n < n' \<and> recorded_as event (trunc now) x x')" if x: "stored w k = Some x" "ib_key x = k" for k x
    proof (cases "k = ib_key ib")
      case True
      with x x0 x1 have rec: "recorded_as event (trunc now) x x1" by simp
      moreover have "stored w3 k = Some x1" "ib_key x1 = k"
        using True w3(4) x(2) recorded_as_fields(1) [OF rec] by simp_all
      from ih(4) [rule_format, OF this] obtain x' where "stored w' k = Some x'"
        "x' = x1 \<or> recorded_as event (trunc now) x1 x'" by blast
      ultimately show ?thesis using recorded_as_twice ih(3) by fastforce
    next
      case False
      with w3(4) x(1) have "stored w3 k = Some x" by simp
      from ih(4) [rule_format, OF this x(2)] obtain x' where "stored w' k = Some x'" "x' = x \<or> recorded_as event (trunc now) x x'"
        "\<forall>ib \<in> set ms. ib_key ib = k \<longrightarrow> admits p r body (settings w) ib \<longrightarrow> recorded_as event (trunc now) x x'" by blast
      with False ih(3) show ?thesis by auto
    qed
    ultimately show ?thesis using ih(2,3) by auto
  qed
qed

text \<open>A request for a push that an ImageBuild admits.\<close>

lemma push_recorded:
  assumes retry: "retry_on_conflict Retry" and h: "h_Client h = C" "harmless stored healthy settings h"
    and event: "readEvent H r = Some (body, p, event)"
    and w: "healthy w" "stored w (ib_key ib) = Some ib"
    and label: "om_Labels (ib_Meta ib) LabelKeyOnCommitEnabled = Some ''true''"
    and match: "ib \<in> set (findMatches H event [ib])"
    and secrets: "\<forall>x. stored w (ib_key x) = Some x \<longrightarrow> x \<in> set (findMatches H event [x]) \<longrightarrow> hook_secret (settings w) x \<noteq> None"
    and admits: "admits p r body (settings w) ib"
  shows "\<exists>w' ib' t. run_state (ServeHTTP H h Retry r) w = (Some (WriteHeader 202), w') \<and> healthy w' \<and>
     clock w \<le> t \<and> stored w' (ib_key ib) = Some ib' \<and> recorded_as event (trunc t) ib ib'"
proof -
  from list_law [OF w(1)] obtain items w1 where
    items: "cl_ListImageBuilds C (LabelKeyOnCommitEnabled, ''true'') w = (Inr items, w1)" and
    w1: "healthy w1" "stored w1 = stored w" "settings w1 = settings w" "clock w \<le> clock w1" and
    listed: "\<forall>ib \<in> set items. stored w (ib_key ib) = Some ib" "ib \<in> set items"
    using w(2) label by metis
  let ?ms = "findMatches H event items"
  from clock_law [OF w1(1)] now_frame [of w1] obtain w2 where
    now: "cl_Now C w1 = (clock w1, w2)" and w2: "healthy w2" "stored w2 = stored w" "settings w2 = settings w"
    using w1(2,3) by auto
  have ms: "x \<in> set ?ms \<longleftrightarrow> x \<in> set items \<and> x \<in> set (findMatches H event [x])" for x
    by (simp add: findMatches_def Let_def)
  have "\<forall>ib \<in> set ?ms. hook_secret (settings w2) ib \<noteq> None \<and> (\<exists>x. stored w2 (ib_key ib) = Some x \<and> ib_key x = ib_key ib)"
    using ms listed(1) secrets w2(2,3) by auto
  from run_authenticateAll [OF retry h w2(1) this, of p r body event "clock w1" 0] obtain n w3 where
    run: "run_state (authenticateAll h Retry p r body event (clock w1) ?ms 0) w2 = (Inr n, w3)" "healthy w3" and
    all: "\<forall>k x. stored w2 k = Some x \<longrightarrow> ib_key x = k \<longrightarrow> (\<exists>x'. stored w3 k = Some x' \<and>
          (x' = x \<or> recorded_as event (trunc (clock w1)) x x') \<and>
          (\<forall>ib \<in> set ?ms. ib_key ib = k \<longrightarrow> admits p r body (settings w2) ib \<longrightarrow>
             0 < n \<and> recorded_as event (trunc (clock w1)) x x'))" by auto
  have mem: "ib \<in> set ?ms" using ms listed(2) match by simp
  from all w(2) w2(2,3) mem admits obtain ib' where
    ib': "stored w3 (ib_key ib) = Some ib'" "0 < n" "recorded_as event (trunc (clock w1)) ib ib'" by fastforce
  from mem have "length ?ms \<noteq> 0" by auto
  then have "run_state (serveEvent H h Retry p r body event) w = (Some (WriteHeader 202), w3)"
    using items now run(1) ib'(2) h(1) by (simp add: serveEvent_def Let_def)
  with run_ServeHTTP [OF event, of h Retry w] run(2) w1(4) ib'(1,3) show ?thesis
    by (intro exI [of _ w3] exI [of _ ib'] exI [of _ "clock w1"]) simp
qed

end

section \<open>The reconcile\<close>

lemma due_later: "due oc p t \<Longrightarrow> t \<le> t' \<Longrightarrow> due oc p t'"
  by (auto simp: due_def elapsed_def split: option.splits)

abbreviation on_commit :: "ImageBuildOnCommitStatus \<Rightarrow> ImageBuild \<Rightarrow> ImageBuild" where
  "on_commit oc ib \<equiv> ib\<lparr>ib_Status := (ib_Status ib)\<lparr>st_OnCommit := Some oc\<rparr>\<rparr>"

lemma prepared_OnCommit:
  "prepared (on_commit oc ib) (view_of (on_commit oc ib)) = (prepared ib (view_of ib))\<lparr>v_OnCommit := Some oc\<rparr>"
  by (simp add: prepared_def view_of_def onCommitLabelValue_def buildNameFor_def)

lemma onCommitBuildRun_same:
  assumes "ib_Spec a = ib_Spec b" and "ib_Name a = ib_Name b" and "ib_Namespace a = ib_Namespace b"
  shows "onCommitBuildRun a = onCommitBuildRun b"
  using same_spec(6) [OF assms] assms by (simp add: onCommitBuildRun_def fun_eq_iff Let_def)

context operated
begin

lemma later_calls [steady_intros]:
  "later clock (call (cl_GetImageBuildPolicy C n))" "later clock (call (cl_GetClusterBuildStrategy C n))"
  "later clock (call (cl_GetSecret C k))" "later clock (call (cl_CreateOrPatchBuild C b f))"
  "later clock (call (cl_PatchImageBuild C orig new))" "later clock (call (cl_PatchImageBuildStatus C orig new))"
  "later clock (call (cl_SetStatusCondition C cs c))"
  using clock_mono by (auto intro!: steady_call)

lemma later_preparation: "later clock (preparation C)"
  by (auto simp: preparation_def ensureOnCommitLabel_def validateWebhookSecret_def reconcileBuild_def ensureBuild_def
      setNotReady_def patchReadyCondition_def set_status_condition_def patchBuildRef_def patch_status_def
      patch_object_def Let_def intro!: steady_intros split: option.splits prod.splits sum.splits res.splits)

lemma prepares_later:
  assumes "prepares C w ib s"
  shows "clock w \<le> clock (rs_world s)"
proof -
  from assms obtain w0 where w0: "cl_GetImageBuild C (ib_key ib) w = (Inr ib, w0)"
    "run_state (preparation C) \<lparr>rs_ib = ib, rs_world = w0\<rparr> = (Ok (), s)" by (auto simp: prepares_def)
  have "clock w0 \<le> clock (rs_world s)" using movesD [OF later_preparation w0(2)] by simp
  with clock_mono(1) [of w "ib_key ib"] w0(1) show ?thesis by simp
qed

lemma steady_now [steady_intros]: "steady others (call (cl_Now C))"
  using now_frame by (auto intro!: steady_call)

lemma steady_commit_flow: "steady others (reconcileOnCommitBuildRun C)"
  by (auto simp: reconcileOnCommitBuildRun_def remainingWait_def positiveUntil_def getActiveBuildRun_def getLastBuildRun_def
      ensureOnCommitBuildRun_def getOrCreateBuildRun_def patchOnCommitTriggered_def patch_status_def Let_def
      intro!: steady_intros split: option.splits prod.splits sum.splits res.splits)

text \<open>The run step for a due commit, and the reconcile around it.\<close>

lemma due_step:
  fixes s :: "'w rstate"
  assumes s: "sync s" "view_of (rs_ib s) = prepared ib (view_of ib)" "runs (rs_world s) = runs w" "clock w \<le> clock (rs_world s)"
    and enabled: "onCommitLabelValue ib = ''true''"
    and oc: "st_OnCommit (ib_Status ib) = Some oc" "ocs_Pending oc = Some p"
    and due: "due oc p (clock w)" and idle: "idle C (runs w) ib"
    and c: "c = nextCounter (ocs_TriggerCounter oc)" and k: "k = ObjectKeyOf (br_Meta (onCommitBuildRun ib c))"
    and fresh: "runs w k = None"
  shows "\<exists>br s' t. run_state (reconcileBuildRun C) s = (Ok (Some br, None), s') \<and> sync s' \<and>
     ib_key (rs_ib s') = ib_key ib \<and> others (rs_world s') = others (rs_world s) \<and>
     ran_on (on_commit (triggered oc c (br_Name br) (ev_CommitSHA p) t) ib) (view_of (rs_ib s')) \<and>
     runs (rs_world s') = (runs w)(k \<mapsto> br)"
proof -
  from of_view [OF s(2)] have eq: "ib_Spec (rs_ib s) = ib_Spec ib" "ib_Name (rs_ib s) = ib_Name ib"
    "ib_Namespace (rs_ib s) = ib_Namespace ib" "st_LastBuildRunRef (ib_Status (rs_ib s)) = st_LastBuildRunRef (ib_Status ib)"
    "st_OnCommit (ib_Status (rs_ib s)) = Some oc" "om_UID (ib_Meta (rs_ib s)) = om_UID (ib_Meta ib)"
    using oc(1) by (simp_all add: prepared_def)
  have en: "onCommitLabelValue (rs_ib s) = ''true''" using enabled same_spec(7) [OF eq(1-3)] by simp
  have "idle C (runs (rs_world s)) (rs_ib s)" using idle eq(2-4) s(3) control_law [OF eq(6)]
    by (auto simp: idle_def split: option.splits)
  with run_reconcileOnCommitBuildRun_due [OF s(1) en eq(5) oc(2) due_later [OF due s(4)]]
    onCommitBuildRun_same [OF eq(1-3)] c k fresh s(3)
  obtain br s' t where r: "run_state (reconcileOnCommitBuildRun C) s = (Ok (Some br, None), s')"
    "runs (rs_world s') = (runs w)(k \<mapsto> br)" "sync s'"
    and v: "view_of (rs_ib s') = (view_of (rs_ib s))\<lparr>v_OnCommit := Some (triggered oc c (br_Name br) (ev_CommitSHA p) t)\<rparr>"
    by auto
  have "run_state (reconcileBuildRun C) s = (Ok (Some br, None), s')" using r(1) by (simp add: reconcileBuildRun_def)
  moreover have "view_of (rs_ib s') = (prepared ib (view_of ib))
      \<lparr>v_OnCommit := Some (triggered oc c (br_Name br) (ev_CommitSHA p) t)\<rparr>" using v s(2) by simp
  then have "ran_on (on_commit (triggered oc c (br_Name br) (ev_CommitSHA p) t) ib) (view_of (rs_ib s'))"
    by (simp only: ran_on_def prepared_OnCommit simp_thms)
  moreover have "ib_key (rs_ib s') = ib_key ib"
    using of_view(2,3) [OF v] eq(2,3) by (simp add: ObjectKeyOf_def)
  ultimately show ?thesis using r(2,3) steadyD [OF steady_commit_flow r(1)] by blast
qed

lemma reconcile_due:
  assumes sync: "sync \<lparr>rs_ib = ib, rs_world = w\<rparr>" and eq: "equipped C (settings w) (builds w) policy ib"
    and enabled: "onCommitLabelValue ib = ''true''"
    and oc: "st_OnCommit (ib_Status ib) = Some oc" "ocs_Pending oc = Some p"
    and due: "due oc p (clock w)" and idle: "idle C (runs w) ib"
    and c: "c = nextCounter (ocs_TriggerCounter oc)" and k: "k = ObjectKeyOf (br_Meta (onCommitBuildRun ib c))"
    and fresh: "runs w k = None"
  shows "\<exists>br b t w' ib'. run_state (Reconcile C (ib_key ib)) w = (requeue (poll_interval C br), w') \<and>
     sync \<lparr>rs_ib = ib', rs_world = w'\<rparr> \<and> ib_key ib' = ib_key ib \<and> wanted_build C ib policy b \<and>
     (runs w', builds w', settings w') = ((runs w)(k \<mapsto> br), (builds w)(build_key ib \<mapsto> b), settings w) \<and>
     reports C br (on_commit (triggered oc c (br_Name br) (ev_CommitSHA p) t) ib) ib'"
proof -
  let ?P = "\<lambda>br (s :: 'w rstate) ib2. runs (rs_world s) = (runs w)(k \<mapsto> br) \<and>
      (\<exists>t. ib2 = on_commit (triggered oc c (br_Name br) (ev_CommitSHA p) t) ib)"
  have "run_step w ib ?P"
    unfolding run_step_def
  proof (intro allI impI)
    fix s
    assume s: "prepares C w ib s" "sync s" "view_of (rs_ib s) = prepared ib (view_of ib)" "runs (rs_world s) = runs w"
    from due_step [OF s(2-4) prepares_later [OF s(1)] enabled oc due idle c k fresh]
    show "\<exists>br s' ib2. run_state (reconcileBuildRun C) s = (Ok (Some br, None), s') \<and> sync s' \<and>
        ib_key (rs_ib s') = ib_key ib \<and> others (rs_world s') = others (rs_world s) \<and>
        ran_on ib2 (view_of (rs_ib s')) \<and> ?P br s' ib2" by blast
  qed
  from run_Reconcile_with [OF sync eq this] obtain br b w' ib' ib2 and s :: "'w rstate" where
    r: "run_state (Reconcile C (ib_key ib)) w = (requeue (poll_interval C br), w')"
      "sync \<lparr>rs_ib = ib', rs_world = w'\<rparr>" "ib_key ib' = ib_key ib" "wanted_build C ib policy b"
      "(runs w', builds w', settings w') = (runs (rs_world s), (builds w)(build_key ib \<mapsto> b), settings w)"
      "reports C br ib2 ib'" and p: "?P br s ib2" by blast
  from p obtain t where "ib2 = on_commit (triggered oc c (br_Name br) (ev_CommitSHA p) t) ib" by blast
  with r p show ?thesis
    by (intro exI [of _ br] exI [of _ b] exI [of _ t] exI [of _ w'] exI [of _ ib']) simp
qed

end

section \<open>The property\<close>

text \<open>
  C5. A push is built. A request for a push event is authentic for an ImageBuild that
  matches the event and has the on-commit label; every match has its secret. Then the
  handler answers 202, and the object on the server has the commit pending, received at
  the time of the request. Whatever happens then, as long as the object is not written: a
  reconcile that finds the commit due (debounce and minimal interval have passed, the
  commit is not the one triggered last), no run in progress, what it needs, and the
  run's name free, creates exactly the run of the next trigger counter and leaves an
  object that reports this run, names it and its commit as the last trigger and has
  nothing pending.
\<close>

theorem pushed_commit_built:
  assumes "operated C stored healthy trunc runs builds settings clock" and "retry_on_conflict Retry"
    and "h_Client h = C" and "harmless stored healthy settings h"
    and "readEvent H r = Some (body, p, event)" and "healthy w" and "stored w (ib_key ib) = Some ib"
    and "om_Labels (ib_Meta ib) LabelKeyOnCommitEnabled = Some ''true''"
    and "ib \<in> set (findMatches H event [ib])"
    and "\<forall>x. stored w (ib_key x) = Some x \<longrightarrow> x \<in> set (findMatches H event [x]) \<longrightarrow>
      hook_secret (settings w) x \<noteq> None"
    and "admits p r body (settings w) ib"
  shows "\<exists>w1 ib1 oc e t.
     run_state (ServeHTTP H h Retry r) w = (Some (WriteHeader 202), w1) \<and> healthy w1 \<and>
     stored w1 (ib_key ib) = Some ib1 \<and> recorded_as event (trunc t) ib ib1 \<and>
     st_OnCommit (ib_Status ib1) = Some oc \<and> ocs_Pending oc = Some e \<and>
     ev_CommitSHA e = pe_commitSHA event \<and> ev_ReceivedAt e = trunc t \<and> clock w \<le> t \<and>
     (\<forall>w2 policy c k. healthy w2 \<longrightarrow> stored w2 (ib_key ib) = Some ib1 \<longrightarrow> due oc e (clock w2) \<longrightarrow>
        idle C (runs w2) ib1 \<longrightarrow> equipped C (settings w2) (builds w2) policy ib1 \<longrightarrow>
        c = nextCounter (ocs_TriggerCounter oc) \<longrightarrow> k = ObjectKeyOf (br_Meta (onCommitBuildRun ib1 c)) \<longrightarrow>
        runs w2 k = None \<longrightarrow>
        (\<exists>br w3 ib3 t'. run_state (Reconcile C (ib_key ib)) w2 = (requeue (poll_interval C br), w3) \<and>
           runs w3 = (runs w2)(k \<mapsto> br) \<and> stored w3 (ib_key ib) = Some ib3 \<and>
           reports C br (on_commit (triggered oc c (br_Name br) (pe_commitSHA event) t') ib1) ib3))"
proof -
  from operated.push_recorded [OF assms] obtain w1 ib1 t where
    push: "run_state (ServeHTTP H h Retry r) w = (Some (WriteHeader 202), w1)" "healthy w1" "clock w \<le> t"
    "stored w1 (ib_key ib) = Some ib1" and rec: "recorded_as event (trunc t) ib ib1" by blast
  note same = recorded_as_fields [OF rec]
  obtain oc e where oc: "st_OnCommit (ib_Status ib1) = Some oc" "ocs_Pending oc = Some e"
    "ev_CommitSHA e = pe_commitSHA event" "ev_ReceivedAt e = trunc t"
    using rec by (auto simp: recorded_as_def recordEvent_eq)
  have enabled: "onCommitLabelValue ib1 = ''true''"
    using assms(9) same(2) by (auto simp: findMatches_in onCommitLabelValue_def)
  have "\<exists>br w3 ib3 t'. run_state (Reconcile C (ib_key ib)) w2 = (requeue (poll_interval C br), w3) \<and>
      runs w3 = (runs w2)(k \<mapsto> br) \<and> stored w3 (ib_key ib) = Some ib3 \<and>
      reports C br (on_commit (triggered oc c (br_Name br) (pe_commitSHA event) t') ib1) ib3"
    if w2: "healthy w2" "stored w2 (ib_key ib) = Some ib1" "due oc e (clock w2)" "idle C (runs w2) ib1"
      "equipped C (settings w2) (builds w2) policy ib1" "c = nextCounter (ocs_TriggerCounter oc)"
      "k = ObjectKeyOf (br_Meta (onCommitBuildRun ib1 c))" "runs w2 k = None" for w2 policy c k
  proof -
    have sync: "in_sync stored healthy trunc \<lparr>rs_ib = ib1, rs_world = w2\<rparr>"
      using w2(1,2) same(1) operated.precision [OF assms(1) w2(1,2)] by (simp add: in_sync_def)
    from operated.reconcile_due [OF assms(1) sync w2(5) enabled oc(1,2) w2(3,4,6-8)] same(1) oc(3)
    obtain br t' w3 ib3 where "run_state (Reconcile C (ib_key ib)) w2 = (requeue (poll_interval C br), w3)"
      "in_sync stored healthy trunc \<lparr>rs_ib = ib3, rs_world = w3\<rparr>" "ib_key ib3 = ib_key ib" "runs w3 = (runs w2)(k \<mapsto> br)"
      "reports C br (on_commit (triggered oc c (br_Name br) (pe_commitSHA event) t') ib1) ib3" by auto
    then show ?thesis
      by (intro exI [of _ br] exI [of _ w3] exI [of _ ib3] exI [of _ t']) (simp add: in_sync_def)
  qed
  with push rec oc show ?thesis by blast
qed

section \<open>The contract can hold\<close>

interpretation ref_operated: operated ref_client mem_stored mem_healthy id m_BuildRuns m_Builds mem_settings m_Clock
proof unfold_locales
  fix w :: mem and l v
  assume "mem_healthy w"
  then show "\<exists>items w'. cl_ListImageBuilds ref_client (l, v) w = (Inr items, w') \<and> mem_healthy w' \<and>
      mem_stored w' = mem_stored w \<and> mem_settings w' = mem_settings w \<and> m_Clock w \<le> m_Clock w' \<and>
      (\<forall>ib \<in> set items. mem_stored w (ib_key ib) = Some ib) \<and>
      (\<forall>ib. mem_stored w (ib_key ib) = Some ib \<longrightarrow> om_Labels (ib_Meta ib) l = Some v \<longrightarrow> ib \<in> set items)"
    by (auto simp: ref_client_def mem_defs dest: map_of_SomeD intro: rev_image_eqI)
qed (auto simp: ref_client_def mem_defs mem_settings_def Let_def ref_IsControlledBy_def split: option.splits sum.splits)

end
