(* ===== verification/Double_Run.thy ===== *)
theory Double_Run
  imports Convergence
begin

text \<open>
  What a failed Update costs: the run exists and is counted, but the spec is not recorded
  as built, so the default flow, run again on the stored object, builds it a second time.
\<close>

section \<open>A server that refuses the Update\<close>

definition refusing :: "go_error \<Rightarrow> 'w client \<Rightarrow> 'w client" where
  "refusing e C = C\<lparr>cl_UpdateImageBuild := (\<lambda>new w. (Inl e, w))\<rparr>"

lemma refusing_fields:
  "cl_GetBuildRun (refusing e C) = cl_GetBuildRun C" "cl_CreateBuildRun (refusing e C) = cl_CreateBuildRun C"
  "cl_PatchImageBuildStatus (refusing e C) = cl_PatchImageBuildStatus C"
  "SetControllerReference (refusing e C) = SetControllerReference C" "IsControlledBy (refusing e C) = IsControlledBy C"
  "AlreadyOwnedError_Error (refusing e C) = AlreadyOwnedError_Error C"
  by (simp_all add: refusing_def)

lemma refusing_calls:
  "getOrCreateBuildRun (refusing e C) desired = getOrCreateBuildRun C desired"
  "patch_status (refusing e C) msg orig = patch_status C msg orig"
  unfolding getOrCreateBuildRun_def patch_status_def refusing_fields by (rule refl)+

lemma ensureBuildRun_refusing: "ensureBuildRun (refusing e C) = ensureBuildRun C"
  by (simp only: ensureBuildRun_def refusing_calls)

lemma run_reconcileDefaultBuildRun_refused:
  assumes "isSpecDrifted (rs_ib s)" and "run_state (ensureBuildRun C) s = (Ok br, s1)"
  shows "\<exists>ib. run_state (reconcileDefaultBuildRun (refusing e C)) s =
     (Err (wrap ''failed to update ImageBuild'' e), s1\<lparr>rs_ib := ib\<rparr>)"
  using assms
  by (simp add: reconcileDefaultBuildRun_def ensureBuildRun_refusing recordBuildSpec_def update_object_def)
    (auto simp: refusing_def)

section \<open>The property\<close>

text \<open>
  C31. A spec is built twice if the Update fails. The default flow creates a run for a
  changed spec and advances the counter; then the server refuses the Update that would
  record the spec, as it does when the object was written meanwhile. The flow fails, and
  the object on the server still counts as drifted: the default flow, when it is run again
  on the stored object, creates a second run, of the counter after that, for the same
  spec.
\<close>

theorem failed_update_builds_twice:
  fixes s :: "'w rstate"
  defines "key \<equiv> \<lambda>c. ObjectKeyOf (br_Meta (newBuildRun (rs_ib s) c))"
  assumes "run_server C stored healthy trunc runs" and "in_sync stored healthy trunc s"
    and "isSpecDrifted (rs_ib s)" and "c = nextCounter (st_BuildRunCounter (ib_Status (rs_ib s)))"
    and "runs (rs_world s) (key c) = None" and "runs (rs_world s) (key (nextCounter c)) = None"
  shows "\<exists>s1 ib1 s2 br1 br2.
     run_state (reconcileDefaultBuildRun (refusing e C)) s = (Err (wrap ''failed to update ImageBuild'' e), s1) \<and>
     stored (rs_world s1) (ib_key (rs_ib s)) = Some ib1 \<and> ib_Spec ib1 = ib_Spec (rs_ib s) \<and>
     run_state (reconcileDefaultBuildRun C) \<lparr>rs_ib = ib1, rs_world = rs_world s1\<rparr> = (Ok (Some br2), s2) \<and>
     key (nextCounter c) \<noteq> key c \<and>
     runs (rs_world s2) = (runs (rs_world s))(key c \<mapsto> br1, key (nextCounter c) \<mapsto> br2)"
proof -
  from run_server.run_ensureBuildRun [OF assms(2,3), folded assms(5)] assms(6) obtain br1 s1 where
    ens: "run_state (ensureBuildRun C) s = (Ok br1, s1)" "runs (rs_world s1) = (runs (rs_world s))(key c \<mapsto> br1)"
    "in_sync stored healthy trunc s1"
    and v: "view_of (rs_ib s1) = (view_of (rs_ib s))\<lparr>v_BuildRunCounter := c\<rparr>"
    unfolding key_def by blast
  from run_reconcileDefaultBuildRun_refused [OF assms(4) ens(1)] obtain ib where
    first: "run_state (reconcileDefaultBuildRun (refusing e C)) s =
      (Err (wrap ''failed to update ImageBuild'' e), s1\<lparr>rs_ib := ib\<rparr>)" by blast
  have ib1: "ib_Spec (rs_ib s1) = ib_Spec (rs_ib s)" "ib_Name (rs_ib s1) = ib_Name (rs_ib s)"
    "ib_Namespace (rs_ib s1) = ib_Namespace (rs_ib s)" "st_BuildRunCounter (ib_Status (rs_ib s1)) = c"
    "st_LastBuildRunRef (ib_Status (rs_ib s1)) = st_LastBuildRunRef (ib_Status (rs_ib s))"
    "om_Annotations (ib_Meta (rs_ib s1)) = om_Annotations (ib_Meta (rs_ib s))"
    using of_view [OF v] by (simp_all add: view_of_def)
  have drifted: "isSpecDrifted (rs_ib s1)" using assms(4) by (simp only: isSpecDrifted_def ib1)
  have other: "key (nextCounter c) \<noteq> key c" unfolding key_def by (rule spec_flow.next_key_fresh)
  have same: "ObjectKeyOf (br_Meta (newBuildRun (rs_ib s1) d)) = key d" for d
    using ib1(2,3) by (simp add: key_def ObjectKeyOf_def spec_flow.name spec_flow.namespace)
  have "runs (rs_world s1) (key (nextCounter c)) = None" using ens(2) assms(7) other by simp
  with run_server.run_reconcileDefaultBuildRun [OF assms(2) ens(3) drifted] ib1(4) same obtain br2 s2 where
    second: "run_state (reconcileDefaultBuildRun C) s1 = (Ok (Some br2), s2)"
    "runs (rs_world s2) = (runs (rs_world s1))(key (nextCounter c) \<mapsto> br2)" by auto
  moreover from second have
    "run_state (reconcileDefaultBuildRun C) \<lparr>rs_ib = rs_ib s1, rs_world = rs_world s1\<rparr> = (Ok (Some br2), s2)"
    by (cases s1) simp
  moreover have "stored (rs_world s1) (ib_key (rs_ib s)) = Some (rs_ib s1)"
    using ens(3) ib1(2,3) by (simp add: in_sync_def ObjectKeyOf_def)
  ultimately show ?thesis using first ib1(1) other ens(2)
    by - (rule exI [of _ "s1\<lparr>rs_ib := ib\<rparr>"], rule exI [of _ "rs_ib s1"], rule exI [of _ s2],
        rule exI [of _ br1], rule exI [of _ br2], simp)
qed

end
