(* ===== verification/Object_Names.thy ===== *)
theory Object_Names
  imports On_Commit
begin

text \<open>
  The objects the operator creates, as the API server validates them: names are DNS
  subdomains (RFC 1123), label values are short and have a restricted alphabet.
\<close>

section \<open>Validation\<close>

definition lower_alnum :: "char \<Rightarrow> bool" where
  "lower_alnum c \<longleftrightarrow> is_digit c \<or> (97 \<le> (of_char c :: nat) \<and> (of_char c :: nat) \<le> 122)"

definition alnum :: "char \<Rightarrow> bool" where
  "alnum c \<longleftrightarrow> lower_alnum c \<or> (65 \<le> (of_char c :: nat) \<and> (of_char c :: nat) \<le> 90)"

text \<open>Labels of letters, digits and inner dashes, separated by dots; \<open>p\<close> is the character before.\<close>

fun dns_labels :: "char option \<Rightarrow> string \<Rightarrow> bool" where
  "dns_labels p [] \<longleftrightarrow> (case p of None \<Rightarrow> False | Some d \<Rightarrow> lower_alnum d)"
| "dns_labels p (c # s) \<longleftrightarrow>
     (lower_alnum c \<or>
      (case p of
         None \<Rightarrow> False
       | Some d \<Rightarrow> c = CHR ''-'' \<and> d \<noteq> CHR ''.'' \<or> c = CHR ''.'' \<and> lower_alnum d)) \<and>
     dns_labels (Some c) s"

definition dns_subdomain :: "string \<Rightarrow> bool" where
  "dns_subdomain s \<longleftrightarrow> length s \<le> 253 \<and> dns_labels None s"

definition label_value :: "string \<Rightarrow> bool" where
  "label_value v \<longleftrightarrow> length v \<le> 63 \<and>
     (v = '''' \<or> alnum (hd v) \<and> alnum (last v) \<and>
        (\<forall>c \<in> set v. alnum c \<or> c = CHR ''-'' \<or> c = CHR ''_'' \<or> c = CHR ''.''))"

definition valid_meta :: "ObjectMeta \<Rightarrow> bool" where
  "valid_meta m \<longleftrightarrow> dns_subdomain (om_Name m) \<and> (\<forall>k v. om_Labels m k = Some v \<longrightarrow> label_value v)"

section \<open>Names with suffixes\<close>

lemma lower_alnum_ne [simp]: "\<not> lower_alnum (CHR ''-'')" "\<not> lower_alnum (CHR ''.'')"
  by (simp_all add: lower_alnum_def is_digit_def)

lemma dns_labels_suffix:
  "\<forall>c \<in> set t. lower_alnum c \<or> c = CHR ''-'' \<Longrightarrow> t \<noteq> [] \<Longrightarrow> lower_alnum (last t) \<Longrightarrow> d \<noteq> CHR ''.'' \<Longrightarrow>
     dns_labels (Some d) t"
proof (induction t arbitrary: d)
  case (Cons c t)
  from Cons.prems(1) have c: "lower_alnum c \<or> c = CHR ''-''" by simp
  then have dot: "c \<noteq> CHR ''.''" by auto
  show ?case
  proof (cases "t = []")
    case True
    with Cons.prems(3) show ?thesis by simp
  next
    case False
    with Cons.IH [of c] Cons.prems(1,3) dot have "dns_labels (Some c) t" by simp
    with c Cons.prems(4) show ?thesis by auto
  qed
qed simp

lemma dns_labels_append:
  assumes "\<forall>c \<in> set t. lower_alnum c \<or> c = CHR ''-''" and "t \<noteq> []" and "lower_alnum (last t)"
  shows "dns_labels p s \<Longrightarrow> dns_labels p (s @ t)"
proof (induction p s rule: dns_labels.induct)
  case (1 p)
  then obtain d where "p = Some d" "lower_alnum d" by (auto split: option.splits)
  moreover from this have "d \<noteq> CHR ''.''" by auto
  ultimately show ?case using dns_labels_suffix [OF assms] by simp
qed auto

lemma dns_labels_chars:
  "dns_labels p s \<Longrightarrow> c \<in> set s \<Longrightarrow> lower_alnum c \<or> c = CHR ''-'' \<or> c = CHR ''.''"
  by (induction p s rule: dns_labels.induct) (auto split: option.splits)

lemma dns_labels_ends: "dns_labels None s \<Longrightarrow> s \<noteq> [] \<and> lower_alnum (hd s)"
  by (cases s) auto

lemma dns_labels_last: "dns_labels p s \<Longrightarrow> s \<noteq> [] \<Longrightarrow> lower_alnum (last s)"
  by (induction p s rule: dns_labels.induct) (auto split: option.splits if_splits)

lemma show_nat_length: "n < 10 ^ Suc k \<Longrightarrow> length (show_nat n) \<le> Suc k"
proof (induction k arbitrary: n)
  case 0
  then show ?case by (simp add: show_nat.simps [of n])
next
  case (Suc k)
  then have "n div 10 < 10 ^ Suc k" by (simp add: less_mult_imp_div_less)
  with Suc.IH [of "n div 10"] show ?case by (simp add: show_nat.simps [of n])
qed

lemma show_nat_last: "is_digit (last (show_nat n))"
  using show_nat_digits [of "last (show_nat n)" n] by simp

lemma show_counter:
  fixes c :: "64 word"
  shows "\<forall>d \<in> set (show_int (sint c)). lower_alnum d \<or> d = CHR ''-''" "lower_alnum (last (show_int (sint c)))"
    "show_int (sint c) \<noteq> []" "length (show_int (sint c)) \<le> 20"
proof -
  have "sint c < 2 ^ 63" "- (2 ^ 63) \<le> sint c" using sint_lt [of c] sint_ge [of c] by simp_all
  then have "length (show_nat (nat (sint c))) \<le> 19" "length (show_nat (nat (- sint c))) \<le> 19"
    using show_nat_length [of "nat (sint c)" 18] show_nat_length [of "nat (- sint c)" 18] by simp_all
  then show "length (show_int (sint c)) \<le> 20" by (simp add: show_int_def)
qed (auto simp: show_int_def lower_alnum_def show_nat_last dest: show_nat_digits)

text \<open>A name, a mark of letters and dashes, and a counter.\<close>

lemma dns_counter_name:
  assumes "dns_subdomain s" and "length s \<le> 63" and "length mark \<le> 63"
    and "list_all (\<lambda>c. lower_alnum c \<or> c = CHR ''-'') mark"
  shows "dns_subdomain (s @ mark @ show_int (sint (c :: 64 word)))"
proof -
  let ?t = "mark @ show_int (sint c)"
  have "dns_labels None (s @ ?t)"
    using assms(1,4) show_counter [of c]
    by (intro dns_labels_append) (auto simp: dns_subdomain_def list_all_iff)
  then show ?thesis using assms(2,3) show_counter(4) [of c] by (simp add: dns_subdomain_def)
qed

lemma label_value_of_name:
  "dns_subdomain s \<Longrightarrow> label_value s \<longleftrightarrow> length s \<le> 63"
  using dns_labels_ends [of s] dns_labels_last [of None s]
  by (auto simp: label_value_def dns_subdomain_def alnum_def dest: dns_labels_chars)

section \<open>The three kinds of objects\<close>

text \<open>Metadata with the parent label and others that are fixed.\<close>

definition meta_shape :: "string \<Rightarrow> string \<Rightarrow> ObjectMeta \<Rightarrow> bool" where
  "meta_shape n suffix m \<longleftrightarrow> om_Name m = n @ suffix \<and>
     om_Labels m LabelKeyParentImageBuild = Some n \<and>
     (\<forall>k v. om_Labels m k = Some v \<longrightarrow> v = n \<or> v = ImageBuildRebuildModeOnCommit)"

lemma mode_valid: "label_value ImageBuildRebuildModeOnCommit"
  by (simp add: ImageBuildRebuildModeOnCommit_def label_value_def alnum_def lower_alnum_def)

lemma valid_meta_iff:
  assumes "meta_shape n suffix m" and "dns_subdomain n"
    and "length n \<le> 63 \<Longrightarrow> dns_subdomain (n @ suffix)"
  shows "valid_meta m \<longleftrightarrow> length n \<le> 63"
proof
  assume "valid_meta m"
  with assms(1) have "label_value n" by (auto simp: valid_meta_def meta_shape_def)
  with assms(2) show "length n \<le> 63" by (simp add: label_value_of_name)
next
  assume short: "length n \<le> 63"
  with assms(2) have n: "label_value n" by (simp add: label_value_of_name)
  show "valid_meta m"
    unfolding valid_meta_def
  proof (intro conjI allI impI)
    show "dns_subdomain (om_Name m)" using assms(1,3) short by (simp add: meta_shape_def)
    show "label_value v" if "om_Labels m k = Some v" for k v
      using assms(1) that n mode_valid unfolding meta_shape_def by metis
  qed
qed

lemma build_meta_shape:
  "meta_shape (ib_Name ib) ''-build'' (build_Meta (newBuild ib policy s))"
  by (auto simp: meta_shape_def newBuild_def buildNameFor_def new_meta_def Let_def split: if_splits)

lemma run_meta_shape:
  "meta_shape (ib_Name ib) (''-buildrun-'' @ show_int (sint c)) (br_Meta (newBuildRun ib c))"
  by (auto simp: meta_shape_def newBuildRun_def buildRunNameFor_def new_meta_def Let_def split: if_splits)

lemma LabelKeyRebuildMode_ne: "LabelKeyRebuildMode \<noteq> LabelKeyParentImageBuild"
  by (simp add: go_consts)

lemma oncommit_meta_shape:
  "meta_shape (ib_Name ib) (''-buildrun-oncommit-'' @ show_int (sint c)) (br_Meta (onCommitBuildRun ib c))"
  using run_meta_shape [of ib c] LabelKeyRebuildMode_ne
  by (auto simp: meta_shape_def onCommitBuildRun_def Let_def split: if_splits)

lemma build_name_valid:
  "dns_subdomain n \<Longrightarrow> length n \<le> 63 \<Longrightarrow> dns_subdomain (n @ ''-build'')"
  using dns_labels_append [of "''-build''" None n]
  by (simp add: dns_subdomain_def lower_alnum_def is_digit_def)

lemma run_names_valid:
  assumes "dns_subdomain n" and "length n \<le> 63"
  shows "dns_subdomain (n @ ''-buildrun-'' @ show_int (sint (c :: 64 word)))"
    "dns_subdomain (n @ ''-buildrun-oncommit-'' @ show_int (sint c))"
  by (rule dns_counter_name [OF assms]; simp add: lower_alnum_def is_digit_def)+

section \<open>The property\<close>

text \<open>
  C21. What the operator creates is valid, up to a length. For an ImageBuild with a valid name,
  the Build and the runs of both flows, whatever their counter, have valid names and
  valid labels exactly if the name of the ImageBuild is not longer than 63 characters. A
  longer name, which the API accepts, becomes the value of a label, and the API server
  refuses the Build.
\<close>

theorem created_objects_valid:
  assumes "dns_subdomain (ib_Name ib)"
  shows "(valid_meta (build_Meta (newBuild ib policy s)) \<longleftrightarrow> length (ib_Name ib) \<le> 63) \<and>
     (valid_meta (br_Meta (newBuildRun ib c)) \<longleftrightarrow> length (ib_Name ib) \<le> 63) \<and>
     (valid_meta (br_Meta (onCommitBuildRun ib c)) \<longleftrightarrow> length (ib_Name ib) \<le> 63)"
  using valid_meta_iff [OF build_meta_shape assms build_name_valid [OF assms]]
    valid_meta_iff [OF run_meta_shape assms run_names_valid(1) [OF assms]]
    valid_meta_iff [OF oncommit_meta_shape assms run_names_valid(2) [OF assms]]
  by blast

end
