(* ===== verification/Conditions.thy ===== *)
theory Conditions
  imports Controller Object_Names
begin

text \<open>
  The conditions the reconciler asks for, against the schema of the CRD: the status is one of
  three, reason and type have a restricted alphabet, all are non-empty.
\<close>

section \<open>The schema\<close>

definition letter :: "char \<Rightarrow> bool" where
  "letter c \<longleftrightarrow> alnum c \<and> \<not> is_digit c"

text \<open>\<open>^[A-Za-z]([A-Za-z0-9_,:]*[A-Za-z0-9_])?$\<close>, and the unprefixed names of the pattern for types.\<close>

definition reason_ok :: "string \<Rightarrow> bool" where
  "reason_ok r \<longleftrightarrow> r \<noteq> '''' \<and> length r \<le> 1024 \<and> letter (hd r) \<and> (alnum (last r) \<or> last r = CHR ''_'') \<and>
     list_all (\<lambda>c. alnum c \<or> c = CHR ''_'' \<or> c = CHR '','' \<or> c = CHR '':'') r"

definition type_ok :: "string \<Rightarrow> bool" where
  "type_ok t \<longleftrightarrow> t \<noteq> '''' \<and> length t \<le> 316 \<and> alnum (hd t) \<and> alnum (last t) \<and>
     list_all (\<lambda>c. alnum c \<or> c = CHR ''-'' \<or> c = CHR ''_'' \<or> c = CHR ''.'') t"

definition status_ok :: "string \<Rightarrow> bool" where
  "status_ok s \<longleftrightarrow> s \<in> {''True'', ''False'', ''Unknown''}"

definition admitted :: "Condition \<Rightarrow> bool" where
  "admitted c \<longleftrightarrow> type_ok (cond_Type c) \<and> status_ok (cond_Status c) \<and> reason_ok (cond_Reason c)"

lemmas char_classes = letter_def alnum_def lower_alnum_def is_digit_def

lemma types_ok: "type_ok TypeReady" "type_ok TypeBuildSucceeded"
  by (simp_all add: type_ok_def char_classes go_consts)

lemma reasons_ok:
  "reason_ok ReasonBuildReconcileFailed" "reason_ok ReasonBuildConflict" "reason_ok ReasonBuildStrategyNotFound"
  "reason_ok ReasonMissingPolicy" "reason_ok ReasonReconciled" "reason_ok ReasonBuildRunReconcileFailed"
  "reason_ok ReasonBuildRunConflict" "reason_ok ReasonBuildRunPending" "reason_ok ReasonBuildRunRunning"
  "reason_ok ReasonBuildRunSucceeded" "reason_ok ReasonBuildRunFailed" "reason_ok ReasonWebhookSecretMissing"
  "reason_ok ReasonWebhookSecretInvalidKey"
  by (simp_all add: reason_ok_def char_classes go_consts)

lemma statuses_ok: "status_ok ConditionTrue" "status_ok ConditionFalse" "status_ok ConditionUnknown"
  by (simp_all add: status_ok_def go_consts)

lemma buildFailureReason_ok: "reason_ok (buildFailureReason e)"
  by (simp add: buildFailureReason_def reasons_ok)

lemma derived_ok:
  "deriveBuildSucceededStatus L br = (st, reason, msg) \<Longrightarrow> status_ok st \<and> reason_ok reason"
  by (auto simp: deriveBuildSucceededStatus_def statuses_ok reasons_ok split: option.splits if_splits)

section \<open>A library with another treatment of other conditions\<close>

definition setting :: "(Condition list \<Rightarrow> Condition \<Rightarrow> 'w \<Rightarrow> Condition list \<times> 'w) \<Rightarrow> 'w client \<Rightarrow> 'w client" where
  "setting f C = C\<lparr>cl_SetStatusCondition := f\<rparr>"

definition same_on_admitted :: "(Condition list \<Rightarrow> Condition \<Rightarrow> 'w \<Rightarrow> Condition list \<times> 'w) \<Rightarrow> 'w client \<Rightarrow> bool" where
  "same_on_admitted f C \<longleftrightarrow> (\<forall>cs c. admitted c \<longrightarrow> f cs c = cl_SetStatusCondition C cs c)"

lemma setting_fields:
  "FindStatusCondition (setting f C) = FindStatusCondition C" "IsControlledBy (setting f C) = IsControlledBy C"
  "SetControllerReference (setting f C) = SetControllerReference C"
  "AlreadyOwnedError_Error (setting f C) = AlreadyOwnedError_Error C"
  "GetCondition_Succeeded (setting f C) = GetCondition_Succeeded C" "IsSuccessful (setting f C) = IsSuccessful C"
  "ParseNormalizedNamed (setting f C) = ParseNormalizedNamed C"
  "cl_GetImageBuild (setting f C) = cl_GetImageBuild C" "cl_GetImageBuildPolicy (setting f C) = cl_GetImageBuildPolicy C"
  "cl_GetClusterBuildStrategy (setting f C) = cl_GetClusterBuildStrategy C" "cl_GetBuildRun (setting f C) = cl_GetBuildRun C"
  "cl_GetSecret (setting f C) = cl_GetSecret C" "cl_PatchImageBuild (setting f C) = cl_PatchImageBuild C"
  "cl_PatchImageBuildStatus (setting f C) = cl_PatchImageBuildStatus C"
  "cl_UpdateImageBuild (setting f C) = cl_UpdateImageBuild C" "cl_CreateBuildRun (setting f C) = cl_CreateBuildRun C"
  "cl_CreateOrPatchBuild (setting f C) = cl_CreateOrPatchBuild C" "cl_Now (setting f C) = cl_Now C"
  by (simp_all add: setting_def)

text \<open>What does not set conditions.\<close>

lemma setting_pure:
  "mutateBuild (setting f C) = mutateBuild C" "computeLatestImage (setting f C) = computeLatestImage C"
  "isActiveBuildRun (setting f C) = isActiveBuildRun C"
  "deriveBuildSucceededStatus (setting f C) = deriveBuildSucceededStatus C"
  "readyIsCurrent (setting f C) = readyIsCurrent C" "buildIsUnknown (setting f C) = buildIsUnknown C"
  unfolding fun_eq_iff mutateBuild_def computeLatestImage_def isTagOrDigestPresent_def isActiveBuildRun_def
    deriveBuildSucceededStatus_def readyIsCurrent_def buildIsUnknown_def setting_fields
  by (rule allI refl)+

lemma setting_writes:
  "patch_status (setting f C) = patch_status C" "patch_object (setting f C) = patch_object C"
  "update_object (setting f C) = update_object C"
  unfolding fun_eq_iff patch_status_def patch_object_def update_object_def setting_fields
  by (rule allI refl)+

lemma setting_steps:
  "ensureOnCommitLabel (setting f C) = ensureOnCommitLabel C" "patchBuildRef (setting f C) = patchBuildRef C"
  "patchLatestImage (setting f C) = patchLatestImage C" "ensureBuild (setting f C) = ensureBuild C"
  "getLastBuildRun (setting f C) = getLastBuildRun C" "getOrCreateBuildRun (setting f C) = getOrCreateBuildRun C"
  "positiveUntil (setting f C) = positiveUntil C" "patchOnCommitTriggered (setting f C) = patchOnCommitTriggered C"
  unfolding fun_eq_iff ensureOnCommitLabel_def patchBuildRef_def patchLatestImage_def ensureBuild_def
    getLastBuildRun_def getOrCreateBuildRun_def positiveUntil_def patchOnCommitTriggered_def
    setting_fields setting_pure setting_writes
  by (rule allI refl)+

lemma setting_flows:
  "ensureBuildRun (setting f C) = ensureBuildRun C"
  "reconcileOnCommitBuildRun (setting f C) = reconcileOnCommitBuildRun C"
  unfolding fun_eq_iff ensureBuildRun_def reconcileOnCommitBuildRun_def remainingWait_def getActiveBuildRun_def
    ensureOnCommitBuildRun_def setting_fields setting_pure setting_writes setting_steps
  by (rule allI refl)+

lemma setting_default: "reconcileDefaultBuildRun (setting f C) = reconcileDefaultBuildRun C"
  unfolding reconcileDefaultBuildRun_def setting_writes setting_steps setting_flows by (rule refl)

section \<open>What sets conditions\<close>

lemma set_status_condition_same:
  "same_on_admitted f C \<Longrightarrow> admitted c \<Longrightarrow> set_status_condition (setting f C) c = set_status_condition C c"
  by (simp add: set_status_condition_def same_on_admitted_def setting_def)

lemma patchReadyCondition_same:
  assumes "same_on_admitted f C" and "status_ok st" and "reason_ok reason"
  shows "patchReadyCondition (setting f C) st reason msg = patchReadyCondition C st reason msg"
proof -
  have "admitted (new_condition TypeReady st reason msg g)" for g
    using assms(2,3) types_ok by (simp add: admitted_def new_condition_def)
  note same = set_status_condition_same [OF assms(1) this]
  show ?thesis unfolding patchReadyCondition_def same setting_writes by (rule refl)
qed

lemma setNotReady_same:
  "same_on_admitted f C \<Longrightarrow> reason_ok reason \<Longrightarrow> setNotReady (setting f C) reason msg = setNotReady C reason msg"
  by (simp add: setNotReady_def patchReadyCondition_same statuses_ok)

lemma patchBuildSucceededCondition_same:
  assumes "same_on_admitted f C"
  shows "patchBuildSucceededCondition (setting f C) br = patchBuildSucceededCondition C br"
proof -
  obtain st reason msg where der: "deriveBuildSucceededStatus C br = (st, reason, msg)" by (metis surj_pair)
  have "admitted (new_condition TypeBuildSucceeded st reason msg g)" for g
    using derived_ok [OF der] types_ok by (simp add: admitted_def new_condition_def)
  note same = set_status_condition_same [OF assms this]
  show ?thesis
    unfolding patchBuildSucceededCondition_def setting_pure der prod.case Let_def same setting_writes by (rule refl)
qed

lemma reconcile_steps_same:
  assumes "same_on_admitted f C"
  shows "validateWebhookSecret (setting f C) = validateWebhookSecret C" "reconcileBuild (setting f C) = reconcileBuild C"
    "reconcileBuildRun (setting f C) = reconcileBuildRun C" "reconcileStatus (setting f C) = reconcileStatus C"
proof -
  note notReady = reasons_ok [THEN setNotReady_same [OF assms]] buildFailureReason_ok [THEN setNotReady_same [OF assms]]
  have "reason_ok (if errors_As e AlreadyOwned then ReasonBuildRunConflict else ReasonBuildRunReconcileFailed)" for e
    by (simp add: reasons_ok)
  note conflict = this [THEN setNotReady_same [OF assms]]
  note ready = patchReadyCondition_same [OF assms statuses_ok(1) reasons_ok(5)]
  show "validateWebhookSecret (setting f C) = validateWebhookSecret C"
    unfolding validateWebhookSecret_def setting_fields notReady by (rule refl)
  show "reconcileBuild (setting f C) = reconcileBuild C"
    unfolding reconcileBuild_def setting_fields setting_steps notReady by (rule refl)
  show "reconcileBuildRun (setting f C) = reconcileBuildRun C"
    unfolding reconcileBuildRun_def setting_flows setting_default notReady conflict by (rule refl)
  show "reconcileStatus (setting f C) = reconcileStatus C"
    unfolding fun_eq_iff reconcileStatus_def setting_fields setting_pure setting_steps ready
      patchBuildSucceededCondition_same [OF assms] by (rule allI refl)+
qed

section \<open>The property\<close>

text \<open>
  C22. The reconciler only asks for conditions that the schema of the CRD admits, as far as
  type, status and reason go: if the library treated all other conditions differently, in
  whatever way, no reconcile of any ImageBuild on any cluster would do or answer anything
  else. (The message is text of errors and of the run's own condition, and has no bound.)
\<close>

theorem conditions_admitted:
  fixes C :: "'w client"
  assumes "\<forall>cs c. admitted c \<longrightarrow> f cs c = cl_SetStatusCondition C cs c"
  shows "Reconcile (C\<lparr>cl_SetStatusCondition := f\<rparr>) req = Reconcile C req"
proof -
  have same: "same_on_admitted f C" using assms by (simp add: same_on_admitted_def)
  have "Reconcile (setting f C) req = Reconcile C req"
    unfolding Reconcile_def reconcileFetched_def setting_fields setting_steps reconcile_steps_same [OF same] by (rule refl)
  then show ?thesis by (simp add: setting_def)
qed

end
