(* ===== verification/Witnesses_Cluster.thy ===== *)
theory Witnesses_Cluster
  imports Witnesses Push_Flow Double_Run Conditions
begin

text \<open>
  Concrete inputs for the properties of \<open>Whole_Reconcile\<close>, on the cluster in memory: an
  ImageBuild that has just been made, and one whose run is in progress.
\<close>

section \<open>A new ImageBuild\<close>

lemma demo_equipped:
  "spec_OnCommit (ib_Spec ib) = None \<Longrightarrow> bf_Mode (spec_BuildFile (ib_Spec ib)) = ''Absent'' \<Longrightarrow> m_Builds w k = None \<Longrightarrow>
     k = build_key ib \<Longrightarrow> m_Policies w ''image-build-policy'' = Some demo_policy \<Longrightarrow> ''absent'' \<in> set (m_Strategies w) \<Longrightarrow>
     equipped ref_client (mem_settings w) (m_Builds w) demo_policy ib"
  by (simp add: equipped_def webhook_secret_ok_def mem_settings_def policyName_def selectedStrategyName_def
      demo_policy_def ImageBuildFileModePresent_def)

lemma changed_spec_reconciled_witness:
  "\<exists>br b w' ib'. run_state (Reconcile ref_client (ib_key demo_ib)) (demo_mem demo_ib) =
       (requeue (poll_interval ref_client br), w') \<and>
     m_BuildRuns w' = [ObjectKeyOf (br_Meta (newBuildRun demo_ib 1)) \<mapsto> br] \<and>
     m_Builds w' = [build_key demo_ib \<mapsto> b] \<and> wanted_build ref_client demo_ib demo_policy b \<and>
     reports ref_client br demo_ib ib' \<and> \<not> isSpecDrifted ib'"
proof -
  have eq: "equipped ref_client (mem_settings (demo_mem demo_ib)) (m_Builds (demo_mem demo_ib)) demo_policy demo_ib"
    by (rule demo_equipped) (simp_all add: demo_mem_def demo_ib_def demo_spec_def)
  have "\<not> isRebuildEnabled demo_ib" by (simp add: isRebuildEnabled_def demo_defs)
  moreover have "ObjectKeyOf (br_Meta (newBuildRun demo_ib 1)) =
      ObjectKeyOf (br_Meta (newBuildRun demo_ib (nextCounter (st_BuildRunCounter (ib_Status demo_ib)))))"
    by (simp add: demo_ib_def demo_status_def)
  moreover have "m_BuildRuns (demo_mem demo_ib) = Map.empty" "m_Builds (demo_mem demo_ib) = Map.empty"
    by (simp_all add: demo_mem_def)
  ultimately show ?thesis
    using changed_spec_reconciled [OF ref_cluster.cluster_axioms demo_sync eq _ demo_drifted] by fastforce
qed

section \<open>A run in progress\<close>

text \<open>The ImageBuild after its spec was recorded; the run succeeds after the first round.\<close>

definition demo_built :: ImageBuild where
  "demo_built = demo_ib
     \<lparr>ib_Meta := (ib_Meta demo_ib)\<lparr>om_Annotations := [AnnotationKeyLastBuildSpec \<mapsto> json_Marshal (inputs_of demo_ib)]\<rparr>,
      ib_Status := (ib_Status demo_ib)\<lparr>st_BuildRunCounter := 1, st_LastBuildRunRef := br_Name demo_run\<rparr>\<rparr>"

definition demo_succeeded :: BuildRun where
  "demo_succeeded = demo_run\<lparr>br_Status := \<lparr>brs_Conditions =
     [\<lparr>brc_Type = ''Succeeded'', brc_Status = ConditionTrue, brc_Message = ''''\<rparr>], brs_Output = None\<rparr>\<rparr>"

definition demo_course :: "nat \<Rightarrow> BuildRun" where
  "demo_course n = (if n = 0 then demo_run else demo_succeeded)"

definition demo_run_key :: NamespacedName where
  "demo_run_key = \<lparr>nn_Namespace = ''ns'', nn_Name = br_Name demo_run\<rparr>"

definition demo_tick :: "nat \<Rightarrow> mem \<Rightarrow> mem" where
  "demo_tick n w = w\<lparr>m_BuildRuns := (m_BuildRuns w)(demo_run_key \<mapsto> demo_course (Suc n))\<rparr>"

definition demo_busy :: mem where
  "demo_busy = (demo_mem demo_built)\<lparr>m_BuildRuns := [demo_run_key \<mapsto> demo_run]\<rparr>"

lemma demo_built_meta: "ib_Namespace demo_built = ''ns''" "ib_key demo_built = demo_key"
  by (simp_all add: demo_built_def demo_defs ObjectKeyOf_def)

lemma demo_polled:
  "polled ref_client mem_stored mem_healthy id m_BuildRuns m_Builds mem_settings demo_policy (demo_course 0) demo_built demo_busy"
proof -
  have "in_sync mem_stored mem_healthy id \<lparr>rs_ib = demo_built, rs_world = demo_busy\<rparr>"
    using demo_built_meta(2) by (simp add: in_sync_def mem_stored_def mem_healthy_def demo_busy_def demo_mem_def)
  moreover have "equipped ref_client (mem_settings demo_busy) (m_Builds demo_busy) demo_policy demo_built"
    by (rule demo_equipped) (simp_all add: demo_busy_def demo_mem_def demo_built_def demo_ib_def demo_spec_def)
  moreover have "\<not> isRebuildEnabled demo_built" by (simp add: isRebuildEnabled_def demo_built_def demo_defs)
  moreover have "\<not> isSpecDrifted demo_built"
    by (subst isSpecDrifted_recorded [where x = "inputs_of demo_ib"])
      (simp_all add: demo_built_def inputs_of_def demo_run_def newBuildRun_name_ne)
  ultimately show ?thesis
    using demo_built_meta(1) by (simp add: polled_def demo_course_def demo_busy_def demo_run_key_def)
      (simp add: demo_built_def)
qed

lemma demo_progress:
  "run_progress mem_stored mem_healthy m_BuildRuns m_Builds mem_settings demo_run_key demo_course demo_tick"
  by (simp add: run_progress_def demo_tick_def mem_healthy_def mem_stored_def demo_run_key_def demo_course_def
      demo_succeeded_def)

lemma known_run_reported_witness:
  "\<exists>b w' ib'. run_state (Reconcile ref_client demo_key) demo_busy = (requeue buildRunPollInterval, w') \<and>
     m_BuildRuns w' = m_BuildRuns demo_busy \<and> m_Builds w' = [build_key demo_built \<mapsto> b] \<and>
     reports ref_client demo_run demo_built ib' \<and> \<not> isSpecDrifted ib'"
proof -
  have "poll_interval ref_client demo_run = buildRunPollInterval"
    by (simp add: poll_interval_def deriveBuildSucceededStatus_def ref_client_def demo_run_def newBuildRun_def)
  moreover have "m_Builds demo_busy = Map.empty" by (simp add: demo_busy_def demo_mem_def)
  moreover from demo_polled have p: "in_sync mem_stored mem_healthy id \<lparr>rs_ib = demo_built, rs_world = demo_busy\<rparr>"
    "equipped ref_client (mem_settings demo_busy) (m_Builds demo_busy) demo_policy demo_built"
    "\<not> isRebuildEnabled demo_built" "\<not> isSpecDrifted demo_built"
    "m_BuildRuns demo_busy \<lparr>nn_Namespace = ib_Namespace demo_built,
       nn_Name = st_LastBuildRunRef (ib_Status demo_built)\<rparr> = Some demo_run"
    "br_Name demo_run = st_LastBuildRunRef (ib_Status demo_built)"
    by (simp_all add: polled_def demo_course_def)
  ultimately show ?thesis
    using known_run_reported [OF ref_cluster.cluster_axioms p] demo_built_meta(2) by auto
qed

lemma polling_ends_witness:
  "\<exists>n w' ib0 ib'. n \<le> 1 \<and>
     run_state (Reconcile ref_client demo_key) (rounds ref_client demo_key demo_tick n demo_busy) = (requeue 0, w') \<and>
     reports ref_client (demo_course n) ib0 ib' \<and>
     m_BuildRuns w' = (m_BuildRuns demo_busy)(demo_run_key \<mapsto> demo_course n)"
proof -
  have "fst (deriveBuildSucceededStatus ref_client (demo_course 1)) \<noteq> ConditionUnknown"
    by (simp add: deriveBuildSucceededStatus_def ref_client_def demo_course_def demo_succeeded_def)
  from polling_ends [OF ref_cluster.cluster_axioms demo_polled demo_progress _ this] demo_built_meta
  show ?thesis by (auto simp: demo_run_key_def)
qed

section \<open>A short and a long name\<close>

definition long_ib :: ImageBuild where
  "long_ib = demo_ib\<lparr>ib_Meta := (ib_Meta demo_ib)\<lparr>om_Name := replicate 64 CHR ''a''\<rparr>\<rparr>"

lemma created_objects_valid_witness:
  "valid_meta (br_Meta (newBuildRun demo_ib 1)) \<and> \<not> valid_meta (build_Meta (newBuild long_ib demo_policy ''absent''))"
proof -
  have ab: "lower_alnum (CHR ''i'')" "lower_alnum (CHR ''b'')" "lower_alnum (CHR ''a'')"
    by (simp_all add: lower_alnum_def)
  have short: "dns_subdomain (ib_Name demo_ib)" "length (ib_Name demo_ib) \<le> 63"
    by (simp_all add: demo_ib_def demo_meta_def new_meta_def dns_subdomain_def ab)
  have "length (ib_Name long_ib) = 64" by (simp add: long_ib_def)
  moreover have "dns_subdomain (ib_Name long_ib)"
    by (simp add: long_ib_def dns_subdomain_def ab numeral_eq_Suc)
  ultimately show ?thesis
    using created_objects_valid [OF short(1), of demo_policy "''absent''" 1] short(2)
      created_objects_valid [of long_ib demo_policy "''absent''" 1] by simp
qed

section \<open>A push\<close>

definition demo_hook_ib :: ImageBuild where
  "demo_hook_ib = demo_commit_ib (Some demo_secret_ref)"

definition demo_hook_mem :: mem where
  "demo_hook_mem = (demo_mem demo_hook_ib)
     \<lparr>m_Secrets := [\<lparr>nn_Namespace = ''ns'', nn_Name = ''hook''\<rparr> \<mapsto> [''token'' \<mapsto> ''s3cr3t'']]\<rparr>"

definition demo_signed :: Request where
  "demo_signed = demo_request\<lparr>req_Header := (req_Header demo_request)(''X-Hub-Signature'' := [''s3cr3t''])\<rparr>"

lemma demo_signed_event:
  "readEvent demo_hooklib demo_signed = Some (''body'', githubProvider demo_hooklib, demo_event)"
  by (simp add: demo_event_def demo_signed_def readEvent_def detectProvider_def githubProvider_def github_Detect_def
      github_ReadPushEvent_def newPushEvent_def demo_defs Header_Get_def TrimSpace_def is_space_def)

lemma demo_hook_match: "demo_hook_ib \<in> set (findMatches demo_hooklib demo_event [demo_hook_ib])"
  by (simp add: demo_hook_ib_def demo_event_def findMatches_def matchesEvent_def repoIdentity_def normalizeRepoURL_def
      demo_defs go_consts TrimSpace_def TrimRight_def TrimSuffix_def HasSuffix_def is_space_def ToLower_def lower_char_def)

lemma demo_hook_stored:
  "mem_healthy demo_hook_mem" "ib_key demo_hook_ib = demo_key" "mem_stored demo_hook_mem demo_key = Some demo_hook_ib"
  "mem_stored demo_hook_mem k = Some x \<Longrightarrow> x = demo_hook_ib"
  by (auto simp: mem_healthy_def mem_stored_def demo_hook_mem_def demo_hook_ib_def demo_defs ObjectKeyOf_def
      split: if_splits)

lemma demo_hook_secret: "hook_secret (mem_settings demo_hook_mem) demo_hook_ib = Some ''s3cr3t''"
  by (simp add: hook_secret_def mem_settings_def demo_hook_mem_def demo_hook_ib_def demo_defs)

lemma demo_hook_admits:
  "admits (githubProvider demo_hooklib) demo_signed ''body'' (mem_settings demo_hook_mem) demo_hook_ib"
  by (simp add: admits_def demo_hook_secret githubProvider_def github_Authenticate_def demo_hooklib_def demo_signed_def
      Header_Get_def)

lemma demo_hook_recorded:
  assumes "recorded_as demo_event t demo_hook_ib ib1" and "st_OnCommit (ib_Status ib1) = Some oc"
  shows "ocs_LastTriggeredBuildRun oc = None" "ocs_TriggerCounter oc = 0" "idle ref_client Map.empty ib1"
    "equipped ref_client (mem_settings demo_hook_mem) Map.empty demo_policy ib1"
  using assms
  by (auto simp: recorded_as_def recordEvent_eq idle_def equipped_def webhook_secret_ok_def mem_settings_def policyName_def
      selectedStrategyName_def ImageBuildFileModePresent_def demo_hook_ib_def demo_hook_mem_def demo_defs)

lemma pushed_commit_built_witness:
  "\<exists>w1 ib1 t br w3 ib3.
     run_state (ServeHTTP demo_hooklib demo_handler (attempts 3) demo_signed) demo_hook_mem =
       (Some (WriteHeader 202), w1) \<and> mem_stored w1 demo_key = Some ib1 \<and>
     run_state (Reconcile ref_client demo_key)
         (demo_hook_mem\<lparr>m_ImageBuilds := m_ImageBuilds w1, m_Clock := t + onCommitDebounce\<rparr>) =
       (requeue (poll_interval ref_client br), w3) \<and>
     m_BuildRuns w3 = [ObjectKeyOf (br_Meta (onCommitBuildRun ib1 1)) \<mapsto> br] \<and>
     mem_stored w3 demo_key = Some ib3 \<and> map_option ocs_Pending (st_OnCommit (ib_Status ib3)) = Some None"
proof -
  have h: "h_Client demo_handler = ref_client" "harmless mem_stored mem_healthy mem_settings demo_handler"
    by (simp_all add: demo_handler_def harmless_def)
  have st: "mem_stored demo_hook_mem (ib_key demo_hook_ib) = Some demo_hook_ib" by (simp add: demo_hook_stored)
  have label: "om_Labels (ib_Meta demo_hook_ib) LabelKeyOnCommitEnabled = Some ''true''"
    by (simp add: demo_hook_ib_def demo_defs)
  have "\<forall>x. mem_stored demo_hook_mem (ib_key x) = Some x \<longrightarrow> x \<in> set (findMatches demo_hooklib demo_event [x]) \<longrightarrow>
      hook_secret (mem_settings demo_hook_mem) x \<noteq> None"
    using demo_hook_stored(4) demo_hook_secret by fastforce
  from pushed_commit_built [OF ref_operated.operated_axioms default_backoff.retry_on_conflict_axioms h demo_signed_event
      demo_hook_stored(1) st label demo_hook_match this demo_hook_admits]
  obtain w1 ib1 oc e t where
    r: "run_state (ServeHTTP demo_hooklib demo_handler (attempts 3) demo_signed) demo_hook_mem =
       (Some (WriteHeader 202), w1)" "mem_stored w1 (ib_key demo_hook_ib) = Some ib1"
    and rec: "recorded_as demo_event (id t) demo_hook_ib ib1" and oc: "st_OnCommit (ib_Status ib1) = Some oc"
      "ocs_Pending oc = Some e" "ev_ReceivedAt e = id t" and
    flow: "\<forall>w2 policy c k. mem_healthy w2 \<longrightarrow> mem_stored w2 (ib_key demo_hook_ib) = Some ib1 \<longrightarrow>
        due oc e (m_Clock w2) \<longrightarrow> idle ref_client (m_BuildRuns w2) ib1 \<longrightarrow>
        equipped ref_client (mem_settings w2) (m_Builds w2) policy ib1 \<longrightarrow>
        c = nextCounter (ocs_TriggerCounter oc) \<longrightarrow> k = ObjectKeyOf (br_Meta (onCommitBuildRun ib1 c)) \<longrightarrow>
        m_BuildRuns w2 k = None \<longrightarrow>
        (\<exists>br w3 ib3 t'. run_state (Reconcile ref_client (ib_key demo_hook_ib)) w2 = (requeue (poll_interval ref_client br), w3) \<and>
           m_BuildRuns w3 = (m_BuildRuns w2)(k \<mapsto> br) \<and> mem_stored w3 (ib_key demo_hook_ib) = Some ib3 \<and>
           reports ref_client br (on_commit (triggered oc c (br_Name br) (pe_commitSHA demo_event) t') ib1) ib3)" by blast
  note rec = demo_hook_recorded [OF rec oc(1)]
  let ?w2 = "demo_hook_mem\<lparr>m_ImageBuilds := m_ImageBuilds w1, m_Clock := t + onCommitDebounce\<rparr>"
  have "mem_healthy ?w2" using demo_hook_stored(1) by (simp add: mem_healthy_def)
  moreover have "mem_stored ?w2 (ib_key demo_hook_ib) = Some ib1" using r(2) by (simp add: mem_stored_def)
  moreover have "due oc e (m_Clock ?w2)" using oc(3) rec(1) by (simp add: due_def elapsed_def new_commit_def)
  moreover have "m_BuildRuns ?w2 = Map.empty" "m_Builds ?w2 = Map.empty"
    by (simp_all add: demo_hook_mem_def demo_mem_def)
  moreover have "mem_settings ?w2 = mem_settings demo_hook_mem" by (simp add: mem_settings_def)
  moreover have "1 = nextCounter (ocs_TriggerCounter oc)" using rec(2) by simp
  ultimately obtain br w3 ib3 t' where
    x: "run_state (Reconcile ref_client (ib_key demo_hook_ib)) ?w2 = (requeue (poll_interval ref_client br), w3)"
    "m_BuildRuns w3 = [ObjectKeyOf (br_Meta (onCommitBuildRun ib1 1)) \<mapsto> br]" "mem_stored w3 (ib_key demo_hook_ib) = Some ib3"
    "reports ref_client br (on_commit (triggered oc 1 (br_Name br) (pe_commitSHA demo_event) t') ib1) ib3"
    using flow [rule_format, of ?w2 demo_policy 1] rec(3,4) by auto
  from x(4) have "map_option ocs_Pending (st_OnCommit (ib_Status ib3)) = Some None" by (simp add: reports_def)
  with x r show ?thesis unfolding demo_hook_stored(2)
    by (intro exI [of _ w1] exI [of _ ib1] exI [of _ t] exI [of _ br] exI [of _ w3] exI [of _ ib3]) simp
qed

text \<open>The log of a signed push: the secret is read, then the ImageBuild, which is patched.\<close>

lemma demo_signed_log:
  "\<exists>ok. wl (snd (run_state (ServeHTTP demo_hooklib (logged_handler demo_handler) (attempts 3) demo_signed)
       (demo_hook_mem, []))) =
     [(ListImageBuilds (LabelKeyOnCommitEnabled, ''true''), True), (Now (1000 * second), True),
      (GetSecret (secret_key demo_hook_ib (oc_WebhookSecretRef demo_secret_ref)) (Some [''token'' \<mapsto> ''s3cr3t'']), True),
      (GetImageBuild demo_key, True),
      (PatchImageBuildStatus demo_hook_ib (recordEvent demo_event (1000 * second) demo_hook_ib), ok)]"
proof -
  let ?sel = "(LabelKeyOnCommitEnabled, ''true'')" and ?c = "logged ref_client"
  let ?l1 = "[(ListImageBuilds ?sel, True)]"
  let ?l2 = "?l1 @ [(Now (1000 * second), True)]"
  let ?l3 = "?l2 @ [(GetSecret (secret_key demo_hook_ib (oc_WebhookSecretRef demo_secret_ref))
      (Some [''token'' \<mapsto> ''s3cr3t'']), True)]"
  let ?upd = "recordEvent demo_event (1000 * second) demo_hook_ib"
  let ?p = "githubProvider demo_hooklib"
  have client: "h_Client (logged_handler demo_handler) = ?c" by (simp add: demo_handler_def)
  have lst: "cl_ListImageBuilds ?c ?sel (demo_hook_mem, []) = (Inr [demo_hook_ib], demo_hook_mem, ?l1)"
    by (simp add: logged_def log_call_def ref_defs demo_defs demo_hook_mem_def demo_hook_ib_def ObjectKeyOf_def)
  have match: "findMatches demo_hooklib demo_event [demo_hook_ib] = [demo_hook_ib]"
    using demo_hook_match by (simp add: findMatches_def Let_def split: if_splits)
  have now: "cl_Now ?c (demo_hook_mem, ?l1) = (1000 * second, demo_hook_mem, ?l2)"
    by (simp add: logged_def ref_defs demo_hook_mem_def demo_mem_def)
  have sec: "run_state (getWebhookSecret ?c demo_hook_ib) (demo_hook_mem, ?l2) = (Inr ''s3cr3t'', demo_hook_mem, ?l3)"
    by (simp add: getWebhookSecret_def logged_def ref_defs demo_defs demo_hook_ib_def demo_hook_mem_def Let_def
        secret_key_def)
  have auth: "wp_Authenticate ?p demo_signed ''body'' ''s3cr3t'' = None"
    by (simp add: githubProvider_def github_Authenticate_def demo_hooklib_def demo_signed_def Header_Get_def)
  have get: "cl_GetImageBuild ref_client (ib_key demo_hook_ib) demo_hook_mem = (Inr demo_hook_ib, demo_hook_mem)"
    by (simp add: ref_defs demo_defs demo_hook_mem_def demo_hook_ib_def ObjectKeyOf_def)
  obtain x w2 where "cl_PatchImageBuildStatus ref_client demo_hook_ib ?upd demo_hook_mem = (Inr x, w2)"
    by (simp add: ref_defs demo_defs demo_hook_mem_def demo_hook_ib_def ObjectKeyOf_def store_ImageBuild_def
        recordEvent_def Let_def)
  then have "recordOnce ?c demo_hook_ib demo_event (1000 * second) (demo_hook_mem, ?l3) =
      (None, w2, ?l3 @ [(GetImageBuild (ib_key demo_hook_ib), True), (PatchImageBuildStatus demo_hook_ib ?upd, True)])"
    using get by (simp add: recordOnce_def logged_def log_call_def)
  then have "run_state (patchOnCommitStatus ?c (attempts 3) demo_hook_ib demo_event (1000 * second)) (demo_hook_mem, ?l3) =
      (None, w2, ?l3 @ [(GetImageBuild demo_key, True), (PatchImageBuildStatus demo_hook_ib ?upd, True)])"
    by (simp add: patchOnCommitStatus_def numeral_3_eq_3 demo_hook_stored(2))
  then show ?thesis
    using run_listed [of demo_hooklib demo_signed _ _ _ "logged_handler demo_handler", OF demo_signed_event, unfolded client,
        OF lst match now, of "attempts 3"] sec auth
    by (auto simp: client eventAccepted_def logged_handler_def demo_handler_def split: prod.splits sum.splits)
qed

lemma webhook_writes_authenticated_witness:
  "let l = wl (snd (run_state (ServeHTTP demo_hooklib (logged_handler demo_handler) (attempts 3) demo_signed)
             (demo_hook_mem, [])));
       sel = ListImageBuilds (LabelKeyOnCommitEnabled, ''true'') in
   (\<exists>ok. (PatchImageBuildStatus demo_hook_ib (recordEvent demo_event (1000 * second) demo_hook_ib), ok) \<in> set l) \<and>
   (\<exists>items w1 now ls.
      cl_ListImageBuilds ref_client (LabelKeyOnCommitEnabled, ''true'') demo_hook_mem = (Inr items, w1) \<and>
      l = (sel, True) # (Now now, True) # concat ls \<and>
      list_all2 (match_log ref_client (githubProvider demo_hooklib) demo_signed ''body'' demo_event now)
        (take (length ls) (findMatches demo_hooklib demo_event items)) ls)"
proof -
  have client: "h_Client demo_handler = ref_client" by (simp add: demo_handler_def)
  obtain ok where log: "wl (snd (run_state (ServeHTTP demo_hooklib (logged_handler demo_handler) (attempts 3) demo_signed)
       (demo_hook_mem, []))) =
     [(ListImageBuilds (LabelKeyOnCommitEnabled, ''true''), True), (Now (1000 * second), True),
      (GetSecret (secret_key demo_hook_ib (oc_WebhookSecretRef demo_secret_ref)) (Some [''token'' \<mapsto> ''s3cr3t'']), True),
      (GetImageBuild demo_key, True),
      (PatchImageBuildStatus demo_hook_ib (recordEvent demo_event (1000 * second) demo_hook_ib), ok)]"
    using demo_signed_log by blast
  from webhook_writes_authenticated [OF default_backoff.retry_on_conflict_axioms,
      of demo_hooklib demo_handler demo_signed demo_hook_mem]
  show ?thesis
    unfolding demo_signed_event Let_def option.case prod.case log client by (elim disjE exE conjE) auto
qed

text \<open>A second ImageBuild of the repository, without a secret reference.\<close>

definition demo_unconfigured :: ImageBuild where
  "demo_unconfigured = (demo_commit_ib None)\<lparr>ib_Meta := (ib_Meta (demo_commit_ib None))\<lparr>om_Name := ''open''\<rparr>\<rparr>"

definition demo_two_mem :: mem where
  "demo_two_mem = demo_hook_mem
     \<lparr>m_ImageBuilds := [(demo_key, demo_hook_ib), (ib_key demo_unconfigured, demo_unconfigured)]\<rparr>"

text \<open>The first match is authenticated and its commit recorded; the second ends the request.\<close>

lemma unconfigured_match_ends_request_witness:
  "\<exists>w'. run_state (authenticateAll demo_handler (attempts 3) (githubProvider demo_hooklib) demo_signed ''body''
       demo_event (1000 * second) [demo_hook_ib] 0) demo_two_mem = (Inr 1, w') \<and>
     run_state (ServeHTTP demo_hooklib demo_handler (attempts 3) demo_signed) demo_two_mem =
       (Some (http_Error ''internal error'' 500), w')"
proof -
  have "fst (recordOnce ref_client demo_hook_ib demo_event (1000 * second) demo_two_mem) = None"
    by (simp add: recordOnce_def ref_defs demo_defs demo_hook_ib_def demo_two_mem_def demo_hook_mem_def
        ObjectKeyOf_def store_ImageBuild_def recordEvent_def Let_def)
  then obtain w' where "attempts 3 (recordOnce ref_client demo_hook_ib demo_event (1000 * second)) demo_two_mem = (None, w')"
    by (cases "recordOnce ref_client demo_hook_ib demo_event (1000 * second) demo_two_mem")
      (simp add: numeral_3_eq_3)
  then have pat: "run_state (patchOnCommitStatus ref_client (attempts 3) demo_hook_ib demo_event (1000 * second))
      demo_two_mem = (None, w')"
    by (simp add: patchOnCommitStatus_def)
  have sec: "run_state (getWebhookSecret ref_client demo_hook_ib) demo_two_mem = (Inr ''s3cr3t'', demo_two_mem)"
    by (simp add: getWebhookSecret_def ref_defs demo_defs demo_hook_ib_def demo_two_mem_def demo_hook_mem_def Let_def)
  have auth: "wp_Authenticate (githubProvider demo_hooklib) demo_signed ''body'' ''s3cr3t'' = None"
    by (simp add: githubProvider_def github_Authenticate_def demo_hooklib_def demo_signed_def Header_Get_def)
  have first: "run_state (authenticateAll demo_handler (attempts 3) (githubProvider demo_hooklib) demo_signed ''body''
      demo_event (1000 * second) [demo_hook_ib] 0) demo_two_mem = (Inr 1, w')"
    by (simp add: demo_handler_def sec auth pat eventAccepted_def)
  have lst: "cl_ListImageBuilds (h_Client demo_handler) (LabelKeyOnCommitEnabled, ''true'') demo_two_mem =
      (Inr [demo_hook_ib, demo_unconfigured], demo_two_mem)"
    by (simp add: ref_defs demo_defs demo_two_mem_def demo_hook_mem_def demo_hook_ib_def demo_unconfigured_def
        ObjectKeyOf_def)
  have match: "findMatches demo_hooklib demo_event [demo_hook_ib, demo_unconfigured] = [demo_hook_ib] @ demo_unconfigured # []"
    by (simp add: demo_hook_ib_def demo_unconfigured_def demo_event_def findMatches_def matchesEvent_def repoIdentity_def
        normalizeRepoURL_def demo_defs go_consts TrimSpace_def TrimRight_def TrimSuffix_def HasSuffix_def
        is_space_def ToLower_def lower_char_def)
  have now: "cl_Now (h_Client demo_handler) demo_two_mem = (1000 * second, demo_two_mem)"
    by (simp add: ref_defs demo_handler_def demo_two_mem_def demo_hook_mem_def demo_mem_def)
  have none: "spec_OnCommit (ib_Spec demo_unconfigured) = None"
    by (simp add: demo_unconfigured_def demo_commit_ib_def)
  from unconfigured_match_ends_request [OF demo_signed_event lst match now none, of "attempts 3"] first
  show ?thesis by auto
qed

section \<open>A conflict\<close>

lemma failed_update_builds_twice_witness:
  "\<exists>s1 ib1 s2 br1 br2.
     run_state (reconcileDefaultBuildRun (refusing (LibError Conflict ''newer'') ref_client))
         \<lparr>rs_ib = demo_ib, rs_world = demo_mem demo_ib\<rparr> =
       (Err (wrap ''failed to update ImageBuild'' (LibError Conflict ''newer'')), s1) \<and>
     mem_stored (rs_world s1) (ib_key demo_ib) = Some ib1 \<and>
     run_state (reconcileDefaultBuildRun ref_client) \<lparr>rs_ib = ib1, rs_world = rs_world s1\<rparr> = (Ok (Some br2), s2) \<and>
     m_BuildRuns (rs_world s2) =
       [ObjectKeyOf (br_Meta (newBuildRun demo_ib 1)) \<mapsto> br1, ObjectKeyOf (br_Meta (newBuildRun demo_ib 2)) \<mapsto> br2]"
proof -
  have "1 = nextCounter (st_BuildRunCounter (ib_Status (rs_ib \<lparr>rs_ib = demo_ib, rs_world = demo_mem demo_ib\<rparr>)))"
    by (simp add: demo_ib_def demo_status_def)
  moreover have "m_BuildRuns (demo_mem demo_ib) = Map.empty" by (simp add: demo_mem_def)
  moreover have "nextCounter 1 = 2" by (simp add: nextCounter_def word_sless_alt)
  ultimately show ?thesis
    using failed_update_builds_twice [OF ref_runs.run_server_axioms demo_sync, of 1 "LibError Conflict ''newer''"]
      demo_drifted by fastforce
qed

section \<open>Conditions\<close>

text \<open>A library that drops all conditions when it is given one that the CRD does not admit.\<close>

lemma conditions_admitted_witness:
  "Reconcile (ref_client\<lparr>cl_SetStatusCondition :=
       (\<lambda>cs c w. if admitted c then (ref_set_condition cs c (m_Clock w), w) else ([], w))\<rparr>) demo_key =
   Reconcile ref_client demo_key"
  by (rule conditions_admitted) (simp add: ref_client_def)

end
