(* ===== verification/Phases.thy ===== *)
theory Phases
  imports Controller_Log
begin

text \<open>
  The order of a reconcile's requests, as a linear order on the phases they belong to:
  whatever the cluster answers, no phase is entered again once a later one has begun.
\<close>

section \<open>Phases\<close>

datatype phase =
    ObjectRead | LabelPatch | SecretRead | PolicyRead | StrategyRead | BuildRequest | RunRequests
  | SpecRecord

fun phase_rank :: "phase \<Rightarrow> nat" where
  "phase_rank ObjectRead = 0"
| "phase_rank LabelPatch = 1"
| "phase_rank SecretRead = 2"
| "phase_rank PolicyRead = 3"
| "phase_rank StrategyRead = 4"
| "phase_rank BuildRequest = 5"
| "phase_rank RunRequests = 6"
| "phase_rank SpecRecord = 7"

lemma phase_rank_inject [simp]: "phase_rank a = phase_rank b \<longleftrightarrow> a = b"
  by (cases a; cases b) auto

instantiation phase :: linorder
begin

definition less_eq_phase :: "phase \<Rightarrow> phase \<Rightarrow> bool" where
  "less_eq_phase a b \<longleftrightarrow> phase_rank a \<le> phase_rank b"

definition less_phase :: "phase \<Rightarrow> phase \<Rightarrow> bool" where
  "less_phase a b \<longleftrightarrow> phase_rank a < phase_rank b"

instance
  by standard (auto simp: less_eq_phase_def less_phase_def)

end

text \<open>Status patches and reads of the clock happen in every phase and have none.\<close>

fun phase_of :: "api_call \<Rightarrow> phase option" where
  "phase_of (GetImageBuild k) = Some ObjectRead"
| "phase_of (PatchImageBuild a b) = Some LabelPatch"
| "phase_of (GetSecret k x) = Some SecretRead"
| "phase_of (GetImageBuildPolicy n) = Some PolicyRead"
| "phase_of (GetClusterBuildStrategy n) = Some StrategyRead"
| "phase_of (CreateOrPatchBuild b) = Some BuildRequest"
| "phase_of (GetBuildRun k x) = Some RunRequests"
| "phase_of (CreateBuildRun b) = Some RunRequests"
| "phase_of (UpdateImageBuild a) = Some SpecRecord"
| "phase_of (ListImageBuilds x) = None"
| "phase_of (PatchImageBuildStatus a b) = None"
| "phase_of (Now t) = None"

fun phases :: "entry list \<Rightarrow> phase list" where
  "phases [] = []"
| "phases ((c, ok) # l) = (case phase_of c of None \<Rightarrow> phases l | Some p \<Rightarrow> p # phases l)"

lemma phases_append [simp]: "phases (l @ l') = phases l @ phases l'"
  by (induction l rule: phases.induct) (auto split: option.split)

section \<open>Segments\<close>

text \<open>In order, between two phases, and each phase but that of the runs at most once.\<close>

definition seg :: "phase \<Rightarrow> phase \<Rightarrow> phase list \<Rightarrow> bool" where
  "seg lo hi ps \<longleftrightarrow> sorted ps \<and> set ps \<subseteq> {lo..hi} \<and> distinct (List.filter (\<lambda>p. p \<noteq> RunRequests) ps)"

definition before :: "phase \<Rightarrow> phase \<Rightarrow> bool" where
  "before a b \<longleftrightarrow> a < b \<or> a = RunRequests \<and> b = RunRequests"

lemma seg_Nil [simp]: "seg lo hi []"
  by (simp add: seg_def)

lemma seg_single [simp]: "seg p p [p]"
  by (simp add: seg_def)

lemma seg_append:
  assumes "seg lo mid l" and "seg mid' hi l'" and "before mid mid'"
    and "lo \<le> mid'" and "mid \<le> hi"
  shows "seg lo hi (l @ l')"
proof -
  have le: "x \<le> y" if "x \<in> set l" "y \<in> set l'" for x y
    using assms(1,2,3) that by (force simp: seg_def before_def)
  have ne: "x \<noteq> y" if "x \<in> set l" "y \<in> set l'" "x \<noteq> RunRequests" for x y
    using assms(1,2,3) that by (fastforce simp: seg_def before_def)
  from assms le ne show ?thesis
    by (fastforce simp: seg_def sorted_append)
qed

definition spans :: "phase \<Rightarrow> phase \<Rightarrow> ('w logging rstate, 'a) state \<Rightarrow> bool" where
  "spans lo hi m \<longleftrightarrow> emits lg m (\<lambda>_ l. seg lo hi (phases l))"

lemma spans_bind:
  assumes "spans lo mid m" and "\<And>a. spans mid' hi (f a)"
    and "before mid mid'" and "lo \<le> mid'" and "mid \<le> hi"
  shows "spans lo hi (State_Monad.bind m f)"
  unfolding spans_def
  by (rule emits_bind [OF assms(1) [unfolded spans_def]])
    (auto intro!: emits_weaken [OF assms(2) [unfolded spans_def]] seg_append assms(3-5))

lemma spans_return [simp]: "spans lo hi (State_Monad.return a)"
  by (simp add: spans_def emits_return)

lemma spans_bind_res:
  assumes "spans lo mid m" and "\<And>a. spans mid' hi (f a)"
    and "before mid mid'" and "lo \<le> mid'" and "mid \<le> hi"
  shows "spans lo hi (bind_res m f)"
  unfolding bind_res_def
  by (rule spans_bind [OF assms(1) _ assms(3-5)]) (auto intro: assms(2) split: res.splits)

text \<open>Steps without a phase.\<close>

definition phaseless :: "('w logging rstate, 'a) state \<Rightarrow> bool" where
  "phaseless m \<longleftrightarrow> emits lg m (\<lambda>_ l. phases l = [])"

named_theorems phaseless_intros

lemma phaseless_return [phaseless_intros]: "phaseless (State_Monad.return a)"
  by (simp add: phaseless_def emits_return)

lemma phaseless_bind [phaseless_intros]:
  "phaseless m \<Longrightarrow> (\<And>a. phaseless (f a)) \<Longrightarrow> phaseless (State_Monad.bind m f)"
  unfolding phaseless_def by (erule emits_bind) (auto elim: emits_weaken)

lemma phaseless_bind_res [phaseless_intros]:
  "phaseless m \<Longrightarrow> (\<And>a. phaseless (f a)) \<Longrightarrow> phaseless (bind_res m f)"
  unfolding bind_res_def by (auto intro!: phaseless_intros split: res.splits)

lemma phaseless_prims [phaseless_intros]:
  "phaseless get_ib" "phaseless (put_ib ib)"
  "phaseless (call (cl_SetStatusCondition (logged C) cs c))"
  "phaseless (call (cl_Now (logged C)))"
  "phaseless (patch_status (logged C) msg orig)"
  unfolding phaseless_def by (rule emits_weaken, rule emits_rules, auto)+

lemma phaseless_status [phaseless_intros]:
  "phaseless (set_status_condition (logged C) c)"
  "phaseless (patchReadyCondition (logged C) st reason msg)"
  "phaseless (setNotReady (logged C) reason msg)"
  "phaseless (patchBuildRef (logged C))"
  "phaseless (patchBuildSucceededCondition (logged C) br)"
  "phaseless (patchLatestImage (logged C) img)"
  "phaseless (positiveUntil (logged C) t)"
  "phaseless (remainingWait (logged C))"
  "phaseless (patchOnCommitTriggered (logged C) br tc sha)"
  "phaseless (reconcileStatus (logged C) b)"
  by (auto simp: set_status_condition_def patchReadyCondition_def setNotReady_def patchBuildRef_def
      patchBuildSucceededCondition_def patchLatestImage_def positiveUntil_def remainingWait_def
      patchOnCommitTriggered_def reconcileStatus_def Let_def
      intro!: phaseless_intros split: quiet_splits)

lemma spans_phaseless: "phaseless m \<Longrightarrow> spans lo hi m"
  unfolding spans_def phaseless_def by (erule emits_weaken) simp

lemma spans_left:
  assumes "phaseless m" and "\<And>a. spans lo hi (f a)"
  shows "spans lo hi (State_Monad.bind m f)"
  unfolding spans_def
  by (rule emits_bind [OF assms(1) [unfolded phaseless_def]])
    (rule emits_weaken [OF assms(2) [unfolded spans_def]], simp)

lemma spans_right:
  assumes "spans lo hi m" and "\<And>a. phaseless (f a)"
  shows "spans lo hi (State_Monad.bind m f)"
  unfolding spans_def
  by (rule emits_bind [OF assms(1) [unfolded spans_def]])
    (rule emits_weaken [OF assms(2) [unfolded phaseless_def]], simp)

lemma spans_weaken:
  assumes "spans lo hi m" and "lo' \<le> lo" and "hi \<le> hi'"
  shows "spans lo' hi' m"
  unfolding spans_def
  by (rule emits_weaken [OF assms(1) [unfolded spans_def]])
    (use assms(2,3) in \<open>fastforce simp: seg_def\<close>)

lemma spans_left_res: "phaseless m \<Longrightarrow> (\<And>a. spans lo hi (f a)) \<Longrightarrow> spans lo hi (bind_res m f)"
  unfolding bind_res_def by (rule spans_left) (auto split: res.splits)

lemma spans_right_res: "spans lo hi m \<Longrightarrow> (\<And>a. phaseless (f a)) \<Longrightarrow> spans lo hi (bind_res m f)"
  unfolding bind_res_def by (rule spans_right) (auto intro: phaseless_return split: res.splits)

section \<open>The steps of a reconcile\<close>

lemma spans_calls:
  "spans PolicyRead PolicyRead (call (cl_GetImageBuildPolicy (logged C) n))"
  "spans StrategyRead StrategyRead (call (cl_GetClusterBuildStrategy (logged C) n))"
  "spans RunRequests RunRequests (call (cl_GetBuildRun (logged C) k))"
  "spans RunRequests RunRequests (call (cl_CreateBuildRun (logged C) b))"
  "spans BuildRequest BuildRequest (call (cl_CreateOrPatchBuild (logged C) d g))"
  "spans SecretRead SecretRead (call (cl_GetSecret (logged C) k))"
  "spans LabelPatch LabelPatch (patch_object (logged C) msg orig)"
  "spans SpecRecord SpecRecord (update_object (logged C) msg)"
  unfolding spans_def by (rule emits_weaken, rule emits_rules, auto)+

lemma phase_orders [simp]:
  "before PolicyRead StrategyRead" "before StrategyRead BuildRequest" "before RunRequests RunRequests"
  "before RunRequests SpecRecord" "before BuildRequest RunRequests" "before SecretRead PolicyRead"
  "before LabelPatch SecretRead" "before ObjectRead LabelPatch"
  by (simp_all add: before_def less_phase_def)

lemma phase_le [simp]:
  "ObjectRead \<le> p" "LabelPatch \<le> SecretRead" "SecretRead \<le> PolicyRead" "PolicyRead \<le> StrategyRead"
  "StrategyRead \<le> BuildRequest" "BuildRequest \<le> RunRequests" "p \<le> SpecRecord"
  "PolicyRead \<le> BuildRequest" "PolicyRead \<le> RunRequests" "SecretRead \<le> RunRequests"
  "LabelPatch \<le> RunRequests" "SecretRead \<le> BuildRequest" "LabelPatch \<le> PolicyRead"
  by (cases p; simp add: less_eq_phase_def)+

lemmas runs_bind = spans_bind [where lo = RunRequests and mid = RunRequests and mid' = RunRequests
    and hi = RunRequests, OF _ _ phase_orders(3) order_refl order_refl]

lemmas runs_bind_res = spans_bind_res [where lo = RunRequests and mid = RunRequests and mid' = RunRequests
    and hi = RunRequests, OF _ _ phase_orders(3) order_refl order_refl]

lemma spans_ensureOnCommitLabel: "spans LabelPatch LabelPatch (ensureOnCommitLabel (logged C))"
  unfolding ensureOnCommitLabel_def Let_def
  by (rule spans_left [OF phaseless_prims(1)])
    (auto intro!: spans_left [OF phaseless_prims(2)] spans_calls)

lemma spans_validateWebhookSecret: "spans SecretRead SecretRead (validateWebhookSecret (logged C))"
  unfolding validateWebhookSecret_def Let_def
  by (rule spans_left [OF phaseless_prims(1)])
    (auto intro!: spans_right [OF spans_calls(6)] phaseless_intros split: option.splits sum.splits)

lemma spans_ensureBuild: "spans StrategyRead BuildRequest (ensureBuild (logged C) policy s)"
  unfolding ensureBuild_def Let_def
proof (rule spans_left [OF phaseless_prims(1)], rule spans_bind [OF spans_calls(2)])
  fix ib r
  show "spans BuildRequest BuildRequest
     (case r of
        Inl e \<Rightarrow> State_Monad.return (Err (wrap (''failed to get ClusterBuildStrategy '' @ quote s) e))
      | Inr _ \<Rightarrow> do {
          r \<leftarrow> call (cl_CreateOrPatchBuild (logged C) (blankBuild (newBuild ib policy s))
                 (mutateBuild (logged C) ib (newBuild ib policy s)));
          case r of
            Inl e \<Rightarrow> State_Monad.return
              (Err (wrap (''failed to create or patch Build '' @
                 quote (om_Name (build_Meta (newBuild ib policy s)))) e))
          | Inr _ \<Rightarrow> State_Monad.return (Ok ())
        })"
    by (auto intro!: spans_right [OF spans_calls(5)] phaseless_intros split: sum.splits)
qed simp_all

lemma spans_reconcileBuild: "spans PolicyRead BuildRequest (reconcileBuild (logged C))"
  unfolding reconcileBuild_def
proof (rule spans_bind [OF spans_calls(1) _ phase_orders(1)])
  fix r
  show "spans StrategyRead BuildRequest
     (case r of
        Inl e \<Rightarrow> do {
          _ \<leftarrow> (if IsNotFound e
                then setNotReady (logged C) ReasonMissingPolicy ''ImageBuildPolicy is missing''
                else State_Monad.return ());
          State_Monad.return (Err (wrap ''failed to get ImageBuildPolicy'' e))
        }
      | Inr policy \<Rightarrow> do {
          ib \<leftarrow> get_ib;
          r \<leftarrow> ensureBuild (logged C) policy (selectedStrategyName ib policy);
          case r of
            Err e \<Rightarrow> do {
              _ \<leftarrow> setNotReady (logged C) (buildFailureReason e) (error_text e);
              State_Monad.return (Err e)
            }
          | Panic \<Rightarrow> State_Monad.return Panic
          | Ok _ \<Rightarrow> patchBuildRef (logged C)
        })"
  proof (cases r)
    case (Inl e)
    then show ?thesis by (auto intro!: spans_phaseless phaseless_intros)
  next
    case (Inr policy)
    then show ?thesis
      by (simp, intro spans_left [OF phaseless_prims(1)] spans_right [OF spans_ensureBuild])
        (auto intro!: phaseless_intros split: res.splits)
  qed
qed simp_all

lemma spans_getOrCreateBuildRun: "spans RunRequests RunRequests (getOrCreateBuildRun (logged C) desired)"
  unfolding getOrCreateBuildRun_def Let_def
  by (rule spans_left [OF phaseless_prims(1)], rule runs_bind [OF spans_calls(3)])
    (auto intro!: spans_right [OF spans_calls(4)] phaseless_intros split: sum.splits)

lemma spans_getLastBuildRun: "spans RunRequests RunRequests (getLastBuildRun (logged C))"
  unfolding getLastBuildRun_def Let_def
  by (rule spans_left [OF phaseless_prims(1)])
    (auto intro!: spans_right [OF spans_calls(3)] phaseless_intros split: sum.splits)

lemma spans_getActiveBuildRun: "spans RunRequests RunRequests (getActiveBuildRun (logged C))"
  unfolding getActiveBuildRun_def
  by (rule spans_right_res [OF spans_getLastBuildRun]) (auto intro!: phaseless_intros)

lemma spans_ensureBuildRun: "spans RunRequests RunRequests (ensureBuildRun (logged C))"
  unfolding ensureBuildRun_def Let_def
  by (rule spans_left [OF phaseless_prims(1)], rule spans_right_res [OF spans_getOrCreateBuildRun])
    (auto intro!: phaseless_intros split: prod.splits)

lemma spans_ensureOnCommitBuildRun: "spans RunRequests RunRequests (ensureOnCommitBuildRun (logged C) sha)"
  unfolding ensureOnCommitBuildRun_def Let_def
  by (rule spans_left [OF phaseless_prims(1)])
    (auto intro!: spans_right_res [OF spans_getOrCreateBuildRun] phaseless_intros
      split: prod.splits option.splits)

lemma spans_reconcileOnCommitBuildRun:
  "spans RunRequests RunRequests (reconcileOnCommitBuildRun (logged C))"
proof -
  have clear: "phaseless (put_ib x \<bind> (\<lambda>_. patch_status (logged C) msg ib \<bind>
      (\<lambda>r. State_Monad.return (map_res f r))))" for x msg ib f
    by (intro phaseless_intros)
  show ?thesis
    unfolding reconcileOnCommitBuildRun_def Let_def
    by (rule spans_left [OF phaseless_prims(1)])
      (auto intro!: spans_left_res [OF phaseless_status(8)] spans_left_res [OF phaseless_return]
        runs_bind_res [OF spans_getActiveBuildRun] spans_ensureOnCommitBuildRun
        spans_phaseless [OF clear] split: option.splits)
qed

lemma spans_reconcileDefaultBuildRun:
  "spans RunRequests SpecRecord (reconcileDefaultBuildRun (logged C))"
  unfolding reconcileDefaultBuildRun_def
proof (rule spans_left [OF phaseless_prims(1)])
  fix ib
  have last: "spans RunRequests SpecRecord (getLastBuildRun (logged C))"
    by (rule spans_weaken [OF spans_getLastBuildRun]) simp_all
  show "spans RunRequests SpecRecord
     (if isSpecDrifted ib then do {
        r \<leftarrow> ensureBuildRun (logged C);
        bind_res (State_Monad.return (map_err (wrap2 (Sentinel errBuildRunFailed)) r)) (\<lambda>br. do {
          ib \<leftarrow> get_ib;
          bind_res (State_Monad.return
              (map_err (wrap ''failed to record build spec'') (recordBuildSpec ib))) (\<lambda>ib'. do {
            _ \<leftarrow> put_ib ib';
            r \<leftarrow> update_object (logged C) ''failed to update ImageBuild'';
            State_Monad.return (map_res (\<lambda>_. Some br) r)
          })
        })
      }
      else getLastBuildRun (logged C))"
    by (cases "isSpecDrifted ib")
      (auto intro!: last spans_bind [OF spans_ensureBuildRun _ phase_orders(4)] spans_left_res
        spans_left [OF phaseless_prims(1)] spans_left [OF phaseless_prims(2)]
        spans_right [OF spans_calls(8)] phaseless_intros)
qed

lemma spans_reconcileBuildRun: "spans RunRequests SpecRecord (reconcileBuildRun (logged C))"
  unfolding reconcileBuildRun_def
proof (rule spans_bind [OF spans_reconcileOnCommitBuildRun _ phase_orders(3)])
  fix r :: "(go_error, BuildRun option \<times> duration option) res"
  show "spans RunRequests SpecRecord
     (case r of
        Panic \<Rightarrow> State_Monad.return Panic
      | Err e \<Rightarrow> do {
          _ \<leftarrow> setNotReady (logged C) ReasonBuildRunReconcileFailed (error_text e);
          State_Monad.return (Err (wrap2 (Sentinel errBuildRunFailed) e))
        }
      | Ok (buildRun, requeueAfter) \<Rightarrow>
          if requeueAfter \<noteq> None \<or> buildRun \<noteq> None
          then State_Monad.return (Ok (buildRun, requeueAfter))
          else do {
            r \<leftarrow> reconcileDefaultBuildRun (logged C);
            case r of
              Panic \<Rightarrow> State_Monad.return Panic
            | Err e \<Rightarrow>
                if \<not> errors_Is e errBuildRunFailed then State_Monad.return (Err e)
                else do {
                  _ \<leftarrow> setNotReady (logged C)
                         (if errors_As e AlreadyOwned then ReasonBuildRunConflict
                          else ReasonBuildRunReconcileFailed) (error_text e);
                  State_Monad.return (Err e)
                }
            | Ok buildRun \<Rightarrow> State_Monad.return (Ok (buildRun, None))
          })"
  proof (cases r)
    case (Ok p)
    then show ?thesis
      by (cases p, simp, intro conjI impI spans_right [OF spans_reconcileDefaultBuildRun])
        (auto intro!: phaseless_intros split: res.splits)
  qed (auto intro!: spans_phaseless phaseless_intros)
qed simp_all

lemma spans_reconcileFetched: "spans LabelPatch SpecRecord (reconcileFetched (logged C))"
proof -
  have tail: "phaseless (case requeueAfter of
       Some d \<Rightarrow> State_Monad.return (requeue d)
     | None \<Rightarrow> do {
         r \<leftarrow> reconcileStatus (logged C) buildRun;
         State_Monad.return
           (case r of
              Panic \<Rightarrow> None
            | Err e \<Rightarrow> Some (\<lparr>RequeueAfter = 0\<rparr>, Some e)
            | Ok poll \<Rightarrow> if poll then requeue buildRunPollInterval else requeue 0)
       })" for requeueAfter buildRun
    by (auto intro!: phaseless_intros split: option.splits)
  show ?thesis
    unfolding reconcileFetched_def
    apply (rule spans_bind [OF spans_ensureOnCommitLabel _ phase_orders(7)])
      apply (rename_tac r, case_tac r)
        apply (simp_all only: res.case spans_return)
      apply (rule spans_bind [OF spans_validateWebhookSecret _ phase_orders(6)])
        apply (rename_tac r, case_tac r)
          apply (simp_all only: res.case spans_return if_cancel)
        apply (rule spans_bind [OF spans_reconcileBuild _ phase_orders(5)])
          apply (rename_tac r, case_tac r)
            apply (simp_all only: res.case)
          apply (rule spans_right [OF spans_reconcileBuildRun])
          apply (auto intro!: phaseless_intros tail split: res.splits)
    done
qed

text \<open>
  C17. The requests of a reconcile come in one fixed order, whatever the cluster answers:
  the ImageBuild is read first; then its label is patched, the webhook secret, the
  policy and the strategy are read, the Build is requested, the runs are looked up and
  created, and last the built spec is recorded. No phase is entered again after a later
  one, and each but that of the runs sends one request at most. In particular no Build
  is requested before the strategy has been looked up, and the spec is never recorded
  before the runs were dealt with.
\<close>

theorem reconcile_phases_in_order:
  "sorted (phases (reconcile_log C req w)) \<and>
   distinct (List.filter (\<lambda>p. p \<noteq> RunRequests) (phases (reconcile_log C req w))) \<and>
   (\<exists>ok l. reconcile_log C req w = (GetImageBuild req, ok) # l)"
  using reconcile_log_cases [of C req w]
proof (elim disjE exE conjE)
  assume "reconcile_log C req w = [(GetImageBuild req, False)]"
  then show ?thesis by simp blast
next
  fix ib and w' :: 'a
  let ?s = "\<lparr>rs_ib = ib, rs_world = (w', [(GetImageBuild req, True)])\<rparr>"
  assume log: "reconcile_log C req w = lg (snd (run_state (reconcileFetched (logged C)) ?s))"
  obtain r s' where run: "run_state (reconcileFetched (logged C)) ?s = (r, s')" by fastforce
  from emitsD [OF spans_reconcileFetched [unfolded spans_def] run] obtain l where
    l: "lg s' = (GetImageBuild req, True) # l" "seg LabelPatch SpecRecord (phases l)" by auto
  from seg_append [OF seg_single [of ObjectRead] l(2) phase_orders(8)]
  have "seg ObjectRead SpecRecord (ObjectRead # phases l)" by simp
  with log run l(1) show ?thesis by (auto simp: seg_def)
qed

end
