(* ===== verification/Go_Heap.thy ===== *)
theory Go_Heap
  imports API_Types
begin

text \<open>
  The part of Go's memory the objects of the API group live in: typed cells behind
  pointers, slices and maps, and the contract of a deep copy. The rest of the development
  models an object as a value and a copy of it as that value; \<open>Deep_Copy\<close> shows with this
  memory that the generated copies are what that needs.
\<close>

section \<open>Objects in memory\<close>

text \<open>
  A struct is a record whose pointer, slice and map fields are references: \<open>None\<close> is nil.
  A slice refers to an array that holds exactly its elements. Structs without such fields
  are the records of \<open>API_Types\<close>.
\<close>

type_synonym addr = nat
type_synonym ref = "addr option"

record TypeMeta =
  tm_Kind :: string
  tm_APIVersion :: string

record h_ObjectMeta =
  hm_Name :: string
  hm_Namespace :: string
  hm_UID :: string
  hm_ResourceVersion :: string
  hm_Generation :: "64 word"
  hm_Labels :: ref
  hm_Annotations :: ref
  hm_OwnerReferences :: ref

record h_ListMeta =
  hlm_ResourceVersion :: string
  hlm_Continue :: string
  hlm_RemainingItemCount :: ref

record h_SecretKeySelector =
  hk_Name :: string
  hk_Key :: string
  hk_Optional :: ref

record h_Retention =
  hr_FailedLimit :: ref
  hr_SucceededLimit :: ref
  hr_TTLAfterFailed :: ref
  hr_TTLAfterSucceeded :: ref

record h_ImageBuildGitSource =
  hg_URL :: string
  hg_Revision :: string
  hg_CloneSecret :: ref

record h_ImageBuildSource =
  hs_Type :: string
  hs_Git :: h_ImageBuildGitSource
  hs_ContextDir :: string

record h_ImageBuildOutput =
  ho_Image :: string
  ho_PushSecret :: ref

record h_ImageBuildOnCommit =
  hoc_WebhookSecretRef :: h_SecretKeySelector

record h_ImageBuildSpec =
  hsp_Source :: h_ImageBuildSource
  hsp_BuildFile :: ImageBuildFile
  hsp_Rebuild :: ref
  hsp_Output :: h_ImageBuildOutput
  hsp_OnCommit :: ref
  hsp_Retention :: ref

record h_ImageBuildOnCommitStatus =
  hocs_LastReceived :: ref
  hocs_Pending :: ref
  hocs_LastTriggeredBuildRun :: ref
  hocs_TriggerCounter :: "64 word"

record h_ImageBuildStatus =
  hst_ObservedGeneration :: "64 word"
  hst_BuildRef :: string
  hst_Conditions :: ref
  hst_LatestImage :: string
  hst_LastBuildRunRef :: string
  hst_BuildRunCounter :: "64 word"
  hst_OnCommit :: ref

record h_ImageBuild =
  hib_TypeMeta :: TypeMeta
  hib_Meta :: h_ObjectMeta
  hib_Spec :: h_ImageBuildSpec
  hib_Status :: h_ImageBuildStatus

record h_ImageBuildList =
  hil_TypeMeta :: TypeMeta
  hil_Meta :: h_ListMeta
  hil_Items :: ref

record h_ImageBuildPolicySpec =
  hps_ClusterBuildStrategy :: ImageBuildClusterStrategy
  hps_Retention :: ref

record h_ImageBuildPolicy =
  hp_TypeMeta :: TypeMeta
  hp_Meta :: h_ObjectMeta
  hp_Spec :: h_ImageBuildPolicySpec
  hp_Status :: unit

record h_ImageBuildPolicyList =
  hpl_TypeMeta :: TypeMeta
  hpl_Meta :: h_ListMeta
  hpl_Items :: ref

section \<open>Cells\<close>

datatype cell =
    is_CBool: CBool (un_CBool: bool)
  | is_CInt32: CInt32 (un_CInt32: "32 word")
  | is_CInt64: CInt64 (un_CInt64: "64 word")
  | is_CDuration: CDuration (un_CDuration: duration)
  | is_CStrings: CStrings (un_CStrings: "string \<rightharpoonup> string")
  | is_COwners: COwners (un_COwners: "OwnerReference list")
  | is_CSecret: CSecret (un_CSecret: LocalObjectReference)
  | is_CConditions: CConditions (un_CConditions: "Condition list")
  | is_CFile: CFile (un_CFile: ImageBuildFile)
  | is_CRebuild: CRebuild (un_CRebuild: ImageBuildRebuild)
  | is_CEvent: CEvent (un_CEvent: ImageBuildOnCommitEvent)
  | is_CLast: CLast (un_CLast: ImageBuildOnCommitLastTriggered)
  | is_CRetention: CRetention (un_CRetention: h_Retention)
  | is_CGit: CGit (un_CGit: h_ImageBuildGitSource)
  | is_CSource: CSource (un_CSource: h_ImageBuildSource)
  | is_COutput: COutput (un_COutput: h_ImageBuildOutput)
  | is_COnCommit: COnCommit (un_COnCommit: h_ImageBuildOnCommit)
  | is_CSpec: CSpec (un_CSpec: h_ImageBuildSpec)
  | is_COnCommitStatus: COnCommitStatus (un_COnCommitStatus: h_ImageBuildOnCommitStatus)
  | is_CStatus: CStatus (un_CStatus: h_ImageBuildStatus)
  | is_CImageBuild: CImageBuild (un_CImageBuild: h_ImageBuild)
  | is_CImageBuilds: CImageBuilds (un_CImageBuilds: "h_ImageBuild list")
  | is_CImageBuildList: CImageBuildList (un_CImageBuildList: h_ImageBuildList)
  | is_CFileStrategy: CFileStrategy (un_CFileStrategy: ImageBuildFileStrategy)
  | is_CClusterStrategy: CClusterStrategy (un_CClusterStrategy: ImageBuildClusterStrategy)
  | is_CPolicySpec: CPolicySpec (un_CPolicySpec: h_ImageBuildPolicySpec)
  | is_CPolicyStatus: CPolicyStatus (un_CPolicyStatus: unit)
  | is_CPolicy: CPolicy (un_CPolicy: h_ImageBuildPolicy)
  | is_CPolicies: CPolicies (un_CPolicies: "h_ImageBuildPolicy list")
  | is_CPolicyList: CPolicyList (un_CPolicyList: h_ImageBuildPolicyList)

text \<open>A Go type that can be pointed to: its cells and its zero value.\<close>

record 'a kind =
  k_cell :: "'a \<Rightarrow> cell"
  k_get :: "cell \<Rightarrow> 'a option"
  k_zero :: 'a

definition kind_of :: "('a \<Rightarrow> cell) \<Rightarrow> (cell \<Rightarrow> bool) \<Rightarrow> (cell \<Rightarrow> 'a) \<Rightarrow> 'a \<Rightarrow> 'a kind" where
  "kind_of mk is un z = \<lparr>k_cell = mk, k_get = (\<lambda>c. if is c then Some (un c) else None), k_zero = z\<rparr>"

definition kind :: "'a kind \<Rightarrow> bool" where
  "kind k \<longleftrightarrow> (\<forall>x. k_get k (k_cell k x) = Some x)"

lemma kindI: "(\<And>x. is (mk x) \<and> un (mk x) = x) \<Longrightarrow> kind (kind_of mk is un z)"
  by (simp add: kind_def kind_of_def)

lemma kindD [simp]: "kind k \<Longrightarrow> k_get k (k_cell k x) = Some x"
  by (simp add: kind_def)

section \<open>The heap\<close>

record heap =
  cells :: "addr \<rightharpoonup> cell"
  nxt :: addr

definition peek :: "'a kind \<Rightarrow> addr \<Rightarrow> heap \<Rightarrow> 'a option" where
  "peek k a h = Option.bind (cells h a) (k_get k)"

definition alloc :: "cell \<Rightarrow> (heap, addr) state" where
  "alloc c = State (\<lambda>h. (nxt h, h\<lparr>cells := (cells h)(nxt h \<mapsto> c), nxt := Suc (nxt h)\<rparr>))"

definition store :: "addr \<Rightarrow> cell \<Rightarrow> (heap, unit) state" where
  "store a c = State (\<lambda>h. ((), h\<lparr>cells := (cells h)(a \<mapsto> c)\<rparr>))"

text \<open>
  Go has no dangling pointers and no pointers to cells of another type; on such an address
  \<open>load\<close> answers the zero value, and nothing is claimed.
\<close>

definition load :: "'a kind \<Rightarrow> addr \<Rightarrow> (heap, 'a) state" where
  "load k a = State (\<lambda>h. (case peek k a h of Some x \<Rightarrow> x | None \<Rightarrow> k_zero k, h))"

lemma run_alloc [simp]:
  "run_state (alloc c) h = (nxt h, h\<lparr>cells := (cells h)(nxt h \<mapsto> c), nxt := Suc (nxt h)\<rparr>)"
  by (simp add: alloc_def)

lemma run_store [simp]: "run_state (store a c) h = ((), h\<lparr>cells := (cells h)(a \<mapsto> c)\<rparr>)"
  by (simp add: store_def)

lemma run_load [simp]:
  "run_state (load k a) h = (case peek k a h of Some x \<Rightarrow> x | None \<Rightarrow> k_zero k, h)"
  by (simp add: load_def)

definition wf :: "heap \<Rightarrow> bool" where
  "wf h \<longleftrightarrow> (\<forall>a \<ge> nxt h. cells h a = None)"

definition extends :: "heap \<Rightarrow> heap \<Rightarrow> bool" where
  "extends h h' \<longleftrightarrow> nxt h \<le> nxt h' \<and> (\<forall>a < nxt h. cells h' a = cells h a)"

lemma grows_refl [simp]: "extends h h"
  by (simp add: extends_def)

lemma grows_trans: "extends h h' \<Longrightarrow> extends h' h'' \<Longrightarrow> extends h h''"
  by (auto simp: extends_def)

lemma peek_inside: "wf h \<Longrightarrow> peek k a h = Some x \<Longrightarrow> a < nxt h"
  by (cases "a < nxt h") (auto simp: wf_def peek_def)

section \<open>The code patterns of a generated copy\<close>

text \<open>
  \<open>if in == nil \{ return nil \}; out := new(T); in.DeepCopyInto(out); return out\<close>, and the
  same for a field: \<open>if in.F != nil \{ *out = new(T); (*in).DeepCopyInto(*out) \}\<close>. The
  argument \<open>into\<close> maps what \<open>*in\<close> holds to what is left in \<open>*out\<close>.
\<close>

definition copy_ref :: "'a kind \<Rightarrow> ('a \<Rightarrow> (heap, 'a) state) \<Rightarrow> ref \<Rightarrow> (heap, ref) state" where
  "copy_ref k into p =
     (case p of
        None \<Rightarrow> State_Monad.return None
      | Some a \<Rightarrow> do {
          out \<leftarrow> alloc (k_cell k (k_zero k));
          x \<leftarrow> load k a;
          y \<leftarrow> into x;
          _ \<leftarrow> store out (k_cell k y);
          State_Monad.return (Some out)
        })"

text \<open>
  \<open>*out = make([]T, len(*in)); for i := range *in \{ (*in)[i].DeepCopyInto(&(*out)[i]) \}\<close>
\<close>

fun copy_items :: "'a list kind \<Rightarrow> ('a \<Rightarrow> (heap, 'a) state) \<Rightarrow> addr \<Rightarrow> nat \<Rightarrow> 'a list \<Rightarrow> (heap, unit) state" where
  "copy_items k into out i [] = State_Monad.return ()"
| "copy_items k into out i (x # xs) = do {
     y \<leftarrow> into x;
     ys \<leftarrow> load k out;
     _ \<leftarrow> store out (k_cell k (ys[i := y]));
     copy_items k into out (Suc i) xs
   }"

definition copy_slice :: "'a list kind \<Rightarrow> 'a \<Rightarrow> ('a \<Rightarrow> (heap, 'a) state) \<Rightarrow> ref \<Rightarrow> (heap, ref) state" where
  "copy_slice k zero into p =
     (case p of
        None \<Rightarrow> State_Monad.return None
      | Some a \<Rightarrow> do {
          xs \<leftarrow> load k a;
          out \<leftarrow> alloc (k_cell k (replicate (length xs) zero));
          _ \<leftarrow> copy_items k into out 0 xs;
          State_Monad.return (Some out)
        })"

end
