(* ===== verification/Deep_Copier.thy ===== *)
theory Deep_Copier
  imports Go_Heap
begin

text \<open>
  The contract of a deep copy, as a locale, and what the code patterns of \<open>Go_Heap\<close> make
  of it: if a type's fields are copied deeply, so are pointers to it, slices of it and
  structs that contain it.
\<close>

section \<open>The contract\<close>

text \<open>
  \<open>val x h\<close> is the value that \<open>x\<close> stands for in the heap \<open>h\<close>, \<open>None\<close> if a pointer dangles,
  and \<open>foot x h\<close> the addresses it is read through. A deep copy has the same value, through
  new addresses only, and leaves the old ones alone.
\<close>

locale deep_copier =
  fixes val :: "'a \<Rightarrow> heap \<Rightarrow> 'v option"
    and foot :: "'a \<Rightarrow> heap \<Rightarrow> addr set"
    and into :: "'a \<Rightarrow> (heap, 'a) state"
  assumes frame: "(\<And>a. a \<in> foot x h \<Longrightarrow> cells h' a = cells h a) \<Longrightarrow> val x h' = val x h \<and> foot x h' = foot x h"
    and inside: "wf h \<Longrightarrow> val x h = Some v \<Longrightarrow> foot x h \<subseteq> {..<nxt h}"
    and copies: "wf h \<Longrightarrow> val x h = Some v \<Longrightarrow> run_state (into x) h = (y, h') \<Longrightarrow>
      wf h' \<and> extends h h' \<and> val y h' = Some v \<and> foot y h' \<subseteq> {nxt h..<nxt h'}"
begin

text \<open>What is allocated or changed elsewhere does not matter.\<close>

lemma lift:
  assumes "wf h" and "val x h = Some v" and "extends h h'"
  shows "val x h' = Some v \<and> foot x h' = foot x h"
proof -
  have "cells h' a = cells h a" if "a \<in> foot x h" for a
    using inside [OF assms(1,2)] that assms(3) by (auto simp: extends_def)
  from frame [OF this] assms(2) show ?thesis by simp
qed

lemma after_writes:
  assumes "val x h = Some v" and "\<And>a. a \<notin> B \<Longrightarrow> cells h' a = cells h a" and "foot x h \<inter> B = {}"
  shows "val x h' = Some v"
proof -
  have "cells h' a = cells h a" if "a \<in> foot x h" for a
    using assms(2,3) that by blast
  from frame [OF this] assms(1) show ?thesis by simp
qed

text \<open>Copy and original share nothing: writing through either leaves the value of the other.\<close>

lemma separate:
  assumes "wf h" and "val x h = Some v" and "run_state (into x) h = (y, h')"
  shows "val y h' = Some v \<and> val x h' = Some v \<and> foot x h' \<inter> foot y h' = {}"
proof -
  from copies [OF assms] have c: "extends h h'" "val y h' = Some v" "foot y h' \<subseteq> {nxt h..<nxt h'}" by auto
  from lift [OF assms(1,2) c(1)] inside [OF assms(1,2)]
  have "val x h' = Some v" "foot x h' \<subseteq> {..<nxt h}" by auto
  moreover from this(2) c(3) have "foot x h' \<inter> foot y h' = {}" by fastforce
  ultimately show ?thesis using c(2) by blast
qed

end

section \<open>Values\<close>

definition plain_val :: "('a \<Rightarrow> 'v) \<Rightarrow> 'a \<Rightarrow> heap \<Rightarrow> 'v option" where
  "plain_val f x h = Some (f x)"

definition no_foot :: "'a \<Rightarrow> heap \<Rightarrow> addr set" where
  "no_foot x h = {}"

lemma plain_copier: "deep_copier (plain_val f) no_foot State_Monad.return"
  by unfold_locales (auto simp: plain_val_def no_foot_def)

section \<open>Pointers\<close>

definition ref_val :: "'a kind \<Rightarrow> ('a \<Rightarrow> heap \<Rightarrow> 'v option) \<Rightarrow> ref \<Rightarrow> heap \<Rightarrow> 'v option option" where
  "ref_val k val p h =
     (case p of
        None \<Rightarrow> Some None
      | Some a \<Rightarrow> Option.bind (peek k a h) (\<lambda>x. map_option Some (val x h)))"

definition ref_foot :: "'a kind \<Rightarrow> ('a \<Rightarrow> heap \<Rightarrow> addr set) \<Rightarrow> ref \<Rightarrow> heap \<Rightarrow> addr set" where
  "ref_foot k foot p h =
     (case p of
        None \<Rightarrow> {}
      | Some a \<Rightarrow> insert a (case peek k a h of None \<Rightarrow> {} | Some x \<Rightarrow> foot x h))"

context deep_copier
begin

lemma ref_frame:
  assumes "\<And>a. a \<in> ref_foot k foot p h \<Longrightarrow> cells h' a = cells h a"
  shows "ref_val k val p h' = ref_val k val p h \<and> ref_foot k foot p h' = ref_foot k foot p h"
proof (cases p)
  case (Some a)
  with assms have same: "peek k a h' = peek k a h" by (simp add: peek_def ref_foot_def)
  have "val x h' = val x h \<and> foot x h' = foot x h" if "peek k a h = Some x" for x
    using assms Some that by (intro frame) (simp add: ref_foot_def)
  with same Some show ?thesis
    by (cases "peek k a h") (auto simp: ref_val_def ref_foot_def)
qed (simp add: ref_val_def ref_foot_def)

lemma copies_ref:
  assumes "kind k" and "wf h" and "ref_val k val p h = Some v"
    and "run_state (copy_ref k into p) h = (q, h')"
  shows "wf h' \<and> extends h h' \<and> ref_val k val q h' = Some v \<and> ref_foot k foot q h' \<subseteq> {nxt h..<nxt h'}"
proof (cases p)
  case None
  with assms show ?thesis by (simp add: copy_ref_def ref_val_def ref_foot_def)
next
  case (Some a)
  with assms(3) obtain x u where x: "peek k a h = Some x" "val x h = Some u" "v = Some u"
    by (auto simp: ref_val_def split: bind_splits)
  let ?h1 = "h\<lparr>cells := (cells h)(nxt h \<mapsto> k_cell k (k_zero k)), nxt := Suc (nxt h)\<rparr>"
  have h1: "wf ?h1" "extends h ?h1" using assms(2) by (auto simp: wf_def extends_def)
  from lift [OF assms(2) x(2) h1(2)] have x1: "val x ?h1 = Some u" ..
  from peek_inside [OF assms(2) x(1)] x(1) have "peek k a ?h1 = Some x" by (simp add: peek_def)
  moreover obtain y h2 where into: "run_state (into x) ?h1 = (y, h2)" by fastforce
  ultimately have out: "q = Some (nxt h)" "h' = h2\<lparr>cells := (cells h2)(nxt h \<mapsto> k_cell k y)\<rparr>"
    using assms(4) Some by (auto simp: copy_ref_def)
  from copies [OF h1(1) x1 into] have c: "wf h2" "extends ?h1 h2" "val y h2 = Some u"
    "foot y h2 \<subseteq> {Suc (nxt h)..<nxt h2}" by auto
  have "cells h' b = cells h2 b" if "b \<in> foot y h2" for b
    using c(4) that out(2) by auto
  from frame [OF this] c(3) have y: "val y h' = Some u" "foot y h' = foot y h2" by auto
  have peek: "peek k (nxt h) h' = Some y" using out(2) assms(1) by (simp add: peek_def)
  have "wf h'" "extends h h'" "nxt h < nxt h'" using c(1,2) out(2) by (auto simp: wf_def extends_def)
  then show ?thesis
    using peek y c(4) x(3) out by (auto simp: ref_val_def ref_foot_def)
qed

lemma ref_copier: "kind k \<Longrightarrow> deep_copier (ref_val k val) (ref_foot k foot) (copy_ref k into)"
proof (unfold_locales, goal_cases)
  case (1 x h h')
  show ?case by (rule ref_frame) (rule 1(2))
next
  case (2 h p v)
  then show ?case
    by (cases p) (auto simp: ref_val_def ref_foot_def peek_inside split: bind_splits dest!: inside)
next
  case (3 h p v q h')
  from copies_ref [OF this] show ?case .
qed

end

section \<open>Structs\<close>

definition pair_val :: "('a \<Rightarrow> heap \<Rightarrow> 'v option) \<Rightarrow> ('b \<Rightarrow> heap \<Rightarrow> 'u option) \<Rightarrow> 'a \<times> 'b \<Rightarrow> heap \<Rightarrow> ('v \<times> 'u) option" where
  "pair_val v1 v2 p h = Option.bind (v1 (fst p) h) (\<lambda>a. map_option (Pair a) (v2 (snd p) h))"

definition pair_foot :: "('a \<Rightarrow> heap \<Rightarrow> addr set) \<Rightarrow> ('b \<Rightarrow> heap \<Rightarrow> addr set) \<Rightarrow> 'a \<times> 'b \<Rightarrow> heap \<Rightarrow> addr set" where
  "pair_foot f1 f2 p h = f1 (fst p) h \<union> f2 (snd p) h"

definition pair_into :: "('a \<Rightarrow> (heap, 'a) state) \<Rightarrow> ('b \<Rightarrow> (heap, 'b) state) \<Rightarrow> 'a \<times> 'b \<Rightarrow> (heap, 'a \<times> 'b) state" where
  "pair_into i1 i2 p = do { a \<leftarrow> i1 (fst p); b \<leftarrow> i2 (snd p); State_Monad.return (a, b) }"

lemma pair_copier:
  assumes "deep_copier v1 f1 i1" and "deep_copier v2 f2 i2"
  shows "deep_copier (pair_val v1 v2) (pair_foot f1 f2) (pair_into i1 i2)"
proof (unfold_locales, goal_cases)
  case (1 x h h')
  have "v1 (fst x) h' = v1 (fst x) h \<and> f1 (fst x) h' = f1 (fst x) h"
    by (rule deep_copier.frame [OF assms(1)]) (use 1 in \<open>auto simp: pair_foot_def\<close>)
  moreover have "v2 (snd x) h' = v2 (snd x) h \<and> f2 (snd x) h' = f2 (snd x) h"
    by (rule deep_copier.frame [OF assms(2)]) (use 1 in \<open>auto simp: pair_foot_def\<close>)
  ultimately show ?case by (simp add: pair_val_def pair_foot_def)
next
  case (2 h x v)
  then show ?case
    using deep_copier.inside [OF assms(1)] deep_copier.inside [OF assms(2)]
    by (auto simp: pair_val_def pair_foot_def split: bind_splits) blast+
next
  case (3 h x v y h'')
  then obtain a b h' where run: "run_state (i1 (fst x)) h = (a, h')" "run_state (i2 (snd x)) h' = (b, h'')"
    "y = (a, b)" by (auto simp: pair_into_def split: prod.splits)
  from 3(2) obtain v1' v2' where v: "v1 (fst x) h = Some v1'" "v2 (snd x) h = Some v2'" "v = (v1', v2')"
    by (auto simp: pair_val_def split: bind_splits)
  from deep_copier.copies [OF assms(1) 3(1) v(1) run(1)] have c1: "wf h'" "extends h h'"
    "v1 a h' = Some v1'" "f1 a h' \<subseteq> {nxt h..<nxt h'}" by auto
  from deep_copier.lift [OF assms(2) 3(1) v(2) c1(2)] have "v2 (snd x) h' = Some v2'" ..
  from deep_copier.copies [OF assms(2) c1(1) this run(2)] have c2: "wf h''" "extends h' h''"
    "v2 b h'' = Some v2'" "f2 b h'' \<subseteq> {nxt h'..<nxt h''}" by auto
  from deep_copier.lift [OF assms(1) c1(1,3) c2(2)] have "v1 a h'' = Some v1'" "f1 a h'' = f1 a h'" by auto
  with c1 c2 v(3) run(3) grows_trans [OF c1(2) c2(2)] show ?case
    by (fastforce simp: pair_val_def pair_foot_def extends_def)
qed

text \<open>A struct whose fields \<open>get\<close> are copied and the others assigned.\<close>

lemma struct_copier:
  assumes "deep_copier V F I"
    and "\<And>x. into x = do { a \<leftarrow> I (get x); State_Monad.return (put a x) }"
    and "\<And>x h. val x h = map_option (mk x) (V (get x) h)"
    and "\<And>x h. foot x h = F (get x) h"
    and "\<And>a x. get (put a x) = a" and "\<And>a x. mk (put a x) = mk x"
  shows "deep_copier val foot into"
proof (unfold_locales, goal_cases)
  case (1 x h h')
  have "V (get x) h' = V (get x) h \<and> F (get x) h' = F (get x) h"
    by (rule deep_copier.frame [OF assms(1)]) (use 1 in \<open>auto simp: assms(4)\<close>)
  then show ?case by (simp add: assms(3,4))
next
  case (2 h x v)
  then show ?case using deep_copier.inside [OF assms(1)] by (fastforce simp: assms(3,4))
next
  case (3 h x v y h')
  then obtain a u where "run_state (I (get x)) h = (a, h')" "y = put a x" "V (get x) h = Some u" "v = mk x u"
    by (auto simp: assms(2,3) split: prod.splits)
  with deep_copier.copies [OF assms(1) 3(1), of "get x" u a h'] show ?case
    by (simp add: assms(3-6))
qed

section \<open>Slices\<close>

definition slice_val :: "'a list kind \<Rightarrow> ('a \<Rightarrow> heap \<Rightarrow> 'v option) \<Rightarrow> ref \<Rightarrow> heap \<Rightarrow> 'v list option option" where
  "slice_val k val p h =
     (case p of
        None \<Rightarrow> Some None
      | Some a \<Rightarrow> Option.bind (peek k a h) (\<lambda>xs. map_option Some (those (List.map (\<lambda>x. val x h) xs))))"

definition slice_foot :: "'a list kind \<Rightarrow> ('a \<Rightarrow> heap \<Rightarrow> addr set) \<Rightarrow> ref \<Rightarrow> heap \<Rightarrow> addr set" where
  "slice_foot k foot p h =
     (case p of
        None \<Rightarrow> {}
      | Some a \<Rightarrow> insert a (case peek k a h of None \<Rightarrow> {} | Some xs \<Rightarrow> \<Union>x \<in> set xs. foot x h))"

lemma those_map_Some: "those (List.map f xs) = Some vs \<longleftrightarrow> list_all2 (\<lambda>x v. f x = Some v) xs vs"
  by (induction xs arbitrary: vs) (auto simp: list_all2_Cons1 split: option.splits)

context deep_copier
begin

abbreviation vals :: "heap \<Rightarrow> 'a list \<Rightarrow> 'v list \<Rightarrow> bool" where
  "vals h \<equiv> list_all2 (\<lambda>x v. val x h = Some v)"

abbreviation feet :: "heap \<Rightarrow> 'a list \<Rightarrow> addr set" where
  "feet h xs \<equiv> \<Union>x \<in> set xs. foot x h"

lemma vals_frame:
  assumes "\<And>a. a \<in> feet h xs \<Longrightarrow> cells h' a = cells h a"
  shows "vals h' xs vs = vals h xs vs \<and> feet h' xs = feet h xs"
proof -
  have "val x h' = val x h \<and> foot x h' = foot x h" if "x \<in> set xs" for x
    using assms that by (intro frame) blast
  then show ?thesis by (auto cong: list.rel_cong)
qed

lemma vals_inside:
  assumes "wf h" and "vals h xs vs"
  shows "feet h xs \<subseteq> {..<nxt h}"
proof -
  have "\<exists>v. val x h = Some v" if "x \<in> set xs" for x
    using assms(2) that by (auto simp: list_all2_conv_all_nth in_set_conv_nth)
  with inside [OF assms(1)] show ?thesis by blast
qed

text \<open>
  The loop: what has been copied stays, what is still to be copied lies below the new array.
\<close>

lemma copy_items_copies:
  assumes "kind k" and "wf h" and "vals h xs vs" and "feet h xs \<subseteq> {..<out}" and "out < nxt h"
    and "peek k out h = Some (ys @ zs)" and "length ys = i" and "length zs = length xs"
    and "vals h ys us" and "feet h ys \<subseteq> {Suc out..<nxt h}"
    and "run_state (copy_items k into out i xs) h = (r, h')"
  shows "\<exists>zs'. peek k out h' = Some (ys @ zs') \<and> vals h' (ys @ zs') (us @ vs) \<and>
     feet h' (ys @ zs') \<subseteq> {Suc out..<nxt h'} \<and> wf h' \<and> nxt h \<le> nxt h' \<and>
     (\<forall>a < out. cells h' a = cells h a)"
  using assms
proof (induction xs arbitrary: h vs ys zs us i)
  case Nil
  then show ?case by auto
next
  case (Cons x xs)
  from Cons.prems(3) obtain v vs' where v: "vs = v # vs'" "val x h = Some v" "vals h xs vs'"
    by (auto simp: list_all2_Cons1)
  from Cons.prems(8) obtain z zs' where z: "zs = z # zs'" "length zs' = length xs" by (cases zs) auto
  obtain y h1 where into: "run_state (into x) h = (y, h1)" by fastforce
  from copies [OF Cons.prems(2) v(2) this] have c: "wf h1" "extends h h1" "val y h1 = Some v"
    "foot y h1 \<subseteq> {nxt h..<nxt h1}" by auto
  let ?h2 = "h1\<lparr>cells := (cells h1)(out \<mapsto> k_cell k (ys @ y # zs'))\<rparr>"
  have "peek k out h1 = Some (ys @ z # zs')"
    using Cons.prems(5,6) c(2) z(1) by (simp add: peek_def extends_def)
  with into Cons.prems(7,11) have run: "run_state (copy_items k into out (Suc i) xs) ?h2 = (r, h')"
    by (auto simp: list_update_append)
  have y: "val y ?h2 = Some v \<and> foot y ?h2 = foot y h1"
    using frame [of y h1 ?h2] c(3,4) Cons.prems(5) by fastforce
  have same: "cells ?h2 a = cells h a" if "a < nxt h" "a \<noteq> out" for a
    using that c(2) by (simp add: extends_def)
  have xs: "vals ?h2 xs vs' \<and> feet ?h2 xs = feet h xs"
  proof -
    have "cells ?h2 b = cells h b" if "b \<in> feet h xs" for b
      using subsetD [OF _ that, of "{..<out}"] Cons.prems(4,5) same [of b] by simp
    from vals_frame [of h xs ?h2 vs', OF this] v(3) show ?thesis by simp
  qed
  have ys: "vals ?h2 ys us \<and> feet ?h2 ys = feet h ys"
  proof -
    have "cells ?h2 b = cells h b" if "b \<in> feet h ys" for b
      using subsetD [OF Cons.prems(10) that] same [of b] by simp
    from vals_frame [of h ys ?h2 us, OF this] Cons.prems(9) show ?thesis by simp
  qed
  have "\<exists>zs''. peek k out h' = Some ((ys @ [y]) @ zs'') \<and> vals h' ((ys @ [y]) @ zs'') ((us @ [v]) @ vs') \<and>
     feet h' ((ys @ [y]) @ zs'') \<subseteq> {Suc out..<nxt h'} \<and> wf h' \<and> nxt ?h2 \<le> nxt h' \<and>
     (\<forall>a < out. cells h' a = cells ?h2 a)"
  proof (rule Cons.IH [where i = "Suc i" and zs = zs'])
    show "wf ?h2" using c(1,2) Cons.prems(5) by (auto simp: wf_def extends_def)
    show "vals ?h2 xs vs'" "feet ?h2 xs \<subseteq> {..<out}" using xs Cons.prems(4) by auto
    show "out < nxt ?h2" using Cons.prems(5) c(2) by (simp add: extends_def)
    show "peek k out ?h2 = Some ((ys @ [y]) @ zs')" using \<open>kind k\<close> by (simp add: peek_def)
    show "vals ?h2 (ys @ [y]) (us @ [v])" using ys y by (simp add: list_all2_appendI)
    have "{Suc out..<nxt h} \<subseteq> {Suc out..<nxt h1}" "{nxt h..<nxt h1} \<subseteq> {Suc out..<nxt h1}"
      using c(2) Cons.prems(5) by (auto simp: extends_def)
    from subset_trans [OF Cons.prems(10) this(1)] subset_trans [OF c(4) this(2)] ys y
    show "feet ?h2 (ys @ [y]) \<subseteq> {Suc out..<nxt ?h2}" by simp
  qed (use \<open>kind k\<close> Cons.prems(7) z run in auto)
  then show ?case using v(1) same Cons.prems(5) c(2) by (auto simp: extends_def)
qed

lemma slice_copies:
  assumes "kind k" and "wf h" and "slice_val k val p h = Some v"
    and "run_state (copy_slice k zero into p) h = (q, h')"
  shows "wf h' \<and> extends h h' \<and> slice_val k val q h' = Some v \<and> slice_foot k foot q h' \<subseteq> {nxt h..<nxt h'}"
proof (cases p)
  case None
  with assms show ?thesis by (simp add: copy_slice_def slice_val_def slice_foot_def)
next
  case (Some a)
  with assms(3) obtain xs vs where x: "peek k a h = Some xs" "vals h xs vs" "v = Some vs"
    by (auto simp: slice_val_def those_map_Some split: bind_splits)
  let ?out = "nxt h" and ?zs = "replicate (length xs) zero"
  let ?h1 = "h\<lparr>cells := (cells h)(?out \<mapsto> k_cell k ?zs), nxt := Suc ?out\<rparr>"
  obtain r where run: "run_state (copy_items k into ?out 0 xs) ?h1 = (r, h')" and q: "q = Some ?out"
    using assms(4) Some x(1) by (auto simp: copy_slice_def split: prod.splits)
  have feet: "feet h xs \<subseteq> {..<?out}" using vals_inside [OF assms(2) x(2)] .
  have same: "vals ?h1 xs vs \<and> feet ?h1 xs = feet h xs"
  proof -
    have "cells ?h1 b = cells h b" if "b \<in> feet h xs" for b
      using subsetD [OF feet that] by simp
    from vals_frame [of h xs ?h1 vs, OF this] x(2) show ?thesis by simp
  qed
  have "\<exists>zs'. peek k ?out h' = Some ([] @ zs') \<and> vals h' ([] @ zs') ([] @ vs) \<and>
     feet h' ([] @ zs') \<subseteq> {Suc ?out..<nxt h'} \<and> wf h' \<and> nxt ?h1 \<le> nxt h' \<and>
     (\<forall>a < ?out. cells h' a = cells ?h1 a)"
    by (rule copy_items_copies [OF assms(1) _ _ _ _ _ _ _ _ _ run, where zs = ?zs])
      (use assms(1,2) same feet in \<open>auto simp: wf_def peek_def\<close>)
  then obtain zs' where z: "peek k ?out h' = Some zs'" "vals h' zs' vs"
    "feet h' zs' \<subseteq> {Suc ?out..<nxt h'}" "wf h'" "Suc ?out \<le> nxt h'" "\<forall>a < ?out. cells h' a = cells h a"
    by auto
  have "{Suc ?out..<nxt h'} \<subseteq> {nxt h..<nxt h'}" by auto
  from subset_trans [OF z(3) this] z(1,5) have "slice_foot k foot q h' \<subseteq> {nxt h..<nxt h'}"
    by (simp add: q slice_foot_def)
  moreover from z(1,2) have "slice_val k val q h' = Some v"
    by (simp add: q x(3) slice_val_def those_map_Some)
  ultimately show ?thesis using z(4,5,6) by (simp add: extends_def)
qed

lemma slice_copier: "kind k \<Longrightarrow> deep_copier (slice_val k val) (slice_foot k foot) (copy_slice k zero into)"
proof (unfold_locales, goal_cases)
  case (1 p h h')
  show ?case
  proof (cases p)
    case (Some a)
    with 1(2) have same: "peek k a h' = peek k a h" by (simp add: peek_def slice_foot_def)
    have "val x h' = val x h \<and> foot x h' = foot x h" if "peek k a h = Some xs" "x \<in> set xs" for xs x
      using 1(2) Some that by (intro frame) (auto simp: slice_foot_def)
    with same Some show ?thesis
      by (cases "peek k a h") (auto simp: slice_val_def slice_foot_def cong: map_cong)
  qed (simp add: slice_val_def slice_foot_def)
next
  case (2 h p v)
  then show ?case
    by (cases p) (auto simp: slice_val_def slice_foot_def those_map_Some peek_inside
        split: bind_splits dest!: vals_inside)
next
  case (3 h p v q h')
  from slice_copies [OF this] show ?case .
qed

end

end
