(* ===== verification/Deep_Copy.thy ===== *)
theory Deep_Copy
  imports Deep_Copier
begin

text \<open>
  \<open>zz_generated.deepcopy.go\<close>: the copy methods of the API types, over the memory of
  \<open>Go_Heap\<close>. \<open>T_DeepCopyInto\<close> maps what \<open>*in\<close> holds to what is left in \<open>*out\<close>: the struct is
  assigned first, then each field that refers to memory is replaced by a copy of what it
  refers to. \<open>T_DeepCopy\<close> works on pointers, nil included. The copies of the types of
  apimachinery and of the core API are parameters, with the contract of a deep copy.
\<close>

section \<open>Kinds\<close>

definition zero_Condition :: Condition where
  "zero_Condition = \<lparr>cond_Type = '''', cond_Status = '''', cond_ObservedGeneration = 0,
     cond_LastTransitionTime = 0, cond_Reason = '''', cond_Message = ''''\<rparr>"

definition zero_TypeMeta :: TypeMeta where
  "zero_TypeMeta = \<lparr>tm_Kind = '''', tm_APIVersion = ''''\<rparr>"

definition zero_ObjectMeta :: h_ObjectMeta where
  "zero_ObjectMeta = \<lparr>hm_Name = '''', hm_Namespace = '''', hm_UID = '''', hm_ResourceVersion = '''',
     hm_Generation = 0, hm_Labels = None, hm_Annotations = None, hm_OwnerReferences = None\<rparr>"

definition zero_ListMeta :: h_ListMeta where
  "zero_ListMeta = \<lparr>hlm_ResourceVersion = '''', hlm_Continue = '''', hlm_RemainingItemCount = None\<rparr>"

definition zero_Retention :: h_Retention where
  "zero_Retention = \<lparr>hr_FailedLimit = None, hr_SucceededLimit = None, hr_TTLAfterFailed = None,
     hr_TTLAfterSucceeded = None\<rparr>"

definition zero_Git :: h_ImageBuildGitSource where
  "zero_Git = \<lparr>hg_URL = '''', hg_Revision = '''', hg_CloneSecret = None\<rparr>"

definition zero_Source :: h_ImageBuildSource where
  "zero_Source = \<lparr>hs_Type = '''', hs_Git = zero_Git, hs_ContextDir = ''''\<rparr>"

definition zero_Output :: h_ImageBuildOutput where
  "zero_Output = \<lparr>ho_Image = '''', ho_PushSecret = None\<rparr>"

definition zero_OnCommit :: h_ImageBuildOnCommit where
  "zero_OnCommit = \<lparr>hoc_WebhookSecretRef = \<lparr>hk_Name = '''', hk_Key = '''', hk_Optional = None\<rparr>\<rparr>"

definition zero_Spec :: h_ImageBuildSpec where
  "zero_Spec = \<lparr>hsp_Source = zero_Source, hsp_BuildFile = \<lparr>bf_Mode = ''''\<rparr>, hsp_Rebuild = None,
     hsp_Output = zero_Output, hsp_OnCommit = None, hsp_Retention = None\<rparr>"

definition zero_OnCommitStatus :: h_ImageBuildOnCommitStatus where
  "zero_OnCommitStatus = \<lparr>hocs_LastReceived = None, hocs_Pending = None,
     hocs_LastTriggeredBuildRun = None, hocs_TriggerCounter = 0\<rparr>"

definition zero_Status :: h_ImageBuildStatus where
  "zero_Status = \<lparr>hst_ObservedGeneration = 0, hst_BuildRef = '''', hst_Conditions = None,
     hst_LatestImage = '''', hst_LastBuildRunRef = '''', hst_BuildRunCounter = 0, hst_OnCommit = None\<rparr>"

definition zero_ImageBuild :: h_ImageBuild where
  "zero_ImageBuild = \<lparr>hib_TypeMeta = zero_TypeMeta, hib_Meta = zero_ObjectMeta,
     hib_Spec = zero_Spec, hib_Status = zero_Status\<rparr>"

definition zero_FileStrategy :: ImageBuildFileStrategy where
  "zero_FileStrategy = \<lparr>bfs_Present = '''', bfs_Absent = ''''\<rparr>"

definition zero_PolicySpec :: h_ImageBuildPolicySpec where
  "zero_PolicySpec = \<lparr>hps_ClusterBuildStrategy = \<lparr>cs_BuildFile = zero_FileStrategy\<rparr>, hps_Retention = None\<rparr>"

definition zero_Policy :: h_ImageBuildPolicy where
  "zero_Policy = \<lparr>hp_TypeMeta = zero_TypeMeta, hp_Meta = zero_ObjectMeta, hp_Spec = zero_PolicySpec,
     hp_Status = ()\<rparr>"


definition K_Bool :: "bool kind" where "K_Bool = kind_of CBool is_CBool un_CBool False"
definition K_Int32 :: "(32 word) kind" where "K_Int32 = kind_of CInt32 is_CInt32 un_CInt32 0"
definition K_Int64 :: "(64 word) kind" where "K_Int64 = kind_of CInt64 is_CInt64 un_CInt64 0"
definition K_Duration :: "duration kind" where "K_Duration = kind_of CDuration is_CDuration un_CDuration 0"
definition K_Strings :: "(string \<rightharpoonup> string) kind" where "K_Strings = kind_of CStrings is_CStrings un_CStrings Map.empty"
definition K_Owners :: "(OwnerReference list) kind" where "K_Owners = kind_of COwners is_COwners un_COwners []"
definition K_Secret :: "LocalObjectReference kind" where "K_Secret = kind_of CSecret is_CSecret un_CSecret \<lparr>lor_Name = ''''\<rparr>"
definition K_Conditions :: "(Condition list) kind" where "K_Conditions = kind_of CConditions is_CConditions un_CConditions []"
definition K_File :: "ImageBuildFile kind" where "K_File = kind_of CFile is_CFile un_CFile \<lparr>bf_Mode = ''''\<rparr>"
definition K_Rebuild :: "ImageBuildRebuild kind" where "K_Rebuild = kind_of CRebuild is_CRebuild un_CRebuild \<lparr>rb_Mode = ''''\<rparr>"
definition K_Event :: "ImageBuildOnCommitEvent kind" where "K_Event = kind_of CEvent is_CEvent un_CEvent \<lparr>ev_Ref = '''', ev_CommitSHA = '''', ev_ReceivedAt = 0\<rparr>"
definition K_Last :: "ImageBuildOnCommitLastTriggered kind" where "K_Last = kind_of CLast is_CLast un_CLast \<lparr>lt_Name = '''', lt_CommitSHA = '''', lt_TriggeredAt = 0\<rparr>"
definition K_Retention :: "h_Retention kind" where "K_Retention = kind_of CRetention is_CRetention un_CRetention zero_Retention"
definition K_Git :: "h_ImageBuildGitSource kind" where "K_Git = kind_of CGit is_CGit un_CGit zero_Git"
definition K_Source :: "h_ImageBuildSource kind" where "K_Source = kind_of CSource is_CSource un_CSource zero_Source"
definition K_Output :: "h_ImageBuildOutput kind" where "K_Output = kind_of COutput is_COutput un_COutput zero_Output"
definition K_OnCommit :: "h_ImageBuildOnCommit kind" where "K_OnCommit = kind_of COnCommit is_COnCommit un_COnCommit zero_OnCommit"
definition K_Spec :: "h_ImageBuildSpec kind" where "K_Spec = kind_of CSpec is_CSpec un_CSpec zero_Spec"
definition K_OnCommitStatus :: "h_ImageBuildOnCommitStatus kind" where "K_OnCommitStatus = kind_of COnCommitStatus is_COnCommitStatus un_COnCommitStatus zero_OnCommitStatus"
definition K_Status :: "h_ImageBuildStatus kind" where "K_Status = kind_of CStatus is_CStatus un_CStatus zero_Status"
definition K_ImageBuild :: "h_ImageBuild kind" where "K_ImageBuild = kind_of CImageBuild is_CImageBuild un_CImageBuild zero_ImageBuild"
definition K_ImageBuilds :: "(h_ImageBuild list) kind" where "K_ImageBuilds = kind_of CImageBuilds is_CImageBuilds un_CImageBuilds []"
definition K_ImageBuildList :: "h_ImageBuildList kind" where "K_ImageBuildList = kind_of CImageBuildList is_CImageBuildList un_CImageBuildList \<lparr>hil_TypeMeta = zero_TypeMeta, hil_Meta = zero_ListMeta, hil_Items = None\<rparr>"
definition K_FileStrategy :: "ImageBuildFileStrategy kind" where "K_FileStrategy = kind_of CFileStrategy is_CFileStrategy un_CFileStrategy zero_FileStrategy"
definition K_ClusterStrategy :: "ImageBuildClusterStrategy kind" where "K_ClusterStrategy = kind_of CClusterStrategy is_CClusterStrategy un_CClusterStrategy \<lparr>cs_BuildFile = zero_FileStrategy\<rparr>"
definition K_PolicySpec :: "h_ImageBuildPolicySpec kind" where "K_PolicySpec = kind_of CPolicySpec is_CPolicySpec un_CPolicySpec zero_PolicySpec"
definition K_PolicyStatus :: "unit kind" where "K_PolicyStatus = kind_of CPolicyStatus is_CPolicyStatus un_CPolicyStatus ()"
definition K_Policy :: "h_ImageBuildPolicy kind" where "K_Policy = kind_of CPolicy is_CPolicy un_CPolicy zero_Policy"
definition K_Policies :: "(h_ImageBuildPolicy list) kind" where "K_Policies = kind_of CPolicies is_CPolicies un_CPolicies []"
definition K_PolicyList :: "h_ImageBuildPolicyList kind" where "K_PolicyList = kind_of CPolicyList is_CPolicyList un_CPolicyList \<lparr>hpl_TypeMeta = zero_TypeMeta, hpl_Meta = zero_ListMeta, hpl_Items = None\<rparr>"

lemmas kind_defs =
  K_Bool_def K_Int32_def K_Int64_def K_Duration_def K_Strings_def K_Owners_def K_Secret_def K_Conditions_def K_File_def K_Rebuild_def K_Event_def K_Last_def K_Retention_def K_Git_def K_Source_def K_Output_def K_OnCommit_def K_Spec_def K_OnCommitStatus_def K_Status_def K_ImageBuild_def K_ImageBuilds_def K_ImageBuildList_def K_FileStrategy_def K_ClusterStrategy_def K_PolicySpec_def K_PolicyStatus_def K_Policy_def K_Policies_def K_PolicyList_def

lemma kinds [simp]:
  "kind K_Bool" "kind K_Int32" "kind K_Int64" "kind K_Duration" "kind K_Strings" "kind K_Owners" "kind K_Secret" "kind K_Conditions" "kind K_File" "kind K_Rebuild" "kind K_Event" "kind K_Last" "kind K_Retention" "kind K_Git" "kind K_Source" "kind K_Output" "kind K_OnCommit" "kind K_Spec" "kind K_OnCommitStatus" "kind K_Status" "kind K_ImageBuild" "kind K_ImageBuilds" "kind K_ImageBuildList" "kind K_FileStrategy" "kind K_ClusterStrategy" "kind K_PolicySpec" "kind K_PolicyStatus" "kind K_Policy" "kind K_Policies" "kind K_PolicyList"
  by (auto simp: kind_defs intro!: kindI)

section \<open>Types of the libraries\<close>

definition ObjectMeta_val :: "h_ObjectMeta \<Rightarrow> heap \<Rightarrow> ObjectMeta option" where
  "ObjectMeta_val x h = do {
     ls \<leftarrow> ref_val K_Strings (plain_val id) (hm_Labels x) h;
     as \<leftarrow> ref_val K_Strings (plain_val id) (hm_Annotations x) h;
     os \<leftarrow> ref_val K_Owners (plain_val id) (hm_OwnerReferences x) h;
     Some \<lparr>om_Name = hm_Name x, om_Namespace = hm_Namespace x, om_UID = hm_UID x,
        om_ResourceVersion = hm_ResourceVersion x, om_Generation = hm_Generation x,
        om_Labels = (case ls of None \<Rightarrow> Map.empty | Some m \<Rightarrow> m),
        om_Annotations = (case as of None \<Rightarrow> Map.empty | Some m \<Rightarrow> m),
        om_OwnerReferences = (case os of None \<Rightarrow> [] | Some l \<Rightarrow> l)\<rparr>
   }"

definition ObjectMeta_foot :: "h_ObjectMeta \<Rightarrow> heap \<Rightarrow> addr set" where
  "ObjectMeta_foot x h = ref_foot K_Strings no_foot (hm_Labels x) h \<union>
     (ref_foot K_Strings no_foot (hm_Annotations x) h \<union> ref_foot K_Owners no_foot (hm_OwnerReferences x) h)"

record ListMeta =
  lm_ResourceVersion :: string
  lm_Continue :: string
  lm_RemainingItemCount :: "64 word option"

definition ListMeta_val :: "h_ListMeta \<Rightarrow> heap \<Rightarrow> ListMeta option" where
  "ListMeta_val x h = do {
     n \<leftarrow> ref_val K_Int64 (plain_val id) (hlm_RemainingItemCount x) h;
     Some \<lparr>lm_ResourceVersion = hlm_ResourceVersion x, lm_Continue = hlm_Continue x,
        lm_RemainingItemCount = n\<rparr>
   }"

definition ListMeta_foot :: "h_ListMeta \<Rightarrow> heap \<Rightarrow> addr set" where
  "ListMeta_foot x h = ref_foot K_Int64 no_foot (hlm_RemainingItemCount x) h"

definition SecretKeySelector_val :: "h_SecretKeySelector \<Rightarrow> heap \<Rightarrow> SecretKeySelector option" where
  "SecretKeySelector_val x h = do {
     opt \<leftarrow> ref_val K_Bool (plain_val id) (hk_Optional x) h;
     Some \<lparr>sel_Name = hk_Name x, sel_Key = hk_Key x, sel_Optional = opt\<rparr>
   }"

definition SecretKeySelector_foot :: "h_SecretKeySelector \<Rightarrow> heap \<Rightarrow> addr set" where
  "SecretKeySelector_foot x h = ref_foot K_Bool no_foot (hk_Optional x) h"

record lib_copies =
  cp_Time :: "time \<Rightarrow> (heap, time) state"
  cp_Condition :: "Condition \<Rightarrow> (heap, Condition) state"
  cp_SecretKeySelector :: "h_SecretKeySelector \<Rightarrow> (heap, h_SecretKeySelector) state"
  cp_ObjectMeta :: "h_ObjectMeta \<Rightarrow> (heap, h_ObjectMeta) state"
  cp_ListMeta :: "h_ListMeta \<Rightarrow> (heap, h_ListMeta) state"

locale library_copies =
  fixes L :: lib_copies
  assumes time: "deep_copier (plain_val id) no_foot (cp_Time L)"
    and condition: "deep_copier (plain_val id) no_foot (cp_Condition L)"
    and selector: "deep_copier SecretKeySelector_val SecretKeySelector_foot (cp_SecretKeySelector L)"
    and meta: "deep_copier ObjectMeta_val ObjectMeta_foot (cp_ObjectMeta L)"
    and list_meta: "deep_copier ListMeta_val ListMeta_foot (cp_ListMeta L)"

section \<open>Structs without references\<close>

definition ImageBuildFile_DeepCopyInto :: "ImageBuildFile \<Rightarrow> (heap, ImageBuildFile) state" where
  "ImageBuildFile_DeepCopyInto x = State_Monad.return x"

definition ImageBuildRebuild_DeepCopyInto :: "ImageBuildRebuild \<Rightarrow> (heap, ImageBuildRebuild) state" where
  "ImageBuildRebuild_DeepCopyInto x = State_Monad.return x"

definition ImageBuildFileStrategy_DeepCopyInto :: "ImageBuildFileStrategy \<Rightarrow> (heap, ImageBuildFileStrategy) state" where
  "ImageBuildFileStrategy_DeepCopyInto x = State_Monad.return x"

definition ImageBuildClusterStrategy_DeepCopyInto ::
    "ImageBuildClusterStrategy \<Rightarrow> (heap, ImageBuildClusterStrategy) state" where
  "ImageBuildClusterStrategy_DeepCopyInto x = State_Monad.return (x\<lparr>cs_BuildFile := cs_BuildFile x\<rparr>)"

definition ImageBuildPolicyStatus_DeepCopyInto :: "unit \<Rightarrow> (heap, unit) state" where
  "ImageBuildPolicyStatus_DeepCopyInto x = State_Monad.return x"

definition ImageBuildOnCommitEvent_DeepCopyInto ::
    "lib_copies \<Rightarrow> ImageBuildOnCommitEvent \<Rightarrow> (heap, ImageBuildOnCommitEvent) state" where
  "ImageBuildOnCommitEvent_DeepCopyInto L x = do {
     t \<leftarrow> cp_Time L (ev_ReceivedAt x);
     State_Monad.return (x\<lparr>ev_ReceivedAt := t\<rparr>)
   }"

definition ImageBuildOnCommitLastTriggered_DeepCopyInto ::
    "lib_copies \<Rightarrow> ImageBuildOnCommitLastTriggered \<Rightarrow> (heap, ImageBuildOnCommitLastTriggered) state" where
  "ImageBuildOnCommitLastTriggered_DeepCopyInto L x = do {
     t \<leftarrow> cp_Time L (lt_TriggeredAt x);
     State_Monad.return (x\<lparr>lt_TriggeredAt := t\<rparr>)
   }"

section \<open>Structs of the spec\<close>

definition Retention_DeepCopyInto :: "h_Retention \<Rightarrow> (heap, h_Retention) state" where
  "Retention_DeepCopyInto x = do {
     a \<leftarrow> copy_ref K_Int32 State_Monad.return (hr_FailedLimit x);
     b \<leftarrow> copy_ref K_Int32 State_Monad.return (hr_SucceededLimit x);
     c \<leftarrow> copy_ref K_Duration State_Monad.return (hr_TTLAfterFailed x);
     d \<leftarrow> copy_ref K_Duration State_Monad.return (hr_TTLAfterSucceeded x);
     State_Monad.return (x\<lparr>hr_FailedLimit := a, hr_SucceededLimit := b, hr_TTLAfterFailed := c,
       hr_TTLAfterSucceeded := d\<rparr>)
   }"

definition ImageBuildGitSource_DeepCopyInto :: "h_ImageBuildGitSource \<Rightarrow> (heap, h_ImageBuildGitSource) state" where
  "ImageBuildGitSource_DeepCopyInto x = do {
     a \<leftarrow> copy_ref K_Secret State_Monad.return (hg_CloneSecret x);
     State_Monad.return (x\<lparr>hg_CloneSecret := a\<rparr>)
   }"

definition ImageBuildSource_DeepCopyInto :: "h_ImageBuildSource \<Rightarrow> (heap, h_ImageBuildSource) state" where
  "ImageBuildSource_DeepCopyInto x = do {
     a \<leftarrow> ImageBuildGitSource_DeepCopyInto (hs_Git x);
     State_Monad.return (x\<lparr>hs_Git := a\<rparr>)
   }"

definition ImageBuildOutput_DeepCopyInto :: "h_ImageBuildOutput \<Rightarrow> (heap, h_ImageBuildOutput) state" where
  "ImageBuildOutput_DeepCopyInto x = do {
     a \<leftarrow> copy_ref K_Secret State_Monad.return (ho_PushSecret x);
     State_Monad.return (x\<lparr>ho_PushSecret := a\<rparr>)
   }"

definition ImageBuildOnCommit_DeepCopyInto ::
    "lib_copies \<Rightarrow> h_ImageBuildOnCommit \<Rightarrow> (heap, h_ImageBuildOnCommit) state" where
  "ImageBuildOnCommit_DeepCopyInto L x = do {
     a \<leftarrow> cp_SecretKeySelector L (hoc_WebhookSecretRef x);
     State_Monad.return (x\<lparr>hoc_WebhookSecretRef := a\<rparr>)
   }"

definition ImageBuildSpec_DeepCopyInto :: "lib_copies \<Rightarrow> h_ImageBuildSpec \<Rightarrow> (heap, h_ImageBuildSpec) state" where
  "ImageBuildSpec_DeepCopyInto L x = do {
     a \<leftarrow> ImageBuildSource_DeepCopyInto (hsp_Source x);
     b \<leftarrow> copy_ref K_Rebuild State_Monad.return (hsp_Rebuild x);
     c \<leftarrow> ImageBuildOutput_DeepCopyInto (hsp_Output x);
     d \<leftarrow> copy_ref K_OnCommit (ImageBuildOnCommit_DeepCopyInto L) (hsp_OnCommit x);
     e \<leftarrow> copy_ref K_Retention Retention_DeepCopyInto (hsp_Retention x);
     State_Monad.return (x\<lparr>hsp_Source := a, hsp_Rebuild := b, hsp_Output := c, hsp_OnCommit := d,
       hsp_Retention := e\<rparr>)
   }"

section \<open>Structs of the status\<close>

definition ImageBuildOnCommitStatus_DeepCopyInto ::
    "lib_copies \<Rightarrow> h_ImageBuildOnCommitStatus \<Rightarrow> (heap, h_ImageBuildOnCommitStatus) state" where
  "ImageBuildOnCommitStatus_DeepCopyInto L x = do {
     a \<leftarrow> copy_ref K_Event (ImageBuildOnCommitEvent_DeepCopyInto L) (hocs_LastReceived x);
     b \<leftarrow> copy_ref K_Event (ImageBuildOnCommitEvent_DeepCopyInto L) (hocs_Pending x);
     c \<leftarrow> copy_ref K_Last (ImageBuildOnCommitLastTriggered_DeepCopyInto L) (hocs_LastTriggeredBuildRun x);
     State_Monad.return (x\<lparr>hocs_LastReceived := a, hocs_Pending := b, hocs_LastTriggeredBuildRun := c\<rparr>)
   }"

definition ImageBuildStatus_DeepCopyInto :: "lib_copies \<Rightarrow> h_ImageBuildStatus \<Rightarrow> (heap, h_ImageBuildStatus) state" where
  "ImageBuildStatus_DeepCopyInto L x = do {
     a \<leftarrow> copy_slice K_Conditions zero_Condition (cp_Condition L) (hst_Conditions x);
     b \<leftarrow> copy_ref K_OnCommitStatus (ImageBuildOnCommitStatus_DeepCopyInto L) (hst_OnCommit x);
     State_Monad.return (x\<lparr>hst_Conditions := a, hst_OnCommit := b\<rparr>)
   }"

section \<open>Objects and lists\<close>

definition ImageBuild_DeepCopyInto :: "lib_copies \<Rightarrow> h_ImageBuild \<Rightarrow> (heap, h_ImageBuild) state" where
  "ImageBuild_DeepCopyInto L x = do {
     a \<leftarrow> cp_ObjectMeta L (hib_Meta x);
     b \<leftarrow> ImageBuildSpec_DeepCopyInto L (hib_Spec x);
     c \<leftarrow> ImageBuildStatus_DeepCopyInto L (hib_Status x);
     State_Monad.return (x\<lparr>hib_TypeMeta := hib_TypeMeta x, hib_Meta := a, hib_Spec := b, hib_Status := c\<rparr>)
   }"

definition ImageBuildList_DeepCopyInto :: "lib_copies \<Rightarrow> h_ImageBuildList \<Rightarrow> (heap, h_ImageBuildList) state" where
  "ImageBuildList_DeepCopyInto L x = do {
     a \<leftarrow> cp_ListMeta L (hil_Meta x);
     b \<leftarrow> copy_slice K_ImageBuilds zero_ImageBuild (ImageBuild_DeepCopyInto L) (hil_Items x);
     State_Monad.return (x\<lparr>hil_TypeMeta := hil_TypeMeta x, hil_Meta := a, hil_Items := b\<rparr>)
   }"

definition ImageBuildPolicySpec_DeepCopyInto :: "h_ImageBuildPolicySpec \<Rightarrow> (heap, h_ImageBuildPolicySpec) state" where
  "ImageBuildPolicySpec_DeepCopyInto x = do {
     a \<leftarrow> copy_ref K_Retention Retention_DeepCopyInto (hps_Retention x);
     State_Monad.return (x\<lparr>hps_ClusterBuildStrategy := hps_ClusterBuildStrategy x, hps_Retention := a\<rparr>)
   }"

definition ImageBuildPolicy_DeepCopyInto :: "lib_copies \<Rightarrow> h_ImageBuildPolicy \<Rightarrow> (heap, h_ImageBuildPolicy) state" where
  "ImageBuildPolicy_DeepCopyInto L x = do {
     a \<leftarrow> cp_ObjectMeta L (hp_Meta x);
     b \<leftarrow> ImageBuildPolicySpec_DeepCopyInto (hp_Spec x);
     State_Monad.return (x\<lparr>hp_TypeMeta := hp_TypeMeta x, hp_Meta := a, hp_Spec := b, hp_Status := hp_Status x\<rparr>)
   }"

definition ImageBuildPolicyList_DeepCopyInto ::
    "lib_copies \<Rightarrow> h_ImageBuildPolicyList \<Rightarrow> (heap, h_ImageBuildPolicyList) state" where
  "ImageBuildPolicyList_DeepCopyInto L x = do {
     a \<leftarrow> cp_ListMeta L (hpl_Meta x);
     b \<leftarrow> copy_slice K_Policies zero_Policy (ImageBuildPolicy_DeepCopyInto L) (hpl_Items x);
     State_Monad.return (x\<lparr>hpl_TypeMeta := hpl_TypeMeta x, hpl_Meta := a, hpl_Items := b\<rparr>)
   }"

section \<open>Copies of pointers\<close>

definition ImageBuild_DeepCopy :: "lib_copies \<Rightarrow> ref \<Rightarrow> (heap, ref) state" where
  "ImageBuild_DeepCopy L p = copy_ref K_ImageBuild (ImageBuild_DeepCopyInto L) p"

definition ImageBuildClusterStrategy_DeepCopy :: "ref \<Rightarrow> (heap, ref) state" where
  "ImageBuildClusterStrategy_DeepCopy p = copy_ref K_ClusterStrategy ImageBuildClusterStrategy_DeepCopyInto p"

definition ImageBuildFile_DeepCopy :: "ref \<Rightarrow> (heap, ref) state" where
  "ImageBuildFile_DeepCopy p = copy_ref K_File ImageBuildFile_DeepCopyInto p"

definition ImageBuildFileStrategy_DeepCopy :: "ref \<Rightarrow> (heap, ref) state" where
  "ImageBuildFileStrategy_DeepCopy p = copy_ref K_FileStrategy ImageBuildFileStrategy_DeepCopyInto p"

definition ImageBuildGitSource_DeepCopy :: "ref \<Rightarrow> (heap, ref) state" where
  "ImageBuildGitSource_DeepCopy p = copy_ref K_Git ImageBuildGitSource_DeepCopyInto p"

definition ImageBuildList_DeepCopy :: "lib_copies \<Rightarrow> ref \<Rightarrow> (heap, ref) state" where
  "ImageBuildList_DeepCopy L p = copy_ref K_ImageBuildList (ImageBuildList_DeepCopyInto L) p"

definition ImageBuildOnCommit_DeepCopy :: "lib_copies \<Rightarrow> ref \<Rightarrow> (heap, ref) state" where
  "ImageBuildOnCommit_DeepCopy L p = copy_ref K_OnCommit (ImageBuildOnCommit_DeepCopyInto L) p"

definition ImageBuildOnCommitEvent_DeepCopy :: "lib_copies \<Rightarrow> ref \<Rightarrow> (heap, ref) state" where
  "ImageBuildOnCommitEvent_DeepCopy L p = copy_ref K_Event (ImageBuildOnCommitEvent_DeepCopyInto L) p"

definition ImageBuildOnCommitLastTriggered_DeepCopy :: "lib_copies \<Rightarrow> ref \<Rightarrow> (heap, ref) state" where
  "ImageBuildOnCommitLastTriggered_DeepCopy L p = copy_ref K_Last (ImageBuildOnCommitLastTriggered_DeepCopyInto L) p"

definition ImageBuildOnCommitStatus_DeepCopy :: "lib_copies \<Rightarrow> ref \<Rightarrow> (heap, ref) state" where
  "ImageBuildOnCommitStatus_DeepCopy L p = copy_ref K_OnCommitStatus (ImageBuildOnCommitStatus_DeepCopyInto L) p"

definition ImageBuildOutput_DeepCopy :: "ref \<Rightarrow> (heap, ref) state" where
  "ImageBuildOutput_DeepCopy p = copy_ref K_Output ImageBuildOutput_DeepCopyInto p"

definition ImageBuildPolicy_DeepCopy :: "lib_copies \<Rightarrow> ref \<Rightarrow> (heap, ref) state" where
  "ImageBuildPolicy_DeepCopy L p = copy_ref K_Policy (ImageBuildPolicy_DeepCopyInto L) p"

definition ImageBuildPolicyList_DeepCopy :: "lib_copies \<Rightarrow> ref \<Rightarrow> (heap, ref) state" where
  "ImageBuildPolicyList_DeepCopy L p = copy_ref K_PolicyList (ImageBuildPolicyList_DeepCopyInto L) p"

definition ImageBuildPolicySpec_DeepCopy :: "ref \<Rightarrow> (heap, ref) state" where
  "ImageBuildPolicySpec_DeepCopy p = copy_ref K_PolicySpec ImageBuildPolicySpec_DeepCopyInto p"

definition ImageBuildPolicyStatus_DeepCopy :: "ref \<Rightarrow> (heap, ref) state" where
  "ImageBuildPolicyStatus_DeepCopy p = copy_ref K_PolicyStatus ImageBuildPolicyStatus_DeepCopyInto p"

definition ImageBuildRebuild_DeepCopy :: "ref \<Rightarrow> (heap, ref) state" where
  "ImageBuildRebuild_DeepCopy p = copy_ref K_Rebuild ImageBuildRebuild_DeepCopyInto p"

definition ImageBuildSource_DeepCopy :: "ref \<Rightarrow> (heap, ref) state" where
  "ImageBuildSource_DeepCopy p = copy_ref K_Source ImageBuildSource_DeepCopyInto p"

definition ImageBuildSpec_DeepCopy :: "lib_copies \<Rightarrow> ref \<Rightarrow> (heap, ref) state" where
  "ImageBuildSpec_DeepCopy L p = copy_ref K_Spec (ImageBuildSpec_DeepCopyInto L) p"

definition ImageBuildStatus_DeepCopy :: "lib_copies \<Rightarrow> ref \<Rightarrow> (heap, ref) state" where
  "ImageBuildStatus_DeepCopy L p = copy_ref K_Status (ImageBuildStatus_DeepCopyInto L) p"

definition Retention_DeepCopy :: "ref \<Rightarrow> (heap, ref) state" where
  "Retention_DeepCopy p = copy_ref K_Retention Retention_DeepCopyInto p"

text \<open>
  \<open>runtime.Object\<close>: an interface value, nil or a pointer with its type. The test for nil
  keeps a nil pointer from becoming an interface that is not nil.
\<close>

datatype runtime_Object =
    NilObject | ImageBuildObject ref | ImageBuildListObject ref | ImageBuildPolicyObject ref
  | ImageBuildPolicyListObject ref

definition ImageBuild_DeepCopyObject :: "lib_copies \<Rightarrow> ref \<Rightarrow> (heap, runtime_Object) state" where
  "ImageBuild_DeepCopyObject L p = do {
     c \<leftarrow> ImageBuild_DeepCopy L p;
     State_Monad.return (if c \<noteq> None then ImageBuildObject c else NilObject)
   }"

definition ImageBuildList_DeepCopyObject :: "lib_copies \<Rightarrow> ref \<Rightarrow> (heap, runtime_Object) state" where
  "ImageBuildList_DeepCopyObject L p = do {
     c \<leftarrow> ImageBuildList_DeepCopy L p;
     State_Monad.return (if c \<noteq> None then ImageBuildListObject c else NilObject)
   }"

definition ImageBuildPolicy_DeepCopyObject :: "lib_copies \<Rightarrow> ref \<Rightarrow> (heap, runtime_Object) state" where
  "ImageBuildPolicy_DeepCopyObject L p = do {
     c \<leftarrow> ImageBuildPolicy_DeepCopy L p;
     State_Monad.return (if c \<noteq> None then ImageBuildPolicyObject c else NilObject)
   }"

definition ImageBuildPolicyList_DeepCopyObject :: "lib_copies \<Rightarrow> ref \<Rightarrow> (heap, runtime_Object) state" where
  "ImageBuildPolicyList_DeepCopyObject L p = do {
     c \<leftarrow> ImageBuildPolicyList_DeepCopy L p;
     State_Monad.return (if c \<noteq> None then ImageBuildPolicyListObject c else NilObject)
   }"

end
