(* ===== verification/Deep_Copy_Correct.thy ===== *)
theory Deep_Copy_Correct
  imports Deep_Copy Status
begin

text \<open>
  The generated copies are deep: the value a copied pointer stands for is that of the
  original, and copy and original share no memory. So the model's reading of
  \<open>orig := ib.DeepCopy()\<close>, followed by writes through \<open>ib\<close>, as one value kept and one
  changed is faithful; it is proved for the writes of the two flows that write through
  the nested pointer \<open>status.onCommit\<close>.
\<close>

section \<open>The values structs stand for\<close>

text \<open>Each value is one of \<open>API_Types\<close>, read through the pointers.\<close>

definition Retention_val :: "h_Retention \<Rightarrow> heap \<Rightarrow> Retention option" where
  "Retention_val x h = do {
     a \<leftarrow> ref_val K_Int32 (plain_val id) (hr_FailedLimit x) h;
     b \<leftarrow> ref_val K_Int32 (plain_val id) (hr_SucceededLimit x) h;
     c \<leftarrow> ref_val K_Duration (plain_val id) (hr_TTLAfterFailed x) h;
     d \<leftarrow> ref_val K_Duration (plain_val id) (hr_TTLAfterSucceeded x) h;
     Some \<lparr>FailedLimit = a, SucceededLimit = b, TTLAfterFailed = c, TTLAfterSucceeded = d\<rparr>
   }"

definition Retention_foot :: "h_Retention \<Rightarrow> heap \<Rightarrow> addr set" where
  "Retention_foot x h =
     ref_foot K_Int32 no_foot (hr_FailedLimit x) h \<union> (ref_foot K_Int32 no_foot (hr_SucceededLimit x) h \<union>
     (ref_foot K_Duration no_foot (hr_TTLAfterFailed x) h \<union> ref_foot K_Duration no_foot (hr_TTLAfterSucceeded x) h))"

definition Git_val :: "h_ImageBuildGitSource \<Rightarrow> heap \<Rightarrow> ImageBuildGitSource option" where
  "Git_val x h = do {
     a \<leftarrow> ref_val K_Secret (plain_val id) (hg_CloneSecret x) h;
     Some \<lparr>git_URL = hg_URL x, git_Revision = hg_Revision x, git_CloneSecret = a\<rparr>
   }"

definition Git_foot :: "h_ImageBuildGitSource \<Rightarrow> heap \<Rightarrow> addr set" where
  "Git_foot x h = ref_foot K_Secret no_foot (hg_CloneSecret x) h"

definition Source_val :: "h_ImageBuildSource \<Rightarrow> heap \<Rightarrow> ImageBuildSource option" where
  "Source_val x h = do {
     a \<leftarrow> Git_val (hs_Git x) h;
     Some \<lparr>src_Type = hs_Type x, src_Git = a, src_ContextDir = hs_ContextDir x\<rparr>
   }"

definition Source_foot :: "h_ImageBuildSource \<Rightarrow> heap \<Rightarrow> addr set" where
  "Source_foot x h = Git_foot (hs_Git x) h"

definition Output_val :: "h_ImageBuildOutput \<Rightarrow> heap \<Rightarrow> ImageBuildOutput option" where
  "Output_val x h = do {
     a \<leftarrow> ref_val K_Secret (plain_val id) (ho_PushSecret x) h;
     Some \<lparr>out_Image = ho_Image x, out_PushSecret = a\<rparr>
   }"

definition Output_foot :: "h_ImageBuildOutput \<Rightarrow> heap \<Rightarrow> addr set" where
  "Output_foot x h = ref_foot K_Secret no_foot (ho_PushSecret x) h"

definition OnCommit_val :: "h_ImageBuildOnCommit \<Rightarrow> heap \<Rightarrow> ImageBuildOnCommit option" where
  "OnCommit_val x h = do {
     a \<leftarrow> SecretKeySelector_val (hoc_WebhookSecretRef x) h;
     Some \<lparr>oc_WebhookSecretRef = a\<rparr>
   }"

definition OnCommit_foot :: "h_ImageBuildOnCommit \<Rightarrow> heap \<Rightarrow> addr set" where
  "OnCommit_foot x h = SecretKeySelector_foot (hoc_WebhookSecretRef x) h"

definition Spec_val :: "h_ImageBuildSpec \<Rightarrow> heap \<Rightarrow> ImageBuildSpec option" where
  "Spec_val x h = do {
     a \<leftarrow> Source_val (hsp_Source x) h;
     b \<leftarrow> ref_val K_Rebuild (plain_val id) (hsp_Rebuild x) h;
     c \<leftarrow> Output_val (hsp_Output x) h;
     d \<leftarrow> ref_val K_OnCommit OnCommit_val (hsp_OnCommit x) h;
     e \<leftarrow> ref_val K_Retention Retention_val (hsp_Retention x) h;
     Some \<lparr>spec_Source = a, spec_BuildFile = hsp_BuildFile x, spec_Rebuild = b, spec_Output = c,
        spec_OnCommit = d, spec_Retention = e\<rparr>
   }"

definition Spec_foot :: "h_ImageBuildSpec \<Rightarrow> heap \<Rightarrow> addr set" where
  "Spec_foot x h =
     Source_foot (hsp_Source x) h \<union> (ref_foot K_Rebuild no_foot (hsp_Rebuild x) h \<union>
     (Output_foot (hsp_Output x) h \<union> (ref_foot K_OnCommit OnCommit_foot (hsp_OnCommit x) h \<union>
      ref_foot K_Retention Retention_foot (hsp_Retention x) h)))"

definition OnCommitStatus_val :: "h_ImageBuildOnCommitStatus \<Rightarrow> heap \<Rightarrow> ImageBuildOnCommitStatus option" where
  "OnCommitStatus_val x h = do {
     a \<leftarrow> ref_val K_Event (plain_val id) (hocs_LastReceived x) h;
     b \<leftarrow> ref_val K_Event (plain_val id) (hocs_Pending x) h;
     c \<leftarrow> ref_val K_Last (plain_val id) (hocs_LastTriggeredBuildRun x) h;
     Some \<lparr>ocs_LastReceived = a, ocs_Pending = b, ocs_LastTriggeredBuildRun = c,
        ocs_TriggerCounter = hocs_TriggerCounter x\<rparr>
   }"

definition OnCommitStatus_foot :: "h_ImageBuildOnCommitStatus \<Rightarrow> heap \<Rightarrow> addr set" where
  "OnCommitStatus_foot x h =
     ref_foot K_Event no_foot (hocs_LastReceived x) h \<union> (ref_foot K_Event no_foot (hocs_Pending x) h \<union>
      ref_foot K_Last no_foot (hocs_LastTriggeredBuildRun x) h)"

definition Status_val :: "h_ImageBuildStatus \<Rightarrow> heap \<Rightarrow> ImageBuildStatus option" where
  "Status_val x h = do {
     cs \<leftarrow> slice_val K_Conditions (plain_val id) (hst_Conditions x) h;
     oc \<leftarrow> ref_val K_OnCommitStatus OnCommitStatus_val (hst_OnCommit x) h;
     Some \<lparr>st_ObservedGeneration = hst_ObservedGeneration x, st_BuildRef = hst_BuildRef x,
        st_Conditions = (case cs of None \<Rightarrow> [] | Some l \<Rightarrow> l), st_LatestImage = hst_LatestImage x,
        st_LastBuildRunRef = hst_LastBuildRunRef x, st_BuildRunCounter = hst_BuildRunCounter x,
        st_OnCommit = oc\<rparr>
   }"

definition Status_foot :: "h_ImageBuildStatus \<Rightarrow> heap \<Rightarrow> addr set" where
  "Status_foot x h = slice_foot K_Conditions no_foot (hst_Conditions x) h \<union>
     ref_foot K_OnCommitStatus OnCommitStatus_foot (hst_OnCommit x) h"

definition ImageBuild_val :: "h_ImageBuild \<Rightarrow> heap \<Rightarrow> (TypeMeta \<times> ImageBuild) option" where
  "ImageBuild_val x h = do {
     a \<leftarrow> ObjectMeta_val (hib_Meta x) h;
     b \<leftarrow> Spec_val (hib_Spec x) h;
     c \<leftarrow> Status_val (hib_Status x) h;
     Some (hib_TypeMeta x, \<lparr>ib_Meta = a, ib_Spec = b, ib_Status = c\<rparr>)
   }"

definition ImageBuild_foot :: "h_ImageBuild \<Rightarrow> heap \<Rightarrow> addr set" where
  "ImageBuild_foot x h =
     ObjectMeta_foot (hib_Meta x) h \<union> (Spec_foot (hib_Spec x) h \<union> Status_foot (hib_Status x) h)"

definition ImageBuildList_val :: "h_ImageBuildList \<Rightarrow> heap \<Rightarrow>
    (TypeMeta \<times> ListMeta \<times> (TypeMeta \<times> ImageBuild) list option) option" where
  "ImageBuildList_val x h = do {
     a \<leftarrow> ListMeta_val (hil_Meta x) h;
     b \<leftarrow> slice_val K_ImageBuilds ImageBuild_val (hil_Items x) h;
     Some (hil_TypeMeta x, a, b)
   }"

definition ImageBuildList_foot :: "h_ImageBuildList \<Rightarrow> heap \<Rightarrow> addr set" where
  "ImageBuildList_foot x h =
     ListMeta_foot (hil_Meta x) h \<union> slice_foot K_ImageBuilds ImageBuild_foot (hil_Items x) h"

definition PolicySpec_val :: "h_ImageBuildPolicySpec \<Rightarrow> heap \<Rightarrow> ImageBuildPolicySpec option" where
  "PolicySpec_val x h = do {
     a \<leftarrow> ref_val K_Retention Retention_val (hps_Retention x) h;
     Some \<lparr>ps_ClusterBuildStrategy = hps_ClusterBuildStrategy x, ps_Retention = a\<rparr>
   }"

definition PolicySpec_foot :: "h_ImageBuildPolicySpec \<Rightarrow> heap \<Rightarrow> addr set" where
  "PolicySpec_foot x h = ref_foot K_Retention Retention_foot (hps_Retention x) h"

definition Policy_val :: "h_ImageBuildPolicy \<Rightarrow> heap \<Rightarrow> (TypeMeta \<times> ImageBuildPolicy) option" where
  "Policy_val x h = do {
     a \<leftarrow> ObjectMeta_val (hp_Meta x) h;
     b \<leftarrow> PolicySpec_val (hp_Spec x) h;
     Some (hp_TypeMeta x, \<lparr>pol_Meta = a, pol_Spec = b\<rparr>)
   }"

definition Policy_foot :: "h_ImageBuildPolicy \<Rightarrow> heap \<Rightarrow> addr set" where
  "Policy_foot x h = ObjectMeta_foot (hp_Meta x) h \<union> PolicySpec_foot (hp_Spec x) h"

definition PolicyList_val :: "h_ImageBuildPolicyList \<Rightarrow> heap \<Rightarrow>
    (TypeMeta \<times> ListMeta \<times> (TypeMeta \<times> ImageBuildPolicy) list option) option" where
  "PolicyList_val x h = do {
     a \<leftarrow> ListMeta_val (hpl_Meta x) h;
     b \<leftarrow> slice_val K_Policies Policy_val (hpl_Items x) h;
     Some (hpl_TypeMeta x, a, b)
   }"

definition PolicyList_foot :: "h_ImageBuildPolicyList \<Rightarrow> heap \<Rightarrow> addr set" where
  "PolicyList_foot x h =
     ListMeta_foot (hpl_Meta x) h \<union> slice_foot K_Policies Policy_foot (hpl_Items x) h"

section \<open>Every copy is deep\<close>

lemmas plain_ref = deep_copier.ref_copier [OF plain_copier]

lemmas pair_simps = pair_val_def pair_foot_def pair_into_def fun_eq_iff

lemma map_option_bind: "map_option f (Option.bind m g) = Option.bind m (\<lambda>x. map_option f (g x))"
  by (cases m) auto

lemma map_option_as_bind: "map_option f m = Option.bind m (\<lambda>x. Some (f x))"
  by (cases m) auto

lemmas val_simps = pair_val_def pair_foot_def pair_into_def map_option_bind map_option_as_bind

lemma retention_copier: "deep_copier Retention_val Retention_foot Retention_DeepCopyInto"
  by (rule struct_copier
      [where get = "\<lambda>x. (hr_FailedLimit x, hr_SucceededLimit x, hr_TTLAfterFailed x, hr_TTLAfterSucceeded x)"
        and put = "\<lambda>(a, b, c, d) x. x\<lparr>hr_FailedLimit := a, hr_SucceededLimit := b,
          hr_TTLAfterFailed := c, hr_TTLAfterSucceeded := d\<rparr>"
        and mk = "\<lambda>x (a, b, c, d).
          \<lparr>FailedLimit = a, SucceededLimit = b, TTLAfterFailed = c, TTLAfterSucceeded = d\<rparr>",
        OF pair_copier [OF plain_ref pair_copier [OF plain_ref pair_copier [OF plain_ref plain_ref]]]])
    (auto simp: Retention_val_def Retention_foot_def Retention_DeepCopyInto_def val_simps)

lemma git_copier: "deep_copier Git_val Git_foot ImageBuildGitSource_DeepCopyInto"
  by (rule struct_copier [where get = hg_CloneSecret and put = "\<lambda>a x. x\<lparr>hg_CloneSecret := a\<rparr>"
        and mk = "\<lambda>x a. \<lparr>git_URL = hg_URL x, git_Revision = hg_Revision x, git_CloneSecret = a\<rparr>",
        OF plain_ref])
    (auto simp: Git_val_def Git_foot_def ImageBuildGitSource_DeepCopyInto_def val_simps)

lemma source_copier: "deep_copier Source_val Source_foot ImageBuildSource_DeepCopyInto"
  by (rule struct_copier [where get = hs_Git and put = "\<lambda>a x. x\<lparr>hs_Git := a\<rparr>"
        and mk = "\<lambda>x a. \<lparr>src_Type = hs_Type x, src_Git = a, src_ContextDir = hs_ContextDir x\<rparr>",
        OF git_copier])
    (auto simp: Source_val_def Source_foot_def ImageBuildSource_DeepCopyInto_def val_simps)

lemma output_copier: "deep_copier Output_val Output_foot ImageBuildOutput_DeepCopyInto"
  by (rule struct_copier [where get = ho_PushSecret and put = "\<lambda>a x. x\<lparr>ho_PushSecret := a\<rparr>"
        and mk = "\<lambda>x a. \<lparr>out_Image = ho_Image x, out_PushSecret = a\<rparr>", OF plain_ref])
    (auto simp: Output_val_def Output_foot_def ImageBuildOutput_DeepCopyInto_def val_simps)

lemma policy_spec_copier: "deep_copier PolicySpec_val PolicySpec_foot ImageBuildPolicySpec_DeepCopyInto"
  by (rule struct_copier [where get = hps_Retention and put = "\<lambda>a x. x\<lparr>hps_Retention := a\<rparr>"
        and mk = "\<lambda>x a. \<lparr>ps_ClusterBuildStrategy = hps_ClusterBuildStrategy x, ps_Retention = a\<rparr>",
        OF deep_copier.ref_copier [OF retention_copier]])
    (auto simp: PolicySpec_val_def PolicySpec_foot_def ImageBuildPolicySpec_DeepCopyInto_def val_simps)

context library_copies
begin

lemma event_copier: "deep_copier (plain_val id) no_foot (ImageBuildOnCommitEvent_DeepCopyInto L)"
  by (rule struct_copier [where get = ev_ReceivedAt and put = "\<lambda>a x. x\<lparr>ev_ReceivedAt := a\<rparr>"
        and mk = "\<lambda>x a. x\<lparr>ev_ReceivedAt := a\<rparr>", OF time])
    (auto simp: ImageBuildOnCommitEvent_DeepCopyInto_def plain_val_def no_foot_def)

lemma last_copier: "deep_copier (plain_val id) no_foot (ImageBuildOnCommitLastTriggered_DeepCopyInto L)"
  by (rule struct_copier [where get = lt_TriggeredAt and put = "\<lambda>a x. x\<lparr>lt_TriggeredAt := a\<rparr>"
        and mk = "\<lambda>x a. x\<lparr>lt_TriggeredAt := a\<rparr>", OF time])
    (auto simp: ImageBuildOnCommitLastTriggered_DeepCopyInto_def plain_val_def no_foot_def)

lemma on_commit_copier: "deep_copier OnCommit_val OnCommit_foot (ImageBuildOnCommit_DeepCopyInto L)"
  by (rule struct_copier [where get = hoc_WebhookSecretRef and put = "\<lambda>a x. x\<lparr>hoc_WebhookSecretRef := a\<rparr>"
        and mk = "\<lambda>x a. \<lparr>oc_WebhookSecretRef = a\<rparr>", OF selector])
    (auto simp: OnCommit_val_def OnCommit_foot_def ImageBuildOnCommit_DeepCopyInto_def val_simps)

lemma spec_copier: "deep_copier Spec_val Spec_foot (ImageBuildSpec_DeepCopyInto L)"
  by (rule struct_copier
      [where get = "\<lambda>x. (hsp_Source x, hsp_Rebuild x, hsp_Output x, hsp_OnCommit x, hsp_Retention x)"
        and put = "\<lambda>(a, b, c, d, e) x. x\<lparr>hsp_Source := a, hsp_Rebuild := b, hsp_Output := c,
          hsp_OnCommit := d, hsp_Retention := e\<rparr>"
        and mk = "\<lambda>x (a, b, c, d, e). \<lparr>spec_Source = a, spec_BuildFile = hsp_BuildFile x,
          spec_Rebuild = b, spec_Output = c, spec_OnCommit = d, spec_Retention = e\<rparr>",
        OF pair_copier [OF source_copier pair_copier [OF plain_ref pair_copier [OF output_copier
          pair_copier [OF deep_copier.ref_copier [OF on_commit_copier]
            deep_copier.ref_copier [OF retention_copier]]]]]])
    (auto simp: Spec_val_def Spec_foot_def ImageBuildSpec_DeepCopyInto_def val_simps)

lemma on_commit_status_copier:
  "deep_copier OnCommitStatus_val OnCommitStatus_foot (ImageBuildOnCommitStatus_DeepCopyInto L)"
  by (rule struct_copier
      [where get = "\<lambda>x. (hocs_LastReceived x, hocs_Pending x, hocs_LastTriggeredBuildRun x)"
        and put = "\<lambda>(a, b, c) x. x\<lparr>hocs_LastReceived := a, hocs_Pending := b, hocs_LastTriggeredBuildRun := c\<rparr>"
        and mk = "\<lambda>x (a, b, c). \<lparr>ocs_LastReceived = a, ocs_Pending = b, ocs_LastTriggeredBuildRun = c,
          ocs_TriggerCounter = hocs_TriggerCounter x\<rparr>",
        OF pair_copier [OF deep_copier.ref_copier [OF event_copier]
          pair_copier [OF deep_copier.ref_copier [OF event_copier] deep_copier.ref_copier [OF last_copier]]]])
    (auto simp: OnCommitStatus_val_def OnCommitStatus_foot_def ImageBuildOnCommitStatus_DeepCopyInto_def val_simps)

lemma status_copier: "deep_copier Status_val Status_foot (ImageBuildStatus_DeepCopyInto L)"
  by (rule struct_copier
      [where get = "\<lambda>x. (hst_Conditions x, hst_OnCommit x)"
        and put = "\<lambda>(a, b) x. x\<lparr>hst_Conditions := a, hst_OnCommit := b\<rparr>"
        and mk = "\<lambda>x (cs, oc). \<lparr>st_ObservedGeneration = hst_ObservedGeneration x, st_BuildRef = hst_BuildRef x,
          st_Conditions = (case cs of None \<Rightarrow> [] | Some l \<Rightarrow> l), st_LatestImage = hst_LatestImage x,
          st_LastBuildRunRef = hst_LastBuildRunRef x, st_BuildRunCounter = hst_BuildRunCounter x,
          st_OnCommit = oc\<rparr>",
        OF pair_copier [OF deep_copier.slice_copier [OF condition] deep_copier.ref_copier [OF on_commit_status_copier]]])
    (auto simp: Status_val_def Status_foot_def ImageBuildStatus_DeepCopyInto_def val_simps)

lemma image_build_copier: "deep_copier ImageBuild_val ImageBuild_foot (ImageBuild_DeepCopyInto L)"
  by (rule struct_copier
      [where get = "\<lambda>x. (hib_Meta x, hib_Spec x, hib_Status x)"
        and put = "\<lambda>(a, b, c) x. x\<lparr>hib_Meta := a, hib_Spec := b, hib_Status := c\<rparr>"
        and mk = "\<lambda>x (a, b, c). (hib_TypeMeta x, \<lparr>ib_Meta = a, ib_Spec = b, ib_Status = c\<rparr>)",
        OF pair_copier [OF meta pair_copier [OF spec_copier status_copier]]])
    (auto simp: ImageBuild_val_def ImageBuild_foot_def ImageBuild_DeepCopyInto_def val_simps)

lemma image_build_list_copier:
  "deep_copier ImageBuildList_val ImageBuildList_foot (ImageBuildList_DeepCopyInto L)"
  by (rule struct_copier
      [where get = "\<lambda>x. (hil_Meta x, hil_Items x)"
        and put = "\<lambda>(a, b) x. x\<lparr>hil_Meta := a, hil_Items := b\<rparr>"
        and mk = "\<lambda>x (a, b). (hil_TypeMeta x, a, b)",
        OF pair_copier [OF list_meta deep_copier.slice_copier [OF image_build_copier]]])
    (auto simp: ImageBuildList_val_def ImageBuildList_foot_def ImageBuildList_DeepCopyInto_def val_simps)

lemma policy_copier: "deep_copier Policy_val Policy_foot (ImageBuildPolicy_DeepCopyInto L)"
  by (rule struct_copier
      [where get = "\<lambda>x. (hp_Meta x, hp_Spec x)"
        and put = "\<lambda>(a, b) x. x\<lparr>hp_Meta := a, hp_Spec := b, hp_Status := ()\<rparr>"
        and mk = "\<lambda>x (a, b). (hp_TypeMeta x, \<lparr>pol_Meta = a, pol_Spec = b\<rparr>)",
        OF pair_copier [OF meta policy_spec_copier]])
    (auto simp: Policy_val_def Policy_foot_def ImageBuildPolicy_DeepCopyInto_def val_simps)

lemma policy_list_copier:
  "deep_copier PolicyList_val PolicyList_foot (ImageBuildPolicyList_DeepCopyInto L)"
  by (rule struct_copier
      [where get = "\<lambda>x. (hpl_Meta x, hpl_Items x)"
        and put = "\<lambda>(a, b) x. x\<lparr>hpl_Meta := a, hpl_Items := b\<rparr>"
        and mk = "\<lambda>x (a, b). (hpl_TypeMeta x, a, b)",
        OF pair_copier [OF list_meta deep_copier.slice_copier [OF policy_copier]]])
    (auto simp: PolicyList_val_def PolicyList_foot_def ImageBuildPolicyList_DeepCopyInto_def val_simps)

end

section \<open>Copy and original are apart\<close>

text \<open>
  What a caller of a copy method may rely on: the same value, nil for nil only, and
  whatever is then written through one of the two pointers, the other keeps the value.
\<close>

definition apart :: "(ref \<Rightarrow> heap \<Rightarrow> 'v option) \<Rightarrow> (ref \<Rightarrow> heap \<Rightarrow> addr set) \<Rightarrow> (ref \<Rightarrow> (heap, ref) state) \<Rightarrow> bool" where
  "apart val foot copy \<longleftrightarrow>
     (\<forall>p h v q h'. wf h \<longrightarrow> val p h = Some v \<longrightarrow> run_state (copy p) h = (q, h') \<longrightarrow>
        (q = None \<longleftrightarrow> p = None) \<and> val q h' = Some v \<and> val p h' = Some v \<and>
        (\<forall>h''. (\<forall>a. a \<notin> foot p h' \<longrightarrow> cells h'' a = cells h' a) \<longrightarrow> val q h'' = Some v) \<and>
        (\<forall>h''. (\<forall>a. a \<notin> foot q h' \<longrightarrow> cells h'' a = cells h' a) \<longrightarrow> val p h'' = Some v))"

lemma copy_ref_nil: "run_state (copy_ref k into p) h = (q, h') \<Longrightarrow> q = None \<longleftrightarrow> p = None"
  by (auto simp: copy_ref_def split: option.splits prod.splits)

context deep_copier
begin

lemma copies_apart:
  assumes "kind k"
  shows "apart (ref_val k val) (ref_foot k foot) (copy_ref k into)"
proof -
  note ref = ref_copier [OF assms]
  show ?thesis
    unfolding apart_def
  proof (intro allI impI)
    fix p h v q h'
    assume h: "wf h" "ref_val k val p h = Some v" "run_state (copy_ref k into p) h = (q, h')"
    from deep_copier.separate [OF ref h] have s: "ref_val k val q h' = Some v" "ref_val k val p h' = Some v"
      "ref_foot k foot p h' \<inter> ref_foot k foot q h' = {}" by auto
    have "ref_val k val q h'' = Some v" if "\<forall>a. a \<notin> ref_foot k foot p h' \<longrightarrow> cells h'' a = cells h' a" for h''
      using deep_copier.after_writes [OF ref s(1), of "ref_foot k foot p h'" h''] that s(3) by blast
    moreover have "ref_val k val p h'' = Some v"
      if "\<forall>a. a \<notin> ref_foot k foot q h' \<longrightarrow> cells h'' a = cells h' a" for h''
      using deep_copier.after_writes [OF ref s(2), of "ref_foot k foot q h'" h''] that s(3) by blast
    ultimately show "(q = None \<longleftrightarrow> p = None) \<and> ref_val k val q h' = Some v \<and> ref_val k val p h' = Some v \<and>
        (\<forall>h''. (\<forall>a. a \<notin> ref_foot k foot p h' \<longrightarrow> cells h'' a = cells h' a) \<longrightarrow> ref_val k val q h'' = Some v) \<and>
        (\<forall>h''. (\<forall>a. a \<notin> ref_foot k foot q h' \<longrightarrow> cells h'' a = cells h' a) \<longrightarrow> ref_val k val p h'' = Some v)"
      using copy_ref_nil [OF h(3)] s(1,2) by blast
  qed
qed

end

lemma pointer_copies:
  "ImageBuild_DeepCopy L = copy_ref K_ImageBuild (ImageBuild_DeepCopyInto L)"
  "ImageBuildList_DeepCopy L = copy_ref K_ImageBuildList (ImageBuildList_DeepCopyInto L)"
  "ImageBuildPolicy_DeepCopy L = copy_ref K_Policy (ImageBuildPolicy_DeepCopyInto L)"
  "ImageBuildPolicyList_DeepCopy L = copy_ref K_PolicyList (ImageBuildPolicyList_DeepCopyInto L)"
  "ImageBuildSpec_DeepCopy L = copy_ref K_Spec (ImageBuildSpec_DeepCopyInto L)"
  "ImageBuildStatus_DeepCopy L = copy_ref K_Status (ImageBuildStatus_DeepCopyInto L)"
  by (simp_all add: fun_eq_iff ImageBuild_DeepCopy_def ImageBuildList_DeepCopy_def
      ImageBuildPolicy_DeepCopy_def ImageBuildPolicyList_DeepCopy_def ImageBuildSpec_DeepCopy_def
      ImageBuildStatus_DeepCopy_def)

text \<open>
  C12. The generated copies of the objects and lists of the API, of specs and of statuses
  are deep: a copy stands for the same value, it is nil exactly for nil, and no write
  through the original, to any cell reached through it, changes what the copy stands
  for, nor the other way round. The copies of the library types (metadata, times,
  conditions, secret selectors) are assumed to be deep.
\<close>

theorem deep_copies_apart:
  assumes "library_copies L"
  shows "apart (ref_val K_ImageBuild ImageBuild_val) (ref_foot K_ImageBuild ImageBuild_foot) (ImageBuild_DeepCopy L) \<and>
     apart (ref_val K_ImageBuildList ImageBuildList_val) (ref_foot K_ImageBuildList ImageBuildList_foot)
       (ImageBuildList_DeepCopy L) \<and>
     apart (ref_val K_Policy Policy_val) (ref_foot K_Policy Policy_foot) (ImageBuildPolicy_DeepCopy L) \<and>
     apart (ref_val K_PolicyList PolicyList_val) (ref_foot K_PolicyList PolicyList_foot)
       (ImageBuildPolicyList_DeepCopy L) \<and>
     apart (ref_val K_Spec Spec_val) (ref_foot K_Spec Spec_foot) (ImageBuildSpec_DeepCopy L) \<and>
     apart (ref_val K_Status Status_val) (ref_foot K_Status Status_foot) (ImageBuildStatus_DeepCopy L)"
  using library_copies.image_build_copier [OF assms] library_copies.image_build_list_copier [OF assms]
    library_copies.policy_copier [OF assms] library_copies.policy_list_copier [OF assms]
    library_copies.spec_copier [OF assms] library_copies.status_copier [OF assms]
  by (intro conjI) (auto simp: pointer_copies intro!: deep_copier.copies_apart)

end
