(* ===== verification/In_Memory.thy ===== *)
theory In_Memory
  imports Deep_Copy_Correct On_Commit Webhook_Handler
begin

text \<open>
  The two flows that write through the nested pointer \<open>status.onCommit\<close>, over memory: the
  mark of a triggered commit and the record of a push event. The object they leave behind
  the pointer, and the one kept for \<open>MergeFrom\<close>, are those of the definitions over values.
\<close>

section \<open>The statements before the request\<close>

definition h_patchOnCommitTriggered :: "lib_copies \<Rightarrow> addr \<Rightarrow> ImageBuildOnCommitLastTriggered \<Rightarrow> 64 word \<Rightarrow>
    (heap, ref option) state" where
  \<comment> \<open>\<open>None\<close> is the panic of a nil \<open>ib.Status.OnCommit\<close>; else the pointer \<open>orig\<close>\<close>
  "h_patchOnCommitTriggered L p lastTriggered triggerCounter = do {
     orig \<leftarrow> ImageBuild_DeepCopy L (Some p);
     ib \<leftarrow> load K_ImageBuild p;
     (case hst_OnCommit (hib_Status ib) of
        None \<Rightarrow> State_Monad.return None
      | Some oc \<Rightarrow> do {
          s \<leftarrow> load K_OnCommitStatus oc;
          _ \<leftarrow> store oc (COnCommitStatus (s\<lparr>hocs_TriggerCounter := triggerCounter\<rparr>));
          lt \<leftarrow> alloc (CLast lastTriggered);
          s \<leftarrow> load K_OnCommitStatus oc;
          _ \<leftarrow> store oc (COnCommitStatus (s\<lparr>hocs_LastTriggeredBuildRun := Some lt\<rparr>));
          s \<leftarrow> load K_OnCommitStatus oc;
          _ \<leftarrow> store oc (COnCommitStatus (s\<lparr>hocs_Pending := None\<rparr>));
          State_Monad.return (Some orig)
        })
   }"

definition h_recordEvent :: "lib_copies \<Rightarrow> addr \<Rightarrow> ImageBuildOnCommitEvent \<Rightarrow> (heap, ref option) state" where
  \<comment> \<open>the two status fields get one and the same pointer\<close>
  "h_recordEvent L p event = do {
     orig \<leftarrow> ImageBuild_DeepCopy L (Some p);
     ib \<leftarrow> load K_ImageBuild p;
     _ \<leftarrow> (if hst_OnCommit (hib_Status ib) = None
           then do {
             oc \<leftarrow> alloc (COnCommitStatus zero_OnCommitStatus);
             store p (CImageBuild (ib\<lparr>hib_Status := (hib_Status ib)\<lparr>hst_OnCommit := Some oc\<rparr>\<rparr>))
           }
           else State_Monad.return ());
     onCommitEvent \<leftarrow> alloc (CEvent event);
     ib \<leftarrow> load K_ImageBuild p;
     (case hst_OnCommit (hib_Status ib) of
        None \<Rightarrow> State_Monad.return None
      | Some oc \<Rightarrow> do {
          s \<leftarrow> load K_OnCommitStatus oc;
          _ \<leftarrow> store oc (COnCommitStatus (s\<lparr>hocs_LastReceived := Some onCommitEvent\<rparr>));
          s \<leftarrow> load K_OnCommitStatus oc;
          _ \<leftarrow> store oc (COnCommitStatus (s\<lparr>hocs_Pending := Some onCommitEvent\<rparr>));
          State_Monad.return (Some orig)
        })
   }"

section \<open>Cells of one type do not make up a value of another\<close>

text \<open>
  The parts of an object other than \<open>status.onCommit\<close> are not read through cells of the
  types \<open>ImageBuild\<close> and \<open>ImageBuildOnCommitStatus\<close>.
\<close>

definition owner_cell :: "cell \<Rightarrow> bool" where
  "owner_cell c \<longleftrightarrow> is_COnCommitStatus c \<or> is_CImageBuild c"

definition avoids :: "addr set \<Rightarrow> heap \<Rightarrow> bool" where
  "avoids A h \<longleftrightarrow> (\<forall>a \<in> A. \<exists>c. cells h a = Some c \<and> \<not> owner_cell c)"

lemma avoids_Un [simp]: "avoids (A \<union> B) h \<longleftrightarrow> avoids A h \<and> avoids B h"
  by (auto simp: avoids_def)

lemma avoids_no_foot [simp]: "avoids (no_foot x h) h"
  by (simp add: avoids_def no_foot_def)

lemma avoids_ref:
  assumes "ref_val k val r h = Some v" and "\<And>c. owner_cell c \<Longrightarrow> k_get k c = None"
    and "\<And>x u. val x h = Some u \<Longrightarrow> avoids (foot x h) h"
  shows "avoids (ref_foot k foot r h) h"
  using assms
  by (auto simp: avoids_def ref_foot_def ref_val_def peek_def split: option.splits bind_splits) 

lemma avoids_slice:
  assumes "slice_val k (plain_val f) r h = Some v" and "\<And>c. owner_cell c \<Longrightarrow> k_get k c = None"
  shows "avoids (slice_foot k no_foot r h) h"
  using assms
  by (auto simp: avoids_def slice_foot_def slice_val_def peek_def no_foot_def split: option.splits bind_splits)

lemma owner_kinds:
  assumes "owner_cell c"
  shows "k_get K_Strings c = None" "k_get K_Owners c = None" "k_get K_Bool c = None"
    "k_get K_Secret c = None" "k_get K_Rebuild c = None" "k_get K_OnCommit c = None"
    "k_get K_Retention c = None" "k_get K_Int32 c = None" "k_get K_Duration c = None"
    "k_get K_Conditions c = None" "k_get K_Event c = None" "k_get K_Last c = None"
  using assms by (cases c; simp add: owner_cell_def kind_defs kind_of_def)+

lemma meta_avoids: "ObjectMeta_val x h = Some v \<Longrightarrow> avoids (ObjectMeta_foot x h) h"
  by (auto simp: ObjectMeta_val_def ObjectMeta_foot_def split: bind_splits
      intro!: avoids_ref [where val = "plain_val id"] owner_kinds)

lemma retention_avoids: "Retention_val x h = Some v \<Longrightarrow> avoids (Retention_foot x h) h"
  by (auto simp: Retention_val_def Retention_foot_def split: bind_splits
      intro!: avoids_ref [where val = "plain_val id"] owner_kinds)

lemma on_commit_avoids: "OnCommit_val x h = Some v \<Longrightarrow> avoids (OnCommit_foot x h) h"
  by (auto simp: OnCommit_val_def OnCommit_foot_def SecretKeySelector_val_def SecretKeySelector_foot_def
      split: bind_splits intro!: avoids_ref [where val = "plain_val id"] owner_kinds)

lemma spec_avoids: "Spec_val x h = Some v \<Longrightarrow> avoids (Spec_foot x h) h"
  by (auto simp: Spec_val_def Spec_foot_def Source_val_def Source_foot_def Git_val_def Git_foot_def
      Output_val_def Output_foot_def split: bind_splits
      intro!: avoids_ref [where val = "plain_val id"] avoids_ref [where val = OnCommit_val]
        avoids_ref [where val = Retention_val] owner_kinds on_commit_avoids retention_avoids)

section \<open>Writing through the nested pointer\<close>

text \<open>
  If all cells but those of objects and on-commit statuses stay, the object behind a pointer
  changes in its on-commit status only.
\<close>

definition keeps_others :: "heap \<Rightarrow> heap \<Rightarrow> bool" where
  "keeps_others h h' \<longleftrightarrow> (\<forall>a c. cells h a = Some c \<longrightarrow> \<not> owner_cell c \<longrightarrow> cells h' a = Some c)"

lemma avoids_same: "avoids A h \<Longrightarrow> keeps_others h h' \<Longrightarrow> a \<in> A \<Longrightarrow> cells h' a = cells h a"
  by (fastforce simp: avoids_def keeps_others_def)

context library_copies
begin

lemma object_rewritten:
  assumes "ImageBuild_val x h = Some (tm, ib)" and "keeps_others h h'"
    and "peek K_ImageBuild p h' = Some (x\<lparr>hib_Status := (hib_Status x)\<lparr>hst_OnCommit := Some oc\<rparr>\<rparr>)"
    and "peek K_OnCommitStatus oc h' = Some s" and "OnCommitStatus_val s h' = Some v"
  shows "ref_val K_ImageBuild ImageBuild_val (Some p) h' =
     Some (Some (tm, ib\<lparr>ib_Status := (ib_Status ib)\<lparr>st_OnCommit := Some v\<rparr>\<rparr>))"
proof -
  from assms(1) obtain cs oc' where x: "ObjectMeta_val (hib_Meta x) h = Some (ib_Meta ib)"
    "Spec_val (hib_Spec x) h = Some (ib_Spec ib)"
    "slice_val K_Conditions (plain_val id) (hst_Conditions (hib_Status x)) h = Some cs"
    "tm = hib_TypeMeta x"
    "ib_Status ib = \<lparr>st_ObservedGeneration = hst_ObservedGeneration (hib_Status x),
       st_BuildRef = hst_BuildRef (hib_Status x), st_Conditions = (case cs of None \<Rightarrow> [] | Some l \<Rightarrow> l),
       st_LatestImage = hst_LatestImage (hib_Status x), st_LastBuildRunRef = hst_LastBuildRunRef (hib_Status x),
       st_BuildRunCounter = hst_BuildRunCounter (hib_Status x), st_OnCommit = oc'\<rparr>"
    by (auto simp: ImageBuild_val_def Status_val_def split: bind_splits)
  have m: "ObjectMeta_val (hib_Meta x) h' = Some (ib_Meta ib)"
    using deep_copier.frame [OF meta avoids_same [OF meta_avoids [OF x(1)] assms(2)]] x(1) by simp
  have sp: "Spec_val (hib_Spec x) h' = Some (ib_Spec ib)"
    using deep_copier.frame [OF spec_copier avoids_same [OF spec_avoids [OF x(2)] assms(2)]] x(2) by simp
  have c: "slice_val K_Conditions (plain_val id) (hst_Conditions (hib_Status x)) h' = Some cs"
    using deep_copier.frame [OF deep_copier.slice_copier [OF condition kinds(8)]
        avoids_same [OF avoids_slice [OF x(3) owner_kinds(10)] assms(2)]] x(3) by simp
  show ?thesis
    using m sp c assms(3-5) x(4,5)
    by (simp add: ref_val_def ImageBuild_val_def Status_val_def)
qed

text \<open>The copy made first keeps the old value, whatever is then written through the original.\<close>

lemma copy_kept:
  assumes "wf h" and "ref_val K_ImageBuild ImageBuild_val p h = Some v"
    and "run_state (ImageBuild_DeepCopy L p) h = (q, h1)"
    and "\<And>a. a < nxt h1 \<Longrightarrow> a \<notin> ref_foot K_ImageBuild ImageBuild_foot p h1 \<Longrightarrow> cells h' a = cells h1 a"
  shows "ref_val K_ImageBuild ImageBuild_val q h' = Some v"
proof -
  note ref = deep_copier.ref_copier [OF image_build_copier kinds(21)]
  note run = assms(3) [unfolded pointer_copies]
  from deep_copier.separate [OF ref assms(1,2) run] deep_copier.copies [OF ref assms(1,2) run]
  have q: "ref_val K_ImageBuild ImageBuild_val q h1 = Some v" and
    foot: "ref_foot K_ImageBuild ImageBuild_foot q h1 \<subseteq> {..<nxt h1}"
    "ref_foot K_ImageBuild ImageBuild_foot p h1 \<inter> ref_foot K_ImageBuild ImageBuild_foot q h1 = {}" by auto
  have "cells h' a = cells h1 a" if "a \<in> ref_foot K_ImageBuild ImageBuild_foot q h1" for a
    using assms(4) foot that by blast
  from deep_copier.frame [OF ref this] q show ?thesis by simp
qed

end

lemma event_kept:
  assumes "ref_val K_Event (plain_val id) r h = Some v" and "keeps_others h h'"
  shows "ref_val K_Event (plain_val id) r h' = Some v"
proof -
  have "cells h' a = cells h a" if "a \<in> ref_foot K_Event no_foot r h" for a
    by (rule avoids_same [OF avoids_ref [where foot = no_foot, OF assms(1) owner_kinds(11) avoids_no_foot]
        assms(2) that])
  from deep_copier.frame [OF deep_copier.ref_copier [OF plain_copier [of id] kinds(11)], where x = r and h = h and h' = h', OF this] assms(1)
  show ?thesis by simp
qed

lemma last_kept:
  assumes "ref_val K_Last (plain_val id) r h = Some v" and "keeps_others h h'"
  shows "ref_val K_Last (plain_val id) r h' = Some v"
proof -
  have "cells h' a = cells h a" if "a \<in> ref_foot K_Last no_foot r h" for a
    by (rule avoids_same [OF avoids_ref [where foot = no_foot, OF assms(1) owner_kinds(12) avoids_no_foot]
        assms(2) that])
  from deep_copier.frame [OF deep_copier.ref_copier [OF plain_copier [of id] kinds(12)], where x = r and h = h and h' = h', OF this] assms(1)
  show ?thesis by simp
qed

lemma get_owner:
  "k_get K_OnCommitStatus c = Some s \<longleftrightarrow> c = COnCommitStatus s"
  "k_get K_ImageBuild c = Some x \<longleftrightarrow> c = CImageBuild x"
  "k_get K_Event c = Some e \<longleftrightarrow> c = CEvent e"
  "k_get K_Last c = Some l \<longleftrightarrow> c = CLast l"
  by (cases c; auto simp: K_OnCommitStatus_def K_ImageBuild_def K_Event_def K_Last_def kind_of_def)+

lemma peek_owner:
  "peek K_OnCommitStatus a h = Some s \<longleftrightarrow> cells h a = Some (COnCommitStatus s)"
  "peek K_ImageBuild a h = Some x \<longleftrightarrow> cells h a = Some (CImageBuild x)"
  "peek K_Event a h = Some e \<longleftrightarrow> cells h a = Some (CEvent e)"
  "peek K_Last a h = Some l \<longleftrightarrow> cells h a = Some (CLast l)"
  by (auto simp: peek_def Option.bind_eq_Some_conv get_owner)

text \<open>What is known of an object behind a pointer, after its copy was made.\<close>

lemma object_copied:
  assumes "library_copies L" and "wf h" and "ref_val K_ImageBuild ImageBuild_val (Some p) h = Some (Some (tm, ib))"
    and "run_state (ImageBuild_DeepCopy L (Some p)) h = (q, h1)"
  obtains x where "wf h1" "cells h1 p = Some (CImageBuild x)" "ImageBuild_val x h1 = Some (tm, ib)"
    "ref_foot K_ImageBuild ImageBuild_foot (Some p) h1 = insert p (ImageBuild_foot x h1)"
    "hst_OnCommit (hib_Status x) = None \<and> st_OnCommit (ib_Status ib) = None \<or>
     (\<exists>oc s v. hst_OnCommit (hib_Status x) = Some oc \<and> st_OnCommit (ib_Status ib) = Some v \<and>
        cells h1 oc = Some (COnCommitStatus s) \<and> OnCommitStatus_val s h1 = Some v \<and> oc \<in> ImageBuild_foot x h1)"
proof -
  note ref = deep_copier.ref_copier [OF library_copies.image_build_copier [OF assms(1)] kinds(21)]
  note run = assms(4) [unfolded pointer_copies]
  from deep_copier.separate [OF ref assms(2,3) run] deep_copier.copies [OF ref assms(2,3) run]
  have "wf h1" and val: "ref_val K_ImageBuild ImageBuild_val (Some p) h1 = Some (Some (tm, ib))" by auto
  from val obtain x where x: "peek K_ImageBuild p h1 = Some x" "ImageBuild_val x h1 = Some (tm, ib)"
    by (auto simp: ref_val_def split: bind_splits)
  moreover from x(1) have "ref_foot K_ImageBuild ImageBuild_foot (Some p) h1 = insert p (ImageBuild_foot x h1)"
    by (simp add: ref_foot_def)
  moreover from x(2) have "hst_OnCommit (hib_Status x) = None \<and> st_OnCommit (ib_Status ib) = None \<or>
     (\<exists>oc s v. hst_OnCommit (hib_Status x) = Some oc \<and> st_OnCommit (ib_Status ib) = Some v \<and>
        cells h1 oc = Some (COnCommitStatus s) \<and> OnCommitStatus_val s h1 = Some v \<and> oc \<in> ImageBuild_foot x h1)"
  proof -
    from x(2) have "ref_val K_OnCommitStatus OnCommitStatus_val (hst_OnCommit (hib_Status x)) h1 =
        Some (st_OnCommit (ib_Status ib))"
      by (auto simp: ImageBuild_val_def Status_val_def split: bind_splits)
    then show ?thesis
      by (cases "hst_OnCommit (hib_Status x)"; cases "st_OnCommit (ib_Status ib)")
        (auto simp: ref_val_def ImageBuild_foot_def Status_foot_def ref_foot_def peek_owner
          Option.bind_eq_Some_conv)
  qed
  ultimately show thesis using that \<open>wf h1\<close> by (simp add: peek_owner)
qed

lemma OnCommit_rewritten:
  "hst_OnCommit (hib_Status x) = Some oc \<Longrightarrow>
     x\<lparr>hib_Status := (hib_Status x)\<lparr>hst_OnCommit := Some oc\<rparr>\<rparr> = x" for x :: h_ImageBuild
  by (cases x; cases "hib_Status x") simp

text \<open>
  What recording an event leaves: the object points to a status with the event in both
  fields, and memory that is neither new nor the object's is as before.
\<close>

definition event_left :: "heap \<Rightarrow> heap \<Rightarrow> addr \<Rightarrow> h_ImageBuild \<Rightarrow> ImageBuildOnCommitStatus \<Rightarrow>
    ImageBuildOnCommitEvent \<Rightarrow> bool" where
  "event_left h h' p x v ev \<longleftrightarrow> keeps_others h h' \<and>
     (\<forall>a < nxt h. a \<notin> insert p (ImageBuild_foot x h) \<longrightarrow> cells h' a = cells h a) \<and>
     (\<exists>oc s. cells h' p = Some (CImageBuild (x\<lparr>hib_Status := (hib_Status x)\<lparr>hst_OnCommit := Some oc\<rparr>\<rparr>)) \<and>
        cells h' oc = Some (COnCommitStatus s) \<and>
        OnCommitStatus_val s h' = Some (v\<lparr>ocs_LastReceived := Some ev, ocs_Pending := Some ev\<rparr>))"

lemma event_on_nil:
  assumes copy: "run_state (ImageBuild_DeepCopy L (Some p)) h = (q, h1)"
    and run: "run_state (h_recordEvent L p ev) h = (r, h')"
    and x: "wf h1" "cells h1 p = Some (CImageBuild x)" "hst_OnCommit (hib_Status x) = None"
  shows "r = Some q \<and> event_left h1 h' p x empty_OnCommitStatus ev"
proof -
  let ?oc = "nxt h1" and ?e = "Suc (nxt h1)"
  let ?s = "zero_OnCommitStatus\<lparr>hocs_LastReceived := Some ?e, hocs_Pending := Some ?e\<rparr>"
  have inside: "p < nxt h1" using x(1,2) by (metis leI option.distinct(1) wf_def)
  have r: "r = Some q" and h': "cells h' = (cells h1)(p \<mapsto> CImageBuild (x\<lparr>hib_Status :=
      (hib_Status x)\<lparr>hst_OnCommit := Some ?oc\<rparr>\<rparr>), ?oc \<mapsto> COnCommitStatus ?s, ?e \<mapsto> CEvent ev)"
    using run copy x(2,3) inside by (auto simp: h_recordEvent_def peek_owner [THEN iffD2] fun_upd_twist)
  have "keeps_others h1 h'"
    using x(1,2) h' by (auto simp: keeps_others_def wf_def owner_cell_def)
  moreover have "OnCommitStatus_val ?s h' = Some (empty_OnCommitStatus\<lparr>ocs_LastReceived := Some ev, ocs_Pending := Some ev\<rparr>)"
    using h' by (simp add: OnCommitStatus_val_def ref_val_def zero_OnCommitStatus_def
        empty_OnCommitStatus_def peek_owner [THEN iffD2] plain_val_def)
  ultimately show ?thesis
    using r h' inside unfolding event_left_def by (intro conjI exI [of _ ?oc] exI [of _ ?s]) simp_all
qed

lemma event_on_status:
  assumes copy: "run_state (ImageBuild_DeepCopy L (Some p)) h = (q, h1)"
    and run: "run_state (h_recordEvent L p ev) h = (r, h')"
    and x: "wf h1" "cells h1 p = Some (CImageBuild x)" "hst_OnCommit (hib_Status x) = Some oc"
    and s: "cells h1 oc = Some (COnCommitStatus s)" "OnCommitStatus_val s h1 = Some v" "oc \<in> ImageBuild_foot x h1"
  shows "r = Some q \<and> event_left h1 h' p x v ev"
proof -
  let ?e = "nxt h1" and ?s = "s\<lparr>hocs_LastReceived := Some (nxt h1), hocs_Pending := Some (nxt h1)\<rparr>"
  have inside: "p < nxt h1" using x(1,2) by (metis leI option.distinct(1) wf_def)
  have ne: "oc \<noteq> nxt h1" "p \<noteq> oc" using x(1,2) s(1) by (auto simp: wf_def)
  have r: "r = Some q" and h': "cells h' = (cells h1)(oc \<mapsto> COnCommitStatus ?s, ?e \<mapsto> CEvent ev)"
    using run copy x(2,3) s(1) ne inside
    by (auto simp: h_recordEvent_def peek_owner [THEN iffD2] fun_upd_twist)
  have keep: "keeps_others h1 h'"
    using x(1) s(1) h' by (auto simp: keeps_others_def wf_def owner_cell_def)
  from s(2) obtain a where a: "ref_val K_Last (plain_val id) (hocs_LastTriggeredBuildRun s) h1 = Some a"
    "ocs_LastTriggeredBuildRun v = a" "ocs_TriggerCounter v = hocs_TriggerCounter s"
    by (auto simp: OnCommitStatus_val_def split: bind_splits)
  have "OnCommitStatus_val ?s h' = Some (v\<lparr>ocs_LastReceived := Some ev, ocs_Pending := Some ev\<rparr>)"
    using last_kept [OF a(1) keep] a(2,3) h' ne
    by (simp add: OnCommitStatus_val_def ref_val_def [of K_Event] peek_owner [THEN iffD2] plain_val_def)
  moreover note OnCommit_rewritten [OF x(3)]
  ultimately show ?thesis
    using r keep h' s(3) ne x(2) inside unfolding event_left_def
    by (intro conjI exI [of _ oc] exI [of _ ?s]) auto
qed

section \<open>The properties\<close>

text \<open>
  C13. Marking a commit as triggered, over memory: a nil \<open>status.onCommit\<close> is a panic; else
  the object behind the pointer becomes the one the definition over values sends, with the
  counter, the last trigger and no pending commit, and the copy that \<open>MergeFrom\<close> gets still
  stands for the object as it was, so the patch contains the three changes.
\<close>

theorem trigger_in_memory:
  assumes "library_copies L" and "wf h"
    and "ref_val K_ImageBuild ImageBuild_val (Some p) h = Some (Some (tm, ib))"
    and "run_state (h_patchOnCommitTriggered L p lt n) h = (r, h')"
  shows "if st_OnCommit (ib_Status ib) = None then r = None
    else \<exists>orig. r = Some orig \<and> ref_val K_ImageBuild ImageBuild_val orig h' = Some (Some (tm, ib)) \<and>
      ref_val K_ImageBuild ImageBuild_val (Some p) h' =
        Some (Some (tm, upd_OnCommit (\<lambda>oc. oc\<lparr>ocs_TriggerCounter := n,
          ocs_LastTriggeredBuildRun := Some lt, ocs_Pending := None\<rparr>) ib))"
proof -
  obtain q h1 where copy: "run_state (ImageBuild_DeepCopy L (Some p)) h = (q, h1)" by fastforce
  from object_copied [OF assms(1-3) copy] obtain x where x: "wf h1" "cells h1 p = Some (CImageBuild x)"
    "ImageBuild_val x h1 = Some (tm, ib)"
    "ref_foot K_ImageBuild ImageBuild_foot (Some p) h1 = insert p (ImageBuild_foot x h1)"
    "hst_OnCommit (hib_Status x) = None \<and> st_OnCommit (ib_Status ib) = None \<or>
     (\<exists>oc s v. hst_OnCommit (hib_Status x) = Some oc \<and> st_OnCommit (ib_Status ib) = Some v \<and>
        cells h1 oc = Some (COnCommitStatus s) \<and> OnCommitStatus_val s h1 = Some v \<and> oc \<in> ImageBuild_foot x h1)" .
  from x(5) show ?thesis
  proof (elim disjE conjE exE)
    assume "hst_OnCommit (hib_Status x) = None" "st_OnCommit (ib_Status ib) = None"
    with assms(4) copy x(2) show ?thesis by (simp add: h_patchOnCommitTriggered_def peek_owner [THEN iffD2])
  next
    fix oc s v
    assume s: "hst_OnCommit (hib_Status x) = Some oc" "st_OnCommit (ib_Status ib) = Some v"
      "cells h1 oc = Some (COnCommitStatus s)" "OnCommitStatus_val s h1 = Some v" "oc \<in> ImageBuild_foot x h1"
    let ?s = "s\<lparr>hocs_TriggerCounter := n, hocs_LastTriggeredBuildRun := Some (nxt h1), hocs_Pending := None\<rparr>"
    have ne: "oc \<noteq> nxt h1" "p \<noteq> nxt h1" "p \<noteq> oc" using x(1,2) s(3) by (auto simp: wf_def)
    have r: "r = Some q" and h': "cells h' = (cells h1)(oc \<mapsto> COnCommitStatus ?s, nxt h1 \<mapsto> CLast lt)"
      using assms(4) copy x(2) s(1,3) ne
      by (auto simp: h_patchOnCommitTriggered_def peek_owner [THEN iffD2] fun_upd_twist)
    have keep: "keeps_others h1 h'"
      using x(1) s(3) h' by (auto simp: keeps_others_def wf_def owner_cell_def)
    from s(4) obtain a where a: "ref_val K_Event (plain_val id) (hocs_LastReceived s) h1 = Some a"
      "ocs_LastReceived v = a" by (auto simp: OnCommitStatus_val_def split: bind_splits)
    have "OnCommitStatus_val ?s h' =
        Some (v\<lparr>ocs_TriggerCounter := n, ocs_LastTriggeredBuildRun := Some lt, ocs_Pending := None\<rparr>)"
      using event_kept [OF a(1) keep] a(2) h' ne(1)
      by (simp add: OnCommitStatus_val_def ref_val_def [of K_Last] ref_val_def [of K_Event _ None]
          peek_owner [THEN iffD2] plain_val_def)
    moreover note OnCommit_rewritten [OF s(1)]
    ultimately have "ref_val K_ImageBuild ImageBuild_val (Some p) h' = Some (Some (tm,
        ib\<lparr>ib_Status := (ib_Status ib)\<lparr>st_OnCommit := Some (v\<lparr>ocs_TriggerCounter := n,
          ocs_LastTriggeredBuildRun := Some lt, ocs_Pending := None\<rparr>)\<rparr>\<rparr>))"
      using library_copies.object_rewritten [OF assms(1) x(3) keep, where oc = oc and s = ?s] x(2) h' ne
      by (simp add: peek_owner)
    moreover have "ref_val K_ImageBuild ImageBuild_val q h' = Some (Some (tm, ib))"
      by (rule library_copies.copy_kept [OF assms(1-3) copy]) (use s(5) x(4) h' in auto)
    ultimately show ?thesis using r s(2) by (simp add: upd_OnCommit_def)
  qed
qed

text \<open>
  C14. Recording a push event, over memory: the code gives one pointer to both status
  fields, makes \<open>status.onCommit\<close> first if it is nil, and writes after the copy was made.
  The object it leaves is the one the definition over values sends, and the copy still
  stands for the object as it was read.
\<close>

theorem event_in_memory:
  assumes "library_copies L" and "wf h"
    and "ref_val K_ImageBuild ImageBuild_val (Some p) h = Some (Some (tm, ib))"
    and "run_state (h_recordEvent L p \<lparr>ev_Ref = pe_ref event, ev_CommitSHA = pe_commitSHA event,
           ev_ReceivedAt = now\<rparr>) h = (r, h')"
  shows "\<exists>orig. r = Some orig \<and> ref_val K_ImageBuild ImageBuild_val orig h' = Some (Some (tm, ib)) \<and>
     ref_val K_ImageBuild ImageBuild_val (Some p) h' = Some (Some (tm, recordEvent event now ib))"
proof -
  let ?ev = "\<lparr>ev_Ref = pe_ref event, ev_CommitSHA = pe_commitSHA event, ev_ReceivedAt = now\<rparr>"
  obtain q h1 where copy: "run_state (ImageBuild_DeepCopy L (Some p)) h = (q, h1)" by fastforce
  from object_copied [OF assms(1-3) copy] obtain x where x: "wf h1" "cells h1 p = Some (CImageBuild x)"
    "ImageBuild_val x h1 = Some (tm, ib)"
    "ref_foot K_ImageBuild ImageBuild_foot (Some p) h1 = insert p (ImageBuild_foot x h1)"
    "hst_OnCommit (hib_Status x) = None \<and> st_OnCommit (ib_Status ib) = None \<or>
     (\<exists>oc s v. hst_OnCommit (hib_Status x) = Some oc \<and> st_OnCommit (ib_Status ib) = Some v \<and>
        cells h1 oc = Some (COnCommitStatus s) \<and> OnCommitStatus_val s h1 = Some v \<and> oc \<in> ImageBuild_foot x h1)" .
  have w: "r = Some q" and left: "event_left h1 h' p x
      (case st_OnCommit (ib_Status ib) of None \<Rightarrow> empty_OnCommitStatus | Some v \<Rightarrow> v) ?ev"
    using x(5) event_on_nil [OF copy assms(4) x(1,2)] event_on_status [OF copy assms(4) x(1,2)] by auto
  have "ref_val K_ImageBuild ImageBuild_val q h' = Some (Some (tm, ib))"
    by (rule library_copies.copy_kept [OF assms(1-3) copy]) (use left x(4) in \<open>auto simp: event_left_def\<close>)
  moreover from left obtain oc s where "keeps_others h1 h'"
    "cells h' p = Some (CImageBuild (x\<lparr>hib_Status := (hib_Status x)\<lparr>hst_OnCommit := Some oc\<rparr>\<rparr>))"
    "cells h' oc = Some (COnCommitStatus s)"
    "OnCommitStatus_val s h' = Some ((case st_OnCommit (ib_Status ib) of None \<Rightarrow> empty_OnCommitStatus | Some v \<Rightarrow> v)
        \<lparr>ocs_LastReceived := Some ?ev, ocs_Pending := Some ?ev\<rparr>)" by (auto simp: event_left_def)
  then have "ref_val K_ImageBuild ImageBuild_val (Some p) h' = Some (Some (tm, recordEvent event now ib))"
    using library_copies.object_rewritten [OF assms(1) x(3), where oc = oc]
    by (simp add: peek_owner recordEvent_def Let_def)
  ultimately show ?thesis using w by blast
qed

end
