(* ===== verification/Reference_Memory.thy ===== *)
theory Reference_Memory
  imports In_Memory
begin

text \<open>
  The contract of the library's copies holds of copies that follow the pattern of the
  generated ones, and the properties about memory are applied to an object in a heap
  of five cells.
\<close>

section \<open>The library's copies can be deep\<close>

definition ref_copies :: lib_copies where
  "ref_copies =
     \<lparr>cp_Time = State_Monad.return, cp_Condition = State_Monad.return,
      cp_SecretKeySelector = (\<lambda>x. do {
        a \<leftarrow> copy_ref K_Bool State_Monad.return (hk_Optional x);
        State_Monad.return (x\<lparr>hk_Optional := a\<rparr>) }),
      cp_ObjectMeta = (\<lambda>x. do {
        a \<leftarrow> copy_ref K_Strings State_Monad.return (hm_Labels x);
        b \<leftarrow> copy_ref K_Strings State_Monad.return (hm_Annotations x);
        c \<leftarrow> copy_ref K_Owners State_Monad.return (hm_OwnerReferences x);
        State_Monad.return (x\<lparr>hm_Labels := a, hm_Annotations := b, hm_OwnerReferences := c\<rparr>) }),
      cp_ListMeta = (\<lambda>x. do {
        a \<leftarrow> copy_ref K_Int64 State_Monad.return (hlm_RemainingItemCount x);
        State_Monad.return (x\<lparr>hlm_RemainingItemCount := a\<rparr>) })\<rparr>"

lemma selector_deep:
  "deep_copier SecretKeySelector_val SecretKeySelector_foot (cp_SecretKeySelector ref_copies)"
  by (rule struct_copier [where get = hk_Optional and put = "\<lambda>a x. x\<lparr>hk_Optional := a\<rparr>"
        and mk = "\<lambda>x a. \<lparr>sel_Name = hk_Name x, sel_Key = hk_Key x, sel_Optional = a\<rparr>",
        OF deep_copier.ref_copier [OF plain_copier [of id] kinds(1)]])
    (auto simp: SecretKeySelector_val_def SecretKeySelector_foot_def ref_copies_def val_simps)

lemma list_meta_deep: "deep_copier ListMeta_val ListMeta_foot (cp_ListMeta ref_copies)"
  by (rule struct_copier [where get = hlm_RemainingItemCount and put = "\<lambda>a x. x\<lparr>hlm_RemainingItemCount := a\<rparr>"
        and mk = "\<lambda>x n. \<lparr>lm_ResourceVersion = hlm_ResourceVersion x, lm_Continue = hlm_Continue x,
          lm_RemainingItemCount = n\<rparr>",
        OF deep_copier.ref_copier [OF plain_copier [of id] kinds(3)]])
    (auto simp: ListMeta_val_def ListMeta_foot_def ref_copies_def val_simps)

lemma meta_deep: "deep_copier ObjectMeta_val ObjectMeta_foot (cp_ObjectMeta ref_copies)"
  by (rule struct_copier
      [where get = "\<lambda>x. (hm_Labels x, hm_Annotations x, hm_OwnerReferences x)"
        and put = "\<lambda>(a, b, c) x. x\<lparr>hm_Labels := a, hm_Annotations := b, hm_OwnerReferences := c\<rparr>"
        and mk = "\<lambda>x (ls, as, os). \<lparr>om_Name = hm_Name x, om_Namespace = hm_Namespace x, om_UID = hm_UID x,
          om_ResourceVersion = hm_ResourceVersion x, om_Generation = hm_Generation x,
          om_Labels = (case ls of None \<Rightarrow> Map.empty | Some m \<Rightarrow> m),
          om_Annotations = (case as of None \<Rightarrow> Map.empty | Some m \<Rightarrow> m),
          om_OwnerReferences = (case os of None \<Rightarrow> [] | Some l \<Rightarrow> l)\<rparr>",
        OF pair_copier [OF deep_copier.ref_copier [OF plain_copier [of id] kinds(5)]
          pair_copier [OF deep_copier.ref_copier [OF plain_copier [of id] kinds(5)]
            deep_copier.ref_copier [OF plain_copier [of id] kinds(6)]]]])
    (auto simp: ObjectMeta_val_def ObjectMeta_foot_def ref_copies_def val_simps)

lemma ref_library: "library_copies ref_copies"
  by (rule library_copies.intro [OF _ _ selector_deep meta_deep list_meta_deep])
    (simp_all add: ref_copies_def plain_copier)

interpretation ref_lib: library_copies ref_copies
  by (rule ref_library)

text \<open>The contract of a deep copy, on the copies of the types that need no library.\<close>

interpretation retention: deep_copier Retention_val Retention_foot Retention_DeepCopyInto
  by (rule retention_copier)

interpretation source: deep_copier Source_val Source_foot ImageBuildSource_DeepCopyInto
  by (rule source_copier)

interpretation image_build: deep_copier ImageBuild_val ImageBuild_foot "ImageBuild_DeepCopyInto ref_copies"
  by (rule ref_lib.image_build_copier)

section \<open>Witnesses\<close>

definition demo_event_cell :: ImageBuildOnCommitEvent where
  "demo_event_cell = \<lparr>ev_Ref = ''refs/heads/main'', ev_CommitSHA = ''abc'', ev_ReceivedAt = 7\<rparr>"

definition demo_object :: h_ImageBuild where
  "demo_object = zero_ImageBuild
     \<lparr>hib_Meta := zero_ObjectMeta\<lparr>hm_Name := ''ib'', hm_Labels := Some 3\<rparr>,
      hib_Status := zero_Status\<lparr>hst_OnCommit := Some 1, hst_Conditions := Some 4\<rparr>\<rparr>"

text \<open>The event as last received and the pending one are shared, as the handler leaves them.\<close>

definition demo_heap :: heap where
  "demo_heap =
     \<lparr>cells = [0 \<mapsto> CImageBuild demo_object,
        1 \<mapsto> COnCommitStatus (zero_OnCommitStatus\<lparr>hocs_LastReceived := Some 2, hocs_Pending := Some 2\<rparr>),
        2 \<mapsto> CEvent demo_event_cell,
        3 \<mapsto> CStrings [''k'' \<mapsto> ''v''],
        4 \<mapsto> CConditions [zero_Condition]],
      nxt = 5\<rparr>"

lemma demo_wf: "wf demo_heap"
  by (simp add: wf_def demo_heap_def)

lemma demo_val:
  "\<exists>tm ib. ref_val K_ImageBuild ImageBuild_val (Some 0) demo_heap = Some (Some (tm, ib)) \<and>
     st_OnCommit (ib_Status ib) \<noteq> None"
  by (simp add: ref_val_def slice_val_def peek_def demo_heap_def demo_object_def kind_defs kind_of_def
      ImageBuild_val_def ObjectMeta_val_def Spec_val_def Source_val_def Git_val_def Output_val_def
      Status_val_def OnCommitStatus_val_def plain_val_def zero_ImageBuild_def zero_ObjectMeta_def
      zero_Spec_def zero_Source_def zero_Git_def zero_Output_def zero_Status_def zero_OnCommitStatus_def)

lemma deep_copies_apart_witness:
  "apart (ref_val K_ImageBuild ImageBuild_val) (ref_foot K_ImageBuild ImageBuild_foot)
     (ImageBuild_DeepCopy ref_copies)"
  using deep_copies_apart [OF ref_library] by simp

lemma trigger_in_memory_witness:
  "\<exists>orig h' tm ib v.
     run_state (h_patchOnCommitTriggered ref_copies 0 \<lparr>lt_Name = ''run'', lt_CommitSHA = ''abc'', lt_TriggeredAt = 9\<rparr> 1)
       demo_heap = (Some orig, h') \<and>
     ref_val K_ImageBuild ImageBuild_val orig h' = Some (Some (tm, ib)) \<and>
     ref_val K_ImageBuild ImageBuild_val (Some 0) h' = Some (Some v) \<and>
     Option.bind (st_OnCommit (ib_Status (snd v))) ocs_Pending = None"
proof -
  let ?lt = "\<lparr>lt_Name = ''run'', lt_CommitSHA = ''abc'', lt_TriggeredAt = 9\<rparr>"
  obtain r h' where run: "run_state (h_patchOnCommitTriggered ref_copies 0 ?lt 1) demo_heap = (r, h')"
    by fastforce
  from demo_val obtain tm ib oc where v: "ref_val K_ImageBuild ImageBuild_val (Some 0) demo_heap = Some (Some (tm, ib))"
    "st_OnCommit (ib_Status ib) = Some oc" by auto
  from trigger_in_memory [OF ref_library demo_wf v(1) run] v(2) run show ?thesis
    by (auto simp: upd_OnCommit_def)
qed

lemma event_in_memory_witness:
  "\<exists>orig h' tm ib.
     run_state (h_recordEvent ref_copies 0 \<lparr>ev_Ref = ''r'', ev_CommitSHA = ''s'', ev_ReceivedAt = 8\<rparr>) demo_heap =
       (Some orig, h') \<and>
     ref_val K_ImageBuild ImageBuild_val orig h' = Some (Some (tm, ib)) \<and>
     ref_val K_ImageBuild ImageBuild_val (Some 0) h' = Some (Some (tm,
       recordEvent \<lparr>pe_cloneURLs = [], pe_ref = ''r'', pe_commitSHA = ''s''\<rparr> 8 ib))"
proof -
  let ?e = "\<lparr>pe_cloneURLs = [], pe_ref = ''r'', pe_commitSHA = ''s''\<rparr>"
  obtain r h' where run: "run_state (h_recordEvent ref_copies 0 \<lparr>ev_Ref = pe_ref ?e,
      ev_CommitSHA = pe_commitSHA ?e, ev_ReceivedAt = 8\<rparr>) demo_heap = (r, h')" by fastforce
  from demo_val obtain tm ib where v: "ref_val K_ImageBuild ImageBuild_val (Some 0) demo_heap = Some (Some (tm, ib))"
    by auto
  from event_in_memory [OF ref_library demo_wf v run] run show ?thesis by auto
qed

end
