(* ===== verification/Flags.thy ===== *)
theory Flags
  imports Go_Std
begin

text \<open>
  The command line of \<open>cmd/main.go\<close>: the flags with their defaults, Go's \<open>flag\<close> package as
  it parses them, and \<open>filepath.Join\<close>.
\<close>

section \<open>The flags\<close>

record Flags =
  metricsAddr :: string
  probeAddr :: string
  enableLeaderElection :: bool
  secureMetrics :: bool
  webhookCertPath :: string
  webhookCertName :: string
  webhookCertKey :: string
  metricsCertPath :: string
  metricsCertName :: string
  metricsCertKey :: string
  enableHTTP2 :: bool

definition default_flags :: Flags where
  "default_flags =
     \<lparr>metricsAddr = ''0'', probeAddr = '':8081'', enableLeaderElection = False, secureMetrics = True,
      webhookCertPath = '''', webhookCertName = ''tls.crt'', webhookCertKey = ''tls.key'',
      metricsCertPath = '''', metricsCertName = ''tls.crt'', metricsCertKey = ''tls.key'',
      enableHTTP2 = False\<rparr>"

text \<open>The variable behind the name of a string flag, and of a boolean flag.\<close>

definition set_string :: "string \<Rightarrow> (string \<Rightarrow> Flags \<Rightarrow> Flags) option" where
  "set_string name =
     (if name = ''metrics-bind-address'' then Some (\<lambda>v. metricsAddr_update (\<lambda>_. v))
      else if name = ''health-probe-bind-address'' then Some (\<lambda>v. probeAddr_update (\<lambda>_. v))
      else if name = ''webhook-cert-path'' then Some (\<lambda>v. webhookCertPath_update (\<lambda>_. v))
      else if name = ''webhook-cert-name'' then Some (\<lambda>v. webhookCertName_update (\<lambda>_. v))
      else if name = ''webhook-cert-key'' then Some (\<lambda>v. webhookCertKey_update (\<lambda>_. v))
      else if name = ''metrics-cert-path'' then Some (\<lambda>v. metricsCertPath_update (\<lambda>_. v))
      else if name = ''metrics-cert-name'' then Some (\<lambda>v. metricsCertName_update (\<lambda>_. v))
      else if name = ''metrics-cert-key'' then Some (\<lambda>v. metricsCertKey_update (\<lambda>_. v))
      else None)"

definition set_bool :: "string \<Rightarrow> (bool \<Rightarrow> Flags \<Rightarrow> Flags) option" where
  "set_bool name =
     (if name = ''leader-elect'' then Some (\<lambda>b. enableLeaderElection_update (\<lambda>_. b))
      else if name = ''metrics-secure'' then Some (\<lambda>b. secureMetrics_update (\<lambda>_. b))
      else if name = ''enable-http2'' then Some (\<lambda>b. enableHTTP2_update (\<lambda>_. b))
      else None)"

section \<open>flag.Parse\<close>

datatype arg = Positional | Terminator | BadSyntax | Flag string "string option"

definition classify :: "string \<Rightarrow> arg" where
  "classify s =
     (if length s < 2 \<or> hd s \<noteq> CHR ''-'' then Positional
      else if s = ''--'' then Terminator
      else
        (let name = (if s ! 1 = CHR ''-'' then drop 2 s else drop 1 s);
             n = takeWhile (\<lambda>c. c \<noteq> CHR ''='') name in
         if name = [] \<or> hd name = CHR ''-'' \<or> hd name = CHR ''='' then BadSyntax
         else Flag n (if n = name then None else Some (drop (Suc (length n)) name))))"

definition ParseBool :: "string \<Rightarrow> bool option" where
  "ParseBool s =
     (if List.member [''1'', ''t'', ''T'', ''TRUE'', ''true'', ''True''] s then Some True
      else if List.member [''0'', ''f'', ''F'', ''FALSE'', ''false'', ''False''] s then Some False
      else None)"

text \<open>
  The libraries register flags of their own (zap's and \<open>kubeconfig\<close>). They are a parameter:
  for a name, whether it is a boolean flag, and which values it takes. What they set is
  the business of the libraries.
\<close>

type_synonym extra_flags = "string \<Rightarrow> (bool \<times> (string \<Rightarrow> bool)) option"

datatype parse_result = Parsed Flags | Help | BadFlag

definition assign :: "extra_flags \<Rightarrow> string \<Rightarrow> string \<Rightarrow> Flags \<Rightarrow> Flags option" where
  "assign X name v fs =
     (case set_string name of
        Some f \<Rightarrow> Some (f v fs)
      | None \<Rightarrow>
          (case set_bool name of
             Some f \<Rightarrow> map_option (\<lambda>b. f b fs) (ParseBool v)
           | None \<Rightarrow>
               (case X name of
                  Some (_, ok) \<Rightarrow> if ok v then Some fs else None
                | None \<Rightarrow> None)))"

definition is_bool_flag :: "extra_flags \<Rightarrow> string \<Rightarrow> bool" where
  "is_bool_flag X name \<longleftrightarrow>
     set_string name = None \<and>
     (set_bool name \<noteq> None \<or> (case X name of Some (b, _) \<Rightarrow> b | None \<Rightarrow> False))"

definition defined_flag :: "extra_flags \<Rightarrow> string \<Rightarrow> bool" where
  "defined_flag X name \<longleftrightarrow> set_string name \<noteq> None \<or> set_bool name \<noteq> None \<or> X name \<noteq> None"

fun flag_Parse :: "extra_flags \<Rightarrow> string list \<Rightarrow> Flags \<Rightarrow> parse_result" where
  "flag_Parse X [] fs = Parsed fs"
| "flag_Parse X (s # args) fs =
     (case classify s of
        Positional \<Rightarrow> Parsed fs
      | Terminator \<Rightarrow> Parsed fs
      | BadSyntax \<Rightarrow> BadFlag
      | Flag name value \<Rightarrow>
          if \<not> defined_flag X name
          then (if name = ''help'' \<or> name = ''h'' then Help else BadFlag)
          else
            (case value of
               Some v \<Rightarrow>
                 (case assign X name v fs of None \<Rightarrow> BadFlag | Some fs' \<Rightarrow> flag_Parse X args fs')
             | None \<Rightarrow>
                 if is_bool_flag X name
                 then (case assign X name ''true'' fs of None \<Rightarrow> BadFlag | Some fs' \<Rightarrow> flag_Parse X args fs')
                 else
                   (case args of
                      [] \<Rightarrow> BadFlag
                    | v # args' \<Rightarrow>
                        (case assign X name v fs of
                           None \<Rightarrow> BadFlag | Some fs' \<Rightarrow> flag_Parse X args' fs'))))"

section \<open>filepath.Join\<close>

text \<open>\<open>Clean\<close> on Unix; the components kept so far come last first.\<close>

fun clean_step :: "bool \<Rightarrow> string list \<Rightarrow> string \<Rightarrow> string list" where
  "clean_step rooted out e =
     (if e = '''' \<or> e = ''.'' then out
      else if e = ''..'' then
        (case out of
           [] \<Rightarrow> if rooted then [] else [''..'']
         | x # xs \<Rightarrow> if x = ''..'' then ''..'' # out else xs)
      else e # out)"

fun split_slash :: "string \<Rightarrow> string \<Rightarrow> string list" where
  "split_slash acc [] = [rev acc]"
| "split_slash acc (c # s) =
     (if c = CHR ''/'' then rev acc # split_slash [] s else split_slash (c # acc) s)"

fun join_slash :: "string list \<Rightarrow> string" where
  "join_slash [] = ''''"
| "join_slash [x] = x"
| "join_slash (x # y # xs) = x @ CHR ''/'' # join_slash (y # xs)"

definition filepath_Clean :: "string \<Rightarrow> string" where
  "filepath_Clean p =
     (let rooted = (p \<noteq> [] \<and> hd p = CHR ''/'');
          body = join_slash (rev (foldl (clean_step rooted) [] (split_slash [] p))) in
      if rooted then CHR ''/'' # body else if body = '''' then ''.'' else body)"

definition filepath_Join :: "string \<Rightarrow> string \<Rightarrow> string" where
  "filepath_Join a b =
     (if a = '''' then (if b = '''' then '''' else filepath_Clean b)
      else filepath_Clean (a @ CHR ''/'' # b))"

section \<open>Lemmas\<close>

lemma classify_assignment:
  assumes "n \<noteq> ''''" and "hd n \<noteq> CHR ''-''" and "CHR ''='' \<notin> set n"
  shows "classify (CHR ''-'' # CHR ''-'' # n @ CHR ''='' # v) = Flag n (Some v)"
proof -
  have "takeWhile (\<lambda>c. c \<noteq> CHR ''='') (n @ CHR ''='' # v) = n"
    using assms(3) by (induction n) auto
  then show ?thesis using assms by (cases n) (auto simp: classify_def Let_def)
qed

definition spell :: "string \<Rightarrow> string \<Rightarrow> string" where
  "spell n v = CHR ''-'' # CHR ''-'' # n @ CHR ''='' # v"

lemma parse_spell:
  assumes "n \<noteq> ''''" and "hd n \<noteq> CHR ''-''" and "CHR ''='' \<notin> set n" and "defined_flag X n"
  shows "flag_Parse X (spell n v # args) fs =
     (case assign X n v fs of None \<Rightarrow> BadFlag | Some fs' \<Rightarrow> flag_Parse X args fs')"
  using assms(4) classify_assignment [OF assms(1-3)] by (simp add: spell_def)

definition show_bool :: "bool \<Rightarrow> string" where
  "show_bool b = (if b then ''true'' else ''false'')"

lemma ParseBool_show [simp]: "ParseBool (show_bool b) = Some b"
  by (simp add: ParseBool_def show_bool_def)

text \<open>A command line that spells out every flag.\<close>

definition command_line :: "Flags \<Rightarrow> string list" where
  "command_line f =
     [spell ''metrics-bind-address'' (metricsAddr f), spell ''health-probe-bind-address'' (probeAddr f),
      spell ''leader-elect'' (show_bool (enableLeaderElection f)),
      spell ''metrics-secure'' (show_bool (secureMetrics f)),
      spell ''webhook-cert-path'' (webhookCertPath f), spell ''webhook-cert-name'' (webhookCertName f),
      spell ''webhook-cert-key'' (webhookCertKey f), spell ''metrics-cert-path'' (metricsCertPath f),
      spell ''metrics-cert-name'' (metricsCertName f), spell ''metrics-cert-key'' (metricsCertKey f),
      spell ''enable-http2'' (show_bool (enableHTTP2 f))]"

text \<open>
  C38. Every setting can be reached from the command line: spelling out each flag as
  \<open>--name=value\<close> sets exactly the wanted values, whatever characters they contain and
  whatever other flags the libraries define.
\<close>

theorem command_line_roundtrip: "flag_Parse X (command_line f) g = Parsed f"
  by (simp add: command_line_def parse_spell defined_flag_def assign_def set_string_def set_bool_def
      del: flag_Parse.simps(2))
end
