(* ===== verification/Startup.thy ===== *)
theory Startup
  imports Flags API_Types
begin

text \<open>
  \<open>cmd/main.go\<close>, \<open>SetupWithManager\<close> and the registration of the API types: the start of
  the operator as a sequence of calls to the libraries, each of which may fail and then
  ends the process. The libraries are one function from calls to answers over a world
  of an arbitrary type. TLS options live in slices with their backing arrays, for the
  code derives two option lists from one slice.
\<close>

section \<open>TLS options\<close>

datatype server = WebhookServer | MetricsServer

datatype tls_opt = DisableHTTP2 | UseCertWatcher server

record tls_Config =
  NextProtos :: "string list"
  GetCertificate :: "server option"

fun apply_opt :: "tls_opt \<Rightarrow> tls_Config \<Rightarrow> tls_Config" where
  "apply_opt DisableHTTP2 c = c\<lparr>NextProtos := [''http/1.1'']\<rparr>"
| "apply_opt (UseCertWatcher s) c = c\<lparr>GetCertificate := Some s\<rparr>"

text \<open>
  A slice is a window from index 0 into an array; a nil slice has no array. \<open>append\<close> writes
  in place while the capacity lasts and else moves to a new array, of a capacity chosen
  by the runtime (\<open>grow\<close>, from the old capacity and the length needed).
\<close>

record slice =
  sl_Array :: nat
  sl_Len :: nat
  sl_Cap :: nat

record arrays =
  ar_Elem :: "nat \<Rightarrow> nat \<Rightarrow> tls_opt"
  ar_Next :: nat

definition nil_slice :: slice where
  "nil_slice = \<lparr>sl_Array = 0, sl_Len = 0, sl_Cap = 0\<rparr>"

definition no_arrays :: arrays where
  "no_arrays = \<lparr>ar_Elem = (\<lambda>_ _. DisableHTTP2), ar_Next = 1\<rparr>"

definition go_append :: "(nat \<Rightarrow> nat \<Rightarrow> nat) \<Rightarrow> slice \<Rightarrow> tls_opt \<Rightarrow> arrays \<Rightarrow> slice \<times> arrays" where
  "go_append grow s x A =
     (if sl_Len s < sl_Cap s
      then (s\<lparr>sl_Len := Suc (sl_Len s)\<rparr>,
            A\<lparr>ar_Elem := (ar_Elem A)(sl_Array s := (ar_Elem A (sl_Array s))(sl_Len s := x))\<rparr>)
      else (\<lparr>sl_Array = ar_Next A, sl_Len = Suc (sl_Len s),
             sl_Cap = max (grow (sl_Cap s) (Suc (sl_Len s))) (Suc (sl_Len s))\<rparr>,
            \<lparr>ar_Elem = (ar_Elem A)(ar_Next A := (ar_Elem A (sl_Array s))(sl_Len s := x)),
             ar_Next = Suc (ar_Next A)\<rparr>))"

definition elems :: "arrays \<Rightarrow> slice \<Rightarrow> tls_opt list" where
  "elems A s = List.map (ar_Elem A (sl_Array s)) [0..<sl_Len s]"

definition append_if :: "(nat \<Rightarrow> nat \<Rightarrow> nat) \<Rightarrow> bool \<Rightarrow> slice \<Rightarrow> tls_opt \<Rightarrow> arrays \<Rightarrow> slice \<times> arrays" where
  "append_if grow b s x A = (if b then go_append grow s x A else (s, A))"

text \<open>The option lists as the servers find them, when all appends have been made.\<close>

definition tlsOptions :: "(nat \<Rightarrow> nat \<Rightarrow> nat) \<Rightarrow> Flags \<Rightarrow> tls_opt list \<times> tls_opt list" where
  \<comment> \<open>of the webhook server and of the metrics server\<close>
  "tlsOptions grow f =
     (let (tlsOpts, A) = append_if grow (\<not> enableHTTP2 f) nil_slice DisableHTTP2 no_arrays;
          (webhookTLSOpts, A) =
            append_if grow (length (webhookCertPath f) > 0) tlsOpts (UseCertWatcher WebhookServer) A;
          (metricsTLSOpts, A) =
            append_if grow (length (metricsCertPath f) > 0) tlsOpts (UseCertWatcher MetricsServer) A
      in (elems A webhookTLSOpts, elems A metricsTLSOpts))"

section \<open>Calls to the libraries\<close>

record ManagerOptions =
  mo_MetricsBindAddress :: string
  mo_SecureServing :: bool
  mo_AuthFilter :: bool
  mo_MetricsTLS :: "tls_opt list"
  mo_WebhookTLS :: "tls_opt list"
  mo_HealthProbeBindAddress :: string
  mo_LeaderElection :: bool
  mo_LeaderElectionID :: string

datatype lib_call =
    AddClientGoToScheme
  | AddKnownTypes "string \<times> string" "string list"
  | AddToGroupVersion "string \<times> string"
  | AddShipwrightToScheme
  | NewCertWatcher server string string
  | GetConfigOrDie
  | NewManager ManagerOptions
  | CompleteController string string "string list" string
  | RegisterHandler string string
  | AddCertWatcher server
  | AddHealthzCheck string
  | AddReadyzCheck string
  | StartManager

type_synonym 'w runtime = "lib_call \<Rightarrow> 'w \<Rightarrow> go_error option \<times> 'w"

text \<open>
  A step of the start: \<open>Err n\<close> is the end of the process with exit code \<open>n\<close>; a Go panic
  ends it with code 2.
\<close>

type_synonym 'w step = "('w, (nat, unit) res) state"

definition call_lib :: "'w runtime \<Rightarrow> lib_call \<Rightarrow> ('w, go_error option) state" where
  "call_lib R c = State (R c)"

definition run_or_exit :: "'w runtime \<Rightarrow> nat \<Rightarrow> lib_call \<Rightarrow> 'w step" where
  "run_or_exit R code c = do {
     e \<leftarrow> call_lib R c;
     State_Monad.return (if e = None then Ok () else Err code)
   }"

definition always :: "'w runtime \<Rightarrow> lib_call \<Rightarrow> 'w step" where
  \<comment> \<open>a call without an error\<close>
  "always R c = do { _ \<leftarrow> call_lib R c; State_Monad.return (Ok ()) }"

definition only_if :: "bool \<Rightarrow> 'w step \<Rightarrow> 'w step" where
  "only_if b m = (if b then m else State_Monad.return (Ok ()))"

definition before_then :: "'w step \<Rightarrow> 'w step \<Rightarrow> 'w step" where
  "before_then m n = bind_res m (\<lambda>_. n)"

section \<open>Registration\<close>

definition GroupVersion :: "string \<times> string" where
  "GroupVersion = (GroupVersion_Group, ''v1alpha1'')"

definition addKnownTypes :: "'w runtime \<Rightarrow> 'w step" where
  "addKnownTypes R = before_then
     (always R (AddKnownTypes GroupVersion
        [''ImageBuild'', ''ImageBuildList'', ''ImageBuildPolicy'', ''ImageBuildPolicyList'']))
     (always R (AddToGroupVersion GroupVersion))"

definition init :: "'w runtime \<Rightarrow> 'w step" where
  \<comment> \<open>\<open>utilruntime.Must\<close> panics on an error\<close>
  "init R =
     before_then (run_or_exit R 2 AddClientGoToScheme)
     (before_then (addKnownTypes R)
     (run_or_exit R 2 AddShipwrightToScheme))"

definition controllerName :: string where
  "controllerName = ''ImageBuildController''"

definition SetupWithManager :: "'w runtime \<Rightarrow> ('w, go_error option) state" where
  \<comment> \<open>the event recorder is the reconciler's, made by \<open>main\<close>\<close>
  "SetupWithManager R = do {
     e \<leftarrow> call_lib R (CompleteController controllerName ''ImageBuild'' [''Build'', ''BuildRun'']
           ''imagebuild-controller'');
     State_Monad.return (map_option (wrap ''failed to build controller'') e)
   }"

section \<open>main\<close>

definition envEnableOnCommitWebhook :: string where
  "envEnableOnCommitWebhook = ''ENABLE_ONCOMMIT_WEBHOOK''"

definition WebhookPath :: string where
  "WebhookPath = ''/webhooks/git''"

definition managerOptions :: "(nat \<Rightarrow> nat \<Rightarrow> nat) \<Rightarrow> Flags \<Rightarrow> ManagerOptions" where
  "managerOptions grow f =
     (let (webhookTLSOpts, metricsTLSOpts) = tlsOptions grow f in
      \<lparr>mo_MetricsBindAddress = metricsAddr f, mo_SecureServing = secureMetrics f,
       mo_AuthFilter = secureMetrics f, mo_MetricsTLS = metricsTLSOpts, mo_WebhookTLS = webhookTLSOpts,
       mo_HealthProbeBindAddress = probeAddr f, mo_LeaderElection = enableLeaderElection f,
       mo_LeaderElectionID = ''0acbb5bd.dana.io''\<rparr>)"

definition webhookCertWatcher :: "'w runtime \<Rightarrow> Flags \<Rightarrow> 'w step" where
  "webhookCertWatcher R f = only_if (length (webhookCertPath f) > 0)
     (run_or_exit R 1 (NewCertWatcher WebhookServer
        (filepath_Join (webhookCertPath f) (webhookCertName f))
        (filepath_Join (webhookCertPath f) (webhookCertKey f))))"

definition metricsCertWatcher :: "'w runtime \<Rightarrow> Flags \<Rightarrow> 'w step" where
  "metricsCertWatcher R f = only_if (length (metricsCertPath f) > 0)
     (run_or_exit R 1 (NewCertWatcher MetricsServer
        (filepath_Join (metricsCertPath f) (metricsCertName f))
        (filepath_Join (metricsCertPath f) (metricsCertKey f))))"

definition createController :: "'w runtime \<Rightarrow> 'w step" where
  "createController R = do {
     e \<leftarrow> SetupWithManager R;
     State_Monad.return (if e = None then Ok () else Err 1)
   }"

definition registerWebhook :: "'w runtime \<Rightarrow> (string \<Rightarrow> string) \<Rightarrow> 'w step" where
  "registerWebhook R Getenv = only_if (Getenv envEnableOnCommitWebhook = ''true'')
     (always R (RegisterHandler WebhookPath ''git-webhook''))"

definition mainWith :: "'w runtime \<Rightarrow> (nat \<Rightarrow> nat \<Rightarrow> nat) \<Rightarrow> (string \<Rightarrow> string) \<Rightarrow> Flags \<Rightarrow> 'w step" where
  \<comment> \<open>\<open>main\<close> after the flags have been parsed\<close>
  "mainWith R grow Getenv f =
     before_then (webhookCertWatcher R f)
     (before_then (metricsCertWatcher R f)
     (before_then (run_or_exit R 1 GetConfigOrDie)
     (before_then (run_or_exit R 1 (NewManager (managerOptions grow f)))
     (before_then (createController R)
     (before_then (registerWebhook R Getenv)
     (before_then (only_if (length (metricsCertPath f) > 0) (run_or_exit R 1 (AddCertWatcher MetricsServer)))
     (before_then (only_if (length (webhookCertPath f) > 0) (run_or_exit R 1 (AddCertWatcher WebhookServer)))
     (before_then (run_or_exit R 1 (AddHealthzCheck ''healthz''))
     (before_then (run_or_exit R 1 (AddReadyzCheck ''readyz''))
     (run_or_exit R 1 StartManager))))))))))"

text \<open>
  The process: \<open>init\<close>, then \<open>main\<close> on the arguments. The flag set exits on errors, with
  code 0 after a request for help and 2 else. The answer is the exit code.
\<close>

definition process :: "'w runtime \<Rightarrow> (nat \<Rightarrow> nat \<Rightarrow> nat) \<Rightarrow> (string \<Rightarrow> string) \<Rightarrow> extra_flags \<Rightarrow> string list \<Rightarrow>
    'w \<Rightarrow> nat \<times> 'w" where
  "process R grow Getenv X args w =
     (case run_state (before_then (init R)
             (case flag_Parse X args default_flags of
                Help \<Rightarrow> State_Monad.return (Err 0)
              | BadFlag \<Rightarrow> State_Monad.return (Err 2)
              | Parsed f \<Rightarrow> mainWith R grow Getenv f)) w of
        (Ok _, w') \<Rightarrow> (0, w')
      | (Err code, w') \<Rightarrow> (code, w')
      | (Panic, w') \<Rightarrow> (2, w'))"

end
