(* ===== verification/Startup_Plan.thy ===== *)
theory Startup_Plan
  imports Startup
begin

text \<open>
  What the start of the operator does, stated without its control flow: the plan of calls
  for given flags and environment, which the process follows up to the first error; and
  the TLS options the two servers get.
\<close>

section \<open>Plans\<close>

text \<open>A call, with the exit code if it fails; no code for a call that cannot.\<close>

type_synonym plan = "(lib_call \<times> nat option) list"

fun run_plan :: "'w runtime \<Rightarrow> plan \<Rightarrow> nat \<Rightarrow> 'w \<Rightarrow> nat \<times> 'w" where
  "run_plan R [] final w = (final, w)"
| "run_plan R ((c, code) # p) final w =
     (case R c w of
        (None, w') \<Rightarrow> run_plan R p final w'
      | (Some e, w') \<Rightarrow> (case code of None \<Rightarrow> run_plan R p final w' | Some n \<Rightarrow> (n, w')))"

definition scheme_plan :: plan where
  "scheme_plan =
     [(AddClientGoToScheme, Some 2),
      (AddKnownTypes (''build.dana.io'', ''v1alpha1'')
         [''ImageBuild'', ''ImageBuildList'', ''ImageBuildPolicy'', ''ImageBuildPolicyList''], None),
      (AddToGroupVersion (''build.dana.io'', ''v1alpha1''), None),
      (AddShipwrightToScheme, Some 2)]"

definition start_plan :: "(nat \<Rightarrow> nat \<Rightarrow> nat) \<Rightarrow> (string \<Rightarrow> string) \<Rightarrow> Flags \<Rightarrow> plan" where
  "start_plan grow Getenv f =
     (if webhookCertPath f = '''' then [] else
        [(NewCertWatcher WebhookServer (filepath_Join (webhookCertPath f) (webhookCertName f))
            (filepath_Join (webhookCertPath f) (webhookCertKey f)), Some 1)]) @
     (if metricsCertPath f = '''' then [] else
        [(NewCertWatcher MetricsServer (filepath_Join (metricsCertPath f) (metricsCertName f))
            (filepath_Join (metricsCertPath f) (metricsCertKey f)), Some 1)]) @
     [(GetConfigOrDie, Some 1), (NewManager (managerOptions grow f), Some 1),
      (CompleteController ''ImageBuildController'' ''ImageBuild'' [''Build'', ''BuildRun'']
         ''imagebuild-controller'', Some 1)] @
     (if Getenv ''ENABLE_ONCOMMIT_WEBHOOK'' = ''true''
      then [(RegisterHandler ''/webhooks/git'' ''git-webhook'', None)] else []) @
     (if metricsCertPath f = '''' then [] else [(AddCertWatcher MetricsServer, Some 1)]) @
     (if webhookCertPath f = '''' then [] else [(AddCertWatcher WebhookServer, Some 1)]) @
     [(AddHealthzCheck ''healthz'', Some 1), (AddReadyzCheck ''readyz'', Some 1), (StartManager, Some 1)]"

section \<open>The process follows the plan\<close>

text \<open>A step follows a plan if it makes its calls up to the first error.\<close>

definition follows :: "'w runtime \<Rightarrow> 'w step \<Rightarrow> plan \<Rightarrow> bool" where
  "follows R m p \<longleftrightarrow>
     (\<forall>q final w. (case run_state m w of
        (Ok _, w') \<Rightarrow> run_plan R q final w' | (Err n, w') \<Rightarrow> (n, w') | (Panic, w') \<Rightarrow> (2, w')) =
      run_plan R (p @ q) final w)"

lemma followsD:
  assumes "follows R m p" and "run_state m w = (a, w')"
  shows "run_plan R (p @ q) final w =
     (case a of Ok _ \<Rightarrow> run_plan R q final w' | Err n \<Rightarrow> (n, w') | Panic \<Rightarrow> (2, w'))"
proof -
  from assms(1) have "(case run_state m w of
      (Ok _, w') \<Rightarrow> run_plan R q final w' | (Err n, w') \<Rightarrow> (n, w') | (Panic, w') \<Rightarrow> (2, w')) =
      run_plan R (p @ q) final w" unfolding follows_def by blast
  with assms(2) show ?thesis by simp
qed

named_theorems follows_intros

lemma follows_before [follows_intros]:
  assumes "follows R m p" and "follows R n q"
  shows "follows R (before_then m n) (p @ q)"
  unfolding follows_def
proof (intro allI)
  fix r final w
  obtain a w' where run: "run_state m w = (a, w')" by fastforce
  note m = followsD [OF assms(1) run, of _ final]
  show "(case run_state (before_then m n) w of
        (Ok _, w') \<Rightarrow> run_plan R r final w' | (Err n, w') \<Rightarrow> (n, w') | (Panic, w') \<Rightarrow> (2, w')) =
      run_plan R ((p @ q) @ r) final w"
  proof (cases a)
    case (Ok u)
    with assms(2) run m [of "q @ r"] show ?thesis by (simp add: before_then_def follows_def)
  qed (use run m [of "q @ r"] in \<open>simp_all add: before_then_def\<close>)
qed

lemma follows_run_or_exit [follows_intros]: "follows R (run_or_exit R n c) [(c, Some n)]"
  by (auto simp: follows_def run_or_exit_def call_lib_def split: prod.splits option.splits)

lemma follows_always [follows_intros]: "follows R (always R c) [(c, None)]"
  by (auto simp: follows_def always_def call_lib_def split: prod.splits option.splits)

lemma follows_only_if [follows_intros]:
  "follows R m p \<Longrightarrow> follows R (only_if b m) (if b then p else [])"
  by (simp add: only_if_def follows_def)

lemma follows_createController [follows_intros]:
  "follows R (createController R) [(CompleteController controllerName ''ImageBuild'' [''Build'', ''BuildRun'']
     ''imagebuild-controller'', Some 1)]"
  by (auto simp: follows_def createController_def SetupWithManager_def call_lib_def
      split: prod.splits option.splits)

lemma follows_init: "follows R (init R) scheme_plan"
proof -
  have "follows R (init R) ([(AddClientGoToScheme, Some 2)] @
      ([(AddKnownTypes GroupVersion [''ImageBuild'', ''ImageBuildList'', ''ImageBuildPolicy'',
          ''ImageBuildPolicyList''], None)] @ [(AddToGroupVersion GroupVersion, None)]) @
      [(AddShipwrightToScheme, Some 2)])"
    unfolding init_def addKnownTypes_def by (intro follows_intros)
  then show ?thesis by (simp add: scheme_plan_def GroupVersion_def go_consts)
qed

lemma only_if_plan: "(if length xs > 0 then p else []) = (if xs = [] then [] else p)"
  by simp

lemma follows_mainWith: "follows R (mainWith R grow Getenv f) (start_plan grow Getenv f)"
proof -
  let ?watcher = "\<lambda>s p n k. [(NewCertWatcher s (filepath_Join p n) (filepath_Join p k), Some 1)]"
  have "follows R (mainWith R grow Getenv f)
     ((if length (webhookCertPath f) > 0
       then ?watcher WebhookServer (webhookCertPath f) (webhookCertName f) (webhookCertKey f) else []) @
      (if length (metricsCertPath f) > 0
       then ?watcher MetricsServer (metricsCertPath f) (metricsCertName f) (metricsCertKey f) else []) @
      [(GetConfigOrDie, Some 1)] @ [(NewManager (managerOptions grow f), Some 1)] @
      [(CompleteController controllerName ''ImageBuild'' [''Build'', ''BuildRun''] ''imagebuild-controller'', Some 1)] @
      (if Getenv envEnableOnCommitWebhook = ''true''
       then [(RegisterHandler WebhookPath ''git-webhook'', None)] else []) @
      (if length (metricsCertPath f) > 0 then [(AddCertWatcher MetricsServer, Some 1)] else []) @
      (if length (webhookCertPath f) > 0 then [(AddCertWatcher WebhookServer, Some 1)] else []) @
      [(AddHealthzCheck ''healthz'', Some 1)] @ [(AddReadyzCheck ''readyz'', Some 1)] @ [(StartManager, Some 1)])"
    unfolding mainWith_def webhookCertWatcher_def metricsCertWatcher_def registerWebhook_def
    by (intro follows_intros)
  then show ?thesis
    by (simp only: only_if_plan start_plan_def controllerName_def envEnableOnCommitWebhook_def
        WebhookPath_def append.simps)
qed

text \<open>
  C15. The start of the operator is a plan of library calls that depends on the flags and
  the environment only, followed up to the first call that fails, whose exit code ends
  the process: the API types are registered first, the certificate watchers are made
  before the manager, the webhook handler is registered exactly if
  \<open>ENABLE\_ONCOMMIT\_WEBHOOK\<close> is \<open>true\<close>, and the manager is started last. A flag error ends
  the process with code 2, a request for help with code 0, both before any of this but
  the registration of types.
\<close>

theorem process_follows_plan:
  "process R grow Getenv X args w =
     (case flag_Parse X args default_flags of
        Help \<Rightarrow> run_plan R scheme_plan 0 w
      | BadFlag \<Rightarrow> run_plan R scheme_plan 2 w
      | Parsed f \<Rightarrow> run_plan R (scheme_plan @ start_plan grow Getenv f) 0 w)"
proof -
  have stop: "(case run_state m w of
      (Ok _, w') \<Rightarrow> (n, w') | (Err n, w') \<Rightarrow> (n, w') | (Panic, w') \<Rightarrow> (2, w')) = run_plan R p n w"
    if "follows R m p" for m p and w :: 'a and n
    using followsD [OF that, of w _ _ "[]" n] by (auto split: prod.splits res.splits)
  show ?thesis
  proof (cases "flag_Parse X args default_flags")
    case (Parsed f)
    then show ?thesis
      using stop [OF follows_before [OF follows_init follows_mainWith]] by (simp add: process_def)
  qed (simp_all add: process_def before_then_def stop [OF follows_init, symmetric]
      split: prod.splits res.splits)
qed

section \<open>What is running at the end\<close>

text \<open>The calls made, with their success, in order.\<close>

definition recorded :: "'w runtime \<Rightarrow> ('w \<times> (lib_call \<times> bool) list) runtime" where
  "recorded R c = (\<lambda>(w, l). case R c w of (e, w') \<Rightarrow> (e, (w', l @ [(c, e = None)])))"

lemma run_recorded: "R c w = (e, v) \<Longrightarrow> recorded R c (w, l) = (e, (v, l @ [(c, e = None)]))"
  by (simp add: recorded_def)

text \<open>The calls made follow the plan, and every call that had to succeed did, but for the last.\<close>

definition succeeded :: "plan \<Rightarrow> (lib_call \<times> bool) list \<Rightarrow> bool" where
  "succeeded p m \<longleftrightarrow> list_all2 (\<lambda>(c, n) (c', ok). c' = c \<and> (n \<noteq> None \<longrightarrow> ok)) p m"

lemma succeeded_Nil [simp]: "succeeded [] m \<longleftrightarrow> m = []" "succeeded p [] \<longleftrightarrow> p = []"
  by (simp_all add: succeeded_def)

lemma succeeded_Cons [simp]:
  "succeeded ((c, n) # p) ((c', ok) # m) \<longleftrightarrow> c' = c \<and> (n \<noteq> None \<longrightarrow> ok) \<and> succeeded p m"
  by (simp add: succeeded_def)

lemma succeeded_fst: "succeeded p m \<Longrightarrow> fst ` set m = fst ` set p"
  unfolding succeeded_def by (induction rule: list_all2_induct) auto

lemma succeededD: "succeeded p m \<Longrightarrow> (c, Some n) \<in> set p \<Longrightarrow> (c, True) \<in> set m"
  unfolding succeeded_def by (induction rule: list_all2_induct) auto

lemma succeeded_snoc:
  "succeeded (p @ [(c, Some n)]) m \<longleftrightarrow> (\<exists>m'. m = m' @ [(c, True)] \<and> succeeded p m')"
proof
  assume "succeeded (p @ [(c, Some n)]) m"
  then show "\<exists>m'. m = m' @ [(c, True)] \<and> succeeded p m'"
    by (auto simp: succeeded_def list_all2_append1 list_all2_Cons1)
qed (auto simp: succeeded_def intro!: list_all2_appendI)

definition carried_out :: "plan \<Rightarrow> nat \<Rightarrow> (lib_call \<times> bool) list \<Rightarrow> nat \<Rightarrow> bool" where
  "carried_out p final m code \<longleftrightarrow>
     succeeded p m \<and> code = final \<or>
     (\<exists>p1 c p2 m1. p = p1 @ (c, Some code) # p2 \<and> m = m1 @ [(c, False)] \<and> succeeded p1 m1)"

lemma run_plan_recorded:
  assumes "run_plan (recorded R) p final (w, l) = (code, w', l')"
  shows "\<exists>m. l' = l @ m \<and> carried_out p final m code"
  using assms
proof (induction p arbitrary: w l)
  case Nil
  then show ?case by (simp add: carried_out_def)
next
  case (Cons a p)
  obtain c n where a: "a = (c, n)" by fastforce
  obtain e v where r: "R c w = (e, v)" by fastforce
  show ?case
  proof (cases "e \<noteq> None \<and> n \<noteq> None")
    case True
    with Cons.prems a r have "l' = l @ [(c, False)]" "n = Some code"
      by (auto simp: run_recorded)
    moreover have "carried_out (a # p) final [(c, False)] code"
      unfolding carried_out_def a \<open>n = Some code\<close>
      by (intro disjI2 exI [of _ "[]"] exI [of _ c] exI [of _ p]) simp
    ultimately show ?thesis by blast
  next
    case False
    with Cons.prems a r have "run_plan (recorded R) p final (v, l @ [(c, e = None)]) = (code, w', l')"
      by (auto simp: run_recorded split: option.splits)
    from Cons.IH [OF this] obtain m where m: "l' = l @ (c, e = None) # m" "carried_out p final m code" by auto
    from m(2) [unfolded carried_out_def]
    have "carried_out (a # p) final ((c, e = None) # m) code"
    proof (elim disjE exE conjE)
      fix p1 d p2 m1
      assume "p = p1 @ (d, Some code) # p2" "m = m1 @ [(d, False)]" "succeeded p1 m1"
      then show ?thesis
        unfolding carried_out_def using False a
        by (intro disjI2 exI [of _ "a # p1"] exI [of _ d] exI [of _ p2] exI [of _ "(c, e = None) # m1"]) auto
    qed (use False a in \<open>auto simp: carried_out_def\<close>)
    with m(1) show ?thesis by blast
  qed
qed

lemma start_planE:
  obtains p where "scheme_plan @ start_plan grow Getenv f = p @ [(StartManager, Some 1)]"
    and "StartManager \<notin> fst ` set p"
    and "(NewManager (managerOptions grow f), Some 1) \<in> set p"
    and "(CompleteController ''ImageBuildController'' ''ImageBuild'' [''Build'', ''BuildRun'']
       ''imagebuild-controller'', Some 1) \<in> set p"
    and "RegisterHandler ''/webhooks/git'' ''git-webhook'' \<in> fst ` set p \<longleftrightarrow>
       Getenv ''ENABLE_ONCOMMIT_WEBHOOK'' = ''true''"
    and "\<forall>c n. (c, Some n) \<in> set p \<longrightarrow> n \<noteq> 0"
  by (rule that [of "butlast (scheme_plan @ start_plan grow Getenv f)"])
    (auto simp: scheme_plan_def start_plan_def butlast_append)

text \<open>A plan that ends with a call that may fail: the call is the last one, or was not reached.\<close>

lemma carried_out_last:
  assumes "carried_out (p @ [(c, Some 1)]) 0 l code" and "c \<notin> fst ` set p" and "\<forall>c n. (c, Some n) \<in> set p \<longrightarrow> n \<noteq> 0"
  shows "(\<exists>ok m. l = m @ [(c, ok)] \<and> code = (if ok then 0 else 1) \<and> succeeded p m) \<or>
     (c \<notin> fst ` set l \<and> code \<noteq> 0)"
  using assms(1) unfolding carried_out_def
proof (elim disjE exE conjE)
  fix p1 d p2 m1
  assume d: "p @ [(c, Some 1)] = p1 @ (d, Some code) # p2" "l = m1 @ [(d, False)]" "succeeded p1 m1"
  show ?thesis
  proof (cases p2 rule: rev_cases)
    case Nil
    with d show ?thesis by auto
  next
    case (snoc p2' x)
    with d(1) have "p = p1 @ (d, Some code) # p2'" by simp
    then show ?thesis using assms(2,3) d(2) succeeded_fst [OF d(3)] by auto
  qed
qed (auto simp: succeeded_snoc)

text \<open>
  C16. The manager is started only in a state that is complete: a manager with the options
  of the flags and the controller have been made with success, the webhook handler is
  registered exactly if the environment asks for it, nothing is called after the start,
  and the exit code is 0 or 1 as the manager ends without or with an error. A process
  that ends with code 0 on flags that parse has started the manager.
\<close>

theorem manager_started_complete:
  assumes "flag_Parse X args default_flags = Parsed f"
    and "process (recorded R) grow Getenv X args (w, []) = (code, w', l)"
  shows "(code = 0 \<longrightarrow> (StartManager, True) \<in> set l) \<and>
     (\<forall>ok. (StartManager, ok) \<in> set l \<longrightarrow>
        last l = (StartManager, ok) \<and> code = (if ok then 0 else 1) \<and>
        (NewManager (managerOptions grow f), True) \<in> set l \<and>
        (CompleteController ''ImageBuildController'' ''ImageBuild'' [''Build'', ''BuildRun'']
           ''imagebuild-controller'', True) \<in> set l \<and>
        (RegisterHandler ''/webhooks/git'' ''git-webhook'' \<in> fst ` set l \<longleftrightarrow>
           Getenv ''ENABLE_ONCOMMIT_WEBHOOK'' = ''true''))"
proof -
  obtain p where p: "scheme_plan @ start_plan grow Getenv f = p @ [(StartManager, Some 1)]"
    "StartManager \<notin> fst ` set p" "(NewManager (managerOptions grow f), Some 1) \<in> set p"
    "(CompleteController ''ImageBuildController'' ''ImageBuild'' [''Build'', ''BuildRun'']
       ''imagebuild-controller'', Some 1) \<in> set p"
    "RegisterHandler ''/webhooks/git'' ''git-webhook'' \<in> fst ` set p \<longleftrightarrow>
       Getenv ''ENABLE_ONCOMMIT_WEBHOOK'' = ''true''"
    "\<forall>c n. (c, Some n) \<in> set p \<longrightarrow> n \<noteq> 0"
    by (rule start_planE)
  from assms p(1) have "run_plan (recorded R) (p @ [(StartManager, Some 1)]) 0 (w, []) = (code, w', l)"
    by (simp add: process_follows_plan)
  from run_plan_recorded [OF this] have "carried_out (p @ [(StartManager, Some 1)]) 0 l code" by simp
  from carried_out_last [OF this p(2,6)] show ?thesis
  proof (elim disjE exE conjE)
    fix ok m
    assume m: "l = m @ [(StartManager, ok)]" "code = (if ok then 0 else 1)" "succeeded p m"
    have "(StartManager, b) \<notin> set m" for b using p(2) succeeded_fst [OF m(3)] by force
    moreover have "RegisterHandler ''/webhooks/git'' ''git-webhook'' \<in> fst ` set l \<longleftrightarrow>
        Getenv ''ENABLE_ONCOMMIT_WEBHOOK'' = ''true''"
      unfolding m(1) p(5) [symmetric] succeeded_fst [OF m(3), symmetric] by simp
    ultimately show ?thesis
      using m(1,2) succeededD [OF m(3) p(3)] succeededD [OF m(3) p(4)] by (simp split: if_splits)
  next
    assume "StartManager \<notin> fst ` set l" "code \<noteq> 0"
    then show ?thesis by (metis fst_conv image_eqI)
  qed
qed

section \<open>TLS\<close>

lemma elems_simps [simp]:
  "elems A \<lparr>sl_Array = a, sl_Len = 0, sl_Cap = c\<rparr> = []"
  "elems A \<lparr>sl_Array = a, sl_Len = Suc 0, sl_Cap = c\<rparr> = [ar_Elem A a 0]"
  "elems A \<lparr>sl_Array = a, sl_Len = Suc (Suc 0), sl_Cap = c\<rparr> = [ar_Elem A a 0, ar_Elem A a 1]"
  by (simp_all add: elems_def)

lemma tlsOptions_value:
  "tlsOptions grow f =
     (let http2 = (if enableHTTP2 f then [] else [DisableHTTP2]);
          clash = \<not> enableHTTP2 f \<and> metricsCertPath f \<noteq> '''' \<and> grow 0 1 > 1 in
      (http2 @ (if webhookCertPath f = '''' then []
                else [UseCertWatcher (if clash then MetricsServer else WebhookServer)]),
       http2 @ (if metricsCertPath f = '''' then [] else [UseCertWatcher MetricsServer])))"
  by (simp add: tlsOptions_def append_if_def go_append_def nil_slice_def no_arrays_def Let_def max_def)

text \<open>The options are applied in order to the configuration a server starts from.\<close>

definition configured :: "tls_opt list \<Rightarrow> tls_Config \<Rightarrow> tls_Config" where
  "configured opts c = foldl (\<lambda>c opt. apply_opt opt c) c opts"

text \<open>
  C37. The TLS configurations of the two servers. Both speak HTTP/1.1 only unless the flag
  enables HTTP/2, and each uses the certificates of its own flags, if any; with one
  exception that the language allows: both option lists are appended to one slice, so if
  the runtime gave that slice spare capacity, the second append would overwrite the first,
  and the webhook server would use the metrics server's certificates. Go's runtime gives
  a slice of one function value the capacity 1.
\<close>

theorem tls_of_servers:
  "configured (fst (tlsOptions grow f)) c = c
     \<lparr>NextProtos := (if enableHTTP2 f then NextProtos c else [''http/1.1'']),
      GetCertificate :=
        (if webhookCertPath f = '''' then GetCertificate c
         else if enableHTTP2 f \<or> metricsCertPath f = '''' \<or> grow 0 1 \<le> 1 then Some WebhookServer
         else Some MetricsServer)\<rparr> \<and>
   configured (snd (tlsOptions grow f)) c = c
     \<lparr>NextProtos := (if enableHTTP2 f then NextProtos c else [''http/1.1'']),
      GetCertificate := (if metricsCertPath f = '''' then GetCertificate c else Some MetricsServer)\<rparr>"
  by (simp add: configured_def tlsOptions_value Let_def)

section \<open>A start that succeeds\<close>

definition demo_runtime :: "nat runtime" where
  "demo_runtime c w = (None, Suc w)"

lemma manager_started_complete_witness:
  "(StartManager, True) \<in> set (snd (snd (process (recorded demo_runtime) (\<lambda>_ n. n) (\<lambda>_. ''true'') (\<lambda>_. None)
      [''--leader-elect''] (0, []))))"
proof -
  have "flag_Parse (\<lambda>_. None) [''--leader-elect''] default_flags = Parsed (default_flags\<lparr>enableLeaderElection := True\<rparr>)"
    by (simp add: classify_def Let_def defined_flag_def set_string_def set_bool_def is_bool_flag_def
        assign_def ParseBool_def)
  note start = manager_started_complete [OF this]
  obtain code w' l where run: "process (recorded demo_runtime) (\<lambda>_ n. n) (\<lambda>_. ''true'') (\<lambda>_. None)
      [''--leader-elect''] (0, []) = (code, w', l)" by (metis prod_cases3)
  then have "code = 0"
    by (simp add: process_follows_plan classify_def Let_def defined_flag_def set_string_def set_bool_def
        is_bool_flag_def assign_def ParseBool_def scheme_plan_def start_plan_def demo_runtime_def recorded_def
        default_flags_def)
  with start [OF run] run show ?thesis by simp
qed

end
