(* ===== verification/Spec2Isabelle.thy ===== *)
theory Spec2Isabelle
  imports Witnesses Witnesses_Cluster Phases Reference_Memory Startup_Plan
begin

text \<open>
  A verification development for image-builder-operator, a Kubernetes operator in Go.

  \<^bold>\<open>The program.\<close> An \<open>ImageBuild\<close> asks for a container image to be built from a Git
  repository. The reconciler (\<open>internal/controller/imagebuild\<close>) turns it into a Shipwright
  Build, starts BuildRuns and reports in its status; a cluster-wide ImageBuildPolicy names
  the build strategies. The webhook handler (\<open>internal/webhook/git\<close>) receives push
  events from GitHub and GitLab and leaves the commit as pending in the status of the
  ImageBuilds it concerns, from where the reconciler picks it up. The two parts share no
  memory: they meet in the ImageBuild's status and in one label on the API server.
  \<open>cmd/main.go\<close> reads flags and environment and starts both under one manager. The API
  types come with generated copy methods (\<open>zz_generated.deepcopy.go\<close>), which the clients
  rely on when they keep an object to make a merge patch from.

  \<^bold>\<open>The model.\<close> Go structs are records, pointers are options, string enumerations are
  strings, \<open>int64\<close>, \<open>int32\<close> and \<open>uint\<close> are words; an error is a value of \<open>go_error\<close> in the
  sum \<open>Ok | Err | Panic\<close>, where \<open>Panic\<close> is a nil dereference or an index out of range. A
  function that calls the cluster or changes the object it has a pointer to is a
  computation of the state monad, over the object in memory and the cluster. Everything
  the operator calls and does not contain is one record of functions, \<open>client\<close>, over an
  arbitrary type of clusters; a call may fail or answer anything, and other actors may
  write at any time. Theorems that need more say so by a named contract.

  \<^item> \<open>Prelude\<close>, \<open>Go_Std\<close>: results, the calculus of logs; strings, errors, time.
  \<^item> \<open>API_Types\<close>: \<open>api/v1alpha1\<close> and the fields of Shipwright objects in use.
  \<^item> \<open>Kube_Client\<close>: the parameters, and the client that logs what it is asked.
  \<^item> \<open>Retention\<close>, \<open>Build\<close>, \<open>Status\<close>, \<open>Build_Run\<close>, \<open>On_Commit\<close>, \<open>Controller\<close>: one theory
    per file of the controller package (\<open>conditions.go\<close> is part of \<open>Status\<close>), with one
    definition per function, under its name. \<open>Reconcile\<close> is split after the read of the
    ImageBuild into \<open>reconcileFetched\<close>.
  \<^item> \<open>Json\<close>: \<open>encoding/json\<close> as far as the last-build-spec annotation needs it.
  \<^item> \<open>Webhook_Provider\<close> (\<open>types.go\<close>, \<open>github.go\<close>, \<open>gitlab.go\<close>) and \<open>Webhook_Handler\<close>
    (\<open>handler.go\<close>); \<open>ServeHTTP\<close> is split after the event has been read.
  \<^item> \<open>Go_Heap\<close>, \<open>Deep_Copier\<close>, \<open>Deep_Copy\<close>: typed cells behind pointers, slices and maps;
    the code patterns of the copy generator; and each method of
    \<open>zz_generated.deepcopy.go\<close> over this memory. \<open>In_Memory\<close> has the statements of
    \<open>patchOnCommitTriggered\<close> and of the handler's retry body over memory.
  \<^item> \<open>Flags\<close> (the command line, parsed as Go's \<open>flag\<close> does) and \<open>Startup\<close> (\<open>main.go\<close>,
    \<open>SetupWithManager\<close> and the registration of the API types, as calls to libraries that
    may fail).

  \<^bold>\<open>Interfaces.\<close>
  \<^item> \<open>push_provider\<close> is what the handler relies on in a provider, interpreted on both;
    \<open>run_flow\<close> is how a flow names its runs, interpreted on the spec flow and the on-commit
    flow.
  \<^item> \<open>identified\<close> is a property of the object in memory that the answers to its writes keep,
    interpreted on the objects a client can answer with (\<open>becomes\<close>).
  \<^item> \<open>retry_on_conflict\<close> and \<open>controller_reference\<close> are documented behaviour of libraries.
  \<^item> \<open>api_server\<close> keeps ImageBuilds; it is extended by \<open>run_server\<close> (runs), this by
    \<open>clocked_server\<close> (a clock), then \<open>merging_server\<close> (what a merge patch changes), and by
    \<open>cluster\<close> (Builds and what a reconcile only reads); \<open>operated\<close> joins \<open>cluster\<close> and
    \<open>clocked_server\<close> and adds what the handler needs. \<open>custodian\<close> and \<open>hook_custodian\<close>
    say how calls and retries treat a history of commits while others write. All of them
    are interpreted on the cluster in memory of \<open>Reference_Client\<close>; \<open>api_server\<close> also on its
    logging client.
  \<^item> \<open>deep_copier\<close> is the contract of a deep copy, interpreted on the generated methods of
    \<open>Deep_Copy\<close>; \<open>library_copies\<close> is the same for the types of the libraries, interpreted
    on copies that follow the generator's pattern (\<open>Reference_Memory\<close>).

  \<^bold>\<open>What is shown.\<close>
  \<^item> For every cluster: a reconcile writes at most one Build and then at most one run, both
    for the ImageBuild it has read or been answered with (\<open>Identity\<close>), the run owned by
    that ImageBuild (\<open>Controller_Log\<close>), in a fixed order of phases (\<open>Phases\<close>), and comes
    back with a bounded requeue or an error, never a panic (\<open>Outcome\<close>); an on-commit run is
    created only when it is due (\<open>Trigger\<close>); a missing webhook secret ends the reconcile
    (\<open>Failure\<close>).
  \<^item> For every request and provider library: the status of the response and the absence of
    panics (\<open>Webhook_Response\<close>), and that the handler touches an ImageBuild only behind an
    authentication with that ImageBuild's own secret, and patches no other object than the
    one it has read under that ImageBuild's name (\<open>Webhook_Auth\<close>).
  \<^item> Both parts together: in every state that reconciles, requests and other clients reach,
    in any order, the commits a status names were accepted for that ImageBuild
    (\<open>Provenance\<close>); and what a merge patch of the reconciler does to a push recorded
    meanwhile (\<open>Lost_Update\<close>).
  \<^item> Under the server contracts: the status step refines an operation on an abstract view
    (\<open>Api_Server\<close>, \<open>Status_Refinement\<close>), a changed spec is built once (\<open>Convergence\<close>), a
    due commit is built once (\<open>Commit_Flow\<close>); a whole reconcile does what it should, and
    reconciles repeated as they ask for it end when the run has ended (\<open>Cluster\<close>,
    \<open>Whole_Reconcile\<close>); and a push is recorded by the handler and built by a later reconcile
    (\<open>Push_Flow\<close>).
  \<^item> The generated copies keep the value and share no memory, and the two flows that write
    through a nested pointer leave in memory what the model over values says
    (\<open>Deep_Copy_Correct\<close>, \<open>In_Memory\<close>).
  \<^item> The start of the process follows a plan that flags and environment determine, the
    manager is started last and complete, and the TLS options of the two servers are
    these (\<open>Startup_Plan\<close>).
  \<^item> Of the pure parts: retention, drift detection through the JSON round trip, names and
    counters of runs, validity of the names and labels that are created
    (\<open>Object_Names\<close>) and of the conditions that are set (\<open>Conditions\<close>), the Build
    mutation, spellings of repository URLs.
  \<^item> \<open>Witnesses\<close>, \<open>Witnesses_Cluster\<close> and the ends of other theories apply each theorem
    that has hypotheses to a concrete input.

  \<^bold>\<open>What modelling showed.\<close> Six theorems state behaviour that looks unintended:
  \<open>stale_run_taken_for_new_spec\<close> and \<open>stale_oncommit_run_blocks\<close> in \<open>Trigger\<close> (after a
  failed patch of a counter the existing run is taken for every later one),
  \<open>failed_update_builds_twice\<close> in \<open>Double_Run\<close> (after a failed Update a spec is built again),
  \<open>newer_commit_erased\<close> in \<open>Lost_Update\<close> (a push during a reconcile is lost),
  \<open>unconfigured_match_ends_request\<close> in \<open>Webhook_Response\<close> (one match without a secret
  reference ends the request for those behind it), and \<open>created_objects_valid\<close> in
  \<open>Object_Names\<close> (an ImageBuild with a name longer than a label value never gets a Build).

  \<^bold>\<open>Bounds.\<close> Recursion is structural, but for the string parser, which has a measure, and
  the value parser of \<open>Json\<close>, whose fuel is the length of its input and one more; a value
  that was printed needs no more (\<open>depth_print\<close>). \<open>attempts\<close> counts the calls of the retry
  loop. \<open>rounds\<close> counts reconciles, and \<open>polling_ends\<close> bounds their number.

  \<^bold>\<open>Not modelled.\<close> Log lines and the set-up of the logger; Unicode beyond ASCII in the
  string functions; contexts and their cancellation; the insides of the libraries, among
  them the work queue and the caches of controller-runtime, which decide when a
  reconcile runs and how old the object is that it reads (the theorems for every cluster
  cover any such schedule). The printing columns and validation markers of the API types
  are input of the CRD generator. Deployment manifests, charts and shell scripts, and the
  tests, are not program logic.
\<close>

section \<open>The label between the reconciler and the webhook\<close>

lemma match_has_label_value:
  "matchesEvent H event ids ib \<Longrightarrow> onCommitLabelValue ib = ''true''"
  by (auto simp: onCommitLabelValue_def dest!: matchesEvent_label)

text \<open>
  C25. The webhook loses no ImageBuild by listing only those with the on-commit label: among
  ImageBuilds that carry the label as the reconciler sets it, the selected ones contain
  every match of every push event.
\<close>

theorem label_selector_complete:
  assumes "\<forall>ib \<in> set items.
    om_Labels (ib_Meta ib) LabelKeyOnCommitEnabled = Some (onCommitLabelValue ib)"
  shows "findMatches H event
      (List.filter (\<lambda>ib. om_Labels (ib_Meta ib) LabelKeyOnCommitEnabled = Some ''true'') items) =
    findMatches H event items"
  using assms match_has_label_value
  by (auto simp: findMatches_def Let_def intro!: filter_cong)

lemma label_selector_complete_witness:
  "findMatches demo_hooklib demo_event
     (List.filter (\<lambda>ib. om_Labels (ib_Meta ib) LabelKeyOnCommitEnabled = Some ''true'')
        [demo_commit_ib None]) =
   findMatches demo_hooklib demo_event [demo_commit_ib None]"
proof (rule label_selector_complete)
  show "\<forall>ib \<in> set [demo_commit_ib None].
      om_Labels (ib_Meta ib) LabelKeyOnCommitEnabled = Some (onCommitLabelValue ib)"
    by (simp add: demo_defs onCommitLabelValue_def go_consts)
qed

end
